(* ===== verification/Prelude.thy ===== *)
theory Prelude
  imports Complex_Main "HOL-Library.AList"
begin

text \<open>
  What every component of the development shares: Python's notion of truth for optional
  strings, rendering of numbers, the state-and-exception actions in which the request
  handlers are written, and the two proof principles for such actions (inversion of a
  successful run, and relations that every action of a component respects).
\<close>

section \<open>Collections of facts\<close>

named_theorems act_defs "definitions of the action combinators"
named_theorems act_simps "equations that run an action on a state"

section \<open>Python values the handlers test and print\<close>

text \<open>A column of a document is absent (None) or a string; both None and the empty string
  count as false, and \<open>x or d\<close> is \<open>d\<close> exactly then.\<close>

definition truthy :: "string option \<Rightarrow> bool" where
  "truthy x \<longleftrightarrow> x \<noteq> None \<and> x \<noteq> Some ''''"

definition or_str :: "string option \<Rightarrow> string \<Rightarrow> string" where
  "or_str x d = (case x of None \<Rightarrow> d | Some s \<Rightarrow> (if s = '''' then d else s))"

definition or_opt :: "string option \<Rightarrow> string option \<Rightarrow> string option" where
  "or_opt x y = (if truthy x then x else y)"

lemma truthy_simps [simp]:
  "\<not> truthy None" "truthy (Some s) \<longleftrightarrow> s \<noteq> ''''"
  by (simp_all add: truthy_def)

lemma or_str_simps [simp]:
  "or_str None d = d" "or_str (Some s) d = (if s = '''' then d else s)"
  by (simp_all add: or_str_def)

lemma or_str_empty [simp]: "or_str (Some s) '''' = s"
  by simp

lemma truthyE: "truthy x \<Longrightarrow> (\<And>s. x = Some s \<Longrightarrow> s \<noteq> '''' \<Longrightarrow> P) \<Longrightarrow> P"
  by (cases x) auto

text \<open>A text between single quotes, which an f-string has around a name.\<close>

definition quoted :: "string \<Rightarrow> string" where
  "quoted s = [CHR 0x27] @ s @ [CHR 0x27]"

text \<open>An f-string prints an absent value as \<open>None\<close>.\<close>

definition py_str :: "string option \<Rightarrow> string" where
  "py_str x = (case x of None \<Rightarrow> ''None'' | Some s \<Rightarrow> s)"

text \<open>\<open>str.lower\<close> on the code points below 256.\<close>

definition lower_char :: "char \<Rightarrow> char" where
  "lower_char c =
    (let n = of_char c :: nat
     in if 65 \<le> n \<and> n \<le> 90 \<or> 192 \<le> n \<and> n \<le> 222 \<and> n \<noteq> 215 then char_of (n + 32) else c)"

definition lower :: "string \<Rightarrow> string" where
  "lower s = map lower_char s"

text \<open>Decimal rendering, as \<open>str\<close> and the f-strings of the handlers print integers.\<close>

definition digit :: "nat \<Rightarrow> char" where
  "digit d = char_of (48 + d)"

fun dec :: "nat \<Rightarrow> string" where
  "dec n = (if n < 10 then [digit n] else dec (n div 10) @ [digit (n mod 10)])"

declare dec.simps [simp del]

definition dec_int :: "int \<Rightarrow> string" where
  "dec_int i = (if i < 0 then ''-'' @ dec (nat (- i)) else dec (nat i))"

text \<open>Reading a decimal numeral back is a left inverse, so the rendering is injective.\<close>

definition digit_val :: "char \<Rightarrow> nat" where
  "digit_val c = of_char c - 48"

definition is_digit :: "char \<Rightarrow> bool" where
  "is_digit c \<longleftrightarrow> 48 \<le> (of_char c :: nat) \<and> (of_char c :: nat) \<le> 57"

definition undec :: "string \<Rightarrow> nat" where
  "undec s = foldl (\<lambda>n c. 10 * n + digit_val c) 0 s"

lemma undec_Nil [simp]: "undec [] = 0"
  by (simp add: undec_def)

lemma of_char_digit: "d < 10 \<Longrightarrow> (of_char (digit d) :: nat) = 48 + d"
  by (simp add: digit_def)

lemma digit_val_digit [simp]: "d < 10 \<Longrightarrow> digit_val (digit d) = d"
  by (simp add: digit_val_def of_char_digit)

lemma is_digit_digit [simp]: "d < 10 \<Longrightarrow> is_digit (digit d)"
  by (simp add: is_digit_def of_char_digit)

lemma undec_dec [simp]: "undec (dec n) = n"
proof (induction n rule: dec.induct)
  case (1 n)
  then show ?case
    by (subst dec.simps) (simp add: undec_def)
qed

lemma dec_inject [simp]: "dec m = dec n \<longleftrightarrow> m = n"
  by (metis undec_dec)

lemma dec_digits: "\<forall>c \<in> set (dec n). is_digit c"
proof (induction n rule: dec.induct)
  case (1 n)
  then show ?case
    by (subst dec.simps) auto
qed

lemma dec_nonempty [simp]: "dec n \<noteq> []"
  by (subst dec.simps) simp

text \<open>The same digits computed on integers, whose numerals are binary: evaluation takes time
  logarithmic in the number.\<close>

function dec_of :: "int \<Rightarrow> string" where
  "dec_of i = (if i < 10 then [digit (nat i)] else dec_of (i div 10) @ [digit (nat (i mod 10))])"
  by auto

termination by (relation "measure nat") auto

declare dec_of.simps [simp del]

lemma dec_of_nat: "dec_of (int n) = dec n"
proof (induction n rule: dec.induct)
  case (1 n)
  have "int n div 10 = int (n div 10)" "int n mod 10 = int (n mod 10)" by (simp_all add: zmod_int)
  with 1 show ?case
    by (subst dec.simps, subst dec_of.simps) simp
qed

lemma dec_int_code [code]: "dec_int i = (if i < 0 then ''-'' @ dec_of (- i) else dec_of i)"
  using dec_of_nat [of "nat i"] dec_of_nat [of "nat (- i)"] by (cases "i < 0") (simp_all add: dec_int_def)

end
