(* ===== verification/Actions.thy ===== *)
theory Actions
  imports Prelude
begin

text \<open>
  Actions: a handler is a function from the state to a result and the state it leaves.
  A raised Python exception is the left summand; the state next to it is what the
  statements before the raise have done, because nothing is undone by raising. Running
  actions in sequence, \<open>try\<close>/\<open>except\<close> and loops over lists are combinators. Two proof
  principles follow: a successful sequence can be taken apart (\<open>bind_okE\<close>), and a
  reflexive transitive relation kept by each step is kept by the whole (\<open>keeps\<close>).
\<close>

type_synonym ('w, 'e, 'a) action = "'w \<Rightarrow> ('e + 'a) \<times> 'w"

definition ret :: "'a \<Rightarrow> ('w, 'e, 'a) action" where
  [act_defs]: "ret x = (\<lambda>w. (Inr x, w))"

definition raise :: "'e \<Rightarrow> ('w, 'e, 'a) action" where
  [act_defs]: "raise e = (\<lambda>w. (Inl e, w))"

definition bind :: "('w, 'e, 'a) action \<Rightarrow> ('a \<Rightarrow> ('w, 'e, 'b) action) \<Rightarrow> ('w, 'e, 'b) action" where
  [act_defs]: "bind m f = (\<lambda>w. case m w of (Inl e, w') \<Rightarrow> (Inl e, w') | (Inr x, w') \<Rightarrow> f x w')"

definition seq :: "('w, 'e, unit) action \<Rightarrow> ('w, 'e, 'b) action \<Rightarrow> ('w, 'e, 'b) action" where
  [act_defs]: "seq m k = bind m (\<lambda>_. k)"

definition gets :: "('w \<Rightarrow> 'a) \<Rightarrow> ('w, 'e, 'a) action" where
  [act_defs]: "gets f = (\<lambda>w. (Inr (f w), w))"

definition modify :: "('w \<Rightarrow> 'w) \<Rightarrow> ('w, 'e, unit) action" where
  [act_defs]: "modify f = (\<lambda>w. (Inr (), f w))"

definition guard :: "bool \<Rightarrow> 'e \<Rightarrow> ('w, 'e, unit) action" where
  [act_defs]: "guard b e = (if b then ret () else raise e)"

text \<open>\<open>throw_if c e\<close> is the early exit \<open>if c: raise e\<close> of the source.\<close>

definition throw_if :: "bool \<Rightarrow> 'e \<Rightarrow> ('w, 'e, unit) action" where
  [act_defs]: "throw_if c e = (if c then raise e else ret ())"

definition cond :: "bool \<Rightarrow> ('w, 'e, unit) action \<Rightarrow> ('w, 'e, unit) action" where
  [act_defs]: "cond c m = (if c then m else ret ())"

definition lift :: "'e + 'a \<Rightarrow> ('w, 'e, 'a) action" where
  [act_defs]: "lift r = (\<lambda>w. (r, w))"

definition catch :: "('w, 'e, 'a) action \<Rightarrow> ('e \<Rightarrow> ('w, 'e, 'a) action) \<Rightarrow> ('w, 'e, 'a) action" where
  [act_defs]: "catch m h = (\<lambda>w. case m w of (Inl e, w') \<Rightarrow> h e w' | (Inr x, w') \<Rightarrow> (Inr x, w'))"

fun for_each :: "'b list \<Rightarrow> ('b \<Rightarrow> ('w, 'e, unit) action) \<Rightarrow> ('w, 'e, unit) action" where
  "for_each [] f = ret ()"
| "for_each (x # xs) f = seq (f x) (for_each xs f)"

section \<open>Running actions\<close>

lemma run_simps [simp, act_simps]:
  "ret x w = (Inr x, w)"
  "raise e w = (Inl e, w)"
  "gets f w = (Inr (f w), w)"
  "modify g w = (Inr (), g w)"
  "lift r w = (r, w)"
  by (simp_all add: act_defs)

lemma run_guard [simp, act_simps]:
  "guard b e w = (if b then (Inr (), w) else (Inl e, w))"
  "throw_if b e w = (if b then (Inl e, w) else (Inr (), w))"
  by (simp_all add: act_defs)

lemma run_bind [act_simps]:
  "bind m f w = (case m w of (Inl e, w') \<Rightarrow> (Inl e, w') | (Inr x, w') \<Rightarrow> f x w')"
  by (simp add: act_defs)

lemma run_seq [act_simps]:
  "seq m k w = (case m w of (Inl e, w') \<Rightarrow> (Inl e, w') | (Inr x, w') \<Rightarrow> k w')"
  by (simp add: act_defs)

lemma run_cond [act_simps]:
  "cond c m w = (if c then m w else (Inr (), w))"
  by (simp add: act_defs)

lemma run_catch [act_simps]:
  "catch m h w = (case m w of (Inl e, w') \<Rightarrow> h e w' | (Inr x, w') \<Rightarrow> (Inr x, w'))"
  by (simp add: act_defs)

text \<open>A result that is known rewrites the rest of the sequence.\<close>

lemma bind_run [simp]:
  "m w = (Inr x, w') \<Longrightarrow> bind m f w = f x w'"
  "m w = (Inl e, w') \<Longrightarrow> bind m f w = (Inl e, w')"
  by (simp_all add: run_bind)

lemma seq_run [simp]:
  "m w = (Inr x, w') \<Longrightarrow> seq m k w = k w'"
  "m w = (Inl e, w') \<Longrightarrow> seq m k w = (Inl e, w')"
  by (simp_all add: run_seq)

lemma catch_run [simp]:
  "m w = (Inr x, w') \<Longrightarrow> catch m h w = (Inr x, w')"
  "m w = (Inl e, w') \<Longrightarrow> catch m h w = h e w'"
  by (simp_all add: run_catch)

section \<open>Taking a run apart\<close>

lemma bind_okE:
  assumes "bind m f w = (Inr y, w')"
  obtains x w1 where "m w = (Inr x, w1)" "f x w1 = (Inr y, w')"
  using assms by (auto simp: run_bind split: prod.splits sum.splits)

lemma seq_okE:
  assumes "seq m k w = (Inr y, w')"
  obtains w1 where "m w = (Inr (), w1)" "k w1 = (Inr y, w')"
  using assms by (auto simp: run_seq split: prod.splits sum.splits)

lemma bind_errE:
  assumes "bind m f w = (Inl e, w')"
  obtains "m w = (Inl e, w')" | x w1 where "m w = (Inr x, w1)" "f x w1 = (Inl e, w')"
  using assms by (auto simp: run_bind split: prod.splits sum.splits)

lemma seq_errE:
  assumes "seq m k w = (Inl e, w')"
  obtains "m w = (Inl e, w')" | w1 where "m w = (Inr (), w1)" "k w1 = (Inl e, w')"
  using assms by (auto simp: run_seq split: prod.splits sum.splits)

lemma guard_okE:
  assumes "guard b e w = (Inr x, w')"
  obtains b "w' = w"
  using assms by (auto split: if_splits)

lemma throw_if_okE:
  assumes "throw_if b e w = (Inr x, w')"
  obtains "\<not> b" "w' = w"
  using assms by (auto split: if_splits)

lemmas act_okE = bind_okE seq_okE guard_okE throw_if_okE

section \<open>Actions that cannot raise\<close>

definition total :: "('w, 'e, 'a) action \<Rightarrow> bool" where
  "total m \<longleftrightarrow> (\<forall>w. \<exists>x w'. m w = (Inr x, w'))"

lemma totalI: "(\<And>w. \<exists>x w'. m w = (Inr x, w')) \<Longrightarrow> total m"
  by (simp add: total_def)

lemma totalD: "total m \<Longrightarrow> m w = (Inl e, w') \<Longrightarrow> P"
  by (metis Inl_Inr_False fst_conv total_def)

lemma total_runE:
  assumes "total m"
  obtains x w' where "m w = (Inr x, w')"
  using assms unfolding total_def by blast

lemma total_bind: "total m \<Longrightarrow> (\<And>x. total (f x)) \<Longrightarrow> total (bind m f)"
  unfolding total_def by (metis bind_run(1))

lemma total_seq: "total m \<Longrightarrow> total k \<Longrightarrow> total (seq m k)"
  unfolding seq_def by (rule total_bind)

lemma total_catch: "(\<And>e. total (h e)) \<Longrightarrow> total (catch m h)"
  unfolding total_def run_catch by (simp split: prod.splits sum.splits)

lemma total_prims: "total (ret x)" "total (gets g)" "total (modify h)"
  by (simp_all add: total_def)

lemma total_for_each: "(\<And>x. x \<in> set xs \<Longrightarrow> total (f x)) \<Longrightarrow> total (for_each xs f)"
  by (induction xs) (auto intro: total_seq total_prims)

lemma total_if: "(c \<Longrightarrow> total m) \<Longrightarrow> (\<not> c \<Longrightarrow> total k) \<Longrightarrow> total (if c then m else k)"
  by simp

lemma total_cond: "(c \<Longrightarrow> total m) \<Longrightarrow> total (cond c m)"
  by (simp add: cond_def total_prims)

lemma total_option:
  "(x = None \<Longrightarrow> total m) \<Longrightarrow> (\<And>y. x = Some y \<Longrightarrow> total (f y)) \<Longrightarrow>
    total (case x of None \<Rightarrow> m | Some y \<Rightarrow> f y)"
  by (cases x) auto

named_theorems total_intros "actions that cannot raise"

declare total_bind [total_intros] total_seq [total_intros] total_catch [total_intros]
  total_for_each [total_intros] total_prims [total_intros] total_if [total_intros]
  total_cond [total_intros] total_option [total_intros]

section \<open>Relations kept by an action\<close>

definition keeps :: "('w \<Rightarrow> 'w \<Rightarrow> bool) \<Rightarrow> ('w, 'e, 'a) action \<Rightarrow> bool" where
  "keeps R m \<longleftrightarrow> (\<forall>w. R w (snd (m w)))"

lemma keepsI: "(\<And>w. R w (snd (m w))) \<Longrightarrow> keeps R m"
  by (simp add: keeps_def)

lemma keepsD: "keeps R m \<Longrightarrow> R w (snd (m w))"
  by (simp add: keeps_def)

lemma keeps_runD: "keeps R m \<Longrightarrow> m w = (r, w') \<Longrightarrow> R w w'"
  by (metis keepsD snd_conv)

text \<open>What holds between the states of a run that raises.\<close>

definition on_error :: "('w \<Rightarrow> 'w \<Rightarrow> bool) \<Rightarrow> ('w, 'e, 'a) action \<Rightarrow> bool" where
  "on_error R m \<longleftrightarrow> (\<forall>w e w'. m w = (Inl e, w') \<longrightarrow> R w w')"

lemma on_errorD: "on_error R m \<Longrightarrow> m w = (Inl e, w') \<Longrightarrow> R w w'"
  by (auto simp: on_error_def)

lemma on_error_total: "total m \<Longrightarrow> on_error R m"
  by (auto simp: on_error_def elim: totalD)

lemma on_error_keeps: "keeps R m \<Longrightarrow> on_error R m"
  by (auto simp: on_error_def dest: keeps_runD)

locale run_relation =
  fixes R :: "'w \<Rightarrow> 'w \<Rightarrow> bool"
  assumes refl: "R w w"
    and trans: "R u v \<Longrightarrow> R v w \<Longrightarrow> R u w"
begin

lemma keeps_ret: "keeps R (ret x)"
  by (simp add: keeps_def refl)

lemma keeps_raise: "keeps R (raise e)"
  by (simp add: keeps_def refl)

lemma keeps_gets: "keeps R (gets f)"
  by (simp add: keeps_def refl)

lemma keeps_lift: "keeps R (lift r)"
  by (simp add: keeps_def refl)

lemma keeps_guard: "keeps R (guard b e)"
  by (simp add: keeps_def refl)

lemma keeps_throw_if: "keeps R (throw_if b e)"
  by (simp add: keeps_def refl)

lemma keeps_bind:
  assumes "keeps R m" and "\<And>x. keeps R (f x)"
  shows "keeps R (bind m f)"
proof (rule keepsI)
  fix w
  obtain r w1 where m: "m w = (r, w1)" by fastforce
  with assms(1) have "R w w1" by (rule keeps_runD)
  with m show "R w (snd (bind m f w))"
    by (cases r) (auto simp: run_bind intro: trans keepsD [OF assms(2)])
qed

lemma keeps_seq: "keeps R m \<Longrightarrow> keeps R k \<Longrightarrow> keeps R (seq m k)"
  unfolding seq_def by (rule keeps_bind)

lemma keeps_cond: "(c \<Longrightarrow> keeps R m) \<Longrightarrow> keeps R (cond c m)"
  by (cases c) (simp_all add: cond_def keeps_ret)

lemma keeps_if: "(c \<Longrightarrow> keeps R m) \<Longrightarrow> (\<not> c \<Longrightarrow> keeps R k) \<Longrightarrow> keeps R (if c then m else k)"
  by simp

lemma keeps_catch:
  assumes "keeps R m" and "\<And>e. keeps R (h e)"
  shows "keeps R (catch m h)"
proof (rule keepsI)
  fix w
  obtain r w1 where m: "m w = (r, w1)" by fastforce
  with assms(1) have "R w w1" by (rule keeps_runD)
  with m show "R w (snd (catch m h w))"
    by (cases r) (auto simp: run_catch intro: trans keepsD [OF assms(2)])
qed

lemma keeps_for_each: "(\<And>x. x \<in> set xs \<Longrightarrow> keeps R (f x)) \<Longrightarrow> keeps R (for_each xs f)"
  by (induction xs) (auto intro: keeps_ret keeps_seq)

lemma keeps_option:
  "(x = None \<Longrightarrow> keeps R m) \<Longrightarrow> (\<And>y. x = Some y \<Longrightarrow> keeps R (f y)) \<Longrightarrow>
    keeps R (case x of None \<Rightarrow> m | Some y \<Rightarrow> f y)"
  by (cases x) auto

lemma keeps_prod: "(\<And>a b. keeps R (f a b)) \<Longrightarrow> keeps R (case p of (a, b) \<Rightarrow> f a b)"
  by (cases p) simp

lemma keeps_sum:
  "(\<And>a. keeps R (f a)) \<Longrightarrow> (\<And>b. keeps R (g b)) \<Longrightarrow> keeps R (case s of Inl a \<Rightarrow> f a | Inr b \<Rightarrow> g b)"
  by (cases s) simp_all

lemma keeps_list:
  "keeps R m \<Longrightarrow> (\<And>a b. keeps R (f a b)) \<Longrightarrow> keeps R (case xs of [] \<Rightarrow> m | a # b \<Rightarrow> f a b)"
  by (cases xs) simp_all

text \<open>A sequence that raises kept \<open>R\<close> up to the step that raised.\<close>

lemma on_error_bind:
  assumes "keeps R m" and "\<And>x. on_error R (f x)"
  shows "on_error R (bind m f)"
  unfolding on_error_def
proof (intro allI impI)
  fix w e w' assume "bind m f w = (Inl e, w')"
  then show "R w w'"
    by (rule bind_errE) (auto intro: trans dest: keeps_runD [OF assms(1)] on_errorD [OF assms(2)])
qed

lemma on_error_seq: "keeps R m \<Longrightarrow> on_error R k \<Longrightarrow> on_error R (seq m k)"
  unfolding seq_def by (rule on_error_bind)

lemma on_error_option:
  "(x = None \<Longrightarrow> on_error R m) \<Longrightarrow> (\<And>y. x = Some y \<Longrightarrow> on_error R (f y)) \<Longrightarrow>
    on_error R (case x of None \<Rightarrow> m | Some y \<Rightarrow> f y)"
  by (cases x) auto

lemma on_error_raise: "on_error R (raise e)"
  by (simp add: on_error_def refl)

lemma on_error_ret: "on_error R (ret x)"
  by (simp add: on_error_def)

lemmas on_error_intros = on_error_bind on_error_seq on_error_option on_error_raise on_error_ret

lemmas keeps_intros = keeps_ret keeps_raise keeps_gets keeps_lift keeps_guard keeps_throw_if
  keeps_bind keeps_seq keeps_cond keeps_if keeps_catch keeps_for_each keeps_option keeps_prod
  keeps_sum keeps_list

end

end
