(* ===== verification/Documents.thy ===== *)
theory Documents
  imports Prelude
begin

text \<open>
  The documents of the app: one record per DocType, with the columns of its JSON definition
  that the Python code reads or writes. A Check column is a boolean, a Select column with
  fixed options a datatype, a child table a list of rows in \<open>idx\<close> order, an optional
  column an option. Strings are lists of code points below 256; points in time are whole
  microseconds.
\<close>

type_synonym datetime = int

definition seconds :: "int \<Rightarrow> int" where
  "seconds s = s * 1000000"

text \<open>\<open>getdate\<close>: the day a point in time falls on.\<close>

definition getdate :: "datetime \<Rightarrow> int" where
  "getdate t = t div seconds 86400"

section \<open>Documents\<close>

datatype request_status = Pending | In_Progress | Signed | Failed | Cancelled

fun status_text :: "request_status \<Rightarrow> string" where
  "status_text Pending = ''Pending''"
| "status_text In_Progress = ''In Progress''"
| "status_text Signed = ''Signed''"
| "status_text Failed = ''Failed''"
| "status_text Cancelled = ''Cancelled''"

text \<open>DSC Signing Request; floats are kept as the text \<open>repr\<close> gives them, since the
  handlers only store and print them.\<close>

record signing_request =
  sr_source_doctype :: string
  sr_source_name :: string
  sr_rule :: "string option"
  sr_profile :: string
  sr_signature_template :: "string option"
  sr_expected_signer_user :: "string option"
  sr_actual_signer_user :: "string option"
  sr_status :: request_status
  sr_failure_reason :: "string option"
  sr_hash_algorithm :: "string option"
  sr_hash_to_be_signed :: "string option"
  sr_signature_bytes :: "string option"
  sr_certificate_fingerprint_presented :: "string option"
  sr_ocsp_response_b64 :: "string option"
  sr_signed_file :: "string option"
  sr_created_on :: "datetime option"
  sr_signed_on :: "datetime option"
  sr_cancelled_on :: "datetime option"
  sr_sign_duration_seconds :: "int option"
  sr_client_ip :: "string option"
  sr_client_user_agent :: "string option"
  sr_signer_lat :: "string option"
  sr_signer_lng :: "string option"
  sr_signer_accuracy_m :: "string option"
  sr_signer_address :: "string option"
  sr_signer_location_provider :: "string option"
  sr_creation :: datetime
  sr_modified :: datetime

definition blank_request :: "string \<Rightarrow> string \<Rightarrow> string \<Rightarrow> signing_request" where
  "blank_request doctype docname profile =
    \<lparr>sr_source_doctype = doctype, sr_source_name = docname, sr_rule = None,
     sr_profile = profile, sr_signature_template = None, sr_expected_signer_user = None,
     sr_actual_signer_user = None, sr_status = Pending, sr_failure_reason = None,
     sr_hash_algorithm = None, sr_hash_to_be_signed = None, sr_signature_bytes = None,
     sr_certificate_fingerprint_presented = None, sr_ocsp_response_b64 = None,
     sr_signed_file = None, sr_created_on = None, sr_signed_on = None,
     sr_cancelled_on = None, sr_sign_duration_seconds = None, sr_client_ip = None,
     sr_client_user_agent = None, sr_signer_lat = None, sr_signer_lng = None,
     sr_signer_accuracy_m = None, sr_signer_address = None,
     sr_signer_location_provider = None, sr_creation = 0, sr_modified = 0\<rparr>"

text \<open>DSC Audit Event.\<close>

record audit_event =
  ev_request :: string
  ev_event_type :: string
  ev_occurred_at :: "datetime option"
  ev_actor_user :: "string option"
  ev_client_ip :: "string option"
  ev_user_agent :: "string option"
  ev_details_json :: "string option"
  ev_event_hash :: "string option"

text \<open>DSC Document Sign: its status is Draft or repeats that of its signing request.\<close>

datatype docsign_status = Draft | Mirrors request_status

record document_sign =
  ds_uploaded_pdf :: "string option"
  ds_profile :: "string option"
  ds_signature_template :: "string option"
  ds_sig_page :: int
  ds_sig_x :: rat
  ds_sig_y :: rat
  ds_sig_width :: rat
  ds_sig_height :: rat
  ds_status :: "docsign_status option"
  ds_signing_request :: "string option"
  ds_signed_file :: "string option"

text \<open>DSC Profile with its DSC Previous Certificate rows; an allowed-user row holds a user.\<close>

record previous_certificate =
  pc_certificate_fingerprint :: "string option"
  pc_certificate_common_name :: "string option"
  pc_certificate_not_after :: "datetime option"
  pc_replaced_on :: datetime

record profile =
  pf_profile_name :: string
  pf_label :: "string option"
  pf_company :: "string option"
  pf_is_active :: bool
  pf_allowed_users :: "string list"
  pf_certificate_fingerprint :: "string option"
  pf_certificate_common_name :: "string option"
  pf_certificate_issuer :: "string option"
  pf_certificate_serial :: "string option"
  pf_certificate_not_before :: "datetime option"
  pf_certificate_not_after :: "datetime option"
  pf_registered_on :: "datetime option"
  pf_certificate_pem_public :: "string option"
  pf_previous_certificates :: "previous_certificate list"
  pf_designation_for_stamp :: "string option"

text \<open>DSC Rule and its DSC Rule Condition rows.\<close>

record rule_condition =
  rc_field :: string
  rc_operator :: string
  rc_value :: "string option"

record rule =
  ru_priority :: int
  ru_is_enabled :: bool
  ru_target_doctype :: string
  ru_trigger_event :: string
  ru_trigger_workflow_state :: "string option"
  ru_conditions :: "rule_condition list"
  ru_profile :: string
  ru_print_format :: "string option"
  ru_signature_template :: "string option"
  ru_is_mandatory :: bool
  ru_block_print_until_signed :: bool
  ru_block_email_until_signed :: bool
  ru_auto_attach_to_source :: bool
  ru_company :: "string option"

text \<open>DSC Signature Template and its DSC Signature Field rows; coordinates are PDF points.\<close>

record signature_field =
  sf_field_name :: string
  sf_page_number :: int
  sf_x :: rat
  sf_y :: rat
  sf_width :: rat
  sf_height :: rat
  sf_assigned_profile :: "string option"

record signature_template =
  st_template_name :: string
  st_version :: int
  st_is_active :: bool
  st_target_doctype :: string
  st_print_format :: string
  st_stamp_show_signer_name :: bool
  st_stamp_show_designation :: bool
  st_stamp_show_digitally_signed_by :: bool
  st_stamp_show_timestamp :: bool
  st_stamp_timestamp_format :: "string option"
  st_stamp_show_reason :: bool
  st_stamp_show_location :: bool
  st_stamp_show_dn_cn :: bool
  st_stamp_include_signature_image :: bool
  st_stamp_include_seal_image :: bool
  st_stamp_font_family :: "string option"
  st_stamp_font_size :: rat
  st_stamp_border :: bool
  st_fields :: "signature_field list"

text \<open>The core File DocType, as far as the app reads and writes it. A file's content is
  read as bytes or as text, which is a list of Unicode code points.\<close>

datatype content = Bytes string | Text "nat list"

record file_doc =
  fl_file_name :: string
  fl_file_url :: string
  fl_attached_to_doctype :: "string option"
  fl_attached_to_name :: "string option"
  fl_content :: content
  fl_is_private :: bool
  fl_is_dsc_signed :: bool

record agent_registration =
  ag_user :: string
  ag_agent_fingerprint :: "string option"
  ag_display_name :: string
  ag_paired_on :: datetime
  ag_last_seen_on :: datetime
  ag_is_active :: bool
  ag_os_platform :: "string option"
  ag_agent_version :: "string option"
  ag_site_token_hash :: string

text \<open>DSC Settings, a Single: an integer column that is unset is 0.\<close>

record settings =
  se_default_reason :: "string option"
  se_default_location :: "string option"
  se_signing_timeout_seconds :: int
  se_retention_years_for_requests :: int
  se_agent_listen_port :: int
  se_pdf_preparation_engine :: "string option"
  se_default_hash_algorithm :: "string option"
  se_trust_store_bundle :: "string option"
  se_enable_expiry_warnings :: bool
  se_expiry_warning_days :: "int list"
  se_hmac_secret :: "string option"
  se_enforce_signer_location :: bool
  se_geocoding_provider :: "string option"
  se_geocoding_api_key :: "string option"
  se_geocoding_user_agent :: "string option"

record timeline_comment =
  cm_reference_doctype :: string
  cm_reference_name :: string
  cm_content :: string

end
