(* ===== verification/Tables.thy ===== *)
theory Tables
  imports Documents
begin

text \<open>
  Errors and tables. A table of the database is an association list from document names to
  rows. The locale \<open>document_table\<close> states what the components rely on: what a lookup
  returns after each operation, which rows a selection finds, and that names stay unique;
  it is interpreted on the association-list operations of the model.
\<close>

section \<open>Errors\<close>

text \<open>The exceptions the code raises (\<open>frappe.throw\<close> raises ValidationError) or lets through.\<close>

datatype error =
    ValidationError string
  | AuthenticationError string
  | PermissionError string
  | DoesNotExistError string string
  | DuplicateEntryError string string
  | OtherError string string

text \<open>\<open>str(e)\<close> and \<open>type(e).__name__\<close>.\<close>

fun err_text :: "error \<Rightarrow> string" where
  "err_text (ValidationError m) = m"
| "err_text (AuthenticationError m) = m"
| "err_text (PermissionError m) = m"
| "err_text (DoesNotExistError dt n) = dt @ '' '' @ n @ '' not found''"
| "err_text (DuplicateEntryError dt n) = dt @ '' '' @ n @ '' already exists''"
| "err_text (OtherError ty m) = m"

fun err_type :: "error \<Rightarrow> string" where
  "err_type (ValidationError m) = ''ValidationError''"
| "err_type (AuthenticationError m) = ''AuthenticationError''"
| "err_type (PermissionError m) = ''PermissionError''"
| "err_type (DoesNotExistError dt n) = ''DoesNotExistError''"
| "err_type (DuplicateEntryError dt n) = ''DuplicateEntryError''"
| "err_type (OtherError ty m) = ty"

section \<open>Tables\<close>

type_synonym 'r table = "(string \<times> 'r) list"

definition row :: "'r table \<Rightarrow> string \<Rightarrow> 'r option" where
  "row t n = map_of t n"

definition update_row :: "string \<Rightarrow> ('r \<Rightarrow> 'r) \<Rightarrow> 'r table \<Rightarrow> 'r table" where
  "update_row n f t = AList.map_entry n f t"

definition add_row :: "string \<Rightarrow> 'r \<Rightarrow> 'r table \<Rightarrow> 'r table" where
  "add_row n r t = t @ [(n, r)]"

definition drop_row :: "string \<Rightarrow> 'r table \<Rightarrow> 'r table" where
  "drop_row n t = AList.delete n t"

definition names_where :: "('r \<Rightarrow> bool) \<Rightarrow> 'r table \<Rightarrow> string list" where
  "names_where P t = map fst (filter (\<lambda>(n, r). P r) t)"

text \<open>The interface the components use: what a lookup returns after each operation, and
  that document names stay unique.\<close>

locale document_table =
  fixes lookup :: "'t \<Rightarrow> string \<Rightarrow> 'r option"
    and update :: "string \<Rightarrow> ('r \<Rightarrow> 'r) \<Rightarrow> 't \<Rightarrow> 't"
    and add :: "string \<Rightarrow> 'r \<Rightarrow> 't \<Rightarrow> 't"
    and drop :: "string \<Rightarrow> 't \<Rightarrow> 't"
    and select :: "('r \<Rightarrow> bool) \<Rightarrow> 't \<Rightarrow> string list"
    and unique :: "'t \<Rightarrow> bool"
  assumes lookup_update: "lookup (update n f t) m = (if m = n then map_option f (lookup t n) else lookup t m)"
    and lookup_add: "lookup t n = None \<Longrightarrow> lookup (add n r t) m = (if m = n then Some r else lookup t m)"
    and lookup_drop: "lookup (drop n t) m = (if m = n then None else lookup t m)"
    and in_select: "unique t \<Longrightarrow> m \<in> set (select P t) \<longleftrightarrow> (\<exists>r. lookup t m = Some r \<and> P r)"
    and unique_update: "unique t \<Longrightarrow> unique (update n f t)"
    and unique_add: "unique t \<Longrightarrow> lookup t n = None \<Longrightarrow> unique (add n r t)"
    and unique_drop: "unique t \<Longrightarrow> unique (drop n t)"
begin

lemma lookup_update_same: "lookup t n = Some r \<Longrightarrow> lookup (update n f t) n = Some (f r)"
  by (simp add: lookup_update)

lemma lookup_update_other: "m \<noteq> n \<Longrightarrow> lookup (update n f t) m = lookup t m"
  by (simp add: lookup_update)

text \<open>A selection is empty exactly when no row satisfies the filter.\<close>

lemma select_empty: "unique t \<Longrightarrow> select P t = [] \<longleftrightarrow> (\<forall>m r. lookup t m = Some r \<longrightarrow> \<not> P r)"
  by (metis in_select list.set_intros(1) list.set_cases empty_iff empty_set neq_Nil_conv)

text \<open>A row that stops satisfying a filter is no longer selected; others are unaffected.\<close>

lemma select_after_update:
  assumes "unique t" and "lookup t n = Some r" and "\<not> P (f r)"
  shows "m \<in> set (select P (update n f t)) \<longleftrightarrow> m \<in> set (select P t) \<and> m \<noteq> n"
  using assms by (auto simp: in_select unique_update lookup_update)

end

definition unique_names :: "'r table \<Rightarrow> bool" where
  "unique_names t \<longleftrightarrow> distinct (map fst t)"

lemma row_update [simp]:
  "row (update_row n f t) m = (if m = n then map_option f (row t n) else row t m)"
  by (induction t) (auto simp: row_def update_row_def)

lemma row_add [simp]:
  "row (add_row n r t) m = (case row t m of None \<Rightarrow> if m = n then Some r else None | Some x \<Rightarrow> Some x)"
  by (auto simp: row_def add_row_def map_add_def split: option.splits)

lemma row_drop [simp]: "row (drop_row n t) m = (if m = n then None else row t m)"
  by (simp add: row_def drop_row_def AList.delete_conv')

lemma map_fst_map_entry [simp]: "map fst (AList.map_entry n f t) = map fst t"
  by (induction t) auto

lemma in_names_where:
  "unique_names t \<Longrightarrow> m \<in> set (names_where P t) \<longleftrightarrow> (\<exists>r. row t m = Some r \<and> P r)"
  by (force simp: names_where_def row_def unique_names_def map_of_eq_Some_iff dest: map_of_SomeD)

lemma unique_names_ops:
  "unique_names t \<Longrightarrow> unique_names (update_row n f t)"
  "unique_names t \<Longrightarrow> row t n = None \<Longrightarrow> unique_names (add_row n r t)"
  "unique_names t \<Longrightarrow> unique_names (drop_row n t)"
  by (auto simp: unique_names_def update_row_def add_row_def drop_row_def row_def
      map_of_eq_None_iff intro: AList.distinct_delete)

interpretation tbl: document_table row update_row add_row drop_row names_where unique_names
  by unfold_locales (auto simp: in_names_where intro: unique_names_ops split: option.splits)

end
