(* ===== verification/Json.thy ===== *)
theory Json
  imports Prelude "HOL-Library.List_Lexorder" "HOL-Library.Char_ord"
begin

text \<open>
  Python's \<open>json.dumps\<close> with its default separators and \<open>ensure_ascii\<close>, for the values
  the handlers pass to it. A float is carried as the text \<open>repr\<close> gives it. The reader
  \<open>scan_string\<close> undoes the encoding of a string, whatever follows it, which makes the
  encoding injective: two audit events with the same hashed text agree in every hashed
  field.
\<close>

datatype json = JNull | JBool bool | JInt int | JFloat string | JStr string
  | JList "json list" | JObj "(string \<times> json) list"

fun join :: "string \<Rightarrow> string list \<Rightarrow> string" where
  "join sep [] = ''''"
| "join sep [x] = x"
| "join sep (x # y # zs) = x @ sep @ join sep (y # zs)"

definition quote :: char where
  "quote = CHR 0x22"

definition backslash :: char where
  "backslash = CHR 0x5C"

definition hex_digit :: "nat \<Rightarrow> char" where
  "hex_digit d = (if d < 10 then char_of (48 + d) else char_of (87 + d))"

text \<open>\<open>ESCAPE_ASCII\<close>: quote, backslash, the five short escapes, and \<open>\u00XX\<close> for what is
  outside the printable range.\<close>

definition escape :: "char \<Rightarrow> string" where
  "escape c =
    (let n = of_char c :: nat in
     if c = quote then [backslash, quote]
     else if c = backslash then [backslash, backslash]
     else if n = 10 then backslash # ''n''
     else if n = 13 then backslash # ''r''
     else if n = 9 then backslash # ''t''
     else if n = 12 then backslash # ''f''
     else if n = 8 then backslash # ''b''
     else if 32 \<le> n \<and> n \<le> 126 then [c]
     else backslash # ''u00'' @ [hex_digit (n div 16), hex_digit (n mod 16)])"

definition dump_string :: "string \<Rightarrow> string" where
  "dump_string s = quote # concat (map escape s) @ [quote]"

fun dumps :: "json \<Rightarrow> string" where
  "dumps JNull = ''null''"
| "dumps (JBool b) = (if b then ''true'' else ''false'')"
| "dumps (JInt i) = dec_int i"
| "dumps (JFloat r) = r"
| "dumps (JStr s) = dump_string s"
| "dumps (JList xs) = ''['' @ join '', '' (map dumps xs) @ '']''"
| "dumps (JObj kvs) =
    ''{'' @ join '', '' (map (\<lambda>kv. dump_string (fst kv) @ '': '' @ dumps (snd kv)) kvs) @ ''}''"

definition dumps_sorted :: "(string \<times> json) list \<Rightarrow> string" where
  "dumps_sorted kvs = dumps (JObj (sort_key fst kvs))"

definition json_opt :: "string option \<Rightarrow> json" where
  "json_opt x = (case x of None \<Rightarrow> JNull | Some s \<Rightarrow> JStr s)"

text \<open>Python's truth of a decoded JSON value.\<close>

fun json_truth :: "json \<Rightarrow> bool" where
  "json_truth JNull = False"
| "json_truth (JBool b) = b"
| "json_truth (JInt i) = (i \<noteq> 0)"
| "json_truth (JFloat r) = (r \<notin> {''0.0'', ''-0.0''})"
| "json_truth (JStr s) = (s \<noteq> '''')"
| "json_truth (JList xs) = (xs \<noteq> [])"
| "json_truth (JObj kvs) = (kvs \<noteq> [])"

section \<open>Reading a string back\<close>

definition hex_val :: "char \<Rightarrow> nat" where
  "hex_val c = (let n = of_char c in if n < 58 then n - 48 else n - 87)"

fun unescape :: "string \<Rightarrow> (char \<times> string) option" where
  "unescape (c # rest) =
    (if c \<noteq> backslash then Some (c, rest)
     else case rest of
       [] \<Rightarrow> None
     | d # rest' \<Rightarrow>
         (if d = quote \<or> d = backslash then Some (d, rest')
          else if d = CHR ''n'' then Some (char_of (10::nat), rest')
          else if d = CHR ''r'' then Some (char_of (13::nat), rest')
          else if d = CHR ''t'' then Some (char_of (9::nat), rest')
          else if d = CHR ''f'' then Some (char_of (12::nat), rest')
          else if d = CHR ''b'' then Some (char_of (8::nat), rest')
          else case rest' of
            z1 # z2 # h # l # rest'' \<Rightarrow> Some (char_of (16 * hex_val h + hex_val l), rest'')
          | _ \<Rightarrow> None))"
| "unescape [] = None"

lemma of_char_lt: "(of_char c :: nat) < 256"
  by (metis of_char_mod_256 mod_less_divisor zero_less_numeral)

lemma hex_val_hex_digit: "d < 16 \<Longrightarrow> hex_val (hex_digit d) = d"
  by (auto simp: hex_val_def hex_digit_def Let_def)

lemma unescape_hex:
  "n < 256 \<Longrightarrow>
    unescape (backslash # ''u00'' @ [hex_digit (n div 16), hex_digit (n mod 16)] @ rest) = Some (char_of n, rest)"
  by (simp add: backslash_def quote_def hex_val_hex_digit)

lemma unescape_escape: "unescape (escape c @ rest) = Some (c, rest)"
proof -
  have code: "c = char_of k" if "(of_char c :: nat) = k" for k
    using that by (metis char_of_char)
  consider "c = quote \<or> c = backslash" | "(of_char c :: nat) \<in> {8, 9, 10, 12, 13}"
    | "c \<noteq> quote" "c \<noteq> backslash" "(of_char c :: nat) \<notin> {8, 9, 10, 12, 13}"
    by blast
  then show ?thesis
  proof cases
    case 1
    then show ?thesis by (auto simp: escape_def backslash_def quote_def)
  next
    case 2
    then have "c = char_of (8::nat) \<or> c = char_of (9::nat) \<or> c = char_of (10::nat) \<or>
        c = char_of (12::nat) \<or> c = char_of (13::nat)"
      by (auto dest: code)
    then show ?thesis
      by (elim disjE) (simp_all add: escape_def backslash_def quote_def)
  next
    case 3
    then show ?thesis
      using unescape_hex [OF of_char_lt, of c rest] by (auto simp: escape_def Let_def)
  qed
qed

lemma escape_not_quote: "escape c @ rest \<noteq> quote # rest'"
proof
  assume eq: "escape c @ rest = quote # rest'"
  have "quote \<noteq> backslash" by (simp add: quote_def backslash_def)
  with eq unescape_escape [of c rest] have "c = quote" by simp
  with eq show False by (simp add: escape_def Let_def quote_def backslash_def)
qed

lemma escape_inject:
  assumes "escape c @ x = escape d @ y"
  shows "c = d \<and> x = y"
proof -
  from assms have "unescape (escape c @ x) = unescape (escape d @ y)" by (rule arg_cong)
  then show ?thesis unfolding unescape_escape by simp
qed

lemma escapes_inject:
  "concat (map escape s) @ quote # x = concat (map escape t) @ quote # y \<longleftrightarrow> s = t \<and> x = y"
proof (induction s arbitrary: t)
  case Nil
  show ?case using escape_not_quote by (cases t) (auto, metis)
next
  case (Cons c s)
  show ?case
  proof (cases t)
    case Nil
    then show ?thesis using escape_not_quote by auto
  next
    case (Cons d t')
    have "concat (map escape (c # s)) @ quote # x = concat (map escape t) @ quote # y \<longleftrightarrow>
        c = d \<and> concat (map escape s) @ quote # x = concat (map escape t') @ quote # y"
      using escape_inject [of c _ d] Cons by fastforce
    with Cons.IH [of t'] Cons show ?thesis by auto
  qed
qed

lemma dump_string_inject:
  "dump_string s @ x = dump_string t @ y \<longleftrightarrow> s = t \<and> x = y"
  by (simp add: dump_string_def escapes_inject)

lemma json_opt_inject:
  "dumps (json_opt a) @ x = dumps (json_opt b) @ y \<longleftrightarrow> a = b \<and> x = y"
proof -
  have "dump_string s @ x \<noteq> ''null'' @ y" for s x y
    by (simp add: dump_string_def quote_def)
  then show ?thesis
    by (auto simp: json_opt_def dump_string_inject split: option.splits) metis+
qed

end
