(* ===== verification/Site.thy ===== *)
theory Site
  imports Actions Tables Json
begin

text \<open>
  The state of a site and the services the handlers call. A site keeps the rows as the
  current transaction sees them (\<open>w_db\<close>), the rows last committed (\<open>w_saved\<close>), the Redis
  cache, a counter that tells successive readings of the clock and of the random generator
  apart, and a journal of the calls made to services outside the database. What the
  framework and other packages decide (the session user, the clock, the order in which rows
  are scanned, fresh names, roles and permissions, whether a service call fails, hash
  functions) is the record \<open>env\<close>, an argument of every definition that uses it.
\<close>

section \<open>The database, the cache and the journal\<close>

record db =
  t_requests :: "signing_request table"
  t_events :: "audit_event table"
  t_docsigns :: "document_sign table"
  t_profiles :: "profile table"
  t_rules :: "rule table"
  t_templates :: "signature_template table"
  t_files :: "file_doc table"
  t_agents :: "agent_registration table"
  t_comments :: "timeline_comment list"
  t_settings :: settings

text \<open>The values the app keeps in Redis: signing sessions, pairing codes, geocoding results.\<close>

record session =
  ss_hash_algorithm :: string
  ss_field_name :: string
  ss_signing_request_name :: string
  ss_doctype :: string
  ss_docname :: string
  ss_print_format :: "string option"
  ss_created_at :: string
  ss_prepared_pdf_b64 :: string
  ss_signed_attrs_b64 :: string
  ss_cert_der_b64 :: string
  ss_document_digest_hex :: string
  ss_reserved_region_start :: nat
  ss_reserved_region_end :: nat

record pairing =
  pa_user :: string
  pa_created_at :: string
  pa_site_url :: string

record geo_result =
  ge_address :: string
  ge_provider :: string
  ge_ok :: bool
  ge_raw :: json

datatype cached = CSession session | CPairing pairing | CGeo geo_result

datatype effect =
    Mail "string list" string string
  | Error_Log string
  | Dev_Hook string string "(string \<times> string) list"
  | Assign_To string string string
  | Msgprint string

record world =
  w_db :: db
  w_saved :: db
  w_cache :: "(string \<times> (cached \<times> datetime)) list"
  w_tick :: nat
  w_journal :: "effect list"

type_synonym 'a act = "(world, error, 'a) action"

section \<open>The framework\<close>

record env =
  e_user :: string
  e_request_ip :: "string option"
  e_user_agent :: "string option"
  e_clock :: "nat \<Rightarrow> datetime"
  e_unix_time :: "nat \<Rightarrow> int"
  e_random :: "nat \<Rightarrow> string"
  e_scan :: "string \<Rightarrow> db \<Rightarrow> string list \<Rightarrow> string list"
  e_new_name :: "string \<Rightarrow> string list \<Rightarrow> string"
  e_roles :: "string \<Rightarrow> string list"
  e_has_permission :: "db \<Rightarrow> string \<Rightarrow> string \<Rightarrow> string option \<Rightarrow> bool"
  e_service :: "nat \<Rightarrow> effect \<Rightarrow> error option"
  e_handlers :: "string \<Rightarrow> string list"
  e_users_with_role :: "string \<Rightarrow> string list"
  e_owner :: "string \<Rightarrow> string \<Rightarrow> string option"
  e_site_url :: string
  e_sha256 :: "string \<Rightarrow> string"
  e_hmac_sha256 :: "string \<Rightarrow> string \<Rightarrow> string"
  e_str_datetime :: "datetime \<Rightarrow> string"
  e_float :: "string \<Rightarrow> string option"
  e_escape_html :: "string \<Rightarrow> string"

text \<open>Clock readings (site time, and the epoch seconds of \<open>time.time\<close>) and random tokens: each
  call gets the next one.\<close>

definition now_datetime :: "env \<Rightarrow> datetime act" where
  "now_datetime E = (\<lambda>w. (Inr (e_clock E (w_tick w)), w\<lparr>w_tick := Suc (w_tick w)\<rparr>))"

definition unix_time :: "env \<Rightarrow> int act" where
  "unix_time E = (\<lambda>w. (Inr (e_unix_time E (w_tick w)), w\<lparr>w_tick := Suc (w_tick w)\<rparr>))"

definition random_token :: "env \<Rightarrow> string act" where
  "random_token E = (\<lambda>w. (Inr (e_random E (w_tick w)), w\<lparr>w_tick := Suc (w_tick w)\<rparr>))"

text \<open>A call to a service is recorded whether or not it raises; \<open>log_error\<close> never does.\<close>

definition call_service :: "env \<Rightarrow> effect \<Rightarrow> unit act" where
  "call_service E x =
    (\<lambda>w. (case e_service E (length (w_journal w)) x of None \<Rightarrow> Inr () | Some e \<Rightarrow> Inl e,
          w\<lparr>w_journal := w_journal w @ [x]\<rparr>))"

definition log_error :: "string \<Rightarrow> unit act" where
  "log_error title = modify (\<lambda>w. w\<lparr>w_journal := w_journal w @ [Error_Log title]\<rparr>)"

definition commit :: "unit act" where
  "commit = modify (\<lambda>w. w\<lparr>w_saved := w_db w\<rparr>)"

text \<open>The boundary of a request: the framework commits what a handler that returns has
  written, and rolls back to the last commit when it raises. Redis, the mail already sent
  and the other services are outside the transaction.\<close>

definition run_request :: "'a act \<Rightarrow> 'a act" where
  "run_request m = (\<lambda>w. case m w of
      (Inr x, w') \<Rightarrow> (Inr x, w'\<lparr>w_saved := w_db w'\<rparr>)
    | (Inl e, w') \<Rightarrow> (Inl e, w'\<lparr>w_db := w_saved w'\<rparr>))"

section \<open>Reading and writing documents\<close>

definition db_gets :: "(db \<Rightarrow> 'a) \<Rightarrow> 'a act" where
  "db_gets f = gets (\<lambda>w. f (w_db w))"

definition db_modify :: "(db \<Rightarrow> db) \<Rightarrow> unit act" where
  "db_modify f = modify (\<lambda>w. w\<lparr>w_db := f (w_db w)\<rparr>)"

text \<open>\<open>frappe.get_doc\<close> by name raises when there is no such document.\<close>

definition get_doc :: "string \<Rightarrow> (db \<Rightarrow> 'r table) \<Rightarrow> string \<Rightarrow> 'r act" where
  "get_doc dt T n =
    (\<lambda>w. case row (T (w_db w)) n of None \<Rightarrow> (Inl (DoesNotExistError dt n), w) | Some r \<Rightarrow> (Inr r, w))"

text \<open>\<open>frappe.get_all\<close> with filters: the names of the matching rows, in the order in which
  the database returns them; \<open>get_value\<close> and \<open>exists\<close> take the first.\<close>

definition get_all :: "env \<Rightarrow> string \<Rightarrow> (db \<Rightarrow> 'r table) \<Rightarrow> ('r \<Rightarrow> bool) \<Rightarrow> string list act" where
  "get_all E dt T P = db_gets (\<lambda>d. e_scan E dt d (names_where P (T d)))"

definition find_doc :: "env \<Rightarrow> string \<Rightarrow> (db \<Rightarrow> 'r table) \<Rightarrow> ('r \<Rightarrow> bool) \<Rightarrow> string option act" where
  "find_doc E dt T P =
    db_gets (\<lambda>d. case e_scan E dt d (names_where P (T d)) of [] \<Rightarrow> None | n # _ \<Rightarrow> Some n)"

text \<open>\<open>frappe.db.set_value\<close> writes the columns and, unless \<open>update_modified=False\<close>, the
  modification time; a name that does not exist is no error, nothing is written.\<close>

definition set_request :: "env \<Rightarrow> string \<Rightarrow> (signing_request \<Rightarrow> signing_request) \<Rightarrow> unit act" where
  "set_request E n f =
    bind (now_datetime E) (\<lambda>t.
    db_modify (\<lambda>d. d\<lparr>t_requests := update_row n (\<lambda>r. (f r)\<lparr>sr_modified := t\<rparr>) (t_requests d)\<rparr>))"

definition set_request_quietly :: "string \<Rightarrow> (signing_request \<Rightarrow> signing_request) \<Rightarrow> unit act" where
  "set_request_quietly n f = db_modify (\<lambda>d. d\<lparr>t_requests := update_row n f (t_requests d)\<rparr>)"

definition set_docsign :: "string \<Rightarrow> (document_sign \<Rightarrow> document_sign) \<Rightarrow> unit act" where
  "set_docsign n f = db_modify (\<lambda>d. d\<lparr>t_docsigns := update_row n f (t_docsigns d)\<rparr>)"

definition set_file :: "string \<Rightarrow> (file_doc \<Rightarrow> file_doc) \<Rightarrow> unit act" where
  "set_file n f = db_modify (\<lambda>d. d\<lparr>t_files := update_row n f (t_files d)\<rparr>)"

definition set_settings :: "(settings \<Rightarrow> settings) \<Rightarrow> unit act" where
  "set_settings f = db_modify (\<lambda>d. d\<lparr>t_settings := f (t_settings d)\<rparr>)"

text \<open>A new document gets a name of its series; a name that is taken is an error.\<close>

definition insert_row ::
  "string \<Rightarrow> (db \<Rightarrow> 'r table) \<Rightarrow> (('r table \<Rightarrow> 'r table) \<Rightarrow> db \<Rightarrow> db) \<Rightarrow> string \<Rightarrow> 'r \<Rightarrow> string act" where
  "insert_row dt T U n r =
    bind (db_gets (\<lambda>d. row (T d) n)) (\<lambda>old.
    seq (guard (old = None) (DuplicateEntryError dt n))
    (seq (db_modify (U (add_row n r)))
    (ret n)))"

definition new_name :: "env \<Rightarrow> string \<Rightarrow> (db \<Rightarrow> 'r table) \<Rightarrow> string act" where
  "new_name E dt T = db_gets (\<lambda>d. e_new_name E dt (map fst (T d)))"

end
