(* ===== verification/Trail.thy ===== *)
theory Trail
  imports Site
begin

text \<open>
  The audit trail: \<open>audit.py\<close> and the DSC Audit Event controller. An event is inserted
  with a hash over its request, type, time, actor and details; the controller refuses every
  later save and every deletion. \<open>audit_ext\<close> relates a state to those in which the trail
  has only grown and document names are still unique, both in the running transaction and in
  what is committed; it is an instance of \<open>run_relation\<close>, so every handler built from the actions below is shown to
  keep it by the introduction rules of that locale.
\<close>

section \<open>The controller\<close>

definition hash_input :: "env \<Rightarrow> audit_event \<Rightarrow> string" where
  "hash_input E ev = dumps_sorted
    [(''request'', JStr (ev_request ev)),
     (''event_type'', JStr (ev_event_type ev)),
     (''occurred_at'', JStr (case ev_occurred_at ev of None \<Rightarrow> ''None'' | Some t \<Rightarrow> e_str_datetime E t)),
     (''actor_user'', json_opt (ev_actor_user ev)),
     (''details_json'', JStr (or_str (ev_details_json ev) ''''))]"

definition compute_event_hash :: "env \<Rightarrow> audit_event \<Rightarrow> audit_event" where
  "compute_event_hash E ev = ev\<lparr>ev_event_hash := Some (e_sha256 E (hash_input E ev))\<rparr>"

definition event_before_insert :: "env \<Rightarrow> audit_event \<Rightarrow> audit_event act" where
  "event_before_insert E ev =
    bind (if ev_occurred_at ev = None
          then bind (now_datetime E) (\<lambda>t. ret (ev\<lparr>ev_occurred_at := Some t\<rparr>)) else ret ev) (\<lambda>ev1.
    let ev2 = (if truthy (ev_actor_user ev1) then ev1 else ev1\<lparr>ev_actor_user := Some (e_user E)\<rparr>);
        ev3 = (if truthy (ev_client_ip ev2) then ev2 else ev2\<lparr>ev_client_ip := e_request_ip E\<rparr>)
    in ret (compute_event_hash E ev3))"

definition event_on_trash :: "unit act" where
  "event_on_trash = raise (ValidationError
    ''DSC Audit Events cannot be deleted. They are append-only for legal compliance.'')"

definition event_before_save :: "bool \<Rightarrow> unit act" where
  "event_before_save is_new = throw_if (\<not> is_new) (ValidationError
    ''DSC Audit Events cannot be modified after creation. They are append-only.'')"

text \<open>The framework's insert, save and delete, with the controller's hooks where the
  framework calls them: a new document runs \<open>before_insert\<close> and then \<open>before_save\<close>.\<close>

definition insert_event :: "env \<Rightarrow> audit_event \<Rightarrow> string act" where
  "insert_event E ev =
    bind (new_name E ''DSC Audit Event'' t_events) (\<lambda>n.
    bind (event_before_insert E ev) (\<lambda>ev'.
    seq (event_before_save True)
    (insert_row ''DSC Audit Event'' t_events (\<lambda>u d. d\<lparr>t_events := u (t_events d)\<rparr>) n ev')))"

definition save_event :: "env \<Rightarrow> string \<Rightarrow> (audit_event \<Rightarrow> audit_event) \<Rightarrow> unit act" where
  "save_event E n f =
    bind (get_doc ''DSC Audit Event'' t_events n) (\<lambda>_.
    seq (event_before_save False)
    (db_modify (\<lambda>d. d\<lparr>t_events := update_row n f (t_events d)\<rparr>)))"

definition delete_event :: "string \<Rightarrow> unit act" where
  "delete_event n =
    bind (get_doc ''DSC Audit Event'' t_events n) (\<lambda>_.
    seq event_on_trash
    (db_modify (\<lambda>d. d\<lparr>t_events := drop_row n (t_events d)\<rparr>)))"

section \<open>\<open>log_event\<close>\<close>

definition log_event :: "env \<Rightarrow> string \<Rightarrow> string \<Rightarrow> (string \<times> json) list \<Rightarrow> string act" where
  "log_event E request event_type details =
    bind (now_datetime E) (\<lambda>t.
    insert_event E
      \<lparr>ev_request = request, ev_event_type = event_type, ev_occurred_at = Some t,
       ev_actor_user = Some (e_user E), ev_client_ip = e_request_ip E,
       ev_user_agent = e_user_agent E,
       ev_details_json = (if details = [] then None else Some (dumps (JObj details))),
       ev_event_hash = None\<rparr>)"

text \<open>A statement that logs and ignores the name of the event.\<close>

definition audit :: "env \<Rightarrow> string \<Rightarrow> string \<Rightarrow> (string \<times> json) list \<Rightarrow> unit act" where
  "audit E request event_type details = bind (log_event E request event_type details) (\<lambda>_. ret ())"

section \<open>The trail only grows, and names stay unique\<close>

definition trail_prefix :: "db \<Rightarrow> db \<Rightarrow> bool" where
  "trail_prefix d d' \<longleftrightarrow> (\<exists>xs. t_events d' = t_events d @ xs)"

text \<open>A database is well named when no two documents of a type have the same name.\<close>

definition well_named :: "db \<Rightarrow> bool" where
  "well_named d \<longleftrightarrow> unique_names (t_requests d) \<and> unique_names (t_events d) \<and> unique_names (t_docsigns d)
    \<and> unique_names (t_profiles d) \<and> unique_names (t_rules d) \<and> unique_names (t_templates d)
    \<and> unique_names (t_files d) \<and> unique_names (t_agents d)"

lemmas names_kept = well_named_def unique_names_ops

definition db_ext :: "db \<Rightarrow> db \<Rightarrow> bool" where
  "db_ext d d' \<longleftrightarrow> trail_prefix d d' \<and> (well_named d \<longrightarrow> well_named d')"

definition audit_ext :: "world \<Rightarrow> world \<Rightarrow> bool" where
  "audit_ext w w' \<longleftrightarrow> db_ext (w_db w) (w_db w') \<and> (w_saved w' = w_saved w \<or> db_ext (w_db w) (w_saved w'))"

lemma trail_prefix_refl [simp]: "trail_prefix d d"
  by (simp add: trail_prefix_def)

lemma trail_prefix_trans: "trail_prefix d d' \<Longrightarrow> trail_prefix d' d'' \<Longrightarrow> trail_prefix d d''"
  by (auto simp: trail_prefix_def)

text \<open>An event of the trail is found again, unchanged, in every extension.\<close>

lemma trail_prefix_row: "trail_prefix d d' \<Longrightarrow> row (t_events d) n = Some ev \<Longrightarrow> row (t_events d') n = Some ev"
  by (auto simp: trail_prefix_def row_def map_add_def)

lemma db_ext_refl [simp]: "db_ext d d"
  by (simp add: db_ext_def)

lemma db_ext_trans: "db_ext d d' \<Longrightarrow> db_ext d' d'' \<Longrightarrow> db_ext d d''"
  by (auto simp: db_ext_def intro: trail_prefix_trans)

interpretation trail: run_relation audit_ext
  by unfold_locales (auto simp: audit_ext_def intro: db_ext_trans)

named_theorems keeps_trail "actions that only extend the audit trail and keep names unique"

declare trail.keeps_intros [keeps_trail]

lemma keeps_trail_db:
  "(\<And>d. t_events (f d) = t_events d) \<Longrightarrow> (\<And>d. well_named d \<Longrightarrow> well_named (f d)) \<Longrightarrow> keeps audit_ext (db_modify f)"
  by (auto simp: keeps_def audit_ext_def db_ext_def trail_prefix_def db_modify_def)

lemma keeps_trail_prims [keeps_trail]:
  "keeps audit_ext (now_datetime E)" "keeps audit_ext (unix_time E)" "keeps audit_ext (random_token E)"
  "keeps audit_ext (call_service E x)" "keeps audit_ext (log_error s)"
  "keeps audit_ext commit" "keeps audit_ext (db_gets g)" "keeps audit_ext (get_doc dt T n)"
  "keeps audit_ext (get_all E dt P Q)" "keeps audit_ext (find_doc E dt P Q)"
  "keeps audit_ext (new_name E dt P)"
  by (auto simp: keeps_def audit_ext_def now_datetime_def unix_time_def random_token_def call_service_def
      log_error_def commit_def db_gets_def get_doc_def get_all_def find_doc_def new_name_def
      split: option.splits)

lemma keeps_trail_sets [keeps_trail]:
  "keeps audit_ext (set_request E n f)" "keeps audit_ext (set_request_quietly n f)"
  "keeps audit_ext (set_docsign n g)" "keeps audit_ext (set_file n h)"
  "keeps audit_ext (set_settings k)"
  by (auto simp: set_request_def set_request_quietly_def set_docsign_def set_file_def set_settings_def
      names_kept intro!: keeps_trail keeps_trail_db)

lemma keeps_trail_insert:
  assumes "\<And>g d. trail_prefix d (U g d)"
    and "\<And>d. well_named d \<Longrightarrow> row (T d) n = None \<Longrightarrow> well_named (U (add_row n r) d)"
  shows "keeps audit_ext (insert_row dt T U n r)"
proof (rule keepsI)
  fix w
  show "audit_ext w (snd (insert_row dt T U n r w))"
    using assms by (cases "row (T (w_db w)) n") (simp_all add: insert_row_def run_bind run_seq run_guard
        db_gets_def db_modify_def audit_ext_def db_ext_def)
qed

lemma keeps_trail_insert_event [keeps_trail]: "keeps audit_ext (insert_event E ev)"
proof -
  have "keeps audit_ext (insert_row dt t_events (\<lambda>u d. d\<lparr>t_events := u (t_events d)\<rparr>) n ev')" for dt n ev'
  proof (rule keepsI)
    fix w
    show "audit_ext w (snd (insert_row dt t_events (\<lambda>u d. d\<lparr>t_events := u (t_events d)\<rparr>) n ev' w))"
      by (cases "row (t_events (w_db w)) n") (simp_all add: insert_row_def run_bind run_seq run_guard
          db_gets_def db_modify_def audit_ext_def db_ext_def trail_prefix_def names_kept, simp add: add_row_def)
  qed
  then show ?thesis
    unfolding insert_event_def event_before_insert_def event_before_save_def Let_def
    by (intro keeps_trail)
qed

lemma keeps_trail_log [keeps_trail]:
  "keeps audit_ext (log_event E r ty ds)" "keeps audit_ext (audit E r ty ds)"
  by (auto simp: log_event_def audit_def intro!: keeps_trail)

end
