(* ===== verification/Frames.thy ===== *)
theory Frames
  imports Trail
begin

text \<open>
  What the framework's operations leave alone. \<open>same f\<close> says that an action does not change
  the observation \<open>f\<close> of the state, whether it returns or raises. Four observations have a
  collection of rules each: both databases (\<open>keeps_db\<close>), the committed database
  (\<open>keeps_saved\<close>), the cache (\<open>keeps_cache\<close>) and the signing requests (\<open>keeps_requests\<close>);
  a handler keeps one of them when its steps do.
\<close>

definition same :: "(world \<Rightarrow> 'o) \<Rightarrow> world \<Rightarrow> world \<Rightarrow> bool" where
  "same f w w' \<longleftrightarrow> f w' = f w"

interpretation frame: run_relation "same f" for f
  by unfold_locales (auto simp: same_def)

lemma keeps_same_runD: "keeps (same f) m \<Longrightarrow> m w = (r, w') \<Longrightarrow> f w' = f w"
  by (auto simp: same_def dest: keeps_runD)

lemma keeps_same_comp: "keeps (same f) m \<Longrightarrow> keeps (same (\<lambda>w. g (f w))) m"
  by (simp add: keeps_def same_def)

definition both_dbs :: "world \<Rightarrow> db \<times> db" where
  "both_dbs w = (w_db w, w_saved w)"

definition requests :: "world \<Rightarrow> signing_request table" where
  "requests w = t_requests (w_db w)"

text \<open>Any other part \<open>f\<close> of the running database is covered by \<open>keeps_now\<close>, whose rules leave
  equations about \<open>f\<close> that the simplifier solves.\<close>

named_theorems keeps_db "actions that write no document"
named_theorems keeps_saved "actions that do not commit"
named_theorems keeps_cache "actions that do not write the cache"
named_theorems keeps_requests "actions that write no signing request"
named_theorems keeps_now "actions that leave a part of the running database alone"

declare frame.keeps_intros [keeps_db, keeps_saved, keeps_cache, keeps_requests, keeps_now]

text \<open>Whatever writes no document keeps the observations of the documents.\<close>

lemma keeps_db_saved: "keeps (same both_dbs) m \<Longrightarrow> keeps (same w_saved) m"
  using keeps_same_comp [of both_dbs m snd] by (simp add: both_dbs_def)

lemma keeps_db_now: "keeps (same both_dbs) m \<Longrightarrow> keeps (same (\<lambda>w. f (w_db w))) m"
  using keeps_same_comp [of both_dbs m "\<lambda>x. f (fst x)"] by (simp add: both_dbs_def)

lemma keeps_db_requests: "keeps (same both_dbs) m \<Longrightarrow> keeps (same requests) m"
  using keeps_same_comp [of both_dbs m "\<lambda>d. t_requests (fst d)"] by (simp add: both_dbs_def requests_def [abs_def])

lemma keeps_db_trail: "keeps (same both_dbs) m \<Longrightarrow> keeps audit_ext m"
  by (auto simp: keeps_def same_def both_dbs_def audit_ext_def)

text \<open>The framework's operations.\<close>

lemma keeps_db_prims [keeps_db]:
  "keeps (same both_dbs) (now_datetime E)" "keeps (same both_dbs) (unix_time E)"
  "keeps (same both_dbs) (random_token E)" "keeps (same both_dbs) (call_service E x)"
  "keeps (same both_dbs) (log_error s)" "keeps (same both_dbs) (db_gets g)"
  "keeps (same both_dbs) (get_doc dt T n)" "keeps (same both_dbs) (get_all E dt T P)"
  "keeps (same both_dbs) (find_doc E dt T P)" "keeps (same both_dbs) (new_name E dt T)"
  by (auto simp: keeps_def same_def both_dbs_def now_datetime_def unix_time_def random_token_def
      call_service_def log_error_def db_gets_def get_doc_def get_all_def find_doc_def new_name_def
      split: option.splits)

declare keeps_db_prims [THEN keeps_db_saved, keeps_saved]
  keeps_db_prims [THEN keeps_db_requests, keeps_requests] keeps_db_prims [THEN keeps_db_now, keeps_now]

lemma keeps_saved_modify [keeps_saved]: "keeps (same w_saved) (db_modify f)"
  by (simp add: keeps_def same_def db_modify_def)

lemma keeps_saved_writes [keeps_saved]:
  "keeps (same w_saved) (set_request E n f)" "keeps (same w_saved) (set_request_quietly n f)"
  "keeps (same w_saved) (set_docsign n g)" "keeps (same w_saved) (set_file n h)"
  "keeps (same w_saved) (set_settings k)" "keeps (same w_saved) (insert_row dt T U n r)"
  by (auto simp: set_request_def set_request_quietly_def set_docsign_def set_file_def
      set_settings_def insert_row_def intro!: keeps_saved)

lemma keeps_cache_prims [keeps_cache]:
  "keeps (same w_cache) (now_datetime E)" "keeps (same w_cache) (unix_time E)"
  "keeps (same w_cache) (random_token E)" "keeps (same w_cache) (call_service E x)"
  "keeps (same w_cache) (log_error s)" "keeps (same w_cache) (db_gets g)"
  "keeps (same w_cache) (get_doc dt T n)" "keeps (same w_cache) (get_all E dt T P)"
  "keeps (same w_cache) (find_doc E dt T P)" "keeps (same w_cache) (new_name E dt T)"
  "keeps (same w_cache) commit" "keeps (same w_cache) (db_modify f)"
  by (auto simp: keeps_def same_def now_datetime_def unix_time_def random_token_def db_modify_def
      call_service_def log_error_def db_gets_def get_doc_def get_all_def find_doc_def new_name_def
      commit_def split: option.splits)

lemma keeps_cache_writes [keeps_cache]:
  "keeps (same w_cache) (set_request E n f)" "keeps (same w_cache) (set_request_quietly n f)"
  "keeps (same w_cache) (set_docsign n g)" "keeps (same w_cache) (set_file n h)"
  "keeps (same w_cache) (set_settings k)" "keeps (same w_cache) (insert_row dt T U n r)"
  by (auto simp: set_request_def set_request_quietly_def set_docsign_def set_file_def
      set_settings_def insert_row_def intro!: keeps_cache)

lemma keeps_requests_modify:
  "(\<And>d. t_requests (f d) = t_requests d) \<Longrightarrow> keeps (same requests) (db_modify f)"
  by (simp add: keeps_def same_def requests_def db_modify_def)

lemma keeps_requests_writes [keeps_requests]:
  "keeps (same requests) commit"
  "keeps (same requests) (set_docsign n g)" "keeps (same requests) (set_file n h)"
  "keeps (same requests) (set_settings k)"
  by (auto simp: keeps_def same_def requests_def commit_def set_docsign_def set_file_def
      set_settings_def db_modify_def)

lemma keeps_requests_insert:
  "(\<And>u d. t_requests (U u d) = t_requests d) \<Longrightarrow> keeps (same requests) (insert_row dt T U n r)"
  unfolding insert_row_def by (intro keeps_requests keeps_requests_modify)

lemma keeps_now_writes [keeps_now]:
  "(\<And>d. f (g d) = f d) \<Longrightarrow> keeps (same (\<lambda>w. f (w_db w))) (db_modify g)"
  "(\<And>d x. f (d\<lparr>t_requests := x\<rparr>) = f d) \<Longrightarrow> keeps (same (\<lambda>w. f (w_db w))) (set_request E n rf)"
  "(\<And>d x. f (d\<lparr>t_docsigns := x\<rparr>) = f d) \<Longrightarrow> keeps (same (\<lambda>w. f (w_db w))) (set_docsign n df)"
  "(\<And>d x. f (d\<lparr>t_settings := x\<rparr>) = f d) \<Longrightarrow> keeps (same (\<lambda>w. f (w_db w))) (set_settings k)"
  "keeps (same (\<lambda>w. f (w_db w))) commit"
  by (simp_all add: keeps_def same_def db_modify_def set_request_def set_docsign_def set_settings_def
      commit_def now_datetime_def run_bind)

section \<open>Logging\<close>

text \<open>Logging writes the trail and the call counter, nothing else.\<close>

lemma log_event_frame:
  assumes "\<And>w n. f (w\<lparr>w_tick := n\<rparr>) = f w"
    and "\<And>w xs. f (w\<lparr>w_db := w_db w\<lparr>t_events := xs\<rparr>\<rparr>) = f w"
  shows "keeps (same f) (log_event E r ty ds)" "keeps (same f) (audit E r ty ds)"
proof -
  have prims: "keeps (same f) (now_datetime E)"
    "keeps (same f) (db_modify (\<lambda>d. d\<lparr>t_events := u (t_events d)\<rparr>))"
    "keeps (same f) (db_gets g)" "keeps (same f) (new_name E dt T)" for u g dt T
    using assms
    by (simp_all add: keeps_def same_def now_datetime_def db_modify_def db_gets_def new_name_def)
  show 1: "keeps (same f) (log_event E r ty ds)"
    unfolding log_event_def insert_event_def insert_row_def event_before_insert_def
      event_before_save_def Let_def
    by (intro frame.keeps_intros prims)
  show "keeps (same f) (audit E r ty ds)"
    unfolding audit_def by (intro frame.keeps_intros 1)
qed

lemma keeps_audit [keeps_saved, keeps_cache, keeps_requests]:
  "keeps (same w_saved) (audit E r ty ds)" "keeps (same w_cache) (audit E r ty ds)"
  "keeps (same requests) (audit E r ty ds)"
  by (auto intro!: log_event_frame simp: requests_def)

lemma keeps_now_audit [keeps_now]:
  "(\<And>d x. f (d\<lparr>t_events := x\<rparr>) = f d) \<Longrightarrow> keeps (same (\<lambda>w. f (w_db w))) (audit E r ty ds)"
  by (rule log_event_frame) simp_all

lemma audit_frame:
  assumes "audit E r ty ds w = (res, w')"
    and "\<And>w n. f (w\<lparr>w_tick := n\<rparr>) = f w"
    and "\<And>w xs. f (w\<lparr>w_db := w_db w\<lparr>t_events := xs\<rparr>\<rparr>) = f w"
  shows "f w' = f w"
  using keeps_same_runD [OF log_event_frame(2) assms(1), of f] assms(2,3) by blast

lemma audit_run:
  assumes "audit E r ty ds w = (res, w')"
  shows "w_saved w' = w_saved w" "w_cache w' = w_cache w" "w_journal w' = w_journal w"
    "t_requests (w_db w') = t_requests (w_db w)" "t_docsigns (w_db w') = t_docsigns (w_db w)"
    "t_files (w_db w') = t_files (w_db w)" "t_profiles (w_db w') = t_profiles (w_db w)"
    "t_settings (w_db w') = t_settings (w_db w)" "t_rules (w_db w') = t_rules (w_db w)"
    "t_templates (w_db w') = t_templates (w_db w)" "t_agents (w_db w') = t_agents (w_db w)"
    "t_comments (w_db w') = t_comments (w_db w)"
  by (simp_all add: audit_frame [OF assms, of w_saved] audit_frame [OF assms, of w_cache]
      audit_frame [OF assms, of w_journal] audit_frame [OF assms, of "\<lambda>w. t_requests (w_db w)"]
      audit_frame [OF assms, of "\<lambda>w. t_docsigns (w_db w)"]
      audit_frame [OF assms, of "\<lambda>w. t_files (w_db w)"]
      audit_frame [OF assms, of "\<lambda>w. t_profiles (w_db w)"]
      audit_frame [OF assms, of "\<lambda>w. t_settings (w_db w)"]
      audit_frame [OF assms, of "\<lambda>w. t_rules (w_db w)"]
      audit_frame [OF assms, of "\<lambda>w. t_templates (w_db w)"]
      audit_frame [OF assms, of "\<lambda>w. t_agents (w_db w)"]
      audit_frame [OF assms, of "\<lambda>w. t_comments (w_db w)"])

section \<open>Reading\<close>

text \<open>The framework's operations, run.\<close>

lemma now_datetime_run: "now_datetime E w = (Inr (e_clock E (w_tick w)), w\<lparr>w_tick := Suc (w_tick w)\<rparr>)"
  by (simp add: now_datetime_def)

lemma new_name_run: "new_name E dt T w = (Inr (e_new_name E dt (map fst (T (w_db w)))), w)"
  by (simp add: new_name_def db_gets_def)

lemma insert_row_ok:
  "row (T (w_db w)) n = None \<Longrightarrow> insert_row dt T U n r w = (Inr n, w\<lparr>w_db := U (add_row n r) (w_db w)\<rparr>)"
  by (simp add: insert_row_def db_gets_def db_modify_def)

lemma insert_row_taken:
  "row (T (w_db w)) n = Some x \<Longrightarrow> insert_row dt T U n r w = (Inl (DuplicateEntryError dt n), w)"
  by (simp add: insert_row_def db_gets_def)

lemma get_doc_run: "row (T (w_db w)) n = Some r \<Longrightarrow> get_doc dt T n w = (Inr r, w)"
  by (simp add: get_doc_def)

lemma db_gets_run: "db_gets f w = (Inr (f (w_db w)), w)"
  by (simp add: db_gets_def)

lemma set_quietly_run:
  "set_request_quietly n f w = (Inr (), w\<lparr>w_db := (w_db w)\<lparr>t_requests := update_row n f (t_requests (w_db w))\<rparr>\<rparr>)"
  "set_docsign n g w = (Inr (), w\<lparr>w_db := (w_db w)\<lparr>t_docsigns := update_row n g (t_docsigns (w_db w))\<rparr>\<rparr>)"
  "set_settings k w = (Inr (), w\<lparr>w_db := (w_db w)\<lparr>t_settings := k (t_settings (w_db w))\<rparr>\<rparr>)"
  by (simp_all add: set_request_quietly_def set_docsign_def set_settings_def db_modify_def)

lemmas prim_runs = now_datetime_run new_name_run insert_row_ok insert_row_taken get_doc_run db_gets_run set_quietly_run

text \<open>What is relied on of the database: a scan returns each matching row once, in some order.\<close>

definition scan_sound :: "env \<Rightarrow> bool" where
  "scan_sound E \<longleftrightarrow>
    (\<forall>dt d ns. set (e_scan E dt d ns) = set ns \<and> (distinct ns \<longrightarrow> distinct (e_scan E dt d ns)))"

lemma find_doc_run:
  "find_doc E dt T P w = (Inr (case e_scan E dt (w_db w) (names_where P (T (w_db w))) of [] \<Rightarrow> None | n # _ \<Rightarrow> Some n), w)"
  by (simp add: find_doc_def db_gets_def)

lemma find_doc_some:
  assumes "find_doc E dt T P w = (Inr (Some n), w')" and "scan_sound E" and "unique_names (T (w_db w))"
  obtains r where "row (T (w_db w)) n = Some r" "P r" "w' = w"
proof -
  from assms(1) have w: "w' = w" and "n \<in> set (e_scan E dt (w_db w) (names_where P (T (w_db w))))"
    by (auto simp: find_doc_run split: list.splits)
  then have "n \<in> set (names_where P (T (w_db w)))"
    using assms(2) by (simp add: scan_sound_def)
  with assms(3) w that show thesis by (auto simp: tbl.in_select)
qed

lemma find_doc_none:
  assumes "find_doc E dt T P w = (Inr None, w')" and "scan_sound E" and "unique_names (T (w_db w))"
  shows "row (T (w_db w)) n = Some r \<Longrightarrow> \<not> P r"
proof -
  have "e_scan E dt (w_db w) (names_where P (T (w_db w))) = []"
    using assms(1) by (auto simp: find_doc_run split: list.splits)
  then have "names_where P (T (w_db w)) = []"
    using assms(2) unfolding scan_sound_def by (metis empty_set set_empty)
  then show "row (T (w_db w)) n = Some r \<Longrightarrow> \<not> P r"
    using tbl.select_empty [OF assms(3), of P] by blast
qed

lemma find_doc_exists:
  assumes "scan_sound E" and "unique_names (T (w_db w))" and "row (T (w_db w)) n = Some r" and "P r"
  obtains m s where "find_doc E dt T P w = (Inr (Some m), w)" "row (T (w_db w)) m = Some s" "P s"
proof -
  obtain x where x: "find_doc E dt T P w = (Inr x, w)" by (simp add: find_doc_run)
  show thesis
  proof (cases x)
    case None
    with find_doc_none [where T = T and P = P, OF _ assms(1,2,3)] x assms(4) show ?thesis by blast
  next
    case (Some m)
    obtain s where "row (T (w_db w)) m = Some s" "P s"
      by (rule find_doc_some [where T = T, OF x [unfolded Some] assms(1,2)])
    with x Some that show ?thesis by blast
  qed
qed

text \<open>\<open>get_value\<close> of some columns of the first matching row.\<close>

definition find_row :: "env \<Rightarrow> string \<Rightarrow> (db \<Rightarrow> 'r table) \<Rightarrow> ('r \<Rightarrow> bool) \<Rightarrow> (string \<times> 'r) option act" where
  "find_row E dt T P =
    bind (find_doc E dt T P) (\<lambda>n.
    db_gets (\<lambda>d. Option.bind n (\<lambda>n. map_option (Pair n) (row (T d) n))))"

lemma find_row_run:
  "find_row E dt T P w = (Inr (case e_scan E dt (w_db w) (names_where P (T (w_db w))) of
     [] \<Rightarrow> None | n # _ \<Rightarrow> map_option (Pair n) (row (T (w_db w)) n)), w)"
  by (simp add: find_row_def find_doc_run db_gets_run split: list.splits)

lemma find_row_some:
  assumes "find_row E dt T P w = (Inr (Some (n, r)), w')" and "scan_sound E" and "unique_names (T (w_db w))"
  shows "row (T (w_db w)) n = Some r \<and> P r"
proof -
  obtain ns where ns: "e_scan E dt (w_db w) (names_where P (T (w_db w))) = n # ns" and r: "row (T (w_db w)) n = Some r"
    using assms(1) by (auto simp: find_row_run split: list.splits)
  then have f: "find_doc E dt T P w = (Inr (Some n), w)" by (simp add: find_doc_run)
  obtain s where "row (T (w_db w)) n = Some s" "P s" by (rule find_doc_some [OF f assms(2,3)])
  with r show ?thesis by simp
qed

lemma find_row_none:
  assumes "find_row E dt T P w = (Inr None, w')" and "scan_sound E" and "unique_names (T (w_db w))"
    and "row (T (w_db w)) n = Some r"
  shows "\<not> P r"
proof -
  have "e_scan E dt (w_db w) (names_where P (T (w_db w))) = []"
  proof (cases "e_scan E dt (w_db w) (names_where P (T (w_db w)))")
    case (Cons m ms)
    then have f: "find_doc E dt T P w = (Inr (Some m), w)" by (simp add: find_doc_run)
    obtain s where "row (T (w_db w)) m = Some s" by (rule find_doc_some [OF f assms(2,3)])
    with Cons assms(1) show ?thesis by (simp add: find_row_run)
  qed
  then have "find_doc E dt T P w = (Inr None, w)" by (simp add: find_doc_run)
  from find_doc_none [OF this assms(2,3,4)] show ?thesis .
qed

lemma get_doc_okE:
  assumes "get_doc dt T n w = (Inr r, w')"
  obtains "row (T (w_db w)) n = Some r" "w' = w"
  using assms by (auto simp: get_doc_def split: option.splits)

lemma distinct_names_where: "unique_names t \<Longrightarrow> distinct (names_where P t)"
  unfolding unique_names_def names_where_def by (rule distinct_map_filter)

lemma map_fst_found:
  "map fst (List.map_filter (\<lambda>n. map_option (Pair n) (g n)) ns) = filter (\<lambda>n. g n \<noteq> None) ns"
  by (induction ns) (auto simp: List.map_filter_simps)

lemma set_found: "set (List.map_filter (\<lambda>n. map_option (Pair n) (g n)) ns) = {(n, r). n \<in> set ns \<and> g n = Some r}"
  by (induction ns) (auto simp: List.map_filter_simps split: option.splits)

text \<open>Logging that returns has added an event with its arguments and the session user.\<close>

lemma audit_logged:
  assumes "audit E n ty ds w = (Inr (), w')"
  obtains nm ev where "(nm, ev) \<in> set (t_events (w_db w'))" "ev_request ev = n" "ev_event_type ev = ty"
    "ev_details_json ev = (if ds = [] then None else Some (dumps (JObj ds)))"
proof -
  have "\<exists>nm ev. t_events (w_db w') = t_events (w_db w) @ [(nm, ev)] \<and> ev_request ev = n \<and> ev_event_type ev = ty
      \<and> ev_details_json ev = (if ds = [] then None else Some (dumps (JObj ds)))"
    using assms
    by (cases "row (t_events (w_db w)) (e_new_name E ''DSC Audit Event'' (map fst (t_events (w_db w))))")
      (auto simp: audit_def log_event_def insert_event_def event_before_insert_def event_before_save_def
        insert_row_def now_datetime_def new_name_def db_gets_def db_modify_def run_bind run_seq
        compute_event_hash_def Let_def add_row_def)
  then obtain nm ev where "t_events (w_db w') = t_events (w_db w) @ [(nm, ev)]" "ev_request ev = n"
      "ev_event_type ev = ty" "ev_details_json ev = (if ds = [] then None else Some (dumps (JObj ds)))" by blast
  with that [of nm ev] show thesis by simp
qed

section \<open>Invariants\<close>

text \<open>Preserving a predicate is a relation of the same kind; what leaves the signing requests
  alone preserves every predicate on them.\<close>

definition preserves :: "(world \<Rightarrow> bool) \<Rightarrow> world \<Rightarrow> world \<Rightarrow> bool" where
  "preserves I w w' \<longleftrightarrow> (I w \<longrightarrow> I w')"

interpretation inv: run_relation "preserves I" for I
  by unfold_locales (auto simp: preserves_def)

lemma requests_preserves: "keeps (same requests) m \<Longrightarrow> keeps (preserves (\<lambda>w. I (requests w))) m"
  by (simp add: keeps_def same_def preserves_def)

end
