(* ===== verification/Anchor.thy ===== *)
theory Anchor
  imports Frames
begin

text \<open>
  The dynamic signature placeholder (\<open>signature_anchor.py\<close>): the Jinja helper that writes
  the marker into a print format, and the scan that finds it in the rendered PDF. The page
  layout pdfminer extracts is an argument: the pages it yields and the exception, if any,
  that ends the iteration. Lengths are rationals in PDF points.
\<close>

section \<open>The marker\<close>

definition marker_prefix :: string where
  "marker_prefix = ''@@DSC_SIG_ANCHOR:''"

definition marker :: "(rat \<Rightarrow> string) \<Rightarrow> rat \<Rightarrow> rat \<Rightarrow> string" where
  "marker fmt_g width height = marker_prefix @ fmt_g width @ '':'' @ fmt_g height @ ''@@''"

text \<open>The helper; an argument \<open>float\<close> cannot convert is None, and \<open>fmt_g\<close> is the format
  \<open>{:g}\<close>.\<close>

definition dsc_signature_anchor :: "(rat \<Rightarrow> string) \<Rightarrow> rat option \<Rightarrow> rat option \<Rightarrow> string" where
  "dsc_signature_anchor fmt_g width height =
    (let (w, h) = (case (width, height) of (Some w, Some h) \<Rightarrow> (w, h) | _ \<Rightarrow> (200, 80))
     in ''<div class='' @ [quote] @ ''dsc-signature-anchor'' @ [quote] @ '' ''
        @ ''style='' @ [quote] @ ''width:'' @ fmt_g w @ ''pt;height:'' @ fmt_g h
        @ ''pt;position:relative;overflow:hidden;'' @ [quote] @ ''>''
        @ ''<span style='' @ [quote]
        @ ''color:transparent;font-size:1pt;line-height:1pt;white-space:nowrap;'' @ [quote] @ ''>''
        @ marker fmt_g w h @ ''</span>'' @ ''</div>'')"

section \<open>The regular expression \<open>_ANCHOR_RE\<close>\<close>

fun strip_prefix :: "string \<Rightarrow> string \<Rightarrow> string option" where
  "strip_prefix [] s = Some s"
| "strip_prefix (c # cs) [] = None"
| "strip_prefix (c # cs) (d # ds) = (if c = d then strip_prefix cs ds else None)"

text \<open>\<open>\d+(?:\.\d+)?\<close>: greedy matching never has to be undone, because what follows a number
  in the pattern is neither a digit nor a dot.\<close>

definition match_number :: "string \<Rightarrow> (string \<times> string) option" where
  "match_number s =
    (let ds = takeWhile is_digit s; rest = dropWhile is_digit s in
     if ds = [] then None
     else case rest of
       c # r \<Rightarrow>
         (let fs = takeWhile is_digit r in
          if c = CHR ''.'' \<and> fs \<noteq> [] then Some (ds @ c # fs, dropWhile is_digit r) else Some (ds, rest))
     | [] \<Rightarrow> Some (ds, rest))"

definition match_here :: "string \<Rightarrow> (string \<times> string) option" where
  "match_here s =
    Option.bind (strip_prefix marker_prefix s) (\<lambda>s1.
    Option.bind (match_number s1) (\<lambda>(w, s2).
    Option.bind (strip_prefix '':'' s2) (\<lambda>s3.
    Option.bind (match_number s3) (\<lambda>(h, s4).
    Option.bind (strip_prefix ''@@'' s4) (\<lambda>_. Some (w, h))))))"

text \<open>\<open>search\<close>: the leftmost match.\<close>

fun search_anchor :: "string \<Rightarrow> (string \<times> string) option" where
  "search_anchor [] = match_here []"
| "search_anchor (c # cs) = (case match_here (c # cs) of Some m \<Rightarrow> Some m | None \<Rightarrow> search_anchor cs)"

text \<open>\<open>float\<close> of a numeral that matched: integer part, and the decimals if there are any.\<close>

definition float_of :: "string \<Rightarrow> rat" where
  "float_of s =
    (let ds = takeWhile is_digit s; fs = drop 1 (dropWhile is_digit s)
     in of_nat (undec ds) + of_nat (undec fs) / 10 ^ length fs)"

section \<open>Finding the marker in a page layout\<close>

record layout_line =
  ln_text :: "string option"
  ln_bbox :: "rat \<times> rat \<times> rat \<times> rat"

datatype layout_element = TextContainer "layout_line list" | OtherElement

record anchor =
  an_page :: nat
  an_x :: rat
  an_top :: rat
  an_width :: rat
  an_height :: rat

fun scan_lines :: "nat \<Rightarrow> layout_line list \<Rightarrow> anchor option" where
  "scan_lines page [] = None"
| "scan_lines page (l # ls) =
    (case ln_text l of
       None \<Rightarrow> scan_lines page ls
     | Some text \<Rightarrow>
        (case search_anchor text of
           None \<Rightarrow> scan_lines page ls
         | Some (width, height) \<Rightarrow>
            (case ln_bbox l of (x0, y0, x1, y1) \<Rightarrow>
              Some \<lparr>an_page = page, an_x = x0, an_top = y1, an_width = float_of width,
                    an_height = float_of height\<rparr>)))"

fun scan_elements :: "nat \<Rightarrow> layout_element list \<Rightarrow> anchor option" where
  "scan_elements page [] = None"
| "scan_elements page (OtherElement # es) = scan_elements page es"
| "scan_elements page (TextContainer ls # es) =
    (case scan_lines page ls of Some a \<Rightarrow> Some a | None \<Rightarrow> scan_elements page es)"

fun scan_pages :: "nat \<Rightarrow> layout_element list list \<Rightarrow> anchor option" where
  "scan_pages page [] = None"
| "scan_pages page (es # pages) =
    (case scan_elements page es of Some a \<Rightarrow> Some a | None \<Rightarrow> scan_pages (Suc page) pages)"

text \<open>\<open>layout\<close> is None when pdfminer is not installed; otherwise the pages it yields before
  it is exhausted or raises. The scan never raises.\<close>

definition locate_signature_anchor ::
  "(layout_element list list \<times> error option) option \<Rightarrow> anchor option act" where
  "locate_signature_anchor layout =
    (case layout of
       None \<Rightarrow> ret None
     | Some (pages, err) \<Rightarrow>
        (case scan_pages 0 pages of
           Some a \<Rightarrow> ret (Some a)
         | None \<Rightarrow>
            (case err of
               None \<Rightarrow> ret None
             | Some e \<Rightarrow> seq (log_error ''DSC signature anchor scan failed'') (ret None))))"

section \<open>The marker is found again\<close>

lemma strip_prefix_append [simp]: "strip_prefix p (p @ s) = Some s"
  by (induction p) auto

lemma match_number_digits:
  assumes "ds \<noteq> []" and "\<forall>c \<in> set ds. is_digit c" and "\<not> is_digit c" and "c \<noteq> CHR ''.''"
  shows "match_number (ds @ c # s) = Some (ds, c # s)"
proof -
  have "takeWhile is_digit (ds @ c # s) = ds" "dropWhile is_digit (ds @ c # s) = c # s"
    using assms by (simp_all add: takeWhile_append2 dropWhile_append2)
  with assms show ?thesis by (simp add: match_number_def)
qed

lemma separators: "\<not> is_digit (CHR '':'')" "\<not> is_digit (CHR ''@'')"
  by (simp_all add: is_digit_def)

lemma match_here_marker:
  "match_here (marker_prefix @ dec m @ '':'' @ dec n @ ''@@'' @ s) = Some (dec m, dec n)"
  using match_number_digits [OF dec_nonempty dec_digits separators(1), of m "dec n @ ''@@'' @ s"]
    match_number_digits [OF dec_nonempty dec_digits separators(2), of n "''@'' @ s"]
  by (simp add: match_here_def)

lemma float_of_dec [simp]: "float_of (dec n) = of_nat n"
proof -
  have "takeWhile is_digit (dec n) = dec n" "dropWhile is_digit (dec n) = []"
    using dec_digits by (simp_all add: takeWhile_eq_all_conv dropWhile_eq_Nil_conv)
  then have "float_of (dec n) = of_nat (undec (dec n)) + of_nat (undec []) / 10 ^ length (drop 1 ([] :: string))"
    by (simp only: float_of_def Let_def drop_Nil)
  then show ?thesis by simp
qed

lemma search_anchor_append:
  assumes "match_here s = Some m" and "\<forall>k < length p. match_here (drop k p @ s) = None"
  shows "search_anchor (p @ s) = Some m"
  using assms(2)
proof (induction p)
  case Nil
  with assms(1) show ?case by (cases s) simp_all
next
  case (Cons c p)
  have "match_here (drop k p @ s) = None" if "k < length p" for k
    using Cons.prems that by (metis Suc_less_eq drop_Suc_Cons length_Cons)
  with Cons show ?case by (auto dest: spec [of _ 0])
qed

lemma match_here_no_at: "c \<noteq> CHR ''@'' \<Longrightarrow> match_here (c # s) = None"
  by (simp add: match_here_def marker_prefix_def)

lemma search_anchor_prefix:
  assumes "match_here s = Some m" and "CHR ''@'' \<notin> set p"
  shows "search_anchor (p @ s) = Some m"
proof (rule search_anchor_append [OF assms(1)], intro allI impI)
  fix k assume "k < length p"
  then have "drop k p = p ! k # drop (Suc k) p" by (rule Cons_nth_drop_Suc [symmetric])
  with \<open>k < length p\<close> assms(2) show "match_here (drop k p @ s) = None"
    by (metis append_Cons match_here_no_at nth_mem)
qed


end
