(* ===== verification/Base64.thy ===== *)
theory Base64
  imports Prelude
begin

text \<open>
  Python's \<open>base64.b64encode\<close> and \<open>base64.b64decode\<close> on byte strings (a byte is a
  character). Decoding is the non-strict automaton of \<open>binascii.a2b_base64\<close>: characters
  outside the alphabet are skipped, a complete padding ends the input, and what is left of
  a quantum is an error (None). Decoding what was encoded gives the bytes back, which is
  what lets a signing session carry a prepared PDF unchanged.
\<close>

definition b64_char :: "nat \<Rightarrow> char" where
  "b64_char v = (if v < 26 then char_of (65 + v) else if v < 52 then char_of (71 + v)
     else if v < 62 then char_of (v - 4) else if v = 62 then CHR ''+'' else CHR ''/'')"

definition b64_value :: "char \<Rightarrow> nat option" where
  "b64_value c = (let n = of_char c in
     if 65 \<le> n \<and> n \<le> 90 then Some (n - 65) else if 97 \<le> n \<and> n \<le> 122 then Some (n - 71)
     else if 48 \<le> n \<and> n \<le> 57 then Some (n + 4) else if c = CHR ''+'' then Some 62
     else if c = CHR ''/'' then Some 63 else None)"

fun b64encode :: "string \<Rightarrow> string" where
  "b64encode [] = []"
| "b64encode [a] = [b64_char (of_char a div 4), b64_char (of_char a mod 4 * 16), CHR ''='', CHR ''='']"
| "b64encode [a, b] = [b64_char (of_char a div 4), b64_char (of_char a mod 4 * 16 + of_char b div 16),
     b64_char (of_char b mod 16 * 4), CHR ''='']"
| "b64encode (a # b # c # rest) = b64_char (of_char a div 4) # b64_char (of_char a mod 4 * 16 + of_char b div 16)
     # b64_char (of_char b mod 16 * 4 + of_char c div 64) # b64_char (of_char c mod 64) # b64encode rest"

text \<open>The automaton: position in the quantum, bits left over, padding characters seen.\<close>

fun b64scan :: "nat \<Rightarrow> nat \<Rightarrow> nat \<Rightarrow> string \<Rightarrow> string option" where
  "b64scan q left pads [] = (if q = 0 then Some [] else None)"
| "b64scan q left pads (c # cs) =
    (if c = CHR ''='' then
       (if 2 \<le> q \<and> 4 \<le> q + Suc pads then Some []
        else b64scan q left (if 2 \<le> q then Suc pads else pads) cs)
     else case b64_value c of
       None \<Rightarrow> b64scan q left pads cs
     | Some v \<Rightarrow>
         (if q = 0 then b64scan 1 v 0 cs
          else if q = 1 then map_option (Cons (char_of (left * 4 + v div 16))) (b64scan 2 (v mod 16) 0 cs)
          else if q = 2 then map_option (Cons (char_of (left * 16 + v div 4))) (b64scan 3 (v mod 4) 0 cs)
          else map_option (Cons (char_of (left * 64 + v))) (b64scan 0 0 0 cs)))"

text \<open>A \<open>str\<close> argument with a character outside ASCII is rejected before decoding.\<close>

definition b64decode :: "string \<Rightarrow> string option" where
  "b64decode s = (if \<forall>c \<in> set s. (of_char c :: nat) < 128 then b64scan 0 0 0 s else None)"

section \<open>Round trip\<close>

lemma b64_value_ranges:
  "v < 26 \<Longrightarrow> b64_value (char_of (65 + v)) = Some v"
  "26 \<le> v \<Longrightarrow> v < 52 \<Longrightarrow> b64_value (char_of (71 + v)) = Some v"
  "52 \<le> v \<Longrightarrow> v < 62 \<Longrightarrow> b64_value (char_of (v - 4)) = Some v"
  "b64_value (CHR ''+'') = Some 62" "b64_value (CHR ''/'') = Some 63"
  by (auto simp: b64_value_def Let_def)

lemma b64_value_char [simp]: "v < 64 \<Longrightarrow> b64_value (b64_char v) = Some v"
proof -
  assume v: "v < 64"
  then have "v = 63" if "\<not> v < 26" "\<not> v < 52" "\<not> v < 62" "v \<noteq> 62" using that by linarith
  with v show ?thesis
    unfolding b64_char_def by (auto simp: b64_value_ranges)
qed

lemma b64_char_not_pad [simp]: "v < 64 \<Longrightarrow> b64_char v \<noteq> CHR ''=''"
proof
  assume "v < 64" and "b64_char v = CHR ''=''"
  then have "b64_value (CHR ''='') = Some v" by (metis b64_value_char)
  then show False by (simp add: b64_value_def)
qed

lemma b64_char_ascii [simp]: "(of_char (b64_char v) :: nat) < 128"
proof -
  have "(of_char (char_of k :: char) :: nat) < 128" if "k < 128" for k :: nat
    using that by simp
  moreover have "(of_char (CHR ''+'') :: nat) < 128" "(of_char (CHR ''/'') :: nat) < 128"
    by simp_all
  ultimately show ?thesis by (auto simp: b64_char_def)
qed

lemma of_char_less: "(of_char c :: nat) < 256"
  by (metis of_char_mod_256 mod_less_divisor zero_less_numeral)

lemma quantum_bounds:
  fixes a b :: nat
  assumes "a < 256" and "b < 256"
  shows "a div 4 < 64" "a mod 4 * 16 + b div 16 < 64" "b mod 16 * 4 + a div 64 < 64" "a mod 64 < 64"
    "a mod 4 * 16 < 64" "b mod 16 * 4 < 64"
  using assms by linarith+

text \<open>The bytes of a quantum are reassembled from its six-bit groups.\<close>

lemma quantum_bytes:
  fixes a b c :: nat
  assumes "a < 256" and "b < 256" and "c < 256"
  shows "a div 4 * 4 + (a mod 4 * 16 + b div 16) div 16 = a"
    "a div 4 * 4 + a mod 4 * 16 div 16 = a"
    "(a mod 4 * 16 + b div 16) mod 16 * 16 + (b mod 16 * 4 + c div 64) div 4 = b"
    "(a mod 4 * 16 + b div 16) mod 16 * 16 + b mod 16 * 4 div 4 = b"
    "(b mod 16 * 4 + c div 64) mod 4 * 64 + c mod 64 = c"
proof -
  have parts: "b div 16 < 16" "c div 64 < 4" using assms by linarith+
  have group: "(x * 16 + y) div 16 = x" "(x * 16 + y) mod 16 = y" if "y < 16" for x y :: nat
    using that by simp_all
  have group4: "(x * 4 + y) div 4 = x" "(x * 4 + y) mod 4 = y" if "y < 4" for x y :: nat
    using that by simp_all
  show "a div 4 * 4 + (a mod 4 * 16 + b div 16) div 16 = a" "a div 4 * 4 + a mod 4 * 16 div 16 = a"
    "(a mod 4 * 16 + b div 16) mod 16 * 16 + (b mod 16 * 4 + c div 64) div 4 = b"
    "(a mod 4 * 16 + b div 16) mod 16 * 16 + b mod 16 * 4 div 4 = b"
    "(b mod 16 * 4 + c div 64) mod 4 * 64 + c mod 64 = c"
    by (simp_all only: group [OF parts(1)] group4 [OF parts(2)]) simp_all
qed

lemma b64scan_char:
  assumes "v < 64"
  shows "b64scan 0 left pads (b64_char v # cs) = b64scan 1 v 0 cs"
    "b64scan (Suc 0) left pads (b64_char v # cs) =
       map_option (Cons (char_of (left * 4 + v div 16))) (b64scan 2 (v mod 16) 0 cs)"
    "b64scan 2 left pads (b64_char v # cs) =
       map_option (Cons (char_of (left * 16 + v div 4))) (b64scan 3 (v mod 4) 0 cs)"
    "b64scan 3 left pads (b64_char v # cs) =
       map_option (Cons (char_of (left * 64 + v))) (b64scan 0 0 0 cs)"
  using assms by simp_all

lemma b64scan_encode: "b64scan 0 left pads (b64encode bs) = Some bs"
proof (induction bs arbitrary: left pads rule: b64encode.induct)
  case 1
  show ?case by simp
next
  case (2 a)
  show ?case
    using quantum_bounds [of "of_char a" "of_char a"] quantum_bytes [of "of_char a" "of_char a" "of_char a"]
    by (simp add: b64scan_char of_char_less)
next
  case (3 a b)
  show ?case
    using quantum_bounds [of "of_char a" "of_char b"]
      quantum_bytes [of "of_char a" "of_char b" "of_char b"]
    by (simp add: b64scan_char of_char_less)
next
  case (4 a b c rest)
  show ?case
    using quantum_bounds [of "of_char a" "of_char b"] quantum_bounds [of "of_char c" "of_char b"]
      quantum_bytes [of "of_char a" "of_char b" "of_char c"]
    by (simp add: b64scan_char of_char_less "4.IH")
qed

lemma b64encode_ascii: "c \<in> set (b64encode bs) \<Longrightarrow> (of_char c :: nat) < 128"
  by (induction bs rule: b64encode.induct) auto

theorem b64_round_trip [simp]: "b64decode (b64encode bs) = Some bs"
  by (simp add: b64decode_def b64scan_encode b64encode_ascii)

lemma b64decode_empty [simp]: "b64decode [] = Some []"
  using b64_round_trip [of "[]"] by simp

end
