(* ===== verification/Engine.thy ===== *)
theory Engine
  imports Anchor Base64
begin

text \<open>
  The signing engine (\<open>signing_engine.py\<close>): the sessions kept in Redis between the two
  phases, the preparation of the PDF and of the hash, the embedding of the signature, the
  storing of the signed file, the verification, and the stamp text. PDF rendering, pyHanko,
  asn1crypto and pdfminer are the argument \<open>pdf_env\<close>: what each call returns or raises.
\<close>

section \<open>The packages the engine calls\<close>

type_synonym box = "rat \<times> rat \<times> rat \<times> rat"

record certificate =
  ce_issuer :: string
  ce_serial_number :: int
  ce_der :: string

record digest_request =
  dq_pdf_bytes :: string
  dq_field_name :: string
  dq_on_page :: int
  dq_box :: "box option"
  dq_md_algorithm :: string
  dq_location :: string
  dq_reason :: string
  dq_signer_name :: string
  dq_signer_cert :: certificate
  dq_bytes_reserved :: int

record digest_result =
  dr_prepared_pdf :: string
  dr_document_digest :: string
  dr_region_start :: nat
  dr_region_end :: nat

record cms_input =
  ci_signer_cert :: certificate
  ci_chain :: "certificate list"
  ci_signed_attrs :: string
  ci_signature :: string

record embedded_signature =
  es_field_name :: string
  es_data :: string

record signature_status =
  sg_intact :: bool
  sg_valid :: bool
  sg_trusted :: bool
  sg_bottom_line :: bool

record pdf_env =
  p_get_print :: "db \<Rightarrow> string \<Rightarrow> string \<Rightarrow> string option \<Rightarrow> error + string"
  p_get_pdf :: "string \<Rightarrow> error + string"
  p_extract_pages :: "string \<Rightarrow> (layout_element list list \<times> error option) option"
  p_load_cert :: "string \<Rightarrow> error + certificate"
  p_digest_doc_for_signing :: "digest_request \<Rightarrow> error + digest_result"
  p_signed_attrs :: "datetime \<Rightarrow> string \<Rightarrow> string"
  p_cms_der :: "cms_input \<Rightarrow> string"
  p_fill_with_cms :: "string \<Rightarrow> nat \<Rightarrow> nat \<Rightarrow> string \<Rightarrow> error + string"
  p_hex :: "string \<Rightarrow> string"
  p_like :: "string \<Rightarrow> string \<Rightarrow> bool"
  p_store_file :: "db \<Rightarrow> file_doc \<Rightarrow> string \<times> string"
  p_has_dsc_signed_field :: bool
  p_builtin_bundle :: "string option"
  p_unarmor :: "string \<Rightarrow> error + string list"
  p_embedded_signatures :: "string \<Rightarrow> error + embedded_signature list"
  p_validate :: "certificate list option \<Rightarrow> embedded_signature \<Rightarrow> error + signature_status"
  p_default_print_format :: "string \<Rightarrow> string option"
  p_json_loads :: "string \<Rightarrow> json option"

section \<open>Sessions in the cache\<close>

definition cache_set :: "env \<Rightarrow> string \<Rightarrow> cached \<Rightarrow> int \<Rightarrow> unit act" where
  "cache_set E key v ttl =
    bind (now_datetime E) (\<lambda>t.
    modify (\<lambda>w. w\<lparr>w_cache := AList.update key (v, t + seconds ttl) (w_cache w)\<rparr>))"

definition cache_get :: "env \<Rightarrow> string \<Rightarrow> cached option act" where
  "cache_get E key =
    bind (now_datetime E) (\<lambda>t.
    gets (\<lambda>w. case map_of (w_cache w) key of
        None \<Rightarrow> None
      | Some (v, expires) \<Rightarrow> if t < expires then Some v else None))"

definition cache_delete :: "string \<Rightarrow> unit act" where
  "cache_delete key = modify (\<lambda>w. w\<lparr>w_cache := AList.delete key (w_cache w)\<rparr>)"

definition SESSION_TTL_SECONDS :: int where
  "SESSION_TTL_SECONDS = 600"

definition session_key :: "string \<Rightarrow> string" where
  "session_key session_id = ''e_sign:session:'' @ session_id"

definition store_session :: "env \<Rightarrow> string \<Rightarrow> session \<Rightarrow> unit act" where
  "store_session E session_id s = cache_set E (session_key session_id) (CSession s) SESSION_TTL_SECONDS"

definition load_session :: "env \<Rightarrow> string \<Rightarrow> bool \<Rightarrow> session option act" where
  "load_session E session_id pop =
    bind (cache_get E (session_key session_id)) (\<lambda>raw.
    case raw of
      None \<Rightarrow> ret None
    | Some v \<Rightarrow>
        seq (cond pop (cache_delete (session_key session_id)))
        (ret (case v of CSession s \<Rightarrow> Some s | _ \<Rightarrow> None)))"

definition get_session_info :: "env \<Rightarrow> string \<Rightarrow> session option act" where
  "get_session_info E session_id = load_session E session_id False"

definition cleanup_expired_sessions :: "int \<Rightarrow> int" where
  "cleanup_expired_sessions max_age_seconds = 0"

section \<open>Where the signature goes\<close>

record placement =
  pl_page :: int
  pl_x :: rat
  pl_y :: rat
  pl_width :: rat
  pl_height :: rat

definition or_rat :: "rat \<Rightarrow> rat \<Rightarrow> rat" where
  "or_rat x d = (if x = 0 then d else x)"

definition placement_box :: "placement \<Rightarrow> int \<times> box option" where
  "placement_box p =
    (max ((if pl_page p = 0 then 1 else pl_page p) - 1) 0,
     Some (pl_x p, pl_y p, pl_x p + or_rat (pl_width p) 200, pl_y p + or_rat (pl_height p) 80))"

definition anchor_box :: "anchor \<Rightarrow> int \<times> box option" where
  "anchor_box a =
    (int (an_page a), Some (an_x a, an_top a - an_height a, an_x a + an_width a, an_top a))"

definition template_box :: "signature_field list \<Rightarrow> int \<times> box option" where
  "template_box fs =
    (case fs of
       [] \<Rightarrow> (0, None)
     | f # _ \<Rightarrow>
        (sf_page_number f - 1,
         if sf_x f \<noteq> 0 \<and> sf_y f \<noteq> 0
         then Some (sf_x f, sf_y f, sf_x f + or_rat (sf_width f) 200, sf_y f + or_rat (sf_height f) 80)
         else None))"

definition signature_box :: "pdf_env \<Rightarrow> signature_template \<Rightarrow> string \<Rightarrow> placement option \<Rightarrow> (int \<times> box option) act" where
  "signature_box P tmpl pdf_bytes placement =
    (case placement of
       Some p \<Rightarrow> ret (placement_box p)
     | None \<Rightarrow>
        bind (locate_signature_anchor (p_extract_pages P pdf_bytes)) (\<lambda>a.
        ret (case a of Some a \<Rightarrow> anchor_box a | None \<Rightarrow> template_box (st_fields tmpl))))"

section \<open>The stamp text\<close>

definition build_stamp_text :: "settings \<Rightarrow> signature_template \<Rightarrow> profile \<Rightarrow> string \<Rightarrow> string" where
  "build_stamp_text cfg tmpl pf signer_location_text =
    join [char_of (10::nat)]
     ((if st_stamp_show_digitally_signed_by tmpl then [''Digitally signed by''] else [])
      @ (if st_stamp_show_signer_name tmpl
         then [or_str (or_opt (pf_certificate_common_name pf) (pf_label pf)) (pf_profile_name pf)] else [])
      @ (if st_stamp_show_designation tmpl
         then (case or_opt (pf_designation_for_stamp pf) (pf_label pf) of
                 None \<Rightarrow> [] | Some d \<Rightarrow> if d = '''' then [] else [d]) else [])
      @ (if st_stamp_show_timestamp tmpl
         then [''Date: '' @ or_str (st_stamp_timestamp_format tmpl) ''%d-%m-%Y %H:%M:%S %Z''] else [])
      @ (if st_stamp_show_reason tmpl
         then [''Reason: '' @ or_str (se_default_reason cfg) ''Approved''] else [])
      @ (if st_stamp_show_location tmpl
         then [''Location: '' @ (if signer_location_text \<noteq> '''' then signer_location_text
                 else or_str (se_default_location cfg) '''')] else []))"

section \<open>Phase 1: prepare\<close>

definition generate_pdf_from_print_format :: "pdf_env \<Rightarrow> string \<Rightarrow> string \<Rightarrow> string option \<Rightarrow> string act" where
  "generate_pdf_from_print_format P doctype docname print_format =
    bind (db_gets (\<lambda>d. p_get_print P d doctype docname print_format)) (\<lambda>html.
    bind (lift html) (\<lambda>h.
    lift (p_get_pdf P h)))"

record prepared =
  pr_session_id :: string
  pr_hash_to_sign :: string
  pr_hash_algorithm :: string
  pr_expected_cert_fingerprint :: string

definition prepare_pdf_for_signing ::
  "env \<Rightarrow> pdf_env \<Rightarrow> string \<Rightarrow> string \<Rightarrow> string option \<Rightarrow> signature_template \<Rightarrow> profile \<Rightarrow> string \<Rightarrow>
   string \<Rightarrow> string option \<Rightarrow> string option \<Rightarrow> placement option \<Rightarrow> prepared act" where
  "prepare_pdf_for_signing E P doctype docname print_format tmpl pf signing_request_name
      cert_der signer_location_text pdf_bytes placement =
    bind (case pdf_bytes of None \<Rightarrow> generate_pdf_from_print_format P doctype docname print_format
          | Some b \<Rightarrow> ret b) (\<lambda>pdf.
    bind (signature_box P tmpl pdf placement) (\<lambda>(page_number, box).
    bind (db_gets t_settings) (\<lambda>cfg.
    let hash_algorithm = or_str (se_default_hash_algorithm cfg) ''sha256'';
        reason = or_str (se_default_reason cfg) ''Approved'';
        location = or_str (or_opt signer_location_text (se_default_location cfg)) '''';
        signer_name = or_str (or_opt (pf_certificate_common_name pf) (pf_label pf)) (pf_profile_name pf);
        stamp_text = build_stamp_text cfg tmpl pf location;
        field_name = ''DSC_Signature_'' @ signing_request_name
    in
    bind (random_token E) (\<lambda>session_id.
    bind (lift (p_load_cert P cert_der)) (\<lambda>signer_cert.
    bind (lift (p_digest_doc_for_signing P
           \<lparr>dq_pdf_bytes = pdf, dq_field_name = field_name, dq_on_page = page_number, dq_box = box,
            dq_md_algorithm = hash_algorithm, dq_location = location, dq_reason = reason,
            dq_signer_name = signer_name, dq_signer_cert = signer_cert, dq_bytes_reserved = 32768\<rparr>)) (\<lambda>prep.
    bind (now_datetime E) (\<lambda>signing_time.
    let signed_attrs_der = p_signed_attrs P (signing_time - signing_time mod 1000000) (dr_document_digest prep);
        hash_to_sign_hex = e_sha256 E signed_attrs_der
    in
    bind (now_datetime E) (\<lambda>created_at.
    seq (store_session E session_id
          \<lparr>ss_hash_algorithm = hash_algorithm, ss_field_name = field_name,
           ss_signing_request_name = signing_request_name, ss_doctype = doctype, ss_docname = docname,
           ss_print_format = print_format, ss_created_at = e_str_datetime E created_at,
           ss_prepared_pdf_b64 = b64encode (dr_prepared_pdf prep),
           ss_signed_attrs_b64 = b64encode signed_attrs_der, ss_cert_der_b64 = b64encode cert_der,
           ss_document_digest_hex = p_hex P (dr_document_digest prep),
           ss_reserved_region_start = dr_region_start prep, ss_reserved_region_end = dr_region_end prep\<rparr>)
    (ret \<lparr>pr_session_id = session_id, pr_hash_to_sign = hash_to_sign_hex,
          pr_hash_algorithm = hash_algorithm, pr_expected_cert_fingerprint = e_sha256 E cert_der\<rparr>)))))))))"

section \<open>The engine writes the cache only\<close>

lemma keeps_db_cache [keeps_db]:
  "keeps (same both_dbs) (cache_set E k v ttl)" "keeps (same both_dbs) (cache_get E k)"
  "keeps (same both_dbs) (cache_delete k)"
proof -
  have 1: "keeps (same both_dbs) (modify (\<lambda>w. w\<lparr>w_cache := f w\<rparr>))"
    "keeps (same both_dbs) (gets g)" for f g
    by (simp_all add: keeps_def same_def both_dbs_def)
  show "keeps (same both_dbs) (cache_set E k v ttl)" "keeps (same both_dbs) (cache_get E k)"
    "keeps (same both_dbs) (cache_delete k)"
    unfolding cache_set_def cache_get_def cache_delete_def by (intro keeps_db 1)+
qed

lemma keeps_db_engine [keeps_db]:
  "keeps (same both_dbs) (store_session E sid ss)" "keeps (same both_dbs) (load_session E sid pop)"
  "keeps (same both_dbs) (get_session_info E sid)"
  "keeps (same both_dbs) (locate_signature_anchor layout)"
  "keeps (same both_dbs) (signature_box P tmpl pdf placement)"
  "keeps (same both_dbs) (generate_pdf_from_print_format P dt dn pf)"
proof -
  show "keeps (same both_dbs) (store_session E sid ss)"
    unfolding store_session_def by (intro keeps_db)
  show 1: "keeps (same both_dbs) (load_session E sid pop)" for pop
    unfolding load_session_def by (intro keeps_db)
  show "keeps (same both_dbs) (get_session_info E sid)"
    unfolding get_session_info_def by (rule 1)
  show 2: "keeps (same both_dbs) (locate_signature_anchor layout)" for layout
    unfolding locate_signature_anchor_def by (intro keeps_db)
  show "keeps (same both_dbs) (signature_box P tmpl pdf placement)"
    unfolding signature_box_def by (intro keeps_db 2)
  show "keeps (same both_dbs) (generate_pdf_from_print_format P dt dn pf)"
    unfolding generate_pdf_from_print_format_def by (intro keeps_db)
qed

lemma keeps_db_prepare [keeps_db]:
  "keeps (same both_dbs) (prepare_pdf_for_signing E P dt dn pfm tmpl pf name der loc pdf placement)"
  unfolding prepare_pdf_for_signing_def Let_def by (intro keeps_db)

declare keeps_db_cache [THEN keeps_db_saved, keeps_saved] keeps_db_cache [THEN keeps_db_requests, keeps_requests] keeps_db_cache [THEN keeps_db_now, keeps_now] keeps_db_cache [THEN keeps_db_trail, keeps_trail]
  keeps_db_engine [THEN keeps_db_saved, keeps_saved] keeps_db_engine [THEN keeps_db_requests, keeps_requests] keeps_db_engine [THEN keeps_db_now, keeps_now] keeps_db_engine [THEN keeps_db_trail, keeps_trail]
  keeps_db_prepare [THEN keeps_db_saved, keeps_saved] keeps_db_prepare [THEN keeps_db_requests, keeps_requests] keeps_db_prepare [THEN keeps_db_now, keeps_now] keeps_db_prepare [THEN keeps_db_trail, keeps_trail]

end
