(* ===== verification/Embed.thy ===== *)
theory Embed
  imports Engine
begin

text \<open>
  The second phase of the signing engine (\<open>signing_engine.py\<close>): building the CMS from the
  token's signature and the stored session, injecting it into the prepared PDF, naming and
  storing the signed file, and verifying it against the trust store.
\<close>

section \<open>Phase 2: embed the signature\<close>

definition decode :: "string \<Rightarrow> string act" where
  "decode s = lift (case b64decode s of
      None \<Rightarrow> Inl (OtherError ''Error'' ''Incorrect padding'') | Some b \<Rightarrow> Inr b)"

text \<open>The elements \<open>for c in cert_chain_der_b64\<close> yields, for the values JSON can hold; a
  value that is false is not iterated at all.\<close>

fun as_string :: "json \<Rightarrow> error + string" where
  "as_string (JStr s) = Inr s"
| "as_string _ = Inl (OtherError ''TypeError'' ''argument should be a bytes-like object or ASCII string'')"

fun chain_items :: "json \<Rightarrow> error + json list" where
  "chain_items JNull = Inr []"
| "chain_items (JBool b) = (if b then Inl (OtherError ''TypeError'' ''bool object is not iterable'') else Inr [])"
| "chain_items (JInt i) = (if i = 0 then Inr [] else Inl (OtherError ''TypeError'' ''int object is not iterable''))"
| "chain_items (JFloat r) =
    (if r \<in> {''0.0'', ''-0.0''} then Inr [] else Inl (OtherError ''TypeError'' ''float object is not iterable''))"
| "chain_items (JStr s) = Inr (map (\<lambda>c. JStr [c]) s)"
| "chain_items (JList xs) = Inr xs"
| "chain_items (JObj kvs) = Inr (map (\<lambda>kv. JStr (fst kv)) kvs)"

fun load_chain :: "pdf_env \<Rightarrow> json list \<Rightarrow> certificate list act" where
  "load_chain P [] = ret []"
| "load_chain P (c # cs) =
    bind (lift (as_string c)) (\<lambda>s.
    bind (decode s) (\<lambda>der.
    bind (lift (p_load_cert P der)) (\<lambda>cert.
    bind (load_chain P cs) (\<lambda>certs.
    ret (cert # certs)))))"

record signed_result =
  sd_signed_pdf_bytes :: string
  sd_file_name :: string
  sd_doctype :: string
  sd_docname :: string
  sd_signing_request_name :: string
  sd_certificate_fingerprint :: string

definition session_expired :: error where
  "session_expired = ValidationError ''Signing session expired or not found. Please try again.''"

definition signed_file_name :: "string \<Rightarrow> nat \<Rightarrow> string" where
  "signed_file_name docname existing =
    (if existing \<noteq> 0 then docname @ ''_signed_v'' @ dec (existing + 1) @ ''.pdf''
     else docname @ ''_signed_v1.pdf'')"

definition signed_versions :: "pdf_env \<Rightarrow> string \<Rightarrow> string \<Rightarrow> db \<Rightarrow> string list" where
  "signed_versions P doctype docname d =
    names_where (\<lambda>f. fl_attached_to_doctype f = Some doctype \<and> fl_attached_to_name f = Some docname
      \<and> p_like P (docname @ ''_signed_v%.pdf'') (fl_file_name f)) (t_files d)"

definition finalize_signed_pdf :: "env \<Rightarrow> pdf_env \<Rightarrow> string \<Rightarrow> string \<Rightarrow> json \<Rightarrow> signed_result act" where
  "finalize_signed_pdf E P session_id signature_bytes_b64 cert_chain_der_b64 =
    bind (load_session E session_id True) (\<lambda>session.
    case session of
      None \<Rightarrow> raise session_expired
    | Some ss \<Rightarrow>
        bind (decode signature_bytes_b64) (\<lambda>signature_bytes.
        bind (decode (ss_cert_der_b64 ss)) (\<lambda>cert_der.
        bind (lift (p_load_cert P cert_der)) (\<lambda>signer_cert.
        bind (lift (chain_items cert_chain_der_b64)) (\<lambda>items.
        bind (load_chain P items) (\<lambda>chain_certs.
        bind (decode (ss_signed_attrs_b64 ss)) (\<lambda>signed_attrs_der.
        let cms_bytes = p_cms_der P \<lparr>ci_signer_cert = signer_cert, ci_chain = chain_certs,
              ci_signed_attrs = signed_attrs_der, ci_signature = signature_bytes\<rparr>
        in
        bind (decode (ss_prepared_pdf_b64 ss)) (\<lambda>prepared_pdf_bytes.
        bind (lift (p_fill_with_cms P prepared_pdf_bytes (ss_reserved_region_start ss)
               (ss_reserved_region_end ss) cms_bytes)) (\<lambda>signed_pdf_bytes.
        bind (db_gets (\<lambda>d. length (signed_versions P (ss_doctype ss) (ss_docname ss) d))) (\<lambda>existing.
        ret \<lparr>sd_signed_pdf_bytes = signed_pdf_bytes,
             sd_file_name = signed_file_name (ss_docname ss) existing,
             sd_doctype = ss_doctype ss, sd_docname = ss_docname ss,
             sd_signing_request_name = ss_signing_request_name ss,
             sd_certificate_fingerprint = e_sha256 E cert_der\<rparr>))))))))))"

section \<open>Storing the signed file\<close>

text \<open>\<open>p_store_file\<close> is the name and URL the File document gets when its content is written.\<close>

definition save_signed_pdf :: "env \<Rightarrow> pdf_env \<Rightarrow> signed_result \<Rightarrow> (string \<times> file_doc) act" where
  "save_signed_pdf E P sr =
    bind (new_name E ''File'' t_files) (\<lambda>n.
    bind (db_gets (\<lambda>d.
      let f = \<lparr>fl_file_name = sd_file_name sr, fl_file_url = '''',
               fl_attached_to_doctype = Some (sd_doctype sr),
               fl_attached_to_name = Some (sd_docname sr), fl_content = Bytes (sd_signed_pdf_bytes sr),
               fl_is_private = True, fl_is_dsc_signed = False\<rparr>
      in case p_store_file P d f of (name, url) \<Rightarrow> f\<lparr>fl_file_name := name, fl_file_url := url\<rparr>)) (\<lambda>f.
    bind (insert_row ''File'' t_files (\<lambda>u d. d\<lparr>t_files := u (t_files d)\<rparr>) n f) (\<lambda>_.
    seq (cond (p_has_dsc_signed_field P) (set_file n (\<lambda>f. f\<lparr>fl_is_dsc_signed := True\<rparr>)))
    (ret (n, f)))))"

section \<open>Verification\<close>

text \<open>UTF-8 encoding of a code point, as \<open>str.encode()\<close> gives it.\<close>

definition utf8 :: "nat \<Rightarrow> string" where
  "utf8 n =
    (if n < 128 then [char_of n]
     else if n < 2048 then [char_of (192 + n div 64), char_of (128 + n mod 64)]
     else if n < 65536 then [char_of (224 + n div 4096), char_of (128 + n div 64 mod 64), char_of (128 + n mod 64)]
     else [char_of (240 + n div 262144), char_of (128 + n div 4096 mod 64),
           char_of (128 + n div 64 mod 64), char_of (128 + n mod 64)])"

fun load_certs :: "pdf_env \<Rightarrow> string list \<Rightarrow> error + certificate list" where
  "load_certs P [] = Inr []"
| "load_certs P (der # ders) =
    (case p_load_cert P der of
       Inl e \<Rightarrow> Inl e
     | Inr c \<Rightarrow> (case load_certs P ders of Inl e \<Rightarrow> Inl e | Inr cs \<Rightarrow> Inr (c # cs)))"

definition parse_pem_certs :: "pdf_env \<Rightarrow> content \<Rightarrow> error + certificate list" where
  "parse_pem_certs P pem =
    (case p_unarmor P (case pem of Bytes b \<Rightarrow> b | Text cps \<Rightarrow> concat (map utf8 cps)) of
       Inl e \<Rightarrow> Inl e
     | Inr ders \<Rightarrow> load_certs P ders)"

text \<open>\<open>frappe.get_doc("File", {"file_url": url})\<close>: some file with that URL, or an error.\<close>

definition get_file_by_url :: "env \<Rightarrow> string \<Rightarrow> file_doc act" where
  "get_file_by_url E url =
    bind (find_doc E ''File'' t_files (\<lambda>f. fl_file_url f = url)) (\<lambda>n.
    case n of None \<Rightarrow> raise (DoesNotExistError ''File'' url) | Some n \<Rightarrow> get_doc ''File'' t_files n)"

definition load_trust_store :: "env \<Rightarrow> pdf_env \<Rightarrow> certificate list option act" where
  "load_trust_store E P =
    catch
      (bind (case p_builtin_bundle P of None \<Rightarrow> ret [] | Some pem \<Rightarrow> lift (parse_pem_certs P (Bytes pem))) (\<lambda>builtin.
       bind (db_gets (\<lambda>d. se_trust_store_bundle (t_settings d))) (\<lambda>bundle_url.
       bind (if truthy bundle_url
             then bind (get_file_by_url E (or_str bundle_url '''')) (\<lambda>f. lift (parse_pem_certs P (fl_content f)))
             else ret []) (\<lambda>custom.
       let anchors = builtin @ custom
       in ret (if anchors = [] then None else Some anchors)))))
      (\<lambda>_. seq (log_error ''DSC trust store load failed'') (ret None))"

record signature_check =
  rs_field_name :: string
  rs_intact :: "bool option"
  rs_valid :: "bool option"
  rs_trusted :: bool
  rs_bottom_line :: bool
  rs_validation_error :: "string option"

record verification =
  vf_is_valid :: bool
  vf_signatures :: "signature_check list option"
  vf_trust_store_configured :: "bool option"
  vf_error :: "string option"

definition check_signature :: "pdf_env \<Rightarrow> certificate list option \<Rightarrow> embedded_signature \<Rightarrow> signature_check" where
  "check_signature P context sg =
    (case p_validate P context sg of
       Inr st \<Rightarrow> \<lparr>rs_field_name = es_field_name sg, rs_intact = Some (sg_intact st),
          rs_valid = Some (sg_valid st), rs_trusted = sg_trusted st,
          rs_bottom_line = sg_bottom_line st, rs_validation_error = None\<rparr>
     | Inl ve \<Rightarrow> \<lparr>rs_field_name = es_field_name sg, rs_intact = None, rs_valid = None,
          rs_trusted = False, rs_bottom_line = False, rs_validation_error = Some (err_text ve)\<rparr>)"

definition failed_verification :: "string \<Rightarrow> verification" where
  "failed_verification msg =
    \<lparr>vf_is_valid = False, vf_signatures = None, vf_trust_store_configured = None, vf_error = Some msg\<rparr>"

definition verify_signed_pdf :: "env \<Rightarrow> pdf_env \<Rightarrow> string \<Rightarrow> verification act" where
  "verify_signed_pdf E P pdf_bytes =
    (case p_embedded_signatures P pdf_bytes of
       Inl e \<Rightarrow> ret (failed_verification (err_text e))
     | Inr [] \<Rightarrow> ret (failed_verification ''No signatures found in PDF'')
     | Inr sigs \<Rightarrow>
        bind (load_trust_store E P) (\<lambda>context.
        let results = map (check_signature P context) sigs
        in ret \<lparr>vf_is_valid = (\<forall>r \<in> set results. rs_bottom_line r), vf_signatures = Some results,
                vf_trust_store_configured = Some (context \<noteq> None), vf_error = None\<rparr>))"

definition signature_count :: "verification \<Rightarrow> nat option" where
  "signature_count v = map_option length (vf_signatures v)"

section \<open>Results as JSON, for the audit trail\<close>

definition json_bool_opt :: "bool option \<Rightarrow> json" where
  "json_bool_opt b = (case b of None \<Rightarrow> JNull | Some b \<Rightarrow> JBool b)"

definition signature_check_json :: "signature_check \<Rightarrow> json" where
  "signature_check_json r = JObj
    ([(''field_name'', JStr (rs_field_name r)), (''intact'', json_bool_opt (rs_intact r)),
      (''valid'', json_bool_opt (rs_valid r)), (''trusted'', JBool (rs_trusted r)),
      (''bottom_line'', JBool (rs_bottom_line r))]
     @ (case rs_validation_error r of None \<Rightarrow> [] | Some m \<Rightarrow> [(''validation_error'', JStr m)]))"

definition verification_json :: "verification \<Rightarrow> json" where
  "verification_json v = JObj
    ([(''is_valid'', JBool (vf_is_valid v))]
     @ (case vf_signatures v of None \<Rightarrow> []
        | Some rs \<Rightarrow> [(''signatures'', JList (map signature_check_json rs)),
                       (''signature_count'', JInt (int (length rs)))])
     @ (case vf_trust_store_configured v of None \<Rightarrow> [] | Some b \<Rightarrow> [(''trust_store_configured'', JBool b)])
     @ (case vf_error v of None \<Rightarrow> [] | Some m \<Rightarrow> [(''error'', JStr m)]))"

section \<open>Only the file is written\<close>

lemma keeps_db_embed [keeps_db]:
  "keeps (same both_dbs) (decode s)" "keeps (same both_dbs) (load_chain P items)"
  "keeps (same both_dbs) (finalize_signed_pdf E P sid sig chain)"
  "keeps (same both_dbs) (get_file_by_url E url)" "keeps (same both_dbs) (load_trust_store E P)"
  "keeps (same both_dbs) (verify_signed_pdf E P pdf)"
proof -
  show 1: "keeps (same both_dbs) (decode s)" for s
    unfolding decode_def by (intro keeps_db)
  show 2: "keeps (same both_dbs) (load_chain P items)" for items
  proof (induction items)
    case (Cons c cs)
    then show ?case unfolding load_chain.simps by (intro keeps_db 1)
  qed (unfold load_chain.simps, intro keeps_db)
  show "keeps (same both_dbs) (finalize_signed_pdf E P sid sig chain)"
    unfolding finalize_signed_pdf_def Let_def by (intro keeps_db 1 2)
  show 3: "keeps (same both_dbs) (get_file_by_url E url)" for url
    unfolding get_file_by_url_def by (intro keeps_db)
  show 4: "keeps (same both_dbs) (load_trust_store E P)"
    unfolding load_trust_store_def Let_def by (intro keeps_db 3)
  show "keeps (same both_dbs) (verify_signed_pdf E P pdf)"
    unfolding verify_signed_pdf_def Let_def by (intro keeps_db 4)
qed

declare keeps_db_embed [THEN keeps_db_saved, keeps_saved] keeps_db_embed [THEN keeps_db_requests, keeps_requests] keeps_db_embed [THEN keeps_db_now, keeps_now] keeps_db_embed [THEN keeps_db_trail, keeps_trail]

lemma keeps_saved_signed_pdf [keeps_saved]: "keeps (same w_saved) (save_signed_pdf E P sd)"
  unfolding save_signed_pdf_def by (intro keeps_saved)

lemma keeps_requests_signed_pdf [keeps_requests]: "keeps (same requests) (save_signed_pdf E P sd)"
  unfolding save_signed_pdf_def by (intro keeps_requests keeps_requests_insert) simp

lemma keeps_trail_signed_pdf [keeps_trail]: "keeps audit_ext (save_signed_pdf E P sd)"
  unfolding save_signed_pdf_def by (intro keeps_trail keeps_trail_insert) (simp_all add: trail_prefix_def names_kept)

lemma keeps_cache_embed [keeps_cache]:
  "keeps (same w_cache) (decode s)" "keeps (same w_cache) (load_chain P items)"
  "keeps (same w_cache) (get_file_by_url E url)" "keeps (same w_cache) (load_trust_store E P)"
  "keeps (same w_cache) (verify_signed_pdf E P pdf)" "keeps (same w_cache) (save_signed_pdf E P sd)"
proof -
  show 1: "keeps (same w_cache) (decode s)" for s
    unfolding decode_def by (intro keeps_cache)
  show 2: "keeps (same w_cache) (load_chain P items)" for items
  proof (induction items)
    case (Cons c cs)
    then show ?case unfolding load_chain.simps by (intro keeps_cache 1)
  qed (unfold load_chain.simps, intro keeps_cache)
  show 3: "keeps (same w_cache) (get_file_by_url E url)" for url
    unfolding get_file_by_url_def by (intro keeps_cache)
  show 4: "keeps (same w_cache) (load_trust_store E P)"
    unfolding load_trust_store_def Let_def by (intro keeps_cache 3)
  show "keeps (same w_cache) (verify_signed_pdf E P pdf)"
    unfolding verify_signed_pdf_def Let_def by (intro keeps_cache 4)
  show "keeps (same w_cache) (save_signed_pdf E P sd)"
    unfolding save_signed_pdf_def by (intro keeps_cache)
qed

end
