(* ===== verification/Geocoding.thy ===== *)
theory Geocoding
  imports Embed
begin

text \<open>
  Reverse geocoding of the signer's position (\<open>geocoding.py\<close>). The HTTP services are the
  argument \<open>geo_env\<close>: the parsed reply, or the exception of the request. Coordinates are
  the texts the browser sent; \<open>e_float\<close> gives the text \<open>repr\<close> prints for the float, or
  None where \<open>float\<close> raises.
\<close>

record nominatim_reply =
  nr_display_name :: "string option"
  nr_data :: json

record google_reply =
  gr_results :: "(string option \<times> json) list"
  gr_status :: json

record geo_env =
  g_round4 :: "string \<Rightarrow> string"
  g_nominatim :: "string \<Rightarrow> string \<Rightarrow> string \<Rightarrow> error + nominatim_reply"
  g_google :: "string \<Rightarrow> string \<Rightarrow> string \<Rightarrow> error + google_reply"

definition CACHE_TTL_SECONDS :: int where
  "CACHE_TTL_SECONDS = 24 * 60 * 60"

definition geo_cache_key :: "geo_env \<Rightarrow> string \<Rightarrow> string \<Rightarrow> string" where
  "geo_cache_key G lat lng = ''e_sign:geocode:'' @ g_round4 G lat @ '':'' @ g_round4 G lng"

definition geo_fallback :: "string option \<Rightarrow> string option \<Rightarrow> string \<Rightarrow> geo_result" where
  "geo_fallback lat lng reason =
    \<lparr>ge_address = (case (lat, lng) of (Some a, Some b) \<Rightarrow> a @ '','' @ b | _ \<Rightarrow> ''''),
     ge_provider = ''fallback'', ge_ok = False, ge_raw = JObj [(''reason'', JStr reason)]\<rparr>"

definition nominatim :: "geo_env \<Rightarrow> settings \<Rightarrow> string \<Rightarrow> string \<Rightarrow> error + geo_result" where
  "nominatim G cfg lat lng =
    (case g_nominatim G (or_str (se_geocoding_user_agent cfg) ''e_sign DSC Signing'') lat lng of
       Inl e \<Rightarrow> Inl e
     | Inr reply \<Rightarrow>
        (if \<not> truthy (nr_display_name reply)
         then Inr (geo_fallback (Some lat) (Some lng) ''nominatim-empty'')
         else Inr \<lparr>ge_address = or_str (nr_display_name reply) '''', ge_provider = ''nominatim'',
                ge_ok = True, ge_raw = nr_data reply\<rparr>))"

definition google :: "geo_env \<Rightarrow> settings \<Rightarrow> string \<Rightarrow> string \<Rightarrow> error + geo_result" where
  "google G cfg lat lng =
    (if \<not> truthy (se_geocoding_api_key cfg)
     then Inr (geo_fallback (Some lat) (Some lng) ''google-missing-key'')
     else case g_google G (or_str (se_geocoding_api_key cfg) '''') lat lng of
       Inl e \<Rightarrow> Inl e
     | Inr reply \<Rightarrow>
        (case gr_results reply of
           [] \<Rightarrow> Inr (geo_fallback (Some lat) (Some lng) ''google-empty'')
         | (formatted, first) # _ \<Rightarrow>
             Inr \<lparr>ge_address = or_str formatted (lat @ '','' @ lng), ge_provider = ''google'', ge_ok = True,
                  ge_raw = JObj [(''status'', gr_status reply), (''first'', first)]\<rparr>))"

definition reverse_geocode :: "env \<Rightarrow> geo_env \<Rightarrow> string option \<Rightarrow> string option \<Rightarrow> geo_result act" where
  "reverse_geocode E G lat lng =
    (case (lat, lng) of
       (Some la, Some lg) \<Rightarrow>
        (case (e_float E la, e_float E lg) of
           (Some lat_f, Some lng_f) \<Rightarrow>
             bind (cache_get E (geo_cache_key G lat_f lng_f)) (\<lambda>cached.
             case cached of
               Some (CGeo r) \<Rightarrow> ret r
             | _ \<Rightarrow>
               bind (db_gets t_settings) (\<lambda>cfg.
               let provider = lower (or_str (se_geocoding_provider cfg) ''nominatim'') in
               bind (catch
                 (lift (if provider = ''google'' then google G cfg lat_f lng_f else nominatim G cfg lat_f lng_f))
                 (\<lambda>e. seq (log_error ''DSC reverse_geocode failed'')
                   (ret (geo_fallback (Some lat_f) (Some lng_f) (provider @ ''-error''))))) (\<lambda>result.
               seq (cond (ge_ok result)
                 (cache_set E (geo_cache_key G lat_f lng_f) (CGeo result) CACHE_TTL_SECONDS))
               (ret result))))
         | _ \<Rightarrow> ret (geo_fallback lat lng ''bad-coords''))
     | _ \<Rightarrow> ret (geo_fallback lat lng ''missing-coords''))"

text \<open>Geocoding never raises, whatever the services do.\<close>

lemma cache_get_run: "\<exists>v. cache_get E key w = (Inr v, w\<lparr>w_tick := Suc (w_tick w)\<rparr>)"
  by (simp add: cache_get_def now_datetime_def run_bind)

lemma cache_set_run:
  "cache_set E key v ttl w = (Inr (), w\<lparr>w_tick := Suc (w_tick w),
     w_cache := AList.update key (v, e_clock E (w_tick w) + seconds ttl) (w_cache w)\<rparr>)"
  by (simp add: cache_set_def now_datetime_def run_bind)

lemma geocode_run:
  "\<exists>r w'. reverse_geocode E G lat lng w = (Inr r, w') \<and> both_dbs w' = both_dbs w
    \<and> (if ge_ok r then \<exists>la lg x y expires. lat = Some la \<and> lng = Some lg \<and> e_float E la = Some x
          \<and> e_float E lg = Some y \<and> map_of (w_cache w') (geo_cache_key G x y) = Some (CGeo r, expires)
       else w_cache w' = w_cache w)"
proof (cases "\<exists>la lg lat_f lng_f. lat = Some la \<and> lng = Some lg \<and> e_float E la = Some lat_f \<and> e_float E lg = Some lng_f")
  case True
  then obtain la lg x y where args: "lat = Some la" "lng = Some lg" "e_float E la = Some x" "e_float E lg = Some y" by blast
  let ?key = "geo_cache_key G x y"
  define v where "v = (case map_of (w_cache w) ?key of None \<Rightarrow> None
    | Some (u, expires) \<Rightarrow> if e_clock E (w_tick w) < expires then Some u else None)"
  have v: "cache_get E ?key w = (Inr v, w\<lparr>w_tick := Suc (w_tick w)\<rparr>)"
    by (simp add: cache_get_def now_datetime_def run_bind v_def)
  have hit: "\<exists>expires. map_of (w_cache w) ?key = Some (CGeo r, expires)" if "v = Some (CGeo r)" for r
    using that by (auto simp: v_def split: option.splits prod.splits if_splits)
  show ?thesis
  proof (cases "\<exists>r. v = Some (CGeo r)")
    case True
    then obtain r where "v = Some (CGeo r)" by blast
    with v args hit show ?thesis by (auto simp: reverse_geocode_def both_dbs_def)
  next
    case False
    define provider where "provider = lower (or_str (se_geocoding_provider (t_settings (w_db w))) ''nominatim'')"
    define reply where "reply = (if provider = ''google'' then google G (t_settings (w_db w)) x y
      else nominatim G (t_settings (w_db w)) x y)"
    define ans where "ans = (case reply of Inl e \<Rightarrow> geo_fallback (Some x) (Some y) (provider @ ''-error'') | Inr r \<Rightarrow> r)"
    have "\<exists>w1. reverse_geocode E G lat lng w = (Inr ans, w1) \<and> both_dbs w1 = both_dbs w
        \<and> (if ge_ok ans then \<exists>expires. map_of (w_cache w1) ?key = Some (CGeo ans, expires) else w_cache w1 = w_cache w)"
    proof (cases reply)
      case (Inl e)
      then have "\<not> ge_ok ans" by (simp add: ans_def geo_fallback_def)
      with False v args Inl show ?thesis
        by (auto simp: reverse_geocode_def db_gets_run run_bind run_seq run_cond run_catch Let_def both_dbs_def
            log_error_def ans_def provider_def [symmetric] reply_def [symmetric] split: option.splits cached.splits)
    next
      case (Inr r)
      with False v args show ?thesis
        by (cases "ge_ok r") (auto simp: reverse_geocode_def db_gets_run run_bind run_seq run_cond run_catch Let_def both_dbs_def
            cache_set_run update_conv' ans_def provider_def [symmetric] reply_def [symmetric]
            split: option.splits cached.splits)
    qed
    with args show ?thesis by (cases "ge_ok ans") auto
  qed
next
  case False
  then have "\<exists>reason. reverse_geocode E G lat lng w = (Inr (geo_fallback lat lng reason), w)"
    by (auto simp: reverse_geocode_def split: option.splits)
  then obtain reason where "reverse_geocode E G lat lng w = (Inr (geo_fallback lat lng reason), w)" by blast
  moreover have "\<not> ge_ok (geo_fallback a b reason)" for a b reason by (simp add: geo_fallback_def)
  ultimately show ?thesis by (intro exI [of _ "geo_fallback lat lng reason"] exI [of _ w]) simp
qed

lemma reverse_geocode_total:
  "\<exists>r w'. reverse_geocode E G lat lng w = (Inr r, w') \<and> w_db w' = w_db w \<and> w_saved w' = w_saved w"
  using geocode_run [of E G lat lng w] by (auto simp: both_dbs_def)

lemma keeps_db_geocode [keeps_db]: "keeps (same both_dbs) (reverse_geocode E G lat lng)"
proof (rule keepsI)
  fix w
  show "same both_dbs w (snd (reverse_geocode E G lat lng w))"
    using reverse_geocode_total [of E G lat lng w] by (auto simp: same_def both_dbs_def)
qed

declare keeps_db_geocode [THEN keeps_db_saved, keeps_saved] keeps_db_geocode [THEN keeps_db_requests, keeps_requests] keeps_db_geocode [THEN keeps_db_now, keeps_now] keeps_db_geocode [THEN keeps_db_trail, keeps_trail]

text \<open>C20: geocoding always returns, whatever the arguments, the cache and the services do, and writes
  no document. An address it vouches for is in the cache under the rounded coordinates
  afterwards; a fallback is not cached, so that the next call asks the service again.\<close>

theorem reverse_geocode_returns:
  "\<exists>r w'. reverse_geocode E G lat lng w = (Inr r, w') \<and> both_dbs w' = both_dbs w
    \<and> (if ge_ok r then \<exists>la lg x y expires. lat = Some la \<and> lng = Some lg \<and> e_float E la = Some x
          \<and> e_float E lg = Some y \<and> map_of (w_cache w') (geo_cache_key G x y) = Some (CGeo r, expires)
       else w_cache w' = w_cache w)"
  by (rule geocode_run)

end
