(* ===== verification/Request.thy ===== *)
theory Request
  imports Frames
begin

text \<open>
  The DSC Signing Request controller (\<open>dsc_signing_request.py\<close>): the transition check of
  \<open>validate\<close>, the timestamps of \<open>on_update\<close>, and the framework's insert and save with
  these hooks in place. Only documents written with \<open>doc.save\<close> pass the check;
  \<open>frappe.db.set_value\<close> (\<open>set_request\<close>) does not run it.
\<close>

definition request_before_insert :: "env \<Rightarrow> signing_request \<Rightarrow> signing_request act" where
  "request_before_insert E r = bind (now_datetime E) (\<lambda>t. ret (r\<lparr>sr_created_on := Some t\<rparr>))"

fun valid_transitions :: "request_status \<Rightarrow> request_status list" where
  "valid_transitions Pending = [In_Progress, Cancelled]"
| "valid_transitions In_Progress = [Signed, Failed]"
| "valid_transitions Failed = [Pending]"
| "valid_transitions Signed = []"
| "valid_transitions Cancelled = []"

definition transition_error :: "request_status \<Rightarrow> request_status \<Rightarrow> error" where
  "transition_error old new =
    (let allowed = join '', '' (map status_text (valid_transitions old)) in
     ValidationError (''Cannot change status from '' @ status_text old @ '' to '' @ status_text new
       @ ''. Allowed transitions: '' @ (if allowed = '''' then ''None (terminal state)'' else allowed)))"

definition validate_status_transition :: "bool \<Rightarrow> request_status \<Rightarrow> request_status \<Rightarrow> unit act" where
  "validate_status_transition is_new old new =
    (if is_new then ret ()
     else if old = new then ret ()
     else throw_if (new \<notin> set (valid_transitions old)) (transition_error old new))"

definition request_on_update :: "env \<Rightarrow> string \<Rightarrow> bool \<Rightarrow> request_status \<Rightarrow> unit act" where
  "request_on_update E n changed status =
    cond changed
      (if status = Signed then
         bind (now_datetime E) (\<lambda>t. set_request_quietly n (\<lambda>r. r\<lparr>sr_signed_on := Some t\<rparr>))
       else if status = Cancelled then
         bind (now_datetime E) (\<lambda>t. set_request_quietly n (\<lambda>r. r\<lparr>sr_cancelled_on := Some t\<rparr>))
       else ret ())"

text \<open>\<open>insert\<close>: the new row gets its name and its creation time; for a document that had no
  earlier version \<open>has_value_changed\<close> is true.\<close>

definition insert_request :: "env \<Rightarrow> signing_request \<Rightarrow> string act" where
  "insert_request E r =
    bind (new_name E ''DSC Signing Request'' t_requests) (\<lambda>n.
    bind (request_before_insert E r) (\<lambda>r1.
    seq (validate_status_transition True (sr_status r1) (sr_status r1))
    (bind (now_datetime E) (\<lambda>t.
    bind (insert_row ''DSC Signing Request'' t_requests (\<lambda>u d. d\<lparr>t_requests := u (t_requests d)\<rparr>) n
            (r1\<lparr>sr_creation := t, sr_modified := t\<rparr>)) (\<lambda>_.
    seq (request_on_update E n True (sr_status r1))
    (ret n))))))"

text \<open>\<open>save\<close>: \<open>validate\<close> compares with the stored status, then the whole document is written.\<close>

definition save_request :: "env \<Rightarrow> string \<Rightarrow> signing_request \<Rightarrow> unit act" where
  "save_request E n r =
    bind (get_doc ''DSC Signing Request'' t_requests n) (\<lambda>old.
    seq (validate_status_transition False (sr_status old) (sr_status r))
    (seq (set_request E n (\<lambda>_. r))
    (request_on_update E n (sr_status old \<noteq> sr_status r) (sr_status r))))"

section \<open>What the check accepts\<close>

inductive allowed_transition :: "request_status \<Rightarrow> request_status \<Rightarrow> bool" where
  start: "allowed_transition Pending In_Progress"
| decline: "allowed_transition Pending Cancelled"
| sign: "allowed_transition In_Progress Signed"
| fail: "allowed_transition In_Progress Failed"
| retry: "allowed_transition Failed Pending"

inductive_cases allowed_fromE:
  "allowed_transition Signed s" "allowed_transition Cancelled s"
  "allowed_transition In_Progress s" "allowed_transition Failed s" "allowed_transition Pending s"

inductive_simps allowed_simps:
  "allowed_transition Signed s" "allowed_transition Cancelled s"
  "allowed_transition In_Progress s" "allowed_transition Failed s" "allowed_transition Pending s"

code_pred allowed_transition .

lemma in_valid_transitions: "new \<in> set (valid_transitions old) \<longleftrightarrow> allowed_transition old new"
  by (cases old; cases new) (auto simp: allowed_simps)

lemma validate_run:
  "validate_status_transition False old new w =
    (if old = new \<or> allowed_transition old new then (Inr (), w) else (Inl (transition_error old new), w))"
  by (auto simp: validate_status_transition_def in_valid_transitions)

text \<open>Signed and Cancelled are terminal for the check: no chain of accepted changes leaves them.\<close>

lemma terminal_chain:
  "allowed_transition\<^sup>*\<^sup>* s t \<Longrightarrow> s = Signed \<or> s = Cancelled \<Longrightarrow> t = s"
  by (induction rule: rtranclp_induct) (auto simp: allowed_simps)

lemma set_request_run:
  "set_request E n f w =
    (Inr (), w\<lparr>w_tick := Suc (w_tick w),
       w_db := (w_db w)\<lparr>t_requests := update_row n (\<lambda>r. (f r)\<lparr>sr_modified := e_clock E (w_tick w)\<rparr>)
                 (t_requests (w_db w))\<rparr>\<rparr>)"
  by (simp add: set_request_def now_datetime_def db_modify_def run_bind)

text \<open>\<open>save\<close> on every branch: no such document, a refused transition (nothing is written), or
  the new row with its modification time, and the timestamp of a cancellation or signing.\<close>

lemma save_request_missing:
  "row (t_requests (w_db w)) n = None \<Longrightarrow>
    save_request E n r w = (Inl (DoesNotExistError ''DSC Signing Request'' n), w)"
  by (simp add: save_request_def get_doc_def run_bind)

lemma save_request_refused:
  assumes "row (t_requests (w_db w)) n = Some old"
    and "sr_status old \<noteq> sr_status r" "\<not> allowed_transition (sr_status old) (sr_status r)"
  shows "save_request E n r w = (Inl (transition_error (sr_status old) (sr_status r)), w)"
  using assms by (simp add: save_request_def get_doc_def run_bind run_seq validate_run)

lemma save_request_ok:
  assumes "row (t_requests (w_db w)) n = Some old"
    and "sr_status old = sr_status r \<or> allowed_transition (sr_status old) (sr_status r)"
    and "save_request E n r w = (res, w')"
  shows "res = Inr ()"
    and "row (t_requests (w_db w')) m =
      (if m = n then Some (r\<lparr>sr_modified := e_clock E (w_tick w),
          sr_signed_on := (if sr_status r = Signed \<and> sr_status old \<noteq> Signed
            then Some (e_clock E (Suc (w_tick w))) else sr_signed_on r),
          sr_cancelled_on := (if sr_status r = Cancelled \<and> sr_status old \<noteq> Cancelled
            then Some (e_clock E (Suc (w_tick w))) else sr_cancelled_on r)\<rparr>)
       else row (t_requests (w_db w)) m)"
    and "w_saved w' = w_saved w" and "w_cache w' = w_cache w" and "w_journal w' = w_journal w"
    and "t_docsigns (w_db w') = t_docsigns (w_db w)" and "t_events (w_db w') = t_events (w_db w)"
    and "t_files (w_db w') = t_files (w_db w)" and "t_profiles (w_db w') = t_profiles (w_db w)"
  using assms
  by (auto simp: save_request_def get_doc_def run_bind run_seq run_cond validate_run set_request_run
      request_on_update_def now_datetime_def set_request_quietly_def db_modify_def split: if_splits)

section \<open>The audit trail\<close>

lemma keeps_trail_request [keeps_trail]:
  "keeps audit_ext (validate_status_transition is_new old new)"
  "keeps audit_ext (request_on_update E n changed status)"
  "keeps audit_ext (request_before_insert E r)"
  "keeps audit_ext (save_request E n r)"
  "keeps audit_ext (insert_request E r)"
proof -
  show 1: "keeps audit_ext (validate_status_transition is_new old new)" for is_new old new
    unfolding validate_status_transition_def by (intro keeps_trail)
  show 2: "keeps audit_ext (request_on_update E n changed status)" for n changed status
    unfolding request_on_update_def by (intro keeps_trail)
  show 3: "keeps audit_ext (request_before_insert E r)"
    unfolding request_before_insert_def by (intro keeps_trail)
  show "keeps audit_ext (save_request E n r)"
    unfolding save_request_def by (intro keeps_trail 1 2)
  show "keeps audit_ext (insert_request E r)"
    unfolding insert_request_def
    by (intro keeps_trail 1 2 3 keeps_trail_insert) (simp_all add: trail_prefix_def names_kept)
qed

end
