(* ===== verification/Initiate.thy ===== *)
theory Initiate
  imports Geocoding Request
begin

text \<open>
  The first half of the signing handshake (\<open>api/signing.py\<close>): the developer hooks, the
  reading of an uploaded PDF, the HMAC secret of DSC Settings and the endpoint \<open>initiate\<close>
  with its checks in the order of the source.
\<close>

section \<open>Helpers\<close>

definition run_dev_hooks :: "env \<Rightarrow> string \<Rightarrow> (string \<times> string) list \<Rightarrow> unit act" where
  "run_dev_hooks E hook_name kwargs =
    for_each (e_handlers E hook_name) (\<lambda>handler.
      catch (call_service E (Dev_Hook hook_name handler kwargs))
        (\<lambda>_. log_error (''DSC dev hook '' @ hook_name @ '' -> '' @ handler @ '' failed'')))"

text \<open>\<open>content.encode("latin-1")\<close> raises for a code point that is no byte.\<close>

definition content_bytes :: "content \<Rightarrow> error + string" where
  "content_bytes c =
    (case c of
       Bytes b \<Rightarrow> Inr b
     | Text cps \<Rightarrow>
        (if \<forall>n \<in> set cps. n < 256 then Inr (map char_of cps)
         else Inl (OtherError ''UnicodeEncodeError'' ''latin-1 codec can't encode character'')))"

definition read_uploaded_pdf :: "env \<Rightarrow> string option \<Rightarrow> string act" where
  "read_uploaded_pdf E file_url =
    seq (throw_if (\<not> truthy file_url) (ValidationError ''No PDF has been uploaded on this document.''))
    (bind (get_file_by_url E (or_str file_url '''')) (\<lambda>f.
     bind (lift (content_bytes (fl_content f))) (\<lambda>content.
     seq (throw_if (content = [] \<or> take 4 (take 5 content) \<noteq> ''%PDF'')
            (ValidationError ''The uploaded file is not a valid PDF.''))
     (ret content))))"

text \<open>\<open>dsc_settings.py\<close>: the secret is created, saved and committed on first use.\<close>

definition get_or_create_hmac_secret :: "env \<Rightarrow> string act" where
  "get_or_create_hmac_secret E =
    bind (db_gets (\<lambda>d. se_hmac_secret (t_settings d))) (\<lambda>current.
    if truthy current then ret (or_str current '''')
    else bind (random_token E) (\<lambda>new_secret.
      seq (set_settings (\<lambda>cfg. cfg\<lparr>se_hmac_secret := Some new_secret\<rparr>))
      (seq commit
      (ret new_secret))))"

section \<open>initiate\<close>

text \<open>The columns \<open>get_value\<close> is asked for, as the dictionary it returns.\<close>

type_synonym row_dict = "(string \<times> string option) list"

definition pending_columns :: "string \<Rightarrow> signing_request \<Rightarrow> row_dict" where
  "pending_columns n r =
    [(''name'', Some n), (''profile'', Some (sr_profile r)),
     (''signature_template'', sr_signature_template r),
     (''expected_signer_user'', sr_expected_signer_user r)]"

definition dget :: "row_dict \<Rightarrow> string \<Rightarrow> string option" where
  "dget d k = (case map_of d k of None \<Rightarrow> None | Some v \<Rightarrow> v)"

definition is_pending_for :: "string \<Rightarrow> string \<Rightarrow> signing_request \<Rightarrow> bool" where
  "is_pending_for doctype docname r \<longleftrightarrow>
    sr_source_doctype r = doctype \<and> sr_source_name r = docname \<and> sr_status r = Pending"

definition find_pending :: "env \<Rightarrow> string \<Rightarrow> string \<Rightarrow> row_dict option act" where
  "find_pending E doctype docname =
    bind (find_doc E ''DSC Signing Request'' t_requests (is_pending_for doctype docname)) (\<lambda>n.
    db_gets (\<lambda>d. Option.bind n (\<lambda>n. map_option (pending_columns n) (row (t_requests d) n))))"

definition null_arg :: "string option \<Rightarrow> string option" where
  "null_arg x = (if x \<in> {Some '''', Some ''null'', Some ''None''} then None else x)"

definition default_template :: signature_template where
  "default_template =
    \<lparr>st_template_name = '''', st_version = 1, st_is_active = True, st_target_doctype = '''',
     st_print_format = '''', st_stamp_show_signer_name = True, st_stamp_show_designation = True,
     st_stamp_show_digitally_signed_by = True, st_stamp_show_timestamp = True,
     st_stamp_timestamp_format = Some ''%d-%m-%Y %H:%M:%S %Z'', st_stamp_show_reason = True,
     st_stamp_show_location = True, st_stamp_show_dn_cn = False,
     st_stamp_include_signature_image = False, st_stamp_include_seal_image = False,
     st_stamp_font_family = None, st_stamp_font_size = 8, st_stamp_border = True, st_fields = []\<rparr>"

definition load_template :: "string option \<Rightarrow> signature_template act" where
  "load_template name =
    (if truthy name then get_doc ''DSC Signature Template'' t_templates (or_str name '''')
     else ret default_template)"

text \<open>The uploaded document and its placement, for a DSC Document Sign record only; its
  status is written before the request's.\<close>

definition load_upload :: "env \<Rightarrow> string \<Rightarrow> string \<Rightarrow> (string \<times> placement) option act" where
  "load_upload E doctype docname =
    (if doctype = ''DSC Document Sign'' then
       bind (get_doc ''DSC Document Sign'' t_docsigns docname) (\<lambda>ds.
       bind (read_uploaded_pdf E (ds_uploaded_pdf ds)) (\<lambda>pdf.
       seq (throw_if (\<not> (ds_sig_width ds \<noteq> 0 \<and> ds_sig_height ds \<noteq> 0)) (ValidationError
         (''No signature position has been set. Open the document, drag the ''
          @ ''signature box onto the page, and save before signing.'')))
       (seq (set_docsign docname (\<lambda>s. s\<lparr>ds_status := Some (Mirrors In_Progress)\<rparr>))
       (ret (Some (pdf,
         \<lparr>pl_page = (if ds_sig_page ds = 0 then 1 else ds_sig_page ds), pl_x = ds_sig_x ds,
          pl_y = ds_sig_y ds, pl_width = ds_sig_width ds, pl_height = ds_sig_height ds\<rparr>))))))
     else ret None)"

definition choose_print_format :: "pdf_env \<Rightarrow> string \<Rightarrow> row_dict \<Rightarrow> bool \<Rightarrow> string option act" where
  "choose_print_format P doctype sr uploaded =
    (if uploaded then ret None
     else
       bind (if truthy (dget sr ''rule'')
             then bind (get_doc ''DSC Rule'' t_rules (or_str (dget sr ''rule'') '''')) (\<lambda>r. ret (ru_print_format r))
             else ret None) (\<lambda>print_format.
       ret (if truthy print_format then print_format
            else Some (or_str (p_default_print_format P doctype) ''Standard''))))"

text \<open>\<open>float(x)\<close> of a string argument.\<close>

definition py_float :: "env \<Rightarrow> string \<Rightarrow> string act" where
  "py_float E s = lift (case e_float E s of
      None \<Rightarrow> Inl (OtherError ''ValueError'' (''could not convert string to float: '' @ s)) | Some r \<Rightarrow> Inr r)"

definition py_float_opt :: "env \<Rightarrow> string option \<Rightarrow> string option act" where
  "py_float_opt E x = (case x of None \<Rightarrow> ret None | Some s \<Rightarrow> bind (py_float E s) (\<lambda>r. ret (Some r)))"

definition location_update ::
  "env \<Rightarrow> string option \<Rightarrow> string option \<Rightarrow> string option \<Rightarrow> geo_result option \<Rightarrow>
   (signing_request \<Rightarrow> signing_request) act" where
  "location_update E lat lng accuracy geo =
    (case (lat, lng) of
       (Some la, Some lg) \<Rightarrow>
         bind (py_float E la) (\<lambda>la_f.
         bind (py_float E lg) (\<lambda>lg_f.
         bind (py_float_opt E accuracy) (\<lambda>acc_f.
         ret (\<lambda>r. r\<lparr>sr_signer_lat := Some la_f, sr_signer_lng := Some lg_f, sr_signer_accuracy_m := acc_f,
               sr_signer_address := Some (case geo of None \<Rightarrow> '''' | Some g \<Rightarrow> ge_address g),
               sr_signer_location_provider := Some (case geo of None \<Rightarrow> '''' | Some g \<Rightarrow> ge_provider g)\<rparr>))))
     | _ \<Rightarrow> ret (\<lambda>r. r))"

record initiated =
  in_session_id :: string
  in_hash_to_sign :: string
  in_hash_algorithm :: string
  in_expected_cert_fingerprint :: "string option"
  in_signing_request :: string
  in_timestamp :: int
  in_nonce :: string
  in_hmac :: string
  in_signer_name :: "string option"
  in_reason :: string
  in_location :: string

definition mac_payload :: "string \<Rightarrow> string \<Rightarrow> string \<Rightarrow> int \<Rightarrow> string \<Rightarrow> string" where
  "mac_payload session_id hash_to_sign hash_algorithm timestamp nonce =
    join ''|'' [session_id, hash_to_sign, hash_algorithm, dec_int timestamp, nonce]"

definition not_authorized :: error where
  "not_authorized = ValidationError ''You are not authorized to sign this document.''"

definition profile_restricted :: "profile \<Rightarrow> error" where
  "profile_restricted pf = ValidationError
    (''You are not authorised to sign with DSC Profile '' @ quoted (pf_profile_name pf)
     @ ''. The profile owner has restricted signing to a specific list of users.'')"

text \<open>The checks on the session user and the profile, up to the certificate's expiry.\<close>

definition check_signer :: "env \<Rightarrow> row_dict \<Rightarrow> unit act" where
  "check_signer E sr =
    bind (db_gets (\<lambda>d. e_has_permission E d ''DSC Signing Request'' ''write'' None)) (\<lambda>may_write.
    throw_if (truthy (dget sr ''expected_signer_user'')
        \<and> dget sr ''expected_signer_user'' \<noteq> Some (e_user E) \<and> \<not> may_write) not_authorized)"

definition check_profile :: "env \<Rightarrow> profile \<Rightarrow> unit act" where
  "check_profile E pf =
    (let allowed = filter (\<lambda>u. u \<noteq> '''') (pf_allowed_users pf) in
     seq (throw_if (\<not> pf_is_active pf) (ValidationError
       (''DSC Profile '' @ quoted (pf_profile_name pf) @ '' is not active.'')))
     (seq (throw_if (allowed \<noteq> [] \<and> e_user E \<notin> set allowed) (profile_restricted pf))
     (case pf_certificate_not_after pf of
        None \<Rightarrow> ret ()
      | Some not_after \<Rightarrow>
         bind (now_datetime E) (\<lambda>t.
         throw_if (getdate not_after < getdate t) (ValidationError
           (''Certificate for profile '' @ quoted (pf_profile_name pf) @ '' expired on ''
            @ e_str_datetime E not_after @ ''. Please renew.''))))))"

definition location_required :: error where
  "location_required = ValidationError
    (''Location access is required to digitally sign documents. ''
     @ ''Please allow your browser to share its location and try again.'')"

definition fingerprint_error :: "string \<Rightarrow> string \<Rightarrow> string \<Rightarrow> error" where
  "fingerprint_error profile_name expected got = ValidationError
    (''Certificate on token does not match the one registered on DSC Profile '' @ profile_name
     @ ''. Expected fingerprint '' @ take 16 expected @ ''..., got '' @ take 16 got @ ''....'')"

definition signer_location_details ::
  "env \<Rightarrow> string option \<Rightarrow> string option \<Rightarrow> string option \<Rightarrow> geo_result \<Rightarrow> (string \<times> json) list act" where
  "signer_location_details E lat lng accuracy g =
    bind (py_float E (or_str lat '''')) (\<lambda>la.
    bind (py_float E (or_str lng '''')) (\<lambda>lg.
    bind (py_float_opt E accuracy) (\<lambda>acc.
    ret [(''lat'', JFloat la), (''lng'', JFloat lg),
         (''accuracy_m'', case acc of None \<Rightarrow> JNull | Some a \<Rightarrow> JFloat a),
         (''address'', JStr (ge_address g)), (''provider'', JStr (ge_provider g)),
         (''geocode_ok'', JBool (ge_ok g))])))"

text \<open>The response (lines 273 to 318 of the source): the HMAC over the session, the hash and a
  nonce, keyed with the secret the paired agent holds.\<close>

definition respond ::
  "env \<Rightarrow> string \<Rightarrow> profile \<Rightarrow> settings \<Rightarrow> string option \<Rightarrow> prepared \<Rightarrow> initiated act" where
  "respond E name pf cfg signer_location_text result =
    bind (get_or_create_hmac_secret E) (\<lambda>hmac_secret.
    bind (unix_time E) (\<lambda>timestamp.
    bind (random_token E) (\<lambda>nonce.
    ret \<lparr>in_session_id = pr_session_id result, in_hash_to_sign = pr_hash_to_sign result,
         in_hash_algorithm = pr_hash_algorithm result,
         in_expected_cert_fingerprint = pf_certificate_fingerprint pf,
         in_signing_request = name, in_timestamp = timestamp, in_nonce = nonce,
         in_hmac = e_hmac_sha256 E hmac_secret
           (mac_payload (pr_session_id result) (pr_hash_to_sign result)
              (pr_hash_algorithm result) timestamp nonce),
         in_signer_name = or_opt (pf_certificate_common_name pf) (pf_label pf),
         in_reason = or_str (se_default_reason cfg) ''Approved'',
         in_location = or_str (or_opt signer_location_text (se_default_location cfg)) ''''\<rparr>)))"

text \<open>What follows the change of status (lines 206 to 271): the developer hook, the certificate
  check, the preparation of the PDF, the hash on the request and the audit events.\<close>

definition hand_over ::
  "env \<Rightarrow> pdf_env \<Rightarrow> string \<Rightarrow> string \<Rightarrow> string \<Rightarrow> string \<Rightarrow> profile \<Rightarrow> settings \<Rightarrow> signature_template \<Rightarrow>
   string option \<Rightarrow> string option \<Rightarrow> string option \<Rightarrow> string option \<Rightarrow> geo_result option \<Rightarrow>
   string option \<Rightarrow> (string \<times> placement) option \<Rightarrow> initiated act" where
  "hand_over E P doctype docname name profile_name pf cfg tmpl lat lng accuracy cert_der_b64 geo
      print_format upload =
    seq (run_dev_hooks E ''dsc_before_sign''
          [(''signing_request'', name), (''doctype'', doctype), (''docname'', docname),
           (''profile'', profile_name)])
    (bind (decode (or_str cert_der_b64 '''')) (\<lambda>cert_der.
     seq (throw_if (truthy (pf_certificate_fingerprint pf)
            \<and> pf_certificate_fingerprint pf \<noteq> Some (e_sha256 E cert_der))
           (fingerprint_error (pf_profile_name pf)
             (or_str (pf_certificate_fingerprint pf) '''') (e_sha256 E cert_der)))
     (bind (prepare_pdf_for_signing E P doctype docname print_format tmpl pf name cert_der
             (map_option ge_address geo) (map_option fst upload) (map_option snd upload)) (\<lambda>result.
      seq (set_request E name (\<lambda>r. r\<lparr>sr_hash_algorithm := Some (pr_hash_algorithm result),
            sr_hash_to_be_signed := Some (pr_hash_to_sign result)\<rparr>))
      (seq (case geo of
              None \<Rightarrow> ret ()
            | Some g \<Rightarrow>
               bind (signer_location_details E lat lng accuracy g)
                 (audit E name ''Signer Location Captured''))
      (seq (audit E name ''Hash Computed''
              [(''algorithm'', JStr (pr_hash_algorithm result)),
               (''hash_preview'', JStr (take 16 (pr_hash_to_sign result) @ ''...''))])
      (seq (audit E name ''Agent Called''
              [(''agent_port'', JInt (if se_agent_listen_port cfg = 0 then 4645 else se_agent_listen_port cfg)),
               (''hash_algorithm'', JStr (pr_hash_algorithm result))])
      (respond E name pf cfg (map_option ge_address geo) result))))))))"

text \<open>From the loading of the uploaded document to the change of status (lines 151 to 204).\<close>

definition start_signing ::
  "env \<Rightarrow> pdf_env \<Rightarrow> string \<Rightarrow> string \<Rightarrow> row_dict \<Rightarrow> profile \<Rightarrow> settings \<Rightarrow> signature_template \<Rightarrow>
   string option \<Rightarrow> string option \<Rightarrow> string option \<Rightarrow> string option \<Rightarrow> geo_result option \<Rightarrow> initiated act" where
  "start_signing E P doctype docname sr pf cfg tmpl lat lng accuracy cert_der_b64 geo =
    (let name = or_str (dget sr ''name'') '''' in
     bind (load_upload E doctype docname) (\<lambda>upload.
     bind (choose_print_format P doctype sr (upload \<noteq> None)) (\<lambda>print_format.
     bind (location_update E lat lng accuracy geo) (\<lambda>upd.
     seq (set_request E name (\<lambda>r. upd (r\<lparr>sr_status := In_Progress,
           sr_client_ip := e_request_ip E, sr_client_user_agent := e_user_agent E\<rparr>)))
     (hand_over E P doctype docname name (or_str (dget sr ''profile'') '''') pf cfg tmpl
        lat lng accuracy cert_der_b64 geo print_format upload)))))"

text \<open>The checks on the request that was found, and the loading of what signing needs
  (lines 90 to 149).\<close>

definition sign_pending ::
  "env \<Rightarrow> pdf_env \<Rightarrow> geo_env \<Rightarrow> string \<Rightarrow> string \<Rightarrow> row_dict \<Rightarrow> string option \<Rightarrow> string option \<Rightarrow>
   string option \<Rightarrow> string option \<Rightarrow> initiated act" where
  "sign_pending E P G doctype docname sr lat lng accuracy cert_der_b64 =
    seq (check_signer E sr)
    (bind (get_doc ''DSC Profile'' t_profiles (or_str (dget sr ''profile'') '''')) (\<lambda>pf.
     seq (check_profile E pf)
     (bind (db_gets t_settings) (\<lambda>cfg.
     seq (throw_if (se_enforce_signer_location cfg \<and> (lat = None \<or> lng = None)) location_required)
     (bind (if lat \<noteq> None \<and> lng \<noteq> None
           then bind (reverse_geocode E G lat lng) (\<lambda>g. ret (Some g)) else ret None) (\<lambda>geo.
     bind (load_template (dget sr ''signature_template'')) (\<lambda>tmpl.
     start_signing E P doctype docname sr pf cfg tmpl lat lng accuracy cert_der_b64 geo)))))))"

definition initiate ::
  "env \<Rightarrow> pdf_env \<Rightarrow> geo_env \<Rightarrow> string \<Rightarrow> string \<Rightarrow> string option \<Rightarrow> string option \<Rightarrow> string option \<Rightarrow>
   string option \<Rightarrow> initiated act" where
  "initiate E P G doctype docname cert_der_b64 signer_lat signer_lng signer_accuracy_m =
    (let lat = null_arg signer_lat; lng = null_arg signer_lng; accuracy = null_arg signer_accuracy_m in
     seq (throw_if (\<not> truthy cert_der_b64) (ValidationError
       (''Signer certificate is required (cert_der_b64 was empty). The browser must fetch it ''
        @ ''from the bridge before calling initiate.'')))
     (bind (find_pending E doctype docname) (\<lambda>found.
      case found of
        None \<Rightarrow> raise (ValidationError
          (''No pending signing request found for '' @ doctype @ '' '' @ docname))
      | Some sr \<Rightarrow> sign_pending E P G doctype docname sr lat lng accuracy cert_der_b64)))"

section \<open>What the steps leave alone\<close>

lemma keeps_db_initiate [keeps_db]:
  "keeps (same both_dbs) (run_dev_hooks E h kw)" "keeps (same both_dbs) (read_uploaded_pdf E url)"
  "keeps (same both_dbs) (find_pending E dt dn)" "keeps (same both_dbs) (load_template t)"
  "keeps (same both_dbs) (choose_print_format P dt sr up)" "keeps (same both_dbs) (py_float E s)"
  "keeps (same both_dbs) (py_float_opt E x)" "keeps (same both_dbs) (location_update E lat lng acc geo)"
  "keeps (same both_dbs) (check_signer E sr)" "keeps (same both_dbs) (check_profile E pf)"
  "keeps (same both_dbs) (signer_location_details E lat lng acc g)"
proof -
  show 1: "keeps (same both_dbs) (py_float E s)" for s
    unfolding py_float_def by (intro keeps_db)
  show 2: "keeps (same both_dbs) (py_float_opt E x)" for x
    unfolding py_float_opt_def by (intro keeps_db 1)
  show "keeps (same both_dbs) (run_dev_hooks E h kw)"
    unfolding run_dev_hooks_def by (intro keeps_db)
  show "keeps (same both_dbs) (read_uploaded_pdf E url)"
    unfolding read_uploaded_pdf_def by (intro keeps_db)
  show "keeps (same both_dbs) (find_pending E dt dn)"
    unfolding find_pending_def by (intro keeps_db)
  show "keeps (same both_dbs) (load_template t)"
    unfolding load_template_def by (intro keeps_db)
  show "keeps (same both_dbs) (choose_print_format P dt sr up)"
    unfolding choose_print_format_def by (intro keeps_db)
  show "keeps (same both_dbs) (location_update E lat lng acc geo)"
    unfolding location_update_def by (intro keeps_db 1 2)
  show "keeps (same both_dbs) (check_signer E sr)"
    unfolding check_signer_def by (intro keeps_db)
  show "keeps (same both_dbs) (check_profile E pf)"
    unfolding check_profile_def Let_def by (intro keeps_db)
  show "keeps (same both_dbs) (signer_location_details E lat lng acc g)"
    unfolding signer_location_details_def by (intro keeps_db 1 2)
qed

declare keeps_db_initiate [THEN keeps_db_saved, keeps_saved] keeps_db_initiate [THEN keeps_db_requests, keeps_requests] keeps_db_initiate [THEN keeps_db_now, keeps_now] keeps_db_initiate [THEN keeps_db_trail, keeps_trail]

lemma keeps_trail_respond [keeps_trail]:
  "keeps audit_ext (get_or_create_hmac_secret E)" "keeps audit_ext (respond E n pf cfg loc p)"
  by (auto simp: get_or_create_hmac_secret_def respond_def intro!: keeps_trail)

lemma keeps_cache_respond [keeps_cache]:
  "keeps (same w_cache) (get_or_create_hmac_secret E)" "keeps (same w_cache) (respond E n pf cfg loc p)"
  by (auto simp: get_or_create_hmac_secret_def respond_def intro!: keeps_cache)

lemma keeps_requests_respond [keeps_requests]:
  "keeps (same requests) (get_or_create_hmac_secret E)" "keeps (same requests) (respond E n pf cfg loc p)"
  by (auto simp: get_or_create_hmac_secret_def respond_def intro!: keeps_requests)

lemma keeps_saved_upload [keeps_saved]: "keeps (same w_saved) (load_upload E dt dn)"
  unfolding load_upload_def by (intro keeps_saved)

lemma keeps_requests_upload [keeps_requests]: "keeps (same requests) (load_upload E dt dn)"
  unfolding load_upload_def by (intro keeps_requests)

lemma keeps_trail_initiate [keeps_trail]: "keeps audit_ext (initiate E P G dt dn c la lo ac)"
  unfolding initiate_def sign_pending_def start_signing_def hand_over_def load_upload_def Let_def
  by (intro keeps_trail)

text \<open>The response cannot fail, so nothing is committed before an error.\<close>

lemma total_prims_site [total_intros]:
  "total (now_datetime E)" "total (unix_time E)" "total (random_token E)" "total (db_gets g)"
  "total (db_modify h)" "total commit" "total (set_settings k)" "total (log_error s)"
  "total (set_request E n f)" "total (set_docsign n u)" "total (set_file n v)"
  by (auto simp: total_def now_datetime_def unix_time_def random_token_def db_gets_def db_modify_def
      commit_def set_settings_def log_error_def set_request_def set_docsign_def set_file_def run_bind)

lemma total_respond: "total (respond E n pf cfg loc p)"
  unfolding respond_def get_or_create_hmac_secret_def by (intro total_intros)

lemma initiate_uncommitted: "on_error (same w_saved) (initiate E P G dt dn c la lo ac)"
  unfolding initiate_def sign_pending_def start_signing_def hand_over_def Let_def
  by (intro frame.on_error_intros keeps_saved total_respond [THEN on_error_total])

section \<open>Taking a successful \<open>initiate\<close> apart\<close>

lemma keeps_cache_details [keeps_cache]:
  "keeps (same w_cache) (py_float E s)" "keeps (same w_cache) (py_float_opt E x)"
  "keeps (same w_cache) (signer_location_details E lat lng acc g)"
  by (auto simp: signer_location_details_def py_float_def py_float_opt_def intro!: keeps_cache split: option.split)

text \<open>Who may sign what, with which certificate and where: the conditions a signature needs.\<close>

definition may_sign ::
  "env \<Rightarrow> db \<Rightarrow> datetime \<Rightarrow> string option \<Rightarrow> string option \<Rightarrow> string option \<Rightarrow> signing_request \<Rightarrow> profile \<Rightarrow> bool" where
  "may_sign E d today cert_der_b64 lat lng req pf \<longleftrightarrow>
    (truthy (sr_expected_signer_user req) \<longrightarrow>
       sr_expected_signer_user req = Some (e_user E)
       \<or> e_has_permission E d ''DSC Signing Request'' ''write'' None)
    \<and> pf_is_active pf
    \<and> (filter (\<lambda>u. u \<noteq> '''') (pf_allowed_users pf) \<noteq> [] \<longrightarrow> e_user E \<in> set (filter (\<lambda>u. u \<noteq> '''') (pf_allowed_users pf)))
    \<and> (case pf_certificate_not_after pf of None \<Rightarrow> True | Some t \<Rightarrow> getdate today \<le> getdate t)
    \<and> (se_enforce_signer_location (t_settings d) \<longrightarrow> lat \<noteq> None \<and> lng \<noteq> None)
    \<and> (\<exists>der. b64decode (or_str cert_der_b64 '''') = Some der \<and>
         (truthy (pf_certificate_fingerprint pf) \<longrightarrow> pf_certificate_fingerprint pf = Some (e_sha256 E der)))"

lemma find_pending_okE:
  assumes "find_pending E dt dn w = (Inr (Some sr), w')" "scan_sound E" "unique_names (t_requests (w_db w))"
  obtains n req where "w' = w" "sr = pending_columns n req" "row (t_requests (w_db w)) n = Some req"
    "is_pending_for dt dn req"
proof -
  from assms(1) obtain x w1 where
    f: "find_doc E ''DSC Signing Request'' t_requests (is_pending_for dt dn) w = (Inr x, w1)" and
    g: "db_gets (\<lambda>d. Option.bind x (\<lambda>n. map_option (pending_columns n) (row (t_requests d) n))) w1 = (Inr (Some sr), w')"
    unfolding find_pending_def by (elim bind_okE)
  from g obtain n req where x: "x = Some n" "w' = w1" "row (t_requests (w_db w1)) n = Some req" "sr = pending_columns n req"
    by (auto simp: db_gets_def bind_eq_Some_conv)
  from find_doc_some [OF f [unfolded x(1)] assms(2,3)] obtain req' where
    "row (t_requests (w_db w)) n = Some req'" "is_pending_for dt dn req'" "w1 = w" .
  with x show thesis by (intro that [of n req]) simp_all
qed

lemma check_signer_okE:
  assumes "check_signer E sr w = (Inr u, w')"
  obtains "w' = w" "truthy (dget sr ''expected_signer_user'') \<longrightarrow>
    dget sr ''expected_signer_user'' = Some (e_user E) \<or> e_has_permission E (w_db w) ''DSC Signing Request'' ''write'' None"
  using assms unfolding check_signer_def
  by (auto simp: db_gets_def elim!: act_okE split: if_splits)

lemma check_profile_okE:
  assumes "check_profile E pf w = (Inr u, w')"
  obtains "both_dbs w' = both_dbs w" "pf_is_active pf"
    "filter (\<lambda>u. u \<noteq> '''') (pf_allowed_users pf) \<noteq> [] \<longrightarrow> e_user E \<in> set (filter (\<lambda>u. u \<noteq> '''') (pf_allowed_users pf))"
    "case pf_certificate_not_after pf of None \<Rightarrow> True | Some t \<Rightarrow> getdate (e_clock E (w_tick w)) \<le> getdate t"
proof -
  from assms obtain w1 w2 where a: "throw_if (\<not> pf_is_active pf) (ValidationError
       (''DSC Profile '' @ quoted (pf_profile_name pf) @ '' is not active.'')) w = (Inr (), w1)"
    and b: "throw_if (filter (\<lambda>u. u \<noteq> '''') (pf_allowed_users pf) \<noteq> []
        \<and> e_user E \<notin> set (filter (\<lambda>u. u \<noteq> '''') (pf_allowed_users pf))) (profile_restricted pf) w1 = (Inr (), w2)"
    and c: "(case pf_certificate_not_after pf of
        None \<Rightarrow> ret ()
      | Some not_after \<Rightarrow>
         bind (now_datetime E) (\<lambda>t.
         throw_if (getdate not_after < getdate t) (ValidationError
           (''Certificate for profile '' @ quoted (pf_profile_name pf) @ '' expired on ''
            @ e_str_datetime E not_after @ ''. Please renew.'')))) w2 = (Inr u, w')"
    unfolding check_profile_def Let_def by (elim seq_okE)
  from a b have w: "w2 = w" "pf_is_active pf"
    "filter (\<lambda>u. u \<noteq> '''') (pf_allowed_users pf) \<noteq> [] \<longrightarrow> e_user E \<in> set (filter (\<lambda>u. u \<noteq> '''') (pf_allowed_users pf))"
    by (auto split: if_splits)
  from c have "both_dbs w' = both_dbs w"
    "case pf_certificate_not_after pf of None \<Rightarrow> True | Some t \<Rightarrow> getdate (e_clock E (w_tick w)) \<le> getdate t"
    unfolding w(1)
    by (cases "pf_certificate_not_after pf"; auto simp: now_datetime_def both_dbs_def run_bind split: if_splits)+
  from that [OF this(1) w(2,3) this(2)] show thesis .
qed

lemma hand_over_okE:
  assumes "hand_over E P dt dn name pn pf cfg tmpl lat lng acc c geo pfm up w = (Inr r, w')"
  obtains der p w1 w2 w3 w4 where
    "b64decode (or_str c '''') = Some der"
    "truthy (pf_certificate_fingerprint pf) \<longrightarrow> pf_certificate_fingerprint pf = Some (e_sha256 E der)"
    "both_dbs w1 = both_dbs w"
    "prepare_pdf_for_signing E P dt dn pfm tmpl pf name der (map_option ge_address geo) (map_option fst up)
       (map_option snd up) w1 = (Inr p, w2)"
    "set_request E name (\<lambda>r. r\<lparr>sr_hash_algorithm := Some (pr_hash_algorithm p),
            sr_hash_to_be_signed := Some (pr_hash_to_sign p)\<rparr>) w2 = (Inr (), w3)"
    "requests w4 = requests w3" "w_cache w4 = w_cache w3"
    "respond E name pf cfg (map_option ge_address geo) p w4 = (Inr r, w')"
proof -
  let ?loc = "case geo of None \<Rightarrow> ret ()
    | Some g \<Rightarrow> bind (signer_location_details E lat lng acc g) (audit E name ''Signer Location Captured'')"
  from assms obtain w1 der w2 w3 p w4 w5 w6 w7 w8 where
    a: "run_dev_hooks E ''dsc_before_sign'' [(''signing_request'', name), (''doctype'', dt), (''docname'', dn),
           (''profile'', pn)] w = (Inr (), w1)" "decode (or_str c '''') w1 = (Inr der, w2)"
    and fp: "throw_if (truthy (pf_certificate_fingerprint pf)
            \<and> pf_certificate_fingerprint pf \<noteq> Some (e_sha256 E der))
           (fingerprint_error (pf_profile_name pf)
             (or_str (pf_certificate_fingerprint pf) '''') (e_sha256 E der)) w2 = (Inr (), w3)"
    and p: "prepare_pdf_for_signing E P dt dn pfm tmpl pf name der (map_option ge_address geo) (map_option fst up)
       (map_option snd up) w3 = (Inr p, w4)"
      "set_request E name (\<lambda>r. r\<lparr>sr_hash_algorithm := Some (pr_hash_algorithm p),
            sr_hash_to_be_signed := Some (pr_hash_to_sign p)\<rparr>) w4 = (Inr (), w5)"
    and l: "?loc w5 = (Inr (), w6)"
      "audit E name ''Hash Computed''
              [(''algorithm'', JStr (pr_hash_algorithm p)),
               (''hash_preview'', JStr (take 16 (pr_hash_to_sign p) @ ''...''))] w6 = (Inr (), w7)"
      "audit E name ''Agent Called''
              [(''agent_port'', JInt (if se_agent_listen_port cfg = 0 then 4645 else se_agent_listen_port cfg)),
               (''hash_algorithm'', JStr (pr_hash_algorithm p))] w7 = (Inr (), w8)"
    and r: "respond E name pf cfg (map_option ge_address geo) p w8 = (Inr r, w')"
    unfolding hand_over_def by (elim bind_okE seq_okE)
  have q: "keeps (same requests) ?loc" by (intro keeps_requests)
  have k: "keeps (same w_cache) ?loc" by (intro keeps_cache)
  have "requests w8 = requests w5"
    using keeps_same_runD [OF q l(1)] keeps_same_runD [OF keeps_audit(3) l(2)]
      keeps_same_runD [OF keeps_audit(3) l(3)] by simp
  moreover have "w_cache w8 = w_cache w5"
    using keeps_same_runD [OF k l(1)] keeps_same_runD [OF keeps_audit(2) l(2)]
      keeps_same_runD [OF keeps_audit(2) l(3)] by simp
  moreover have "both_dbs w3 = both_dbs w"
    using keeps_same_runD [OF keeps_db_initiate(1) a(1)] keeps_same_runD [OF keeps_db_embed(1) a(2)] fp
    by (auto split: if_splits)
  ultimately show thesis
    using that [OF _ _ _ p _ _ r] a(2) fp by (auto simp: decode_def split: option.splits if_splits)
qed

lemma location_update_status:
  assumes "location_update E lat lng acc geo w = (Inr upd, w')"
  shows "sr_status (upd r) = sr_status r"
  using assms unfolding location_update_def
  by (auto elim!: bind_okE split: option.splits)

lemma start_signing_okE:
  assumes "start_signing E P dt dn sr pf cfg tmpl lat lng acc c geo w = (Inr r, w')"
  obtains upd up pfm w1 w2 where
    "requests w1 = requests w" "w_saved w1 = w_saved w" "\<forall>r. sr_status (upd r) = sr_status r"
    "set_request E (or_str (dget sr ''name'') '''') (\<lambda>r. upd (r\<lparr>sr_status := In_Progress,
           sr_client_ip := e_request_ip E, sr_client_user_agent := e_user_agent E\<rparr>)) w1 = (Inr (), w2)"
    "hand_over E P dt dn (or_str (dget sr ''name'') '''') (or_str (dget sr ''profile'') '''') pf cfg tmpl
        lat lng acc c geo pfm up w2 = (Inr r, w')"
proof -
  let ?n = "or_str (dget sr ''name'') ''''"
  from assms obtain up w1 pfm w2 upd w3 w4 where
    a: "load_upload E dt dn w = (Inr up, w1)"
    and b: "choose_print_format P dt sr (up \<noteq> None) w1 = (Inr pfm, w2)"
    and c: "location_update E lat lng acc geo w2 = (Inr upd, w3)"
    and d: "set_request E ?n (\<lambda>r. upd (r\<lparr>sr_status := In_Progress,
           sr_client_ip := e_request_ip E, sr_client_user_agent := e_user_agent E\<rparr>)) w3 = (Inr (), w4)"
    and e: "hand_over E P dt dn ?n (or_str (dget sr ''profile'') '''') pf cfg tmpl
        lat lng acc c geo pfm up w4 = (Inr r, w')"
    unfolding start_signing_def Let_def by (elim bind_okE seq_okE)
  have "requests w3 = requests w" "w_saved w3 = w_saved w"
    using keeps_same_runD [OF keeps_requests_upload a] keeps_same_runD [OF keeps_saved_upload a]
      keeps_same_runD [OF keeps_db_initiate(5) b] keeps_same_runD [OF keeps_db_initiate(8) c]
    by (simp_all add: both_dbs_def requests_def)
  from that [OF this _ d e] location_update_status [OF c] show thesis by blast
qed

lemma hand_over_request: "hand_over E P dt dn n pn pf cfg tmpl lat lng acc c geo pfm up w = (Inr r, w') \<Longrightarrow> in_signing_request r = n"
  by (erule hand_over_okE) (auto simp: respond_def elim!: bind_okE)

lemma initiate_okE:
  assumes "initiate E P G dt dn c la lo ac w = (Inr r, w')" "scan_sound E" "unique_names (t_requests (w_db w))"
  obtains req pf geo tmpl w1 where
    "row (t_requests (w_db w)) (in_signing_request r) = Some req" "is_pending_for dt dn req"
    "row (t_profiles (w_db w)) (sr_profile req) = Some pf" "both_dbs w1 = both_dbs w"
    "may_sign E (w_db w) (e_clock E (w_tick w)) c (null_arg la) (null_arg lo) req pf"
    "start_signing E P dt dn (pending_columns (in_signing_request r) req) pf (t_settings (w_db w)) tmpl
       (null_arg la) (null_arg lo) (null_arg ac) c geo w1 = (Inr r, w')"
proof -
  from assms(1) obtain found w1 where
    a: "find_pending E dt dn w = (Inr found, w1)" and
    b: "(case found of
        None \<Rightarrow> raise (ValidationError (''No pending signing request found for '' @ dt @ '' '' @ dn))
      | Some sr \<Rightarrow> sign_pending E P G dt dn sr (null_arg la) (null_arg lo) (null_arg ac) c) w1 = (Inr r, w')"
    unfolding initiate_def Let_def by (elim bind_okE seq_okE throw_if_okE) blast
  from b obtain sr where found: "found = Some sr" by (cases found) simp_all
  from find_pending_okE [OF a [unfolded found] assms(2,3)] obtain n req where
    w1: "w1 = w" and sr: "sr = pending_columns n req" and req: "row (t_requests (w_db w)) n = Some req"
      "is_pending_for dt dn req" .
  from b obtain w2 pf w3 w4 cfg w5 w6 geo w7 tmpl w8 where
    c: "check_signer E sr w = (Inr (), w2)"
    "get_doc ''DSC Profile'' t_profiles (or_str (dget sr ''profile'') '''') w2 = (Inr pf, w3)"
    "check_profile E pf w3 = (Inr (), w4)" "db_gets t_settings w4 = (Inr cfg, w5)"
    "throw_if (se_enforce_signer_location cfg \<and> (null_arg la = None \<or> null_arg lo = None)) location_required w5 = (Inr (), w6)"
    "(if null_arg la \<noteq> None \<and> null_arg lo \<noteq> None
               then bind (reverse_geocode E G (null_arg la) (null_arg lo)) (\<lambda>g. ret (Some g)) else ret None) w6 = (Inr geo, w7)"
    "load_template (dget sr ''signature_template'') w7 = (Inr tmpl, w8)"
    and s: "start_signing E P dt dn sr pf cfg tmpl (null_arg la) (null_arg lo) (null_arg ac) c geo w8 = (Inr r, w')"
    unfolding found w1 option.case sign_pending_def by (elim bind_okE seq_okE)
  have geo: "keeps (same both_dbs) (if null_arg la \<noteq> None \<and> null_arg lo \<noteq> None
               then bind (reverse_geocode E G (null_arg la) (null_arg lo)) (\<lambda>g. ret (Some g)) else ret None)"
    by (intro keeps_db)
  have cols: "dget sr ''name'' = Some n" "dget sr ''profile'' = Some (sr_profile req)"
    "dget sr ''expected_signer_user'' = sr_expected_signer_user req"
    by (simp_all add: sr pending_columns_def dget_def)
  from c(1,2) have signer: "w2 = w" "w3 = w" "row (t_profiles (w_db w)) (sr_profile req) = Some pf"
    "truthy (sr_expected_signer_user req) \<longrightarrow> sr_expected_signer_user req = Some (e_user E)
       \<or> e_has_permission E (w_db w) ''DSC Signing Request'' ''write'' None"
    by (auto simp: cols elim!: check_signer_okE get_doc_okE)
  from c(3) [unfolded signer(2)] obtain profile: "both_dbs w4 = both_dbs w" "pf_is_active pf"
    "filter (\<lambda>u. u \<noteq> '''') (pf_allowed_users pf) \<noteq> [] \<longrightarrow> e_user E \<in> set (filter (\<lambda>u. u \<noteq> '''') (pf_allowed_users pf))"
    "case pf_certificate_not_after pf of None \<Rightarrow> True | Some t \<Rightarrow> getdate (e_clock E (w_tick w)) \<le> getdate t"
    by (rule check_profile_okE)
  from c(4,5) profile(1) have loc: "w6 = w4" "cfg = t_settings (w_db w)"
    "se_enforce_signer_location (t_settings (w_db w)) \<longrightarrow> null_arg la \<noteq> None \<and> null_arg lo \<noteq> None"
    by (auto simp: db_gets_def both_dbs_def split: if_splits)
  have w8: "both_dbs w8 = both_dbs w"
    using keeps_same_runD [OF geo c(6)] keeps_same_runD [OF keeps_db_initiate(4) c(7)] profile(1) loc(1) by simp
  obtain pfm up w9 where
    h: "hand_over E P dt dn n (sr_profile req) pf cfg tmpl (null_arg la) (null_arg lo) (null_arg ac) c geo pfm up w9 = (Inr r, w')"
    using s by (elim start_signing_okE) (simp only: cols or_str_empty)
  then have "in_signing_request r = n" by (rule hand_over_request)
  moreover have "may_sign E (w_db w) (e_clock E (w_tick w)) c (null_arg la) (null_arg lo) req pf"
    using signer(4) profile(2-) loc(3) hand_over_okE [OF h] by (auto simp: may_sign_def)
  ultimately show thesis
    using that req signer(3) w8 s unfolding loc(2) sr by blast
qed

section \<open>What a successful \<open>initiate\<close> leaves behind\<close>

text \<open>A session of the cache that waits for the signature of a request.\<close>

definition session_waits :: "env \<Rightarrow> world \<Rightarrow> string \<Rightarrow> string \<Rightarrow> string \<Rightarrow> string \<Rightarrow> string \<Rightarrow> string \<Rightarrow> bool" where
  "session_waits E w session_id name doctype docname cert_der hash \<longleftrightarrow>
    (\<exists>ss expires attrs. map_of (w_cache w) (session_key session_id) = Some (CSession ss, expires)
      \<and> ss_signing_request_name ss = name \<and> ss_doctype ss = doctype \<and> ss_docname ss = docname
      \<and> b64decode (ss_cert_der_b64 ss) = Some cert_der
      \<and> b64decode (ss_signed_attrs_b64 ss) = Some attrs \<and> hash = e_sha256 E attrs)"

lemma session_waits_cache:
  "w_cache w' = w_cache w \<Longrightarrow> session_waits E w' sid n dt dn der h = session_waits E w sid n dt dn der h"
  by (simp add: session_waits_def)

lemma prepare_session:
  assumes "prepare_pdf_for_signing E P dt dn pfm tmpl pf name der loc pdf pl w = (Inr p, w')"
  shows "session_waits E w' (pr_session_id p) name dt dn der (pr_hash_to_sign p)"
    and "pr_expected_cert_fingerprint p = e_sha256 E der"
  using assms unfolding prepare_pdf_for_signing_def Let_def
  by (auto simp: session_waits_def store_session_def cache_set_run AList.update_conv'
      elim!: bind_okE seq_okE split: prod.splits)

lemma hmac_secret_okE:
  assumes "get_or_create_hmac_secret E w = (Inr secret, w')"
  shows "se_hmac_secret (t_settings (w_db w')) = Some secret"
proof (cases "se_hmac_secret (t_settings (w_db w))")
  case None
  with assms show ?thesis
    by (auto simp: get_or_create_hmac_secret_def db_gets_def random_token_def set_settings_def
        db_modify_def commit_def run_bind run_seq)
next
  case (Some s)
  with assms show ?thesis
    by (auto simp: get_or_create_hmac_secret_def db_gets_def random_token_def set_settings_def
        db_modify_def commit_def run_bind run_seq split: if_splits)
qed

lemma respond_okE:
  assumes "respond E name pf cfg loc p w = (Inr r, w')"
  obtains secret where
    "in_session_id r = pr_session_id p" "in_hash_to_sign r = pr_hash_to_sign p"
    "in_hash_algorithm r = pr_hash_algorithm p" "in_signing_request r = name"
    "se_hmac_secret (t_settings (w_db w')) = Some secret"
    "in_hmac r = e_hmac_sha256 E secret
       (mac_payload (in_session_id r) (in_hash_to_sign r) (in_hash_algorithm r) (in_timestamp r) (in_nonce r))"
proof -
  from assms obtain secret w1 ts w2 nonce where
    a: "get_or_create_hmac_secret E w = (Inr secret, w1)" "unix_time E w1 = (Inr ts, w2)"
      "random_token E w2 = (Inr nonce, w')" and
    r: "r = \<lparr>in_session_id = pr_session_id p, in_hash_to_sign = pr_hash_to_sign p,
         in_hash_algorithm = pr_hash_algorithm p,
         in_expected_cert_fingerprint = pf_certificate_fingerprint pf,
         in_signing_request = name, in_timestamp = ts, in_nonce = nonce,
         in_hmac = e_hmac_sha256 E secret
           (mac_payload (pr_session_id p) (pr_hash_to_sign p) (pr_hash_algorithm p) ts nonce),
         in_signer_name = or_opt (pf_certificate_common_name pf) (pf_label pf),
         in_reason = or_str (se_default_reason cfg) ''Approved'',
         in_location = or_str (or_opt loc (se_default_location cfg)) ''''\<rparr>"
    unfolding respond_def by (auto elim!: bind_okE)
  have "w_db w' = w_db w1"
    using keeps_same_runD [OF keeps_db_prims(2) a(2)] keeps_same_runD [OF keeps_db_prims(3) a(3)]
    by (simp add: both_dbs_def)
  then show thesis using hmac_secret_okE [OF a(1)] r by (intro that [of secret]) simp_all
qed

text \<open>The facts about the request in the order of the calls: the status, then the hash.\<close>

lemma hand_over_result:
  assumes "hand_over E P dt dn name pn pf cfg tmpl lat lng acc c geo pfm up w = (Inr r, w')"
    and "row (requests w) name = Some req"
  obtains req' der where
    "row (requests w') name = Some req'" "sr_status req' = sr_status req"
    "sr_hash_to_be_signed req' = Some (in_hash_to_sign r)" "sr_hash_algorithm req' = Some (in_hash_algorithm r)"
    "\<And>m. m \<noteq> name \<Longrightarrow> row (requests w') m = row (requests w) m"
    "b64decode (or_str c '''') = Some der"
    "session_waits E w' (in_session_id r) name dt dn der (in_hash_to_sign r)"
proof -
  obtain der p w1 w2 w3 w4 where
    der: "b64decode (or_str c '''') = Some der" and w1: "both_dbs w1 = both_dbs w" and
    p: "prepare_pdf_for_signing E P dt dn pfm tmpl pf name der (map_option ge_address geo) (map_option fst up)
       (map_option snd up) w1 = (Inr p, w2)" and
    s: "set_request E name (\<lambda>r. r\<lparr>sr_hash_algorithm := Some (pr_hash_algorithm p),
            sr_hash_to_be_signed := Some (pr_hash_to_sign p)\<rparr>) w2 = (Inr (), w3)" and
    w4: "requests w4 = requests w3" "w_cache w4 = w_cache w3" and
    r: "respond E name pf cfg (map_option ge_address geo) p w4 = (Inr r, w')"
    using assms(1) by (rule hand_over_okE)
  have req: "requests w' = requests w3" "requests w2 = requests w"
    using keeps_same_runD [OF keeps_requests_respond(2) r] w4 w1
      keeps_same_runD [OF keeps_db_prepare p] by (simp_all add: both_dbs_def requests_def)
  have cache: "w_cache w' = w_cache w2"
    using keeps_same_runD [OF keeps_cache_respond(2) r] w4 s by (auto simp: set_request_run)
  have row: "row (requests w3) m = (if m = name then map_option (\<lambda>r. r\<lparr>sr_hash_algorithm := Some (pr_hash_algorithm p),
            sr_hash_to_be_signed := Some (pr_hash_to_sign p), sr_modified := e_clock E (w_tick w2)\<rparr>) (row (requests w2) name)
          else row (requests w2) m)" for m
    using s by (auto simp: set_request_run requests_def)
  from r obtain secret where "in_session_id r = pr_session_id p" "in_hash_to_sign r = pr_hash_to_sign p"
    "in_hash_algorithm r = pr_hash_algorithm p" by (rule respond_okE)
  with prepare_session(1) [OF p] der row req assms(2) show thesis
    by (intro that [of "req\<lparr>sr_hash_algorithm := Some (pr_hash_algorithm p),
            sr_hash_to_be_signed := Some (pr_hash_to_sign p), sr_modified := e_clock E (w_tick w2)\<rparr>" der])
      (simp_all add: session_waits_cache [OF cache])
qed




text \<open>C10: a signature is only started by someone who may sign: the expected signer (or a user
  with write permission on requests), on a profile that is active, lets the user sign and has
  not expired, with the position captured where it is enforced, and with a certificate whose
  fingerprint is the profile's.\<close>

theorem initiate_authorised:
  assumes "scan_sound E" and "unique_names (t_requests (w_db w))"
    and "initiate E P G doctype docname cert_der_b64 lat lng accuracy w = (Inr r, w')"
  shows "\<exists>req pf. row (t_requests (w_db w)) (in_signing_request r) = Some req
      \<and> is_pending_for doctype docname req
      \<and> row (t_profiles (w_db w)) (sr_profile req) = Some pf
      \<and> may_sign E (w_db w) (e_clock E (w_tick w)) cert_der_b64 (null_arg lat) (null_arg lng) req pf"
  by (rule initiate_okE [OF assms(3,1,2)]) blast

text \<open>An \<open>initiate\<close> that raises leaves the documents as they were last committed: the status
  changes it had already written (on the request and on a DSC Document Sign) are rolled back,
  and nothing was committed on the way. One that returns is committed as a whole.\<close>

theorem initiate_all_or_nothing:
  "case run_request (initiate E P G doctype docname cert_der_b64 lat lng accuracy) w of
     (Inl e, w') \<Rightarrow> w_db w' = w_saved w \<and> w_saved w' = w_saved w
   | (Inr r, w') \<Rightarrow> w_saved w' = w_db w'"
  using on_errorD [OF initiate_uncommitted, of E P G doctype docname cert_der_b64 lat lng accuracy w]
  by (auto simp: run_request_def same_def split: prod.splits sum.splits)

end
