(* ===== verification/Finalize.thy ===== *)
theory Finalize
  imports Initiate
begin

text \<open>
  The second half of the signing handshake (\<open>api/signing.py\<close>): \<open>finalize\<close> with its early
  exits, the body of its \<open>try\<close>, its \<open>except\<close> handler with the commit before the re-raise,
  the timeline entry and the two mails.
\<close>

section \<open>Notifications\<close>

definition add_timeline_entry :: "env \<Rightarrow> string \<Rightarrow> string \<Rightarrow> string \<Rightarrow> unit act" where
  "add_timeline_entry E doctype docname signing_request_name =
    bind (get_doc ''DSC Signing Request'' t_requests signing_request_name) (\<lambda>req.
    bind (get_doc ''DSC Profile'' t_profiles (sr_profile req)) (\<lambda>pf.
    let signer_name = or_str (or_opt (pf_certificate_common_name pf) (pf_label pf)) (pf_profile_name pf)
    in db_modify (\<lambda>d. d\<lparr>t_comments := t_comments d @
        [\<lparr>cm_reference_doctype = doctype, cm_reference_name = docname,
          cm_content = ''Digitally signed by <b>'' @ signer_name @ ''</b> (''
            @ or_str (or_opt (pf_designation_for_stamp pf) (pf_label pf)) '''' @ '') at ''
            @ (case sr_signed_on req of None \<Rightarrow> ''None'' | Some t \<Rightarrow> e_str_datetime E t)\<rparr>]\<rparr>)))"

definition failure_message :: "env \<Rightarrow> string \<Rightarrow> signing_request option \<Rightarrow> string \<Rightarrow> string" where
  "failure_message E name req error_message =
    (let of_req = (\<lambda>f. case req of None \<Rightarrow> '''' | Some r \<Rightarrow> f r) in
     ''<p>A DSC signing request has failed and needs investigation.</p><ul>''
     @ ''<li><b>Request:</b> '' @ name @ ''</li>''
     @ ''<li><b>Document:</b> '' @ of_req sr_source_doctype @ '' '' @ of_req sr_source_name @ ''</li>''
     @ ''<li><b>Profile:</b> '' @ of_req sr_profile @ ''</li>''
     @ ''<li><b>Rule:</b> '' @ of_req (\<lambda>r. py_str (sr_rule r)) @ ''</li>''
     @ ''<li><b>Error:</b> <code>'' @ take 500 (e_escape_html E error_message) @ ''</code></li></ul>''
     @ ''<p><a href='' @ [CHR 0x27] @ e_site_url E @ ''/app/dsc-signing-request/'' @ name @ [CHR 0x27] @ ''>''
     @ ''Open request</a> '' @ [CHR 0xB7] @ '' '' @ ''<a href='' @ [CHR 0x27] @ e_site_url E
     @ ''/app/dsc-audit-event?request='' @ name @ [CHR 0x27] @ ''>'' @ ''View audit trail</a></p>'')"

definition notify_admins_of_failure :: "env \<Rightarrow> string \<Rightarrow> string \<Rightarrow> unit act" where
  "notify_admins_of_failure E signing_request_name error_message =
    (let recipients = filter (\<lambda>u. u \<noteq> '''' \<and> u \<noteq> ''Administrator'') (e_users_with_role E ''DSC Administrator'')
     in if recipients = [] then ret ()
        else bind (db_gets (\<lambda>d. row (t_requests d) signing_request_name)) (\<lambda>req.
          call_service E (Mail recipients
            (''DSC signing failed: '' @ (case req of None \<Rightarrow> '' '' | Some r \<Rightarrow> sr_source_doctype r @ '' '' @ sr_source_name r))
            (failure_message E signing_request_name req error_message))))"

definition send_signed_notification :: "env \<Rightarrow> string \<Rightarrow> string \<Rightarrow> string \<Rightarrow> unit act" where
  "send_signed_notification E doctype docname signing_request_name =
    (case e_owner E doctype docname of
       None \<Rightarrow> raise (DoesNotExistError doctype docname)
     | Some creator \<Rightarrow>
        if creator = e_user E then ret ()
        else bind (get_doc ''DSC Signing Request'' t_requests signing_request_name) (\<lambda>req.
          bind (get_doc ''DSC Profile'' t_profiles (sr_profile req)) (\<lambda>pf.
          call_service E (Mail [creator] (doctype @ '' '' @ docname @ '' has been digitally signed'')
            (''<p>'' @ doctype @ '' <b>'' @ docname @ ''</b> has been digitally signed by <b>''
             @ py_str (or_opt (pf_certificate_common_name pf) (pf_label pf)) @ ''</b>.</p>''
             @ ''<p>The signed PDF is attached to the document.</p>'')))))"

section \<open>\<open>finalize\<close>\<close>

record finalized =
  fi_file_url :: string
  fi_file_name :: string
  fi_signing_request :: string
  fi_verification :: verification

text \<open>\<open>int(time_diff_in_seconds(...))\<close> truncates towards zero.\<close>

definition whole_seconds :: "int \<Rightarrow> int" where
  "whole_seconds d = (if d < 0 then - ((- d) div 1000000) else d div 1000000)"

definition parse_chain :: "pdf_env \<Rightarrow> json \<Rightarrow> json" where
  "parse_chain P chain =
    (case chain of
       JStr s \<Rightarrow> (case p_json_loads P s of
           Some j \<Rightarrow> j | None \<Rightarrow> if s \<noteq> '''' then JList [JStr s] else JList [])
     | _ \<Rightarrow> chain)"

definition presented_fingerprint :: "env \<Rightarrow> string \<Rightarrow> string option" where
  "presented_fingerprint E cert_der = (if cert_der \<noteq> '''' then Some (e_sha256 E cert_der) else None)"

definition expected_fingerprint :: "db \<Rightarrow> signing_request \<Rightarrow> string option" where
  "expected_fingerprint d req =
    (if sr_profile req \<noteq> '''' then Option.bind (row (t_profiles d) (sr_profile req)) pf_certificate_fingerprint
     else None)"

definition fingerprint_mismatch :: "string option \<Rightarrow> string option \<Rightarrow> bool" where
  "fingerprint_mismatch expected presented \<longleftrightarrow>
    truthy expected \<and> truthy presented \<and> lower (or_str expected '''') \<noteq> lower (or_str presented '''')"

definition wrong_token :: error where
  "wrong_token = ValidationError
    (''The certificate on the token does not match this profile. ''
     @ ''Pair the correct token or contact a DSC Administrator.'')"

definition reject_certificate :: "env \<Rightarrow> string \<Rightarrow> string option \<Rightarrow> string option \<Rightarrow> finalized act" where
  "reject_certificate E name expected presented =
    seq (set_request E name (\<lambda>r. r\<lparr>sr_status := Failed, sr_failure_reason :=
          Some ''Certificate fingerprint mismatch - token cert does not match profile''\<rparr>))
    (seq (audit E name ''Request Failed''
           [(''reason'', JStr ''Fingerprint mismatch''), (''expected'', json_opt expected),
            (''presented'', json_opt presented)])
    (seq commit
    (raise wrong_token)))"

definition pdf_invalid :: error where
  "pdf_invalid = ValidationError ''Signed PDF verification failed. The signature may be invalid.''"

definition no_signatures :: "verification \<Rightarrow> bool" where
  "no_signatures v \<longleftrightarrow> vf_signatures v = None \<or> vf_signatures v = Some []"

definition reject_pdf :: "env \<Rightarrow> string \<Rightarrow> verification \<Rightarrow> unit act" where
  "reject_pdf E name v =
    seq (set_request E name (\<lambda>r. r\<lparr>sr_status := Failed, sr_failure_reason := Some
          (''Signed PDF verification failed: '' @ (case vf_error v of None \<Rightarrow> ''Unknown'' | Some m \<Rightarrow> m))\<rparr>))
    (seq (audit E name ''Request Failed''
           [(''reason'', JStr ''PDF verification failed''), (''details'', verification_json v)])
    (raise pdf_invalid))"

text \<open>What the body of the \<open>try\<close> writes once the signed PDF stands, up to its commit.\<close>

definition record_signature ::
  "env \<Rightarrow> string \<Rightarrow> datetime \<Rightarrow> string \<Rightarrow> string option \<Rightarrow> signed_result \<Rightarrow> string \<Rightarrow> file_doc \<Rightarrow> unit act" where
  "record_signature E name start_time signature_bytes_b64 ocsp_der_b64 sd file_name fd =
    bind (now_datetime E) (\<lambda>t.
    let duration = whole_seconds (t - start_time) in
    bind (now_datetime E) (\<lambda>signed_on.
    seq (set_request E name (\<lambda>r. r\<lparr>sr_status := Signed, sr_actual_signer_user := Some (e_user E),
          sr_signed_on := Some signed_on, sr_sign_duration_seconds := Some duration,
          sr_signature_bytes := Some signature_bytes_b64,
          sr_certificate_fingerprint_presented := Some (sd_certificate_fingerprint sd),
          sr_ocsp_response_b64 := ocsp_der_b64, sr_signed_file := Some file_name\<rparr>))
    (seq (cond (sd_doctype sd = ''DSC Document Sign'')
           (set_docsign (sd_docname sd) (\<lambda>s. s\<lparr>ds_status := Some (Mirrors Signed), ds_signed_file := Some file_name\<rparr>)))
    (seq (audit E name ''Request Signed''
           [(''duration_seconds'', JInt duration), (''file_name'', JStr (fl_file_name fd)),
            (''file_size'', JInt (int (length (sd_signed_pdf_bytes sd))))])
    (seq (add_timeline_entry E (sd_doctype sd) (sd_docname sd) name)
    (seq (catch (send_signed_notification E (sd_doctype sd) (sd_docname sd) name)
           (\<lambda>_. log_error ''DSC: signed notification email failed''))
    commit))))))"

definition complete_signing ::
  "env \<Rightarrow> pdf_env \<Rightarrow> string \<Rightarrow> string \<Rightarrow> string \<Rightarrow> json \<Rightarrow> string option \<Rightarrow> datetime \<Rightarrow> finalized act" where
  "complete_signing E P name session_id signature_bytes_b64 chain ocsp_der_b64 start_time =
    bind (finalize_signed_pdf E P session_id signature_bytes_b64 chain) (\<lambda>sd.
    bind (verify_signed_pdf E P (sd_signed_pdf_bytes sd)) (\<lambda>v.
    seq (audit E name ''PDF Verified''
          [(''is_valid'', JBool (vf_is_valid v)),
           (''signature_count'', case signature_count v of None \<Rightarrow> JNull | Some k \<Rightarrow> JInt (int k))])
    (seq (cond (\<not> vf_is_valid v \<and> no_signatures v) (reject_pdf E name v))
    (bind (save_signed_pdf E P sd) (\<lambda>(file_name, fd).
     seq (record_signature E name start_time signature_bytes_b64 ocsp_der_b64 sd file_name fd)
     (seq (run_dev_hooks E ''dsc_after_sign''
            [(''signing_request'', name), (''doctype'', sd_doctype sd), (''docname'', sd_docname sd),
             (''file_url'', fl_file_url fd)])
     (ret \<lparr>fi_file_url = fl_file_url fd, fi_file_name = fl_file_name fd, fi_signing_request = name,
           fi_verification = v\<rparr>)))))))"

text \<open>The handler commits before it raises again: the Failed status and the audit event
  survive the rollback of the request.\<close>

definition handle_failure :: "env \<Rightarrow> string \<Rightarrow> signing_request \<Rightarrow> error \<Rightarrow> finalized act" where
  "handle_failure E name req e =
    seq (set_request E name (\<lambda>r. r\<lparr>sr_status := Failed, sr_failure_reason := Some (take 500 (err_text e))\<rparr>))
    (seq (cond (sr_source_doctype req = ''DSC Document Sign'')
           (set_docsign (sr_source_name req) (\<lambda>s. s\<lparr>ds_status := Some (Mirrors Failed)\<rparr>)))
    (seq (audit E name ''Request Failed''
           [(''reason'', JStr (err_text e)), (''error_type'', JStr (err_type e))])
    (seq (catch (notify_admins_of_failure E name (err_text e))
           (\<lambda>_. log_error ''DSC: admin failure-notification email failed''))
    (seq commit
    (raise e)))))"

definition finalize ::
  "env \<Rightarrow> pdf_env \<Rightarrow> string \<Rightarrow> string \<Rightarrow> string option \<Rightarrow> json \<Rightarrow> string option \<Rightarrow> finalized act" where
  "finalize E P session_id signature_bytes_b64 cert_der_b64 cert_chain_der_b64 ocsp_der_b64 =
    bind (get_session_info E session_id) (\<lambda>session.
    case session of
      None \<Rightarrow> raise session_expired
    | Some ss \<Rightarrow>
        let name = ss_signing_request_name ss in
        bind (now_datetime E) (\<lambda>start_time.
        bind (if truthy cert_der_b64 then decode (or_str cert_der_b64 '''') else ret '''') (\<lambda>cert_der.
        let presented = presented_fingerprint E cert_der in
        seq (audit E name ''Signature Returned''
              [(''cert_fingerprint'', json_opt presented), (''has_chain'', JBool (json_truth cert_chain_der_b64)),
               (''has_ocsp'', JBool (truthy ocsp_der_b64))])
        (seq (audit E name ''Cert Presented'' [(''fingerprint'', json_opt presented)])
        (bind (get_doc ''DSC Signing Request'' t_requests name) (\<lambda>req.
         bind (db_gets (\<lambda>d. expected_fingerprint d req)) (\<lambda>expected.
         if fingerprint_mismatch expected presented then reject_certificate E name expected presented
         else catch
           (complete_signing E P name session_id signature_bytes_b64 (parse_chain P cert_chain_der_b64)
              ocsp_der_b64 start_time)
           (handle_failure E name req))))))))"

section \<open>What the steps leave alone\<close>

lemma keeps_db_mails [keeps_db]:
  "keeps (same both_dbs) (notify_admins_of_failure E n m)"
  "keeps (same both_dbs) (send_signed_notification E dt dn n)"
  by (auto simp: notify_admins_of_failure_def send_signed_notification_def Let_def
      intro!: keeps_db split: option.split)

declare keeps_db_mails [THEN keeps_db_saved, keeps_saved] keeps_db_mails [THEN keeps_db_requests, keeps_requests] keeps_db_mails [THEN keeps_db_now, keeps_now]
  keeps_db_mails [THEN keeps_db_trail, keeps_trail]

lemma keeps_cache_mails [keeps_cache]:
  "keeps (same w_cache) (notify_admins_of_failure E n m)"
  "keeps (same w_cache) (send_signed_notification E dt dn n)"
  "keeps (same w_cache) (run_dev_hooks E h kw)"
  by (auto simp: notify_admins_of_failure_def send_signed_notification_def run_dev_hooks_def Let_def
      intro!: keeps_cache split: option.split)

lemma keeps_timeline:
  "keeps (same w_saved) (add_timeline_entry E dt dn n)" "keeps (same w_cache) (add_timeline_entry E dt dn n)"
  "keeps (same requests) (add_timeline_entry E dt dn n)" "keeps audit_ext (add_timeline_entry E dt dn n)"
  unfolding add_timeline_entry_def Let_def
  by (intro keeps_saved keeps_cache keeps_requests keeps_requests_modify keeps_trail keeps_trail_db; simp add: well_named_def)+

lemma keeps_timeline_now [keeps_now]:
  "(\<And>d x. f (d\<lparr>t_comments := x\<rparr>) = f d) \<Longrightarrow> keeps (same (\<lambda>w. f (w_db w))) (add_timeline_entry E dt dn n)"
  unfolding add_timeline_entry_def Let_def by (intro keeps_now) simp

declare keeps_timeline(1) [keeps_saved] keeps_timeline(2) [keeps_cache] keeps_timeline(3) [keeps_requests]
  keeps_timeline(4) [keeps_trail]

lemma keeps_trail_finalize [keeps_trail]: "keeps audit_ext (finalize E P sid sig c chain ocsp)"
  unfolding finalize_def reject_certificate_def complete_signing_def reject_pdf_def record_signature_def
    handle_failure_def Let_def
  by (intro keeps_trail)

lemma keeps_cache_after_session [keeps_cache]:
  "keeps (same w_cache) (reject_certificate E n x p)" "keeps (same w_cache) (reject_pdf E n v)"
  "keeps (same w_cache) (record_signature E n t sig ocsp sd fn fd)"
  "keeps (same w_cache) (handle_failure E n req e)"
  unfolding reject_certificate_def reject_pdf_def record_signature_def handle_failure_def Let_def
  by (intro keeps_cache)+

section \<open>A session is used once\<close>

definition live_session :: "env \<Rightarrow> world \<Rightarrow> string \<Rightarrow> session option" where
  "live_session E w session_id =
    (case map_of (w_cache w) (session_key session_id) of
       Some (CSession ss, expires) \<Rightarrow> if e_clock E (w_tick w) < expires then Some ss else None
     | _ \<Rightarrow> None)"

lemma load_session_run:
  "load_session E sid False w = (Inr (live_session E w sid), w\<lparr>w_tick := Suc (w_tick w)\<rparr>)"
  by (simp add: load_session_def cache_get_def now_datetime_def live_session_def cond_def run_bind run_seq
      split: option.splits cached.splits)

lemma load_session_pop:
  assumes "load_session E sid True w = (Inr (Some ss), w')"
  shows "live_session E w sid = Some ss" "w' = w\<lparr>w_tick := Suc (w_tick w), w_cache := AList.delete (session_key sid) (w_cache w)\<rparr>"
  using assms
  by (auto simp: load_session_def cache_get_def now_datetime_def live_session_def cond_def cache_delete_def
      run_bind run_seq split: option.splits cached.splits if_splits)

lemma finalize_pdf_okE:
  assumes "finalize_signed_pdf E P sid sig chain w = (Inr sd, w')"
  obtains ss sigb der cert attrs pdf certs where
    "live_session E w sid = Some ss" "both_dbs w' = both_dbs w"
    "w_cache w' = AList.delete (session_key sid) (w_cache w)"
    "b64decode sig = Some sigb" "b64decode (ss_cert_der_b64 ss) = Some der" "p_load_cert P der = Inr cert"
    "b64decode (ss_signed_attrs_b64 ss) = Some attrs" "b64decode (ss_prepared_pdf_b64 ss) = Some pdf"
    "p_fill_with_cms P pdf (ss_reserved_region_start ss) (ss_reserved_region_end ss)
       (p_cms_der P \<lparr>ci_signer_cert = cert, ci_chain = certs, ci_signed_attrs = attrs, ci_signature = sigb\<rparr>)
       = Inr (sd_signed_pdf_bytes sd)"
    "sd_doctype sd = ss_doctype ss" "sd_docname sd = ss_docname ss"
    "sd_signing_request_name sd = ss_signing_request_name ss"
    "sd_certificate_fingerprint sd = e_sha256 E der"
proof -
  from assms obtain s w1 where
    a: "load_session E sid True w = (Inr s, w1)" and
    b: "(case s of None \<Rightarrow> raise session_expired
         | Some ss \<Rightarrow>
        bind (decode sig) (\<lambda>signature_bytes.
        bind (decode (ss_cert_der_b64 ss)) (\<lambda>cert_der.
        bind (lift (p_load_cert P cert_der)) (\<lambda>signer_cert.
        bind (lift (chain_items chain)) (\<lambda>items.
        bind (load_chain P items) (\<lambda>chain_certs.
        bind (decode (ss_signed_attrs_b64 ss)) (\<lambda>signed_attrs_der.
        bind (decode (ss_prepared_pdf_b64 ss)) (\<lambda>prepared_pdf_bytes.
        bind (lift (p_fill_with_cms P prepared_pdf_bytes (ss_reserved_region_start ss)
               (ss_reserved_region_end ss) (p_cms_der P \<lparr>ci_signer_cert = signer_cert, ci_chain = chain_certs,
              ci_signed_attrs = signed_attrs_der, ci_signature = signature_bytes\<rparr>))) (\<lambda>signed_pdf_bytes.
        bind (db_gets (\<lambda>d. length (signed_versions P (ss_doctype ss) (ss_docname ss) d))) (\<lambda>existing.
        ret \<lparr>sd_signed_pdf_bytes = signed_pdf_bytes,
             sd_file_name = signed_file_name (ss_docname ss) existing,
             sd_doctype = ss_doctype ss, sd_docname = ss_docname ss,
             sd_signing_request_name = ss_signing_request_name ss,
             sd_certificate_fingerprint = e_sha256 E cert_der\<rparr>)))))))))) w1 = (Inr sd, w')"
    unfolding finalize_signed_pdf_def Let_def by (elim bind_okE)
  from b obtain ss where s: "s = Some ss" by (cases s) simp_all
  from b obtain sigb w2 der w3 cert w4 items w5 certs w6 attrs w7 pdf w8 out w9 ex w10 where
    c: "decode sig w1 = (Inr sigb, w2)" "decode (ss_cert_der_b64 ss) w2 = (Inr der, w3)"
    "lift (p_load_cert P der) w3 = (Inr cert, w4)" "lift (chain_items chain) w4 = (Inr items, w5)"
    "load_chain P items w5 = (Inr certs, w6)" "decode (ss_signed_attrs_b64 ss) w6 = (Inr attrs, w7)"
    "decode (ss_prepared_pdf_b64 ss) w7 = (Inr pdf, w8)"
    "lift (p_fill_with_cms P pdf (ss_reserved_region_start ss)
               (ss_reserved_region_end ss) (p_cms_der P \<lparr>ci_signer_cert = cert, ci_chain = certs,
              ci_signed_attrs = attrs, ci_signature = sigb\<rparr>)) w8 = (Inr out, w9)"
    "db_gets (\<lambda>d. length (signed_versions P (ss_doctype ss) (ss_docname ss) d)) w9 = (Inr ex, w10)"
    "(ret \<lparr>sd_signed_pdf_bytes = out,
             sd_file_name = signed_file_name (ss_docname ss) ex,
             sd_doctype = ss_doctype ss, sd_docname = ss_docname ss,
             sd_signing_request_name = ss_signing_request_name ss,
             sd_certificate_fingerprint = e_sha256 E der\<rparr> :: signed_result act) w10 = (Inr sd, w')"
    unfolding s option.case by (elim bind_okE)
  have dec: "b64decode x = Some y \<and> v = u" if "decode x u = (Inr y, v)" for x y u v
    using that by (auto simp: decode_def split: option.splits)
  have "w_cache w6 = w_cache w5" "both_dbs w6 = both_dbs w5"
    using keeps_same_runD [OF keeps_cache_embed(2) c(5)] keeps_same_runD [OF keeps_db_embed(2) c(5)] .
  then have "w_cache w' = w_cache w1" "both_dbs w' = both_dbs w1"
    using dec [OF c(1)] dec [OF c(2)] dec [OF c(6)] dec [OF c(7)] c(3,4,8,9,10) by (auto simp: db_gets_def)
  then show thesis
    using load_session_pop [OF a [unfolded s]] dec [OF c(1)] dec [OF c(2)] dec [OF c(6)] dec [OF c(7)]
      c(3,8,9,10) that [of ss sigb der cert attrs pdf certs]
    by (auto simp: both_dbs_def)
qed

section \<open>What a successful \<open>finalize\<close> leaves behind\<close>

lemma record_signature_okE:
  assumes "record_signature E n t0 sig ocsp sd fn fd w = (Inr (), w')"
  obtains req where
    "row (requests w') n = Some req" "w_saved w' = w_db w'" "sr_status req = Signed"
    "sr_actual_signer_user req = Some (e_user E)" "sr_signature_bytes req = Some sig"
    "sr_certificate_fingerprint_presented req = Some (sd_certificate_fingerprint sd)"
    "sr_ocsp_response_b64 req = ocsp" "sr_signed_file req = Some fn" "sr_signed_on req \<noteq> None"
    "t_files (w_db w') = t_files (w_db w)"
    "sd_doctype sd = ''DSC Document Sign'' \<Longrightarrow> row (t_docsigns (w_db w')) (sd_docname sd) =
       map_option (\<lambda>s. s\<lparr>ds_status := Some (Mirrors Signed), ds_signed_file := Some fn\<rparr>)
         (row (t_docsigns (w_db w)) (sd_docname sd))"
proof -
  from assms obtain t w1 on w2 w3 w4 w5 w6 w7 where
    a: "now_datetime E w = (Inr t, w1)" "now_datetime E w1 = (Inr on, w2)" and
    b: "set_request E n (\<lambda>r. r\<lparr>sr_status := Signed, sr_actual_signer_user := Some (e_user E),
          sr_signed_on := Some on, sr_sign_duration_seconds := Some (whole_seconds (t - t0)),
          sr_signature_bytes := Some sig,
          sr_certificate_fingerprint_presented := Some (sd_certificate_fingerprint sd),
          sr_ocsp_response_b64 := ocsp, sr_signed_file := Some fn\<rparr>) w2 = (Inr (), w3)" and
    c: "cond (sd_doctype sd = ''DSC Document Sign'')
           (set_docsign (sd_docname sd) (\<lambda>s. s\<lparr>ds_status := Some (Mirrors Signed), ds_signed_file := Some fn\<rparr>))
         w3 = (Inr (), w4)" and
    d: "audit E n ''Request Signed''
           [(''duration_seconds'', JInt (whole_seconds (t - t0))), (''file_name'', JStr (fl_file_name fd)),
            (''file_size'', JInt (int (length (sd_signed_pdf_bytes sd))))] w4 = (Inr (), w5)" and
    e: "add_timeline_entry E (sd_doctype sd) (sd_docname sd) n w5 = (Inr (), w6)" and
    f: "catch (send_signed_notification E (sd_doctype sd) (sd_docname sd) n)
           (\<lambda>_. log_error ''DSC: signed notification email failed'') w6 = (Inr (), w7)" and
    g: "commit w7 = (Inr (), w')"
    unfolding record_signature_def Let_def by (elim bind_okE seq_okE)
  have mail: "keeps (same both_dbs) (catch (send_signed_notification E (sd_doctype sd) (sd_docname sd) n)
           (\<lambda>_. log_error ''DSC: signed notification email failed''))"
    by (intro keeps_db)
  have w': "w_db w' = w_db w6" "w_saved w' = w_db w'"
    using keeps_same_runD [OF mail f] g by (auto simp: commit_def both_dbs_def)
  have now: "w_db w2 = w_db w" using a by (auto simp: now_datetime_def)
  have reqs: "requests w6 = requests w3"
    using keeps_same_runD [OF keeps_timeline(3) e] keeps_same_runD [OF keeps_audit(3) d]
      c by (auto simp: run_cond set_docsign_def db_modify_def requests_def split: if_splits)
  have files: "t_files (w_db w6) = t_files (w_db w3)" and docs: "t_docsigns (w_db w6) = t_docsigns (w_db w4)"
    using keeps_same_runD [OF keeps_timeline_now e, of t_files] keeps_same_runD [OF keeps_timeline_now e, of t_docsigns]
      audit_run [OF d] c by (auto simp: run_cond set_docsign_def db_modify_def split: if_splits)
  from e obtain req where req: "row (requests w5) n = Some req"
    unfolding add_timeline_entry_def requests_def by (auto elim!: bind_okE get_doc_okE)
  moreover have "requests w5 = requests w6"
    using keeps_same_runD [OF keeps_timeline(3) e] by simp
  ultimately have r3: "row (requests w3) n = Some req" using reqs by simp
  then have status: "sr_status req = Signed"
    "sr_actual_signer_user req = Some (e_user E)" "sr_signature_bytes req = Some sig"
    "sr_certificate_fingerprint_presented req = Some (sd_certificate_fingerprint sd)"
    "sr_ocsp_response_b64 req = ocsp" "sr_signed_file req = Some fn" "sr_signed_on req \<noteq> None"
    using b by (auto simp: set_request_run requests_def)
  have row: "row (requests w') n = Some req" using r3 reqs w'(1) by (simp add: requests_def)
  have files': "t_files (w_db w') = t_files (w_db w)"
    using files b now w'(1) by (auto simp: set_request_run)
  have docs': "sd_doctype sd = ''DSC Document Sign'' \<Longrightarrow> row (t_docsigns (w_db w')) (sd_docname sd) =
       map_option (\<lambda>s. s\<lparr>ds_status := Some (Mirrors Signed), ds_signed_file := Some fn\<rparr>)
         (row (t_docsigns (w_db w)) (sd_docname sd))"
    using docs b c now w'(1) by (auto simp: set_request_run run_cond set_docsign_def db_modify_def)
  from that [OF row w'(2) status files' docs'] show thesis .
qed

lemma save_signed_pdf_okE:
  assumes "save_signed_pdf E P sd w = (Inr (fn, fd), w')"
  obtains f where "row (t_files (w_db w')) fn = Some f" "fl_content f = Bytes (sd_signed_pdf_bytes sd)"
    "fl_is_private f" "fl_attached_to_doctype f = Some (sd_doctype sd)"
    "fl_attached_to_name f = Some (sd_docname sd)" "fl_file_url f = fl_file_url fd"
    "row (t_files (w_db w)) fn = None" "t_docsigns (w_db w') = t_docsigns (w_db w)"
  using assms unfolding save_signed_pdf_def
  by (auto simp: new_name_def db_gets_def insert_row_def db_modify_def set_file_def Let_def run_cond
      elim!: act_okE split: if_splits prod.splits)

lemma handle_failure_raises: "handle_failure E n req e w \<noteq> (Inr r, w')"
  unfolding handle_failure_def by (auto elim!: seq_okE)

lemma reject_certificate_raises: "reject_certificate E n x p w \<noteq> (Inr r, w')"
  unfolding reject_certificate_def by (auto elim!: seq_okE)

text \<open>The signed bytes are the prepared PDF of the session with the CMS over the session's
  signed attributes and certificate and the given signature injected.\<close>

definition embeds :: "pdf_env \<Rightarrow> session \<Rightarrow> string \<Rightarrow> string \<Rightarrow> bool" where
  "embeds P ss signature_bytes_b64 out \<longleftrightarrow>
    (\<exists>sigb der cert attrs pdf certs. b64decode signature_bytes_b64 = Some sigb
      \<and> b64decode (ss_cert_der_b64 ss) = Some der \<and> p_load_cert P der = Inr cert
      \<and> b64decode (ss_signed_attrs_b64 ss) = Some attrs \<and> b64decode (ss_prepared_pdf_b64 ss) = Some pdf
      \<and> p_fill_with_cms P pdf (ss_reserved_region_start ss) (ss_reserved_region_end ss)
          (p_cms_der P \<lparr>ci_signer_cert = cert, ci_chain = certs, ci_signed_attrs = attrs, ci_signature = sigb\<rparr>)
        = Inr out)"

definition signed_file_of :: "db \<Rightarrow> pdf_env \<Rightarrow> session \<Rightarrow> string \<Rightarrow> string \<Rightarrow> string \<Rightarrow> bool" where
  "signed_file_of d P ss sig fn url \<longleftrightarrow>
    (\<exists>f out. row (t_files d) fn = Some f \<and> fl_is_private f \<and> fl_file_url f = url
      \<and> fl_attached_to_doctype f = Some (ss_doctype ss) \<and> fl_attached_to_name f = Some (ss_docname ss)
      \<and> fl_content f = Bytes out \<and> embeds P ss sig out)"

lemma complete_signing_okE:
  assumes "complete_signing E P n sid sig chain ocsp t0 w = (Inr r, w')"
  obtains ss req fn where
    "live_session E w sid = Some ss" "w_saved w' = w_db w'" "w_cache w' = AList.delete (session_key sid) (w_cache w)"
    "row (requests w') n = Some req" "sr_status req = Signed" "sr_actual_signer_user req = Some (e_user E)"
    "sr_signature_bytes req = Some sig" "sr_signed_file req = Some fn" "fi_signing_request r = n"
    "signed_file_of (w_db w') P ss sig fn (fi_file_url r)"
    "vf_is_valid (fi_verification r) \<or> \<not> no_signatures (fi_verification r)"
    "ss_doctype ss = ''DSC Document Sign'' \<Longrightarrow> row (t_docsigns (w_db w)) (ss_docname ss) \<noteq> None \<Longrightarrow>
      \<exists>s. row (t_docsigns (w_db w')) (ss_docname ss) = Some s \<and> ds_status s = Some (Mirrors Signed)
        \<and> ds_signed_file s = Some fn"
proof -
  from assms obtain sd w1 v w2 w3 w4 fn fd w5 w6 w7 where
    a: "finalize_signed_pdf E P sid sig chain w = (Inr sd, w1)" and
    b: "verify_signed_pdf E P (sd_signed_pdf_bytes sd) w1 = (Inr v, w2)" and
    c: "audit E n ''PDF Verified''
          [(''is_valid'', JBool (vf_is_valid v)),
           (''signature_count'', case signature_count v of None \<Rightarrow> JNull | Some k \<Rightarrow> JInt (int k))] w2 = (Inr (), w3)" and
    d: "cond (\<not> vf_is_valid v \<and> no_signatures v) (reject_pdf E n v) w3 = (Inr (), w4)" and
    e: "save_signed_pdf E P sd w4 = (Inr (fn, fd), w5)" and
    f: "record_signature E n t0 sig ocsp sd fn fd w5 = (Inr (), w6)" and
    g: "run_dev_hooks E ''dsc_after_sign''
            [(''signing_request'', n), (''doctype'', sd_doctype sd), (''docname'', sd_docname sd),
             (''file_url'', fl_file_url fd)] w6 = (Inr (), w7)" and
    h: "(ret \<lparr>fi_file_url = fl_file_url fd, fi_file_name = fl_file_name fd, fi_signing_request = n,
           fi_verification = v\<rparr> :: finalized act) w7 = (Inr r, w')"
    unfolding complete_signing_def by (elim bind_okE seq_okE) (auto elim!: bind_okE seq_okE split: prod.splits)
  from a obtain ss der where ss: "live_session E w sid = Some ss" "both_dbs w1 = both_dbs w"
    "w_cache w1 = AList.delete (session_key sid) (w_cache w)" "embeds P ss sig (sd_signed_pdf_bytes sd)"
    "sd_doctype sd = ss_doctype ss" "sd_docname sd = ss_docname ss"
    by (rule finalize_pdf_okE) (auto simp: embeds_def)
  have v: "vf_is_valid v \<or> \<not> no_signatures v" and w4: "w4 = w3"
    using d by (auto simp: run_cond reject_pdf_def elim!: seq_okE split: if_splits)
  have dbs: "both_dbs w' = both_dbs w6" using keeps_same_runD [OF keeps_db_initiate(1) g] h by simp
  have cache: "w_cache w' = w_cache w1"
    using keeps_same_runD [OF keeps_cache_embed(5) b] keeps_same_runD [OF keeps_audit(2) c]
      keeps_same_runD [OF keeps_cache_embed(6) e] keeps_same_runD [OF keeps_cache_after_session(3) f]
      keeps_same_runD [OF keeps_cache_mails(3) g] h w4 by simp
  from e obtain fl where fl: "row (t_files (w_db w5)) fn = Some fl" "fl_content fl = Bytes (sd_signed_pdf_bytes sd)"
    "fl_is_private fl" "fl_attached_to_doctype fl = Some (sd_doctype sd)"
    "fl_attached_to_name fl = Some (sd_docname sd)" "fl_file_url fl = fl_file_url fd"
    and docs5: "t_docsigns (w_db w5) = t_docsigns (w_db w4)"
    by (rule save_signed_pdf_okE)
  from f obtain req where req: "row (requests w6) n = Some req" "w_saved w6 = w_db w6" "sr_status req = Signed"
    "sr_actual_signer_user req = Some (e_user E)" "sr_signature_bytes req = Some sig"
    "sr_signed_file req = Some fn" and files: "t_files (w_db w6) = t_files (w_db w5)"
    and docs: "sd_doctype sd = ''DSC Document Sign'' \<Longrightarrow> row (t_docsigns (w_db w6)) (sd_docname sd) =
       map_option (\<lambda>s. s\<lparr>ds_status := Some (Mirrors Signed), ds_signed_file := Some fn\<rparr>)
         (row (t_docsigns (w_db w5)) (sd_docname sd))"
    by (rule record_signature_okE) blast
  have "t_docsigns (w_db w4) = t_docsigns (w_db w)"
    using audit_run(5) [OF c] keeps_same_runD [OF keeps_db_embed(6) b] ss(2) w4 by (auto simp: both_dbs_def)
  with docs docs5 dbs ss have mirror: "ss_doctype ss = ''DSC Document Sign'' \<Longrightarrow>
      row (t_docsigns (w_db w)) (ss_docname ss) \<noteq> None \<Longrightarrow>
      \<exists>s. row (t_docsigns (w_db w')) (ss_docname ss) = Some s \<and> ds_status s = Some (Mirrors Signed)
        \<and> ds_signed_file s = Some fn"
    by (auto simp: both_dbs_def)
  have stored: "signed_file_of (w_db w') P ss sig fn (fi_file_url r)"
    using fl files dbs ss(4,5,6) h by (auto simp: signed_file_of_def both_dbs_def)
  show thesis
    using that [OF ss(1) _ _ _ req(3-6) _ stored _ mirror] req(1,2) dbs cache ss(3) v h
    by (auto simp: both_dbs_def requests_def)
qed

lemma finalize_okE:
  assumes "finalize E P sid sig c chain ocsp w = (Inr r, w')"
  obtains ss t0 w1 where
    "live_session E w sid = Some ss" "w_cache w1 = w_cache w" "requests w1 = requests w"
    "t_docsigns (w_db w1) = t_docsigns (w_db w)"
    "complete_signing E P (ss_signing_request_name ss) sid sig (parse_chain P chain) ocsp t0 w1 = (Inr r, w')"
proof -
  obtain ss where ss: "live_session E w sid = Some ss"
    using assms by (cases "live_session E w sid")
      (auto simp: finalize_def get_session_info_def load_session_run run_bind)
  let ?n = "ss_signing_request_name ss"
  from assms ss obtain w1 t0 w2 der w3 w4 w5 req w6 expected w7 where
    a: "get_session_info E sid w = (Inr (Some ss), w1)" "now_datetime E w1 = (Inr t0, w2)"
      "(if truthy c then decode (or_str c '''') else ret '''') w2 = (Inr der, w3)" and
    b: "audit E ?n ''Signature Returned''
              [(''cert_fingerprint'', json_opt (presented_fingerprint E der)), (''has_chain'', JBool (json_truth chain)),
               (''has_ocsp'', JBool (truthy ocsp))] w3 = (Inr (), w4)"
      "audit E ?n ''Cert Presented'' [(''fingerprint'', json_opt (presented_fingerprint E der))] w4 = (Inr (), w5)" and
    d: "get_doc ''DSC Signing Request'' t_requests ?n w5 = (Inr req, w6)"
      "db_gets (\<lambda>d. expected_fingerprint d req) w6 = (Inr expected, w7)" and
    e: "(if fingerprint_mismatch expected (presented_fingerprint E der)
         then reject_certificate E ?n expected (presented_fingerprint E der)
         else catch (complete_signing E P ?n sid sig (parse_chain P chain) ocsp t0) (handle_failure E ?n req)) w7
       = (Inr r, w')"
    unfolding finalize_def Let_def get_session_info_def
    by (auto simp: load_session_run elim!: bind_okE seq_okE)
  have "both_dbs w3 = both_dbs w" "w_cache w3 = w_cache w"
    using a by (auto simp: get_session_info_def load_session_run now_datetime_def both_dbs_def decode_def
        split: if_splits option.splits)
  then have w7: "w_cache w7 = w_cache w" "requests w7 = requests w" "t_docsigns (w_db w7) = t_docsigns (w_db w)"
    using audit_run [OF b(1)] audit_run [OF b(2)] d
    by (auto simp: both_dbs_def requests_def db_gets_def elim!: get_doc_okE)
  have "complete_signing E P ?n sid sig (parse_chain P chain) ocsp t0 w7 = (Inr r, w')"
    using e by (auto simp: run_catch reject_certificate_raises handle_failure_raises split: if_splits prod.splits sum.splits)
  from that [OF ss w7 this] show thesis .
qed

lemma live_session_cache: "live_session E w sid = Some ss \<Longrightarrow> w_cache w' = w_cache w \<Longrightarrow>
    live_session E' w' sid = Some ss' \<Longrightarrow> ss' = ss"
  by (auto simp: live_session_def split: option.splits cached.splits if_splits)

text \<open>C1: whenever \<open>finalize\<close> returns, it has committed the evidence: the request bound to the
  session is Signed by the session user with the given signature, it links a private file
  attached to the session's document whose bytes are the session's prepared PDF with the
  signature embedded, the response points to that file, and a DSC Document Sign source
  mirrors both.\<close>

theorem finalize_commits_evidence:
  assumes "finalize E P sid sig c chain ocsp w = (Inr r, w')"
  shows "\<exists>ss req fn. live_session E w sid = Some ss
      \<and> fi_signing_request r = ss_signing_request_name ss \<and> w_saved w' = w_db w'
      \<and> row (t_requests (w_saved w')) (ss_signing_request_name ss) = Some req
      \<and> sr_status req = Signed \<and> sr_actual_signer_user req = Some (e_user E)
      \<and> sr_signature_bytes req = Some sig \<and> sr_signed_file req = Some fn
      \<and> signed_file_of (w_saved w') P ss sig fn (fi_file_url r)
      \<and> (ss_doctype ss = ''DSC Document Sign'' \<and> row (t_docsigns (w_db w)) (ss_docname ss) \<noteq> None \<longrightarrow>
          (\<exists>s. row (t_docsigns (w_saved w')) (ss_docname ss) = Some s \<and> ds_status s = Some (Mirrors Signed)
            \<and> ds_signed_file s = Some fn))"
proof -
  from assms obtain ss t0 w1 where ss: "live_session E w sid = Some ss" "w_cache w1 = w_cache w"
    "t_docsigns (w_db w1) = t_docsigns (w_db w)" and
    c: "complete_signing E P (ss_signing_request_name ss) sid sig (parse_chain P chain) ocsp t0 w1 = (Inr r, w')"
    by (rule finalize_okE)
  from c obtain ss1 req fn where ss1: "live_session E w1 sid = Some ss1" and
    out: "w_saved w' = w_db w'" "row (requests w') (ss_signing_request_name ss) = Some req" "sr_status req = Signed"
      "sr_actual_signer_user req = Some (e_user E)"
    "sr_signature_bytes req = Some sig" "sr_signed_file req = Some fn"
    "fi_signing_request r = ss_signing_request_name ss"
    "signed_file_of (w_db w') P ss1 sig fn (fi_file_url r)" and
    mirror: "ss_doctype ss1 = ''DSC Document Sign'' \<Longrightarrow> row (t_docsigns (w_db w1)) (ss_docname ss1) \<noteq> None \<Longrightarrow>
      \<exists>s. row (t_docsigns (w_db w')) (ss_docname ss1) = Some s \<and> ds_status s = Some (Mirrors Signed)
        \<and> ds_signed_file s = Some fn"
    by (rule complete_signing_okE) blast
  have "ss1 = ss" using live_session_cache [OF ss(1,2) ss1] .
  with ss(1,3) out mirror show ?thesis
    by (intro exI [of _ ss] exI [of _ req] exI [of _ fn]) (simp add: requests_def)
qed

text \<open>C15: a signing session serves one signature: after a \<open>finalize\<close> that returned, any
  further \<open>finalize\<close> for the same session, whoever calls it and with whatever data, is
  refused, and changes no document.\<close>

theorem finalize_session_once:
  assumes "finalize E P sid sig c chain ocsp w = (Inr r, w')"
  shows "finalize E' P' sid sig' c' chain' ocsp' w' = (Inl session_expired, w'\<lparr>w_tick := Suc (w_tick w')\<rparr>)"
proof -
  from assms obtain ss t0 w1 where "live_session E w sid = Some ss" and
    "complete_signing E P (ss_signing_request_name ss) sid sig (parse_chain P chain) ocsp t0 w1 = (Inr r, w')"
    by (rule finalize_okE)
  from this(2) have "w_cache w' = AList.delete (session_key sid) (w_cache w1)"
    by (rule complete_signing_okE)
  then have "live_session E' w' sid = None"
    by (simp add: live_session_def AList.delete_conv')
  then show ?thesis
    by (simp add: finalize_def get_session_info_def load_session_run run_bind)
qed

section \<open>Failures are recorded\<close>

definition fresh_names :: "env \<Rightarrow> bool" where
  "fresh_names E \<longleftrightarrow> (\<forall>dt ns. e_new_name E dt ns \<notin> set ns)"

lemma row_new: "fresh_names E \<Longrightarrow> row t (e_new_name E dt (map fst t)) = None"
  by (simp add: fresh_names_def row_def map_of_eq_None_iff flip: set_map)

text \<open>With fresh names the trail can always be written, and logging appends its event.\<close>

lemma audit_appends:
  assumes "fresh_names E"
  obtains nm ev w' where "audit E n ty ds w = (Inr (), w')" "t_events (w_db w') = t_events (w_db w) @ [(nm, ev)]"
    "ev_request ev = n" "ev_event_type ev = ty"
proof -
  have "\<exists>nm ev w'. audit E n ty ds w = (Inr (), w') \<and> t_events (w_db w') = t_events (w_db w) @ [(nm, ev)]
      \<and> ev_request ev = n \<and> ev_event_type ev = ty"
    by (simp add: audit_def log_event_def insert_event_def event_before_insert_def event_before_save_def
        insert_row_def now_datetime_def new_name_def db_gets_def db_modify_def run_bind run_seq
        compute_event_hash_def Let_def add_row_def row_new [OF assms])
  with that show thesis by blast
qed

lemma audit_tick: "audit E n ty ds w = (r, w') \<Longrightarrow> w_tick w' = Suc (w_tick w)"
  by (auto simp: audit_def log_event_def insert_event_def event_before_insert_def event_before_save_def
      insert_row_def now_datetime_def new_name_def db_gets_def db_modify_def run_bind run_seq Let_def
      split: if_splits)

lemma total_audit: "fresh_names E \<Longrightarrow> total (audit E n ty ds)"
  by (rule totalI) (metis audit_appends)

definition failure_committed :: "string \<Rightarrow> world \<Rightarrow> bool" where
  "failure_committed n w \<longleftrightarrow> w_db w = w_saved w
    \<and> (\<exists>req. row (t_requests (w_saved w)) n = Some req \<and> sr_status req = Failed)
    \<and> (\<exists>nm ev. (nm, ev) \<in> set (t_events (w_saved w)) \<and> ev_request ev = n \<and> ev_event_type ev = ''Request Failed'')"

lemma handle_failure_commits:
  assumes "fresh_names E" and "row (requests w) n = Some r0" and "handle_failure E n req e w = (res, w')"
  shows "res = Inl e \<and> failure_committed n w'"
proof -
  let ?w1 = "snd (set_request E n (\<lambda>r. r\<lparr>sr_status := Failed, sr_failure_reason := Some (take 500 (err_text e))\<rparr>) w)"
  let ?mail = "catch (notify_admins_of_failure E n (err_text e))
           (\<lambda>_. log_error ''DSC: admin failure-notification email failed'')"
  obtain w2 where w2: "cond (sr_source_doctype req = ''DSC Document Sign'')
           (set_docsign (sr_source_name req) (\<lambda>s. s\<lparr>ds_status := Some (Mirrors Failed)\<rparr>)) ?w1 = (Inr (), w2)"
    by (cases "sr_source_doctype req = ''DSC Document Sign''") (simp_all add: run_cond set_docsign_def db_modify_def)
  obtain nm ev w3 where w3: "audit E n ''Request Failed''
           [(''reason'', JStr (err_text e)), (''error_type'', JStr (err_type e))] w2 = (Inr (), w3)" and
    ev: "t_events (w_db w3) = t_events (w_db w2) @ [(nm, ev)]" "ev_request ev = n" "ev_event_type ev = ''Request Failed''"
    by (rule audit_appends [OF assms(1)])
  have "total ?mail" by (intro total_intros)
  from total_runE [OF this] obtain u w4 where "?mail w3 = (Inr u, w4)" .
  then have w4: "?mail w3 = (Inr (), w4)" by simp
  have mail: "keeps (same both_dbs) ?mail" by (intro keeps_db)
  have res: "res = Inl e" "w' = w4\<lparr>w_saved := w_db w4\<rparr>"
    using assms(3) w2 w3 w4 by (simp_all add: handle_failure_def set_request_run commit_def)
  have "w_db w4 = w_db w3" using keeps_same_runD [OF mail w4] by (simp add: both_dbs_def)
  moreover have "t_requests (w_db w3) = requests ?w1"
    using audit_run(4) [OF w3] w2 by (auto simp: run_cond set_docsign_def db_modify_def requests_def split: if_splits)
  ultimately show ?thesis
    using res ev assms(2) by (auto simp: failure_committed_def set_request_run requests_def)
qed

lemma reject_certificate_commits:
  assumes "fresh_names E" and "row (requests w) n = Some r0" and "reject_certificate E n x p w = (res, w')"
  shows "res = Inl wrong_token \<and> failure_committed n w'"
proof -
  let ?w1 = "snd (set_request E n (\<lambda>r. r\<lparr>sr_status := Failed, sr_failure_reason :=
          Some ''Certificate fingerprint mismatch - token cert does not match profile''\<rparr>) w)"
  obtain nm ev w3 where w3: "audit E n ''Request Failed''
           [(''reason'', JStr ''Fingerprint mismatch''), (''expected'', json_opt x),
            (''presented'', json_opt p)] ?w1 = (Inr (), w3)" and
    ev: "t_events (w_db w3) = t_events (w_db ?w1) @ [(nm, ev)]" "ev_request ev = n" "ev_event_type ev = ''Request Failed''"
    by (rule audit_appends [OF assms(1)])
  have res: "res = Inl wrong_token" "w' = w3\<lparr>w_saved := w_db w3\<rparr>"
    using assms(3) w3 by (simp_all add: reject_certificate_def set_request_run commit_def)
  then show ?thesis
    using ev audit_run(4) [OF w3] assms(2) by (auto simp: failure_committed_def set_request_run requests_def)
qed

text \<open>No step of the body of the \<open>try\<close> removes a signing request.\<close>

lemma keeps_names_set_request [keeps_now]:
  "keeps (same (\<lambda>w. map fst (t_requests (w_db w)))) (set_request E n f)"
  by (simp add: keeps_def same_def set_request_run update_row_def)

lemma row_names: "map fst t = map fst u \<Longrightarrow> row t n = Some r \<Longrightarrow> \<exists>r'. row u n = Some r'"
  by (metis map_of_eq_None_iff option.exhaust row_def set_map option.distinct(1))

lemma keeps_now_signed_pdf [keeps_now]:
  "(\<And>d x. f (d\<lparr>t_files := x\<rparr>) = f d) \<Longrightarrow> keeps (same (\<lambda>w. f (w_db w))) (save_signed_pdf E P sd)"
  unfolding save_signed_pdf_def insert_row_def set_file_def by (intro keeps_now) simp_all

lemma keeps_names_complete:
  "keeps (same (\<lambda>w. map fst (t_requests (w_db w)))) (complete_signing E P n sid sig chain ocsp t0)"
  unfolding complete_signing_def reject_pdf_def record_signature_def Let_def
  by (intro keeps_now keeps_names_set_request [of E]) simp_all

text \<open>The first part of \<open>finalize\<close>, up to the \<open>try\<close>, when the session and the request exist.\<close>

lemma finalize_prefix:
  assumes "fresh_names E" and "live_session E w sid = Some ss"
    and "row (t_requests (w_db w)) (ss_signing_request_name ss) = Some req"
    and "b64decode (or_str c '''') = Some der"
  obtains t0 w1 where "w_cache w1 = w_cache w" "w_saved w1 = w_saved w" "requests w1 = requests w"
    "t_files (w_db w1) = t_files (w_db w)" "t_profiles (w_db w1) = t_profiles (w_db w)" "w_tick w1 = w_tick w + 4"
    "finalize E P sid sig c chain ocsp w =
      (let n = ss_signing_request_name ss; expected = expected_fingerprint (w_db w) req;
           presented = presented_fingerprint E der
       in if fingerprint_mismatch expected presented then reject_certificate E n expected presented w1
          else catch (complete_signing E P n sid sig (parse_chain P chain) ocsp t0) (handle_failure E n req) w1)"
proof -
  let ?n = "ss_signing_request_name ss" and ?p = "presented_fingerprint E der"
  let ?w = "w\<lparr>w_tick := Suc (Suc (w_tick w))\<rparr>"
  obtain w2 where w2: "audit E ?n ''Signature Returned''
              [(''cert_fingerprint'', json_opt ?p), (''has_chain'', JBool (json_truth chain)),
               (''has_ocsp'', JBool (truthy ocsp))] ?w = (Inr (), w2)"
    by (rule audit_appends [OF assms(1)])
  obtain w3 where w3: "audit E ?n ''Cert Presented'' [(''fingerprint'', json_opt ?p)] w2 = (Inr (), w3)"
    by (rule audit_appends [OF assms(1)])
  have frame: "w_cache w3 = w_cache w" "w_saved w3 = w_saved w" "requests w3 = requests w"
    "t_files (w_db w3) = t_files (w_db w)" "t_profiles (w_db w3) = t_profiles (w_db w)"
    and tick: "w_tick w3 = w_tick w + 4"
    using audit_run [OF w2] audit_run [OF w3] audit_tick [OF w2] audit_tick [OF w3] by (simp_all add: requests_def)
  have der: "(if truthy c then decode (or_str c '''') else ret '''') u = (Inr der, u)" for u
    using assms(4) by (cases c) (auto simp: decode_def)
  have req: "get_doc ''DSC Signing Request'' t_requests ?n w3 = (Inr req, w3)"
    using assms(3) frame(3) by (simp add: get_doc_def requests_def)
  have "finalize E P sid sig c chain ocsp w =
      (let expected = expected_fingerprint (w_db w3) req
       in if fingerprint_mismatch expected ?p then reject_certificate E ?n expected ?p w3
          else catch (complete_signing E P ?n sid sig (parse_chain P chain) ocsp (e_clock E (Suc (w_tick w))))
            (handle_failure E ?n req) w3)"
    using assms(2) w2 w3 der req
    by (simp add: finalize_def get_session_info_def load_session_run now_datetime_def db_gets_def Let_def)
  moreover have "expected_fingerprint (w_db w3) req = expected_fingerprint (w_db w) req"
    by (simp add: expected_fingerprint_def frame)
  ultimately show thesis using that [OF frame tick] by (simp add: Let_def)
qed


text \<open>C2: a failure outlives the rollback: when the session, its request and the certificate
  text are in order, every error of \<open>finalize\<close> leaves the request Failed with a Request
  Failed event, both committed, so that rolling the request back changes nothing.\<close>

theorem finalize_failure_survives:
  assumes "fresh_names E" and "live_session E w sid = Some ss"
    and "row (t_requests (w_db w)) (ss_signing_request_name ss) = Some req"
    and "b64decode (or_str c '''') = Some der"
    and "run_request (finalize E P sid sig c chain ocsp) w = (Inl e, w')"
  shows "failure_committed (ss_signing_request_name ss) w'"
proof -
  let ?n = "ss_signing_request_name ss"
  from assms(5) obtain w2 where run: "finalize E P sid sig c chain ocsp w = (Inl e, w2)" and
    w': "w' = w2\<lparr>w_db := w_saved w2\<rparr>"
    by (auto simp: run_request_def split: prod.splits sum.splits)
  obtain t0 w1 where w1: "requests w1 = requests w" and f: "finalize E P sid sig c chain ocsp w =
      (let n = ?n; expected = expected_fingerprint (w_db w) req; presented = presented_fingerprint E der
       in if fingerprint_mismatch expected presented then reject_certificate E n expected presented w1
          else catch (complete_signing E P n sid sig (parse_chain P chain) ocsp t0) (handle_failure E n req) w1)"
    by (rule finalize_prefix [OF assms(1-4)])
  have r1: "row (t_requests (w_db w1)) ?n = Some req" using w1 assms(3) by (simp add: requests_def)
  have "failure_committed ?n w2"
  proof (cases "fingerprint_mismatch (expected_fingerprint (w_db w) req) (presented_fingerprint E der)")
    case True
    with run f show ?thesis
      using reject_certificate_commits [OF assms(1), of w1 ?n req] r1 by (auto simp: Let_def requests_def)
  next
    case False
    with run f obtain e' w3 where c: "complete_signing E P ?n sid sig (parse_chain P chain) ocsp t0 w1 = (Inl e', w3)"
      and h: "handle_failure E ?n req e' w3 = (Inl e, w2)"
      by (auto simp: Let_def run_catch split: prod.splits sum.splits)
    from row_names [OF keeps_same_runD [OF keeps_names_complete c, symmetric] r1] obtain r3 where
      "row (requests w3) ?n = Some r3" by (auto simp: requests_def)
    with h handle_failure_commits [OF assms(1)] show ?thesis by blast
  qed
  then show ?thesis by (auto simp: w' failure_committed_def)
qed

text \<open>C16: a certificate that is not the profile's is refused before anything is embedded: the
  request is Failed, no file is stored, the session is not consumed.\<close>

theorem finalize_wrong_certificate:
  assumes "fresh_names E" and "live_session E w sid = Some ss"
    and "row (t_requests (w_db w)) (ss_signing_request_name ss) = Some req"
    and "b64decode (or_str c '''') = Some der"
    and "fingerprint_mismatch (expected_fingerprint (w_db w) req) (presented_fingerprint E der)"
  shows "\<exists>w'. run_request (finalize E P sid sig c chain ocsp) w = (Inl wrong_token, w')
    \<and> failure_committed (ss_signing_request_name ss) w'
    \<and> t_files (w_db w') = t_files (w_db w) \<and> w_cache w' = w_cache w"
proof -
  let ?n = "ss_signing_request_name ss" and ?x = "expected_fingerprint (w_db w) req"
    and ?p = "presented_fingerprint E der"
  obtain w1 where w1: "w_cache w1 = w_cache w" "requests w1 = requests w" "t_files (w_db w1) = t_files (w_db w)" and
    f: "finalize E P sid sig c chain ocsp w = reject_certificate E ?n ?x ?p w1"
    by (rule finalize_prefix [OF assms(1-4), of P sig chain ocsp]) (auto simp: Let_def assms(5))
  obtain w2 where r: "reject_certificate E ?n ?x ?p w1 = (Inl wrong_token, w2)" and c: "failure_committed ?n w2"
    using reject_certificate_commits [OF assms(1), of w1 ?n req ?x ?p] w1(2) assms(3)
    by (cases "reject_certificate E ?n ?x ?p w1") (auto simp: requests_def)
  have "keeps (same (\<lambda>w. t_files (w_db w))) (reject_certificate E ?n ?x ?p)"
    unfolding reject_certificate_def by (intro keeps_now) simp_all
  from keeps_same_runD [OF this r] keeps_same_runD [OF keeps_cache_after_session(1) r] w1 c
  show ?thesis
    by (intro exI [of _ "w2\<lparr>w_db := w_saved w2\<rparr>"]) (simp add: run_request_def f r failure_committed_def)
qed

end
