(* ===== verification/Lifecycle.thy ===== *)
theory Lifecycle
  imports Finalize
begin

text \<open>
  The other endpoints of \<open>api/signing.py\<close>: \<open>get_signing_status\<close> with its recovery of
  stale requests, \<open>get_form_actions\<close>, \<open>retry\<close>, \<open>cancel\<close> and \<open>abort_in_progress\<close>. The
  last three go through \<open>doc.save\<close> and so through the transition check of the controller.
\<close>

section \<open>The status of a document\<close>

record status_info =
  si_status :: string
  si_requests :: "(string \<times> signing_request) list"
  si_can_sign :: bool

definition STALE_IN_PROGRESS_SECONDS :: int where
  "STALE_IN_PROGRESS_SECONDS = 5 * 60"

definition is_stale :: "datetime \<Rightarrow> signing_request \<Rightarrow> bool" where
  "is_stale now r \<longleftrightarrow> sr_status r = In_Progress \<and> now - sr_modified r \<ge> seconds STALE_IN_PROGRESS_SECONDS"

definition overall_status :: "request_status list \<Rightarrow> string" where
  "overall_status statuses =
    (if \<forall>s \<in> set statuses. s = Signed then ''Signed''
     else if In_Progress \<in> set statuses then ''Signature In Progress''
     else if Failed \<in> set statuses then ''Signing Failed''
     else if Pending \<in> set statuses then ''Awaiting Signature''
     else ''Not Applicable'')"

definition of_document :: "string \<Rightarrow> string \<Rightarrow> signing_request \<Rightarrow> bool" where
  "of_document doctype docname r \<longleftrightarrow> sr_source_doctype r = doctype \<and> sr_source_name r = docname"

text \<open>\<open>get_all\<close> with \<open>order_by="creation desc"\<close>.\<close>

definition requests_of :: "env \<Rightarrow> string \<Rightarrow> string \<Rightarrow> (string \<times> signing_request) list act" where
  "requests_of E doctype docname =
    bind (get_all E ''DSC Signing Request'' t_requests (of_document doctype docname)) (\<lambda>names.
    db_gets (\<lambda>d. sort_key (\<lambda>(n, r). - sr_creation r)
      (List.map_filter (\<lambda>n. map_option (Pair n) (row (t_requests d) n)) names)))"

text \<open>The loop over the requests: each stale one is reset, and the document sign with it.\<close>

fun recover_stale ::
  "string \<Rightarrow> string \<Rightarrow> datetime \<Rightarrow> (string \<times> signing_request) list \<Rightarrow> (string \<times> signing_request) list act" where
  "recover_stale doctype docname now [] = ret []"
| "recover_stale doctype docname now ((n, r) # rs) =
    seq (cond (is_stale now r)
      (seq (set_request_quietly n (\<lambda>r. r\<lparr>sr_status := Pending\<rparr>))
       (cond (doctype = ''DSC Document Sign'')
         (set_docsign docname (\<lambda>s. s\<lparr>ds_status := Some (Mirrors Pending)\<rparr>)))))
    (bind (recover_stale doctype docname now rs) (\<lambda>rest.
    ret ((n, if is_stale now r then r\<lparr>sr_status := Pending\<rparr> else r) # rest)))"

definition get_signing_status :: "env \<Rightarrow> string \<Rightarrow> string \<Rightarrow> status_info act" where
  "get_signing_status E doctype docname =
    bind (requests_of E doctype docname) (\<lambda>rs.
    if rs = [] then ret \<lparr>si_status = ''Not Applicable'', si_requests = [], si_can_sign = False\<rparr>
    else
      bind (now_datetime E) (\<lambda>now.
      bind (recover_stale doctype docname now rs) (\<lambda>rs'.
      ret \<lparr>si_status = overall_status (map (\<lambda>(n, r). sr_status r) rs'), si_requests = rs',
           si_can_sign = (\<exists>(n, r) \<in> set rs'. sr_status r = Pending
             \<and> sr_expected_signer_user r = Some (e_user E))\<rparr>)))"

definition get_form_actions :: "env \<Rightarrow> string \<Rightarrow> string \<Rightarrow> (status_info \<times> int) act" where
  "get_form_actions E doctype docname =
    bind (get_signing_status E doctype docname) (\<lambda>status_info.
    bind (db_gets t_settings) (\<lambda>cfg.
    ret (status_info, if se_agent_listen_port cfg = 0 then 4645 else se_agent_listen_port cfg)))"

section \<open>Retry, cancel, abort\<close>

definition mirror_status :: "signing_request \<Rightarrow> request_status \<Rightarrow> unit act" where
  "mirror_status doc s =
    cond (sr_source_doctype doc = ''DSC Document Sign'')
      (set_docsign (sr_source_name doc) (\<lambda>d. d\<lparr>ds_status := Some (Mirrors s)\<rparr>))"

definition retry_not_failed :: error where
  "retry_not_failed = ValidationError ''Only failed requests can be retried.''"

text \<open>The event is written from the document in memory, whose reason has been cleared.\<close>

definition retry :: "env \<Rightarrow> string \<Rightarrow> request_status act" where
  "retry E signing_request =
    bind (get_doc ''DSC Signing Request'' t_requests signing_request) (\<lambda>doc.
    seq (throw_if (sr_status doc \<noteq> Failed) retry_not_failed)
    (let doc' = doc\<lparr>sr_status := Pending, sr_failure_reason := Some ''''\<rparr> in
     seq (save_request E signing_request doc')
     (seq (mirror_status doc' Pending)
     (seq (audit E signing_request ''Request Retried'' [(''previous_failure'', json_opt (sr_failure_reason doc'))])
     (ret Pending)))))"

definition cancel_refused :: error where
  "cancel_refused = ValidationError ''Only pending or failed requests can be cancelled.''"

definition cancel :: "env \<Rightarrow> string \<Rightarrow> string \<Rightarrow> request_status act" where
  "cancel E signing_request reason =
    bind (get_doc ''DSC Signing Request'' t_requests signing_request) (\<lambda>doc.
    seq (throw_if (sr_status doc \<notin> {Pending, Failed}) cancel_refused)
    (bind (now_datetime E) (\<lambda>t.
     let doc' = doc\<lparr>sr_status := Cancelled, sr_cancelled_on := Some t\<rparr> in
     seq (save_request E signing_request doc')
     (seq (mirror_status doc' Cancelled)
     (seq (audit E signing_request ''Request Cancelled'' [(''reason'', JStr reason)])
     (seq (run_dev_hooks E ''dsc_on_decline''
            [(''signing_request'', signing_request), (''reason'', reason),
             (''doctype'', sr_source_doctype doc'), (''docname'', sr_source_name doc')])
     (ret Cancelled)))))))"

definition abort_in_progress :: "env \<Rightarrow> string \<Rightarrow> string \<Rightarrow> request_status act" where
  "abort_in_progress E signing_request reason =
    bind (get_doc ''DSC Signing Request'' t_requests signing_request) (\<lambda>doc.
    if sr_status doc \<noteq> In_Progress then ret (sr_status doc)
    else
      let doc' = doc\<lparr>sr_status := Pending,
            sr_failure_reason := Some (take 140 (if reason \<noteq> '''' then reason else ''Client-side abort''))\<rparr> in
      seq (save_request E signing_request doc')
      (seq (mirror_status doc' Pending)
      (seq (audit E signing_request ''Request Aborted'' [(''reason'', JStr reason)])
      (ret Pending))))"

section \<open>The audit trail\<close>

lemma keeps_trail_recover [keeps_trail]: "keeps audit_ext (recover_stale dt dn now rs)"
  by (induction rs rule: recover_stale.induct) (simp_all only: recover_stale.simps, (intro keeps_trail; simp)+)

lemma keeps_trail_lifecycle [keeps_trail]:
  "keeps audit_ext (requests_of E dt dn)" "keeps audit_ext (get_signing_status E dt dn)"
  "keeps audit_ext (get_form_actions E dt dn)" "keeps audit_ext (mirror_status doc s)"
  "keeps audit_ext (retry E n)" "keeps audit_ext (cancel E n reason)" "keeps audit_ext (abort_in_progress E n reason)"
proof -
  show 1: "keeps audit_ext (requests_of E dt dn)"
    unfolding requests_of_def by (intro keeps_trail)
  show 2: "keeps audit_ext (get_signing_status E dt dn)"
    unfolding get_signing_status_def by (intro keeps_trail 1)
  show "keeps audit_ext (get_form_actions E dt dn)"
    unfolding get_form_actions_def by (intro keeps_trail 2)
  show 3: "keeps audit_ext (mirror_status doc s)" for doc s
    unfolding mirror_status_def by (intro keeps_trail)
  show "keeps audit_ext (retry E n)" "keeps audit_ext (cancel E n reason)" "keeps audit_ext (abort_in_progress E n reason)"
    unfolding retry_def cancel_def abort_in_progress_def Let_def by (intro keeps_trail 3)+
qed

section \<open>Outcomes\<close>

lemma mirror_run: "\<exists>w'. mirror_status doc s w = (Inr (), w') \<and> requests w' = requests w \<and> t_events (w_db w') = t_events (w_db w)"
  by (cases "sr_source_doctype doc = ''DSC Document Sign''")
    (simp_all add: mirror_status_def run_cond set_docsign_def db_modify_def requests_def)

text \<open>\<open>abort_in_progress\<close> never resets a request: for one that is In Progress, the only
  status it acts on, the controller refuses the change to Pending, and nothing is written.\<close>

theorem abort_outcome:
  "abort_in_progress E n reason w =
    (case row (t_requests (w_db w)) n of
       None \<Rightarrow> (Inl (DoesNotExistError ''DSC Signing Request'' n), w)
     | Some r \<Rightarrow>
        if sr_status r = In_Progress then (Inl (transition_error In_Progress Pending), w)
        else (Inr (sr_status r), w))"
proof (cases "row (t_requests (w_db w)) n")
  case (Some r)
  then show ?thesis
    by (cases "sr_status r = In_Progress")
      (simp_all add: abort_in_progress_def get_doc_def Let_def save_request_refused allowed_simps)
qed (simp add: abort_in_progress_def get_doc_def)

lemma run_dev_hooks_total: "total (run_dev_hooks E h kw)"
  unfolding run_dev_hooks_def by (intro total_intros)

lemma cancel_pending:
  assumes "fresh_names E" and "row (t_requests (w_db w)) n = Some r" and "sr_status r = Pending"
  obtains w' r' where "cancel E n reason w = (Inr Cancelled, w')"
    "row (t_requests (w_db w')) n = Some r'" "sr_status r' = Cancelled" "sr_cancelled_on r' \<noteq> None"
    "\<forall>m. m \<noteq> n \<longrightarrow> row (t_requests (w_db w')) m = row (t_requests (w_db w)) m"
proof -
  let ?t = "e_clock E (w_tick w)" and ?w1 = "w\<lparr>w_tick := Suc (w_tick w)\<rparr>"
  let ?doc = "r\<lparr>sr_status := Cancelled, sr_cancelled_on := Some ?t\<rparr>"
  obtain res w2 where s: "save_request E n ?doc ?w1 = (res, w2)" by fastforce
  have ok: "res = Inr ()" and row: "row (t_requests (w_db w2)) m = (if m = n then
      Some (?doc\<lparr>sr_modified := e_clock E (Suc (w_tick w)), sr_signed_on := sr_signed_on r,
         sr_cancelled_on := Some (e_clock E (Suc (Suc (w_tick w))))\<rparr>)
      else row (t_requests (w_db w)) m)" for m
    using save_request_ok(1,2) [OF _ _ s, of r] assms(2,3) by (simp_all add: allowed_simps)
  obtain w3 where m: "mirror_status ?doc Cancelled w2 = (Inr (), w3)" "requests w3 = requests w2"
    using mirror_run by blast
  obtain w4 where a: "audit E n ''Request Cancelled'' [(''reason'', JStr reason)] w3 = (Inr (), w4)"
    by (rule audit_appends [OF assms(1)])
  let ?kw = "[(''signing_request'', n), (''reason'', reason), (''doctype'', sr_source_doctype r), (''docname'', sr_source_name r)]"
  obtain u w5 where h: "run_dev_hooks E ''dsc_on_decline'' ?kw w4 = (Inr u, w5)"
    using run_dev_hooks_total by (rule total_runE)
  have "requests w5 = requests w2"
    using keeps_same_runD [OF keeps_db_initiate(1) h] audit_run(4) [OF a] m(2) by (simp add: both_dbs_def requests_def)
  then have "row (t_requests (w_db w5)) m = row (t_requests (w_db w2)) m" for m by (simp add: requests_def)
  moreover have "cancel E n reason w = (Inr Cancelled, w5)"
    using assms(2,3) s ok m(1) a h by (simp add: cancel_def get_doc_def now_datetime_def Let_def)
  ultimately show thesis using row that by simp
qed

text \<open>\<open>cancel\<close> on every branch: only a Pending request is cancelled, with the time of the
  cancellation; a Failed one passes the endpoint's own check and is then refused by the
  controller; any other is refused at once. A refusal writes nothing.\<close>

theorem cancel_outcome:
  assumes "fresh_names E"
  shows "case row (t_requests (w_db w)) n of
     None \<Rightarrow> cancel E n reason w = (Inl (DoesNotExistError ''DSC Signing Request'' n), w)
   | Some r \<Rightarrow>
      (case sr_status r of
         Pending \<Rightarrow> \<exists>w' r'. cancel E n reason w = (Inr Cancelled, w') \<and> row (t_requests (w_db w')) n = Some r'
           \<and> sr_status r' = Cancelled \<and> sr_cancelled_on r' \<noteq> None
       | Failed \<Rightarrow> cancel E n reason w = (Inl (transition_error Failed Cancelled), w\<lparr>w_tick := Suc (w_tick w)\<rparr>)
       | _ \<Rightarrow> cancel E n reason w = (Inl cancel_refused, w))"
proof (cases "row (t_requests (w_db w)) n")
  case (Some r)
  show ?thesis
  proof (cases "sr_status r")
    case Pending
    obtain w' r' where "cancel E n reason w = (Inr Cancelled, w')" "row (t_requests (w_db w')) n = Some r'"
      "sr_status r' = Cancelled" "sr_cancelled_on r' \<noteq> None"
      by (rule cancel_pending [OF assms Some Pending])
    with Some Pending show ?thesis by auto
  qed (simp_all add: Some cancel_def get_doc_def now_datetime_def Let_def save_request_refused allowed_simps)
qed (simp add: cancel_def get_doc_def)


lemma retry_okE:
  assumes "retry E n w = (Inr s, w')"
  obtains r r' nm ev where "s = Pending" "row (t_requests (w_db w)) n = Some r" "sr_status r = Failed"
    "row (t_requests (w_db w')) n = Some r'" "sr_status r' = Pending" "sr_failure_reason r' = Some ''''"
    "\<forall>m. m \<noteq> n \<longrightarrow> row (t_requests (w_db w')) m = row (t_requests (w_db w)) m"
    "(nm, ev) \<in> set (t_events (w_db w'))" "ev_request ev = n" "ev_event_type ev = ''Request Retried''"
    "ev_details_json ev = Some (dumps (JObj [(''previous_failure'', JStr '''')]))"
proof -
  from assms obtain r w1 w2 w3 where
    r: "row (t_requests (w_db w)) n = Some r" "sr_status r = Failed" and
    a: "save_request E n (r\<lparr>sr_status := Pending, sr_failure_reason := Some ''''\<rparr>) w = (Inr (), w1)" and
    b: "mirror_status (r\<lparr>sr_status := Pending, sr_failure_reason := Some ''''\<rparr>) Pending w1 = (Inr (), w2)" and
    c: "audit E n ''Request Retried'' [(''previous_failure'', JStr '''')] w2 = (Inr (), w3)" and
    d: "s = Pending" "w' = w3"
    unfolding retry_def Let_def
    by (auto simp: json_opt_def elim!: bind_okE seq_okE get_doc_okE split: if_splits)
  have "requests w' = requests w1"
    using mirror_run [of "r\<lparr>sr_status := Pending, sr_failure_reason := Some ''''\<rparr>" Pending w1] b
      audit_run(4) [OF c] d(2) by (auto simp: requests_def)
  moreover have "row (t_requests (w_db w1)) m = (if m = n then Some (r\<lparr>sr_status := Pending, sr_failure_reason := Some '''',
      sr_modified := e_clock E (w_tick w)\<rparr>) else row (t_requests (w_db w)) m)" for m
    using save_request_ok(2) [OF r(1) _ a] r(2) by (simp add: allowed_simps)
  moreover obtain nm ev where "(nm, ev) \<in> set (t_events (w_db w'))" "ev_request ev = n" "ev_event_type ev = ''Request Retried''"
    "ev_details_json ev = Some (dumps (JObj [(''previous_failure'', JStr '''')]))"
    using d(2) by (auto intro: audit_logged [OF c])
  ultimately show thesis
    using r d(1) by (intro that [of r "r\<lparr>sr_status := Pending, sr_failure_reason := Some '''',
      sr_modified := e_clock E (w_tick w)\<rparr>" nm ev]) (simp_all add: requests_def)
qed

lemma retry_failed:
  assumes "fresh_names E" and "row (t_requests (w_db w)) n = Some r" and "sr_status r = Failed"
  obtains w' r' where "retry E n w = (Inr Pending, w')" "row (t_requests (w_db w')) n = Some r'" "sr_status r' = Pending"
proof -
  let ?doc = "r\<lparr>sr_status := Pending, sr_failure_reason := Some ''''\<rparr>"
  obtain res w1 where s: "save_request E n ?doc w = (res, w1)" by fastforce
  have ok: "res = Inr ()" using save_request_ok(1) [OF assms(2) _ s] assms(3) by (simp add: allowed_simps)
  obtain w2 where m: "mirror_status ?doc Pending w1 = (Inr (), w2)" using mirror_run by blast
  obtain w3 where a: "audit E n ''Request Retried'' [(''previous_failure'', JStr '''')] w2 = (Inr (), w3)"
    by (rule audit_appends [OF assms(1)])
  have run: "retry E n w = (Inr Pending, w3)"
    using assms(2,3) s ok m a by (simp add: retry_def get_doc_def Let_def json_opt_def)
  from retry_okE [OF run] that [OF run] show thesis by metis
qed

text \<open>\<open>retry\<close> succeeds for Failed requests only, makes the request Pending with an empty
  failure reason, changes no other request, and records as previous failure the reason it has
  just cleared: always the empty string.\<close>

theorem retry_forgets_reason:
  assumes "retry E n w = (Inr s, w')"
  shows "\<exists>r r' nm ev. s = Pending \<and> row (t_requests (w_db w)) n = Some r \<and> sr_status r = Failed
    \<and> row (t_requests (w_db w')) n = Some r' \<and> sr_status r' = Pending \<and> sr_failure_reason r' = Some ''''
    \<and> (\<forall>m. m \<noteq> n \<longrightarrow> row (t_requests (w_db w')) m = row (t_requests (w_db w)) m)
    \<and> (nm, ev) \<in> set (t_events (w_db w')) \<and> ev_request ev = n \<and> ev_event_type ev = ''Request Retried''
    \<and> ev_details_json ev = Some (dumps (JObj [(''previous_failure'', JStr '''')]))"
proof -
  from assms obtain r r' nm ev where "s = Pending" "row (t_requests (w_db w)) n = Some r" "sr_status r = Failed"
    "row (t_requests (w_db w')) n = Some r'" "sr_status r' = Pending" "sr_failure_reason r' = Some ''''"
    "\<forall>m. m \<noteq> n \<longrightarrow> row (t_requests (w_db w')) m = row (t_requests (w_db w)) m"
    "(nm, ev) \<in> set (t_events (w_db w'))" "ev_request ev = n" "ev_event_type ev = ''Request Retried''"
    "ev_details_json ev = Some (dumps (JObj [(''previous_failure'', JStr '''')]))"
    by (rule retry_okE)
  then show ?thesis by blast
qed

section \<open>Recovery of stale requests\<close>

text \<open>What the loop makes of one request.\<close>

definition recovered :: "datetime \<Rightarrow> signing_request \<Rightarrow> signing_request" where
  "recovered now r = (if is_stale now r then r\<lparr>sr_status := Pending\<rparr> else r)"

lemma recovered_not_stale: "\<not> is_stale now (recovered now r)"
  by (simp add: recovered_def is_stale_def)

lemma recover_step:
  "\<exists>w'. cond (is_stale now r)
      (seq (set_request_quietly n (\<lambda>r. r\<lparr>sr_status := Pending\<rparr>))
       (cond (dt = ''DSC Document Sign'')
         (set_docsign dn (\<lambda>s. s\<lparr>ds_status := Some (Mirrors Pending)\<rparr>)))) w = (Inr (), w')
    \<and> requests w' = (if is_stale now r then update_row n (\<lambda>r. r\<lparr>sr_status := Pending\<rparr>) (requests w) else requests w)"
  by (cases "is_stale now r"; cases "dt = ''DSC Document Sign''")
    (simp_all add: run_cond run_seq set_request_quietly_def set_docsign_def db_modify_def requests_def)

lemma recover_run:
  assumes "distinct (map fst rs)" and "\<forall>(n, r) \<in> set rs. row (requests w) n = Some r"
  shows "\<exists>w'. recover_stale dt dn now rs w = (Inr (map (\<lambda>(n, r). (n, recovered now r)) rs), w')
    \<and> (\<forall>m. row (requests w') m =
        (if m \<in> fst ` set rs then map_option (recovered now) (row (requests w) m) else row (requests w) m))"
  using assms
proof (induction rs arbitrary: w)
  case (Cons x rs)
  obtain n r where x: "x = (n, r)" by fastforce
  obtain w1 where w1: "cond (is_stale now r)
      (seq (set_request_quietly n (\<lambda>r. r\<lparr>sr_status := Pending\<rparr>))
       (cond (dt = ''DSC Document Sign'')
         (set_docsign dn (\<lambda>s. s\<lparr>ds_status := Some (Mirrors Pending)\<rparr>)))) w = (Inr (), w1)"
    and r1: "requests w1 = (if is_stale now r then update_row n (\<lambda>r. r\<lparr>sr_status := Pending\<rparr>) (requests w) else requests w)"
    using recover_step by blast
  have n: "n \<notin> fst ` set rs" and row: "row (requests w) n = Some r" using Cons.prems x by auto
  then have row1: "row (requests w1) m = (if m = n then Some (recovered now r) else row (requests w) m)" for m
    by (simp add: r1 recovered_def)
  have "\<forall>(m, s) \<in> set rs. row (requests w1) m = Some s"
    using Cons.prems(2) n by (force simp: row1)
  with Cons.IH [of w1] Cons.prems(1) obtain w2 where
    w2: "recover_stale dt dn now rs w1 = (Inr (map (\<lambda>(n, r). (n, recovered now r)) rs), w2)"
    "\<forall>m. row (requests w2) m =
        (if m \<in> fst ` set rs then map_option (recovered now) (row (requests w1) m) else row (requests w1) m)"
    by auto
  have "recover_stale dt dn now (x # rs) w = (Inr (map (\<lambda>(n, r). (n, recovered now r)) (x # rs)), w2)"
    using w1 w2(1) by (simp add: x recovered_def)
  moreover have "row (requests w2) m =
        (if m \<in> fst ` set (x # rs) then map_option (recovered now) (row (requests w) m) else row (requests w) m)" for m
    using w2(2) n row by (auto simp: row1 x)
  ultimately show ?case by blast
qed simp

lemma requests_of_run:
  assumes "scan_sound E" and "unique_names (t_requests (w_db w))"
  obtains rs where "requests_of E dt dn w = (Inr rs, w)" "distinct (map fst rs)"
    "set rs = {(n, r). row (t_requests (w_db w)) n = Some r \<and> of_document dt dn r}"
proof -
  let ?t = "t_requests (w_db w)"
  let ?ns = "e_scan E ''DSC Signing Request'' (w_db w) (names_where (of_document dt dn) ?t)"
  let ?xs = "List.map_filter (\<lambda>n. map_option (Pair n) (row ?t n)) ?ns"
  let ?rs = "sort_key (\<lambda>(n, r). - sr_creation r) ?xs"
  have ns: "distinct ?ns" "set ?ns = set (names_where (of_document dt dn) ?t)"
    using assms(1) distinct_names_where [OF assms(2)] by (simp_all add: scan_sound_def)
  have "distinct (map fst ?xs)" using ns(1) by (simp add: map_fst_found)
  then have "distinct (map fst ?rs)" by (simp add: distinct_map)
  moreover have "set ?rs = {(n, r). row ?t n = Some r \<and> of_document dt dn r}"
    using ns(2) assms(2) by (auto simp: set_found tbl.in_select)
  moreover have "requests_of E dt dn w = (Inr ?rs, w)"
    by (simp add: requests_of_def get_all_def db_gets_def)
  ultimately show thesis using that by blast
qed

text \<open>C25: \<open>get_signing_status\<close> lists exactly the requests of the document, each as the database
  holds it afterwards; the stale ones have become Pending there, all other requests are as
  they were, and the overall status and the permission to sign are computed from the list.\<close>

theorem signing_status_unfreezes:
  assumes "scan_sound E" and "unique_names (t_requests (w_db w))"
  shows "\<exists>si w'. get_signing_status E dt dn w = (Inr si, w')
    \<and> (let now = e_clock E (w_tick w) in
       \<forall>n. row (t_requests (w_db w')) n = map_option (\<lambda>r. if of_document dt dn r then recovered now r else r)
             (row (t_requests (w_db w)) n))
    \<and> set (si_requests si) = {(n, r). row (t_requests (w_db w')) n = Some r \<and> of_document dt dn r}
    \<and> si_status si = (if si_requests si = [] then ''Not Applicable''
        else overall_status (map (\<lambda>(n, r). sr_status r) (si_requests si)))
    \<and> si_can_sign si = (\<exists>(n, r) \<in> set (si_requests si). sr_status r = Pending
        \<and> sr_expected_signer_user r = Some (e_user E))"
proof -
  let ?now = "e_clock E (w_tick w)" and ?w1 = "w\<lparr>w_tick := Suc (w_tick w)\<rparr>"
  obtain rs where rs: "requests_of E dt dn w = (Inr rs, w)" "distinct (map fst rs)"
    "set rs = {(n, r). row (t_requests (w_db w)) n = Some r \<and> of_document dt dn r}"
    by (rule requests_of_run [OF assms])
  have in_rs: "n \<in> fst ` set rs \<longleftrightarrow> (\<exists>r. row (t_requests (w_db w)) n = Some r \<and> of_document dt dn r)" for n
    by (force simp: rs(3))
  have doc: "of_document dt dn (recovered now r) = of_document dt dn r" for now r
    by (simp add: recovered_def of_document_def)
  show ?thesis
  proof (cases "rs = []")
    case True
    then have "\<not> of_document dt dn r" if "row (t_requests (w_db w)) n = Some r" for n r
      using rs(3) that by auto
    then have "row (t_requests (w_db w)) n = map_option (\<lambda>r. if of_document dt dn r then recovered ?now r else r)
             (row (t_requests (w_db w)) n)" for n
      by (cases "row (t_requests (w_db w)) n") auto
    with True rs(1,3) show ?thesis
      by (auto simp: get_signing_status_def Let_def intro!: exI)
  next
    case False
    let ?rs = "map (\<lambda>(n, r). (n, recovered ?now r)) rs"
    obtain w2 where w2: "recover_stale dt dn ?now rs ?w1 = (Inr ?rs, w2)" and
      row: "\<forall>m. row (requests w2) m = (if m \<in> fst ` set rs
        then map_option (recovered ?now) (row (requests ?w1) m) else row (requests ?w1) m)"
      using recover_run [OF rs(2), of ?w1 dt dn ?now] rs(3) by (auto simp: requests_def)
    have db: "row (t_requests (w_db w2)) n = map_option (\<lambda>r. if of_document dt dn r then recovered ?now r else r)
             (row (t_requests (w_db w)) n)" for n
      using row in_rs by (cases "row (t_requests (w_db w)) n") (auto simp: requests_def)
    have "set ?rs = {(n, r). row (t_requests (w_db w2)) n = Some r \<and> of_document dt dn r}"
      using rs(3) by (auto simp: db doc image_iff split: if_splits)
    then show ?thesis
      using False rs(1) w2 db
      by (intro exI [of _ w2] exI [of _ "\<lparr>si_status = overall_status (map (\<lambda>(n, r). sr_status r) ?rs),
           si_requests = ?rs, si_can_sign = (\<exists>(n, r) \<in> set ?rs. sr_status r = Pending
             \<and> sr_expected_signer_user r = Some (e_user E))\<rparr>"])
        (simp add: get_signing_status_def now_datetime_def)
  qed
qed

end
