(* ===== verification/Rules.thy ===== *)
theory Rules
  imports Finalize
begin

text \<open>
  The rule engine (\<open>rule_engine.py\<close>): which rule a document event triggers, the evaluation
  of its conditions on the document's fields, and the creation of the signing request.
  Fields of an arbitrary document are Python values; floats are the datatype \<open>pyfloat\<close>, and
  \<open>frappe.utils.flt\<close> and \<open>frappe.scrub\<close> are the argument \<open>rule_env\<close>.
\<close>

section \<open>Documents and values\<close>

text \<open>A float field carries the text \<open>str\<close> prints; a date or another object likewise.\<close>

datatype field_value = FNone | FStr string | FInt int | FFloat string | FObject string

record source_doc =
  do_doctype :: string
  do_name :: string
  do_fields :: "(string \<times> field_value) list"
  do_before_save :: "(string \<times> field_value) list option"

definition field :: "(string \<times> field_value) list \<Rightarrow> string \<Rightarrow> field_value" where
  "field d k = (case map_of d k of None \<Rightarrow> FNone | Some v \<Rightarrow> v)"

fun is_zero :: "field_value \<Rightarrow> bool" where
  "is_zero (FInt i) = (i = 0)"
| "is_zero (FFloat r) = (r \<in> {''0.0'', ''-0.0''})"
| "is_zero v = False"

fun py_truth :: "field_value \<Rightarrow> bool" where
  "py_truth FNone = False"
| "py_truth (FStr s) = (s \<noteq> '''')"
| "py_truth (FObject r) = True"
| "py_truth v = (\<not> is_zero v)"

fun str_of :: "field_value \<Rightarrow> string" where
  "str_of FNone = ''None''"
| "str_of (FStr s) = s"
| "str_of (FInt i) = dec_int i"
| "str_of (FFloat r) = r"
| "str_of (FObject r) = r"

datatype pyfloat = NaN | NegInf | Fin rat | PosInf

fun float_less :: "pyfloat \<Rightarrow> pyfloat \<Rightarrow> bool" where
  "float_less NaN y = False"
| "float_less x NaN = False"
| "float_less NegInf y = (y \<noteq> NegInf)"
| "float_less (Fin a) NegInf = False"
| "float_less (Fin a) (Fin b) = (a < b)"
| "float_less (Fin a) PosInf = True"
| "float_less PosInf y = False"

definition float_eq :: "pyfloat \<Rightarrow> pyfloat \<Rightarrow> bool" where
  "float_eq x y \<longleftrightarrow> x \<noteq> NaN \<and> x = y"

text \<open>\<open>q_flt\<close> is None where \<open>flt\<close> raises a ValueError or a TypeError.\<close>

record rule_env =
  q_flt :: "field_value \<Rightarrow> pyfloat option"
  q_scrub :: "string \<Rightarrow> string"

section \<open>Text operations\<close>

definition is_space :: "char \<Rightarrow> bool" where
  "is_space c \<longleftrightarrow> (let n = of_char c :: nat
    in 9 \<le> n \<and> n \<le> 13 \<or> 28 \<le> n \<and> n \<le> 32 \<or> n = 133 \<or> n = 160)"

definition strip :: "string \<Rightarrow> string" where
  "strip s = rev (dropWhile is_space (rev (dropWhile is_space s)))"

fun split_on :: "char \<Rightarrow> string \<Rightarrow> string list" where
  "split_on sep [] = [[]]"
| "split_on sep (c # cs) =
    (if c = sep then [] # split_on sep cs
     else case split_on sep cs of [] \<Rightarrow> [[c]] | p # ps \<Rightarrow> (c # p) # ps)"

fun substring :: "string \<Rightarrow> string \<Rightarrow> bool" where
  "substring t [] = (t = [])"
| "substring t (c # cs) = (take (length t) (c # cs) = t \<or> substring t cs)"

section \<open>Conditions\<close>

datatype comparison = Eq | Ne | Gt | Lt

fun compare_floats :: "comparison \<Rightarrow> pyfloat \<Rightarrow> pyfloat \<Rightarrow> bool" where
  "compare_floats Eq x y = float_eq x y"
| "compare_floats Ne x y = (\<not> float_eq x y)"
| "compare_floats Gt x y = float_less y x"
| "compare_floats Lt x y = float_less x y"

fun compare_strings :: "comparison \<Rightarrow> string \<Rightarrow> string \<Rightarrow> bool" where
  "compare_strings Eq x y = (x = y)"
| "compare_strings Ne x y = (x \<noteq> y)"
| "compare_strings Gt x y = (y < x)"
| "compare_strings Lt x y = (x < y)"

definition coerce_and_compare :: "rule_env \<Rightarrow> field_value \<Rightarrow> string \<Rightarrow> comparison \<Rightarrow> bool" where
  "coerce_and_compare Q field_value target_value cmp =
    (case (q_flt Q field_value, q_flt Q (FStr target_value)) of
       (Some fv, Some tv) \<Rightarrow> compare_floats cmp fv tv
     | _ \<Rightarrow> compare_strings cmp (if py_truth field_value then str_of field_value else '''') target_value)"

definition listed :: "string \<Rightarrow> string list" where
  "listed target_value = map strip (split_on (CHR '','') target_value)"

definition check_condition :: "rule_env \<Rightarrow> rule_condition \<Rightarrow> source_doc \<Rightarrow> bool" where
  "check_condition Q c doc =
    (let v = field (do_fields doc) (rc_field c); operator = rc_operator c;
         target_value = or_str (rc_value c) '''' in
     if operator = ''is_set'' then v \<noteq> FNone \<and> v \<noteq> FStr '''' \<and> \<not> is_zero v
     else if operator = ''is_not_set'' then v = FNone \<or> v = FStr '''' \<or> is_zero v
     else if operator = ''equals'' then coerce_and_compare Q v target_value Eq
     else if operator = ''not_equals'' then coerce_and_compare Q v target_value Ne
     else if operator = ''greater_than'' then coerce_and_compare Q v target_value Gt
     else if operator = ''less_than'' then coerce_and_compare Q v target_value Lt
     else if operator = ''in'' then str_of v \<in> set (listed target_value)
     else if operator = ''not_in'' then str_of v \<notin> set (listed target_value)
     else if operator = ''contains'' then substring target_value (if py_truth v then str_of v else '''')
     else False)"

definition evaluate_conditions :: "rule_env \<Rightarrow> rule \<Rightarrow> source_doc \<Rightarrow> bool" where
  "evaluate_conditions Q r doc = list_all (\<lambda>c. check_condition Q c doc) (ru_conditions r)"

section \<open>Creating the request\<close>

definition msgprint :: "string \<Rightarrow> unit act" where
  "msgprint s = modify (\<lambda>w. w\<lparr>w_journal := w_journal w @ [Msgprint s]\<rparr>)"

definition resolve_signer_user :: "env \<Rightarrow> string \<Rightarrow> string option act" where
  "resolve_signer_user E profile_name = db_gets (\<lambda>d.
    (let users = (case row (t_profiles d) profile_name of None \<Rightarrow> [] | Some pf \<Rightarrow> pf_allowed_users pf) in
     case users of
       [] \<Rightarrow> None
     | u # _ \<Rightarrow> Some (if e_user E \<in> set users then e_user E else u)))"

definition notify_signer :: "env \<Rightarrow> rule_env \<Rightarrow> source_doc \<Rightarrow> string \<Rightarrow> rule \<Rightarrow> string \<Rightarrow> unit act" where
  "notify_signer E Q doc rule_name r signer_user = call_service E
    (Mail [signer_user] (''Action required: sign '' @ do_doctype doc @ '' '' @ do_name doc)
      (''<p>A new document is awaiting your digital signature.</p><ul>''
       @ ''<li><b>Document:</b> '' @ do_doctype doc @ '' '' @ do_name doc @ ''</li>''
       @ ''<li><b>Rule:</b> '' @ rule_name @ ''</li>''
       @ ''<li><b>Profile:</b> '' @ ru_profile r @ ''</li></ul><p><a href='' @ [CHR 0x27] @ e_site_url E @ ''/app/''
       @ map (\<lambda>c. if c = CHR ''_'' then CHR ''-'' else c) (q_scrub Q (do_doctype doc)) @ ''/'' @ do_name doc
       @ [CHR 0x27] @ ''>Open document</a> and click <b>Sign with DSC</b>.</p>''))"

definition assign_signer_todo :: "env \<Rightarrow> string \<Rightarrow> source_doc \<Rightarrow> string \<Rightarrow> unit act" where
  "assign_signer_todo E signing_request_name doc signer_user = call_service E
    (Assign_To signer_user signing_request_name (''Sign '' @ do_doctype doc @ '' '' @ do_name doc))"

definition request_for :: "source_doc \<Rightarrow> string \<Rightarrow> signing_request \<Rightarrow> bool" where
  "request_for doc rule_name r \<longleftrightarrow> sr_source_doctype r = do_doctype doc \<and> sr_source_name r = do_name doc
    \<and> sr_rule r = Some rule_name"

text \<open>What follows the insertion: the event, the mail and the assignment, neither of which can
  undo the request, and the message.\<close>

definition announce :: "env \<Rightarrow> rule_env \<Rightarrow> source_doc \<Rightarrow> string \<Rightarrow> rule \<Rightarrow> string option \<Rightarrow> string \<Rightarrow> string act" where
  "announce E Q doc rule_name r expected_signer n =
    seq (audit E n ''Request Created''
          [(''source_doctype'', JStr (do_doctype doc)), (''source_name'', JStr (do_name doc)),
           (''rule'', JStr rule_name), (''profile'', JStr (ru_profile r)),
           (''expected_signer_user'', json_opt expected_signer)])
    (seq (cond (truthy expected_signer \<and> expected_signer \<noteq> Some ''Administrator'')
      (seq (catch (notify_signer E Q doc rule_name r (or_str expected_signer ''''))
              (\<lambda>_. log_error ''DSC: signer notification email failed''))
       (catch (assign_signer_todo E n doc (or_str expected_signer ''''))
              (\<lambda>_. log_error ''DSC: signer ToDo assignment failed''))))
    (seq (msgprint (''DSC Signing Request created for '' @ do_doctype doc @ '' '' @ do_name doc))
    (ret n)))"

definition create_signing_request ::
  "env \<Rightarrow> rule_env \<Rightarrow> source_doc \<Rightarrow> string \<Rightarrow> rule \<Rightarrow> string act" where
  "create_signing_request E Q doc rule_name r =
    bind (find_doc E ''DSC Signing Request'' t_requests (request_for doc rule_name)) (\<lambda>existing.
    case existing of
      Some n \<Rightarrow> ret n
    | None \<Rightarrow>
       bind (resolve_signer_user E (ru_profile r)) (\<lambda>expected_signer.
       bind (insert_request E ((blank_request (do_doctype doc) (do_name doc) (ru_profile r))
              \<lparr>sr_rule := Some rule_name, sr_signature_template := ru_signature_template r,
               sr_expected_signer_user := expected_signer\<rparr>))
         (announce E Q doc rule_name r expected_signer)))"


section \<open>Events\<close>

definition get_matching_rules :: "env \<Rightarrow> string \<Rightarrow> string \<Rightarrow> (string \<times> rule) list act" where
  "get_matching_rules E doctype trigger_event =
    bind (get_all E ''DSC Rule'' t_rules (\<lambda>r. ru_is_enabled r \<and> ru_target_doctype r = doctype
            \<and> ru_trigger_event r = trigger_event)) (\<lambda>names.
    db_gets (\<lambda>d. sort_key (\<lambda>(n, r). ru_priority r)
      (List.map_filter (\<lambda>n. map_option (Pair n) (row (t_rules d) n)) names)))"

definition rule_applies :: "rule_env \<Rightarrow> source_doc \<Rightarrow> string \<Rightarrow> rule \<Rightarrow> bool" where
  "rule_applies Q doc trigger_event r \<longleftrightarrow>
    \<not> (truthy (ru_company r) \<and> FStr (or_str (ru_company r) '''') \<noteq> field (do_fields doc) ''company'')
    \<and> \<not> (trigger_event = ''on_workflow_action'' \<and> truthy (ru_trigger_workflow_state r)
         \<and> FStr (or_str (ru_trigger_workflow_state r) '''') \<noteq> field (do_fields doc) ''workflow_state'')
    \<and> evaluate_conditions Q r doc"

definition fire_rule :: "env \<Rightarrow> rule_env \<Rightarrow> source_doc \<Rightarrow> string \<Rightarrow> string \<Rightarrow> rule \<Rightarrow> unit act" where
  "fire_rule E Q doc trigger_event rule_name r =
    bind (create_signing_request E Q doc rule_name r) (\<lambda>req_name.
    cond (req_name \<noteq> '''')
      (seq (audit E req_name ''Rule Evaluated''
             [(''rule'', JStr rule_name), (''matched'', JBool True), (''trigger_event'', JStr trigger_event),
              (''priority'', JInt (ru_priority r))])
       (cond (truthy (ru_signature_template r))
         (audit E req_name ''Template Selected'' [(''template'', json_opt (ru_signature_template r))]))))"

fun first_match :: "env \<Rightarrow> rule_env \<Rightarrow> source_doc \<Rightarrow> string \<Rightarrow> (string \<times> rule) list \<Rightarrow> unit act" where
  "first_match E Q doc trigger_event [] = ret ()"
| "first_match E Q doc trigger_event ((n, r) # rs) =
    (if rule_applies Q doc trigger_event r then fire_rule E Q doc trigger_event n r
     else first_match E Q doc trigger_event rs)"

definition evaluate_rules :: "env \<Rightarrow> rule_env \<Rightarrow> source_doc \<Rightarrow> string \<Rightarrow> unit act" where
  "evaluate_rules E Q doc trigger_event =
    bind (get_matching_rules E (do_doctype doc) trigger_event)
      (first_match E Q doc trigger_event)"

definition evaluate_on_submit :: "env \<Rightarrow> rule_env \<Rightarrow> source_doc \<Rightarrow> unit act" where
  "evaluate_on_submit E Q doc = evaluate_rules E Q doc ''on_submit''"

definition evaluate_on_update :: "env \<Rightarrow> rule_env \<Rightarrow> source_doc \<Rightarrow> unit act" where
  "evaluate_on_update E Q doc = evaluate_rules E Q doc ''on_update''"

definition evaluate_on_change :: "env \<Rightarrow> rule_env \<Rightarrow> source_doc \<Rightarrow> unit act" where
  "evaluate_on_change E Q doc =
    seq (evaluate_rules E Q doc ''on_change'')
    (let state = field (do_fields doc) ''workflow_state'' in
     if \<not> py_truth state then ret ()
     else
       let unchanged = (case do_before_save doc of
             None \<Rightarrow> False | Some prev \<Rightarrow> field prev ''workflow_state'' = state)
       in if unchanged then ret () else evaluate_rules E Q doc ''on_workflow_action'')"

section \<open>Which rule fires\<close>

lemma first_match_find:
  "first_match E Q doc ev rs =
    (case find (\<lambda>(n, r). rule_applies Q doc ev r) rs of
       None \<Rightarrow> ret () | Some (n, r) \<Rightarrow> fire_rule E Q doc ev n r)"
  by (induction E Q doc ev rs rule: first_match.induct) (auto simp: run_simps)

definition candidate :: "rule_env \<Rightarrow> db \<Rightarrow> source_doc \<Rightarrow> string \<Rightarrow> string \<Rightarrow> rule \<Rightarrow> bool" where
  "candidate Q d doc ev n r \<longleftrightarrow> row (t_rules d) n = Some r \<and> ru_is_enabled r
    \<and> ru_target_doctype r = do_doctype doc \<and> ru_trigger_event r = ev \<and> rule_applies Q doc ev r"

lemma matching_rules_run:
  assumes "scan_sound E" and "unique_names (t_rules (w_db w))"
  obtains rs where "get_matching_rules E dt ev w = (Inr rs, w)" "sorted (map (\<lambda>(n, r). ru_priority r) rs)"
    "set rs = {(n, r). row (t_rules (w_db w)) n = Some r \<and> ru_is_enabled r \<and> ru_target_doctype r = dt
       \<and> ru_trigger_event r = ev}"
proof -
  let ?P = "\<lambda>r. ru_is_enabled r \<and> ru_target_doctype r = dt \<and> ru_trigger_event r = ev"
  let ?ns = "e_scan E ''DSC Rule'' (w_db w) (names_where ?P (t_rules (w_db w)))"
  let ?rs = "sort_key (\<lambda>(n, r). ru_priority r) (List.map_filter (\<lambda>n. map_option (Pair n) (row (t_rules (w_db w)) n)) ?ns)"
  have "set ?ns = set (names_where ?P (t_rules (w_db w)))" using assms(1) by (simp add: scan_sound_def)
  then have "set ?rs = {(n, r). row (t_rules (w_db w)) n = Some r \<and> ?P r}"
    using assms(2) by (auto simp: set_found tbl.in_select)
  moreover have "get_matching_rules E dt ev w = (Inr ?rs, w)"
    by (simp add: get_matching_rules_def get_all_def db_gets_def)
  ultimately show thesis using that [of ?rs] by simp
qed

lemma find_sorted:
  assumes "find P xs = Some x" and "sorted (map f xs)" and "y \<in> set xs" and "P y"
  shows "f x \<le> f y"
  using assms by (induction xs) (auto split: if_splits)

lemma evaluate_cases:
  assumes "scan_sound E" and "unique_names (t_rules (w_db w))"
  shows "(\<exists>n r. candidate Q (w_db w) doc ev n r
        \<and> (\<forall>m s. candidate Q (w_db w) doc ev m s \<longrightarrow> ru_priority r \<le> ru_priority s)
        \<and> evaluate_rules E Q doc ev w = fire_rule E Q doc ev n r w)
    \<or> (\<forall>n r. \<not> candidate Q (w_db w) doc ev n r) \<and> evaluate_rules E Q doc ev w = (Inr (), w)"
proof -
  obtain rs where run: "get_matching_rules E (do_doctype doc) ev w = (Inr rs, w)" and
    sorted: "sorted (map (\<lambda>(n, r). ru_priority r) rs)" and
    set: "set rs = {(n, r). row (t_rules (w_db w)) n = Some r \<and> ru_is_enabled r
       \<and> ru_target_doctype r = do_doctype doc \<and> ru_trigger_event r = ev}"
    by (rule matching_rules_run [OF assms])
  have cand: "candidate Q (w_db w) doc ev n r \<longleftrightarrow> (n, r) \<in> set rs \<and> rule_applies Q doc ev r" for n r
    by (auto simp: candidate_def set)
  have eval: "evaluate_rules E Q doc ev w = first_match E Q doc ev rs w"
    using run by (simp add: evaluate_rules_def)
  show ?thesis
  proof (cases "find (\<lambda>(n, r). rule_applies Q doc ev r) rs")
    case None
    then have "\<not> candidate Q (w_db w) doc ev n r" for n r by (auto simp: cand find_None_iff)
    then show ?thesis by (simp add: eval first_match_find None)

  next
    case (Some x)
    obtain n r where x: "x = (n, r)" by fastforce
    have "(n, r) \<in> set rs" "rule_applies Q doc ev r"
      using Some x by (auto simp: find_Some_iff in_set_conv_nth)
    moreover have "ru_priority r \<le> ru_priority s" if "(m, s) \<in> set rs" "rule_applies Q doc ev s" for m s
      using find_sorted [OF Some sorted that(1)] that(2) x by simp
    ultimately have "candidate Q (w_db w) doc ev n r"
      "\<forall>m s. candidate Q (w_db w) doc ev m s \<longrightarrow> ru_priority r \<le> ru_priority s"
      by (auto simp: cand)
    moreover have "evaluate_rules E Q doc ev w = fire_rule E Q doc ev n r w"
      by (simp add: eval first_match_find Some x)
    ultimately show ?thesis by blast
  qed
qed

text \<open>C17: an event fires the applicable enabled rule of the lowest priority number among those
  for its document type and trigger, and only that one; when none applies nothing happens.\<close>

theorem evaluate_fires_first:
  assumes "scan_sound E" and "unique_names (t_rules (w_db w))"
  shows "(\<exists>n r. candidate Q (w_db w) doc ev n r
        \<and> (\<forall>m s. candidate Q (w_db w) doc ev m s \<longrightarrow> ru_priority r \<le> ru_priority s)
        \<and> evaluate_rules E Q doc ev w = fire_rule E Q doc ev n r w)
    \<or> (\<forall>n r. \<not> candidate Q (w_db w) doc ev n r) \<and> evaluate_rules E Q doc ev w = (Inr (), w)"
  by (rule evaluate_cases [OF assms])

lemma evaluate_only:
  assumes "scan_sound E" and "unique_names (t_rules (w_db w))" and "candidate Q (w_db w) doc ev n r"
    and "\<And>m s. candidate Q (w_db w) doc ev m s \<Longrightarrow> m = n"
  shows "evaluate_rules E Q doc ev w = fire_rule E Q doc ev n r w"
  using evaluate_cases [OF assms(1,2), of Q doc ev] assms(3,4) by (fastforce simp: candidate_def)

lemma evaluate_none:
  "scan_sound E \<Longrightarrow> unique_names (t_rules (w_db w)) \<Longrightarrow> (\<And>n r. \<not> candidate Q (w_db w) doc ev n r) \<Longrightarrow>
    evaluate_rules E Q doc ev w = (Inr (), w)"
  using evaluate_cases [of E w Q doc ev] by blast

section \<open>One request per document and rule\<close>

definition one_per_rule :: "signing_request table \<Rightarrow> bool" where
  "one_per_rule t \<longleftrightarrow> (\<forall>n m r s. row t n = Some r \<and> row t m = Some s \<and> sr_rule r \<noteq> None
    \<and> sr_rule s = sr_rule r \<and> sr_source_doctype s = sr_source_doctype r \<and> sr_source_name s = sr_source_name r
    \<longrightarrow> n = m)"

definition rule_requests_ok :: "signing_request table \<Rightarrow> bool" where
  "rule_requests_ok t \<longleftrightarrow> unique_names t \<and> one_per_rule t"

lemma insert_request_fresh:
  assumes "sr_status r = Pending" and "row (requests w) n = None"
    and "n = e_new_name E ''DSC Signing Request'' (map fst (requests w))"
  shows "insert_request E r w = (Inr n, w\<lparr>w_tick := Suc (Suc (w_tick w)), w_db := (w_db w)\<lparr>t_requests := add_row n
     (r\<lparr>sr_created_on := Some (e_clock E (w_tick w)), sr_creation := e_clock E (Suc (w_tick w)),
        sr_modified := e_clock E (Suc (w_tick w))\<rparr>) (requests w)\<rparr>\<rparr>)"
  using assms(1,2) assms(3) [symmetric]
  by (simp add: insert_request_def request_before_insert_def validate_status_transition_def
      request_on_update_def cond_def requests_def prim_runs)

lemma insert_request_taken:
  assumes "sr_status r = Pending" and "row (requests w) n = Some x"
    and "n = e_new_name E ''DSC Signing Request'' (map fst (requests w))"
  shows "insert_request E r w =
    (Inl (DuplicateEntryError ''DSC Signing Request'' n), w\<lparr>w_tick := Suc (Suc (w_tick w))\<rparr>)"
  using assms(1,2) assms(3) [symmetric]
  by (simp add: insert_request_def request_before_insert_def validate_status_transition_def
      requests_def prim_runs)


lemma one_per_rule_add:
  assumes "one_per_rule t" and "row t n = None" and "sr_rule r = Some ru"
    and new: "\<forall>m s. row t m = Some s \<longrightarrow> \<not> (sr_rule s = Some ru \<and> sr_source_doctype s = sr_source_doctype r
      \<and> sr_source_name s = sr_source_name r)"
  shows "one_per_rule (add_row n r t)"
  unfolding one_per_rule_def
proof (intro allI impI, elim conjE)
  fix a b x y assume ab: "row (add_row n r t) a = Some x" "row (add_row n r t) b = Some y" "sr_rule x \<noteq> None"
    "sr_rule y = sr_rule x" "sr_source_doctype y = sr_source_doctype x" "sr_source_name y = sr_source_name x"
  have row: "row (add_row n r t) m = (if m = n then Some r else row t m)" for m
    using tbl.lookup_add [OF assms(2)] by simp
  consider "a = n" "b = n" | "a = n" "b \<noteq> n" | "a \<noteq> n" "b = n" | "a \<noteq> n" "b \<noteq> n" by blast
  then show "a = b"
  proof cases
    case 2
    then have "x = r" "row t b = Some y" using ab(1,2) by (simp_all only: row) simp_all
    with new ab(4-6) assms(3) show ?thesis by fastforce
  next
    case 3
    then have "y = r" "row t a = Some x" using ab(1,2) by (simp_all only: row) simp_all
    with new ab(4-6) assms(3) show ?thesis by fastforce
  next
    case 4
    then have "row t a = Some x" "row t b = Some y" using ab(1,2) by (simp_all only: row) simp_all
    with assms(1) ab(3-6) show ?thesis unfolding one_per_rule_def by blast
  qed simp
qed

lemma announce_requests: "keeps (same requests) (announce E Q doc ru_name r u n)"
proof -
  have "keeps (same requests) (msgprint s)" for s
    by (simp add: keeps_def same_def msgprint_def requests_def)
  then show ?thesis
    unfolding announce_def notify_signer_def assign_signer_todo_def by (intro keeps_requests)
qed

lemma announce_returns: "announce E Q doc ru_name r u n w = (Inr m, w') \<Longrightarrow> m = n"
  unfolding announce_def by (elim seq_okE) simp

definition new_request :: "env \<Rightarrow> world \<Rightarrow> source_doc \<Rightarrow> string \<Rightarrow> rule \<Rightarrow> string option \<Rightarrow> signing_request" where
  "new_request E w doc rule_name r expected_signer =
    (blank_request (do_doctype doc) (do_name doc) (ru_profile r))
      \<lparr>sr_rule := Some rule_name, sr_signature_template := ru_signature_template r,
       sr_expected_signer_user := expected_signer, sr_created_on := Some (e_clock E (w_tick w)),
       sr_creation := e_clock E (Suc (w_tick w)), sr_modified := e_clock E (Suc (w_tick w))\<rparr>"

lemma resolve_run: "\<exists>u. resolve_signer_user E p w = (Inr u, w)"
  by (simp add: resolve_signer_user_def prim_runs)

lemma create_request_cases:
  assumes "scan_sound E" and "unique_names (requests w)"
  obtains (existing) n r where "create_signing_request E Q doc ru_name ru w = (Inr n, w)"
      "row (requests w) n = Some r" "request_for doc ru_name r"
  | (created) n u w1 where "row (requests w) n = None" "resolve_signer_user E (ru_profile ru) w = (Inr u, w)"
      "\<forall>m s. row (requests w) m = Some s \<longrightarrow> \<not> request_for doc ru_name s"
      "requests w1 = add_row n (new_request E w doc ru_name ru u) (requests w)"
      "create_signing_request E Q doc ru_name ru w = announce E Q doc ru_name ru u n w1"
  | (refused) e w1 where "create_signing_request E Q doc ru_name ru w = (Inl e, w1)" "requests w1 = requests w"
proof -
  obtain x where f: "find_doc E ''DSC Signing Request'' t_requests (request_for doc ru_name) w = (Inr x, w)"
    by (simp add: find_doc_run)
  show thesis
  proof (cases x)
    case (Some n)
    from find_doc_some [OF f [unfolded Some] assms(1)] assms(2) obtain r where
      "row (requests w) n = Some r" "request_for doc ru_name r" by (auto simp: requests_def)
    moreover have "create_signing_request E Q doc ru_name ru w = (Inr n, w)"
      using f Some by (simp add: create_signing_request_def)
    ultimately show thesis by (intro existing)
  next
    case None
    obtain u where u: "resolve_signer_user E (ru_profile ru) w = (Inr u, w)" using resolve_run by blast
    let ?n = "e_new_name E ''DSC Signing Request'' (map fst (requests w))"
    let ?r = "(blank_request (do_doctype doc) (do_name doc) (ru_profile ru))
              \<lparr>sr_rule := Some ru_name, sr_signature_template := ru_signature_template ru,
               sr_expected_signer_user := u\<rparr>"
    have pending: "sr_status ?r = Pending" by (simp add: blank_request_def)
    have run: "create_signing_request E Q doc ru_name ru w =
        bind (insert_request E ?r) (announce E Q doc ru_name ru u) w"
      using f None u by (simp add: create_signing_request_def)
    show thesis
    proof (cases "row (requests w) ?n")
      case (Some s)
      then show thesis
        by (intro refused [of _ "w\<lparr>w_tick := Suc (Suc (w_tick w))\<rparr>"])
          (simp_all add: run insert_request_taken [OF pending Some refl], simp add: requests_def)
    next
      case none: None
      have new: "\<forall>m s. row (requests w) m = Some s \<longrightarrow> \<not> request_for doc ru_name s"
        using find_doc_none [OF f [unfolded None] assms(1)] assms(2) by (auto simp: requests_def)
      let ?w1 = "w\<lparr>w_tick := Suc (Suc (w_tick w)), w_db := (w_db w)\<lparr>t_requests := add_row ?n
        (new_request E w doc ru_name ru u) (requests w)\<rparr>\<rparr>"
      have ins: "insert_request E ?r w = (Inr ?n, ?w1)"
        using insert_request_fresh [OF pending none refl] by (simp add: new_request_def)
      show thesis
        by (rule created [OF none u new, of ?w1]) (simp add: requests_def, simp only: run run_bind ins prod.case sum.case)
    qed
  qed
qed

lemma create_keeps_rule_requests:
  assumes "scan_sound E"
  shows "keeps (preserves (\<lambda>w. rule_requests_ok (requests w))) (create_signing_request E Q doc ru_name ru)"
proof (rule keepsI, unfold preserves_def, rule impI)
  fix w assume ok: "rule_requests_ok (requests w)"
  then have u: "unique_names (requests w)" by (simp add: rule_requests_ok_def)
  show "rule_requests_ok (requests (snd (create_signing_request E Q doc ru_name ru w)))"
  proof (rule create_request_cases [OF assms u, of Q doc ru_name ru], goal_cases)
    case created: (2 n x w1)
    let ?r = "new_request E w doc ru_name ru x"
    have "requests (snd (announce E Q doc ru_name ru x n w1)) = add_row n ?r (requests w)"
      using keepsD [OF announce_requests [of E Q doc ru_name ru x n], of w1] created(4) by (simp add: same_def)
    moreover have "unique_names (add_row n ?r (requests w))"
      using u created(1) by (rule tbl.unique_add)
    moreover have "one_per_rule (add_row n ?r (requests w))"
      using ok created(1,3) unfolding rule_requests_ok_def
      by (intro one_per_rule_add [where ru = ru_name])
        (auto simp: new_request_def blank_request_def request_for_def)
    ultimately show ?thesis by (simp add: created(5) rule_requests_ok_def)
  qed (use ok in simp_all)
qed

lemma fire_keeps_rule_requests:
  "scan_sound E \<Longrightarrow> keeps (preserves (\<lambda>w. rule_requests_ok (requests w))) (fire_rule E Q doc ev n r)"
  unfolding fire_rule_def
  by (intro inv.keeps_intros create_keeps_rule_requests requests_preserves keeps_audit)

lemma evaluate_keeps_rule_requests:
  assumes "scan_sound E"
  shows "keeps (preserves (\<lambda>w. rule_requests_ok (requests w))) (evaluate_rules E Q doc ev)"
proof -
  have "keeps (preserves (\<lambda>w. rule_requests_ok (requests w))) (first_match E Q doc ev rs)" for rs
    unfolding first_match_find
    by (intro inv.keeps_intros fire_keeps_rule_requests assms)
  moreover have "keeps (preserves (\<lambda>w. rule_requests_ok (requests w))) (get_matching_rules E (do_doctype doc) ev)"
    unfolding get_matching_rules_def by (intro requests_preserves keeps_requests)
  ultimately show ?thesis
    unfolding evaluate_rules_def by (intro inv.keeps_bind)
qed

lemma event_keeps_rule_requests:
  assumes "scan_sound E"
  shows "keeps (preserves (\<lambda>w. rule_requests_ok (requests w))) (evaluate_on_submit E Q doc)"
    and "keeps (preserves (\<lambda>w. rule_requests_ok (requests w))) (evaluate_on_update E Q doc)"
    and "keeps (preserves (\<lambda>w. rule_requests_ok (requests w))) (evaluate_on_change E Q doc)"
  unfolding evaluate_on_submit_def evaluate_on_update_def evaluate_on_change_def Let_def
  by (intro inv.keeps_intros evaluate_keeps_rule_requests assms)+

datatype doc_event = Submitted | Updated | Changed

fun on_event :: "env \<Rightarrow> rule_env \<Rightarrow> doc_event \<times> source_doc \<Rightarrow> unit act" where
  "on_event E Q (Submitted, doc) = evaluate_on_submit E Q doc"
| "on_event E Q (Updated, doc) = evaluate_on_update E Q doc"
| "on_event E Q (Changed, doc) = evaluate_on_change E Q doc"

fun run_events :: "env \<Rightarrow> rule_env \<Rightarrow> (doc_event \<times> source_doc) list \<Rightarrow> world \<Rightarrow> world" where
  "run_events E Q [] w = w"
| "run_events E Q (ev # evs) w = run_events E Q evs (snd (on_event E Q ev w))"

text \<open>Whatever events arrive in whatever order, and whether or not handling them fails, no
  document ever has two signing requests for the same rule.\<close>

theorem one_request_per_rule:
  assumes "scan_sound E" and "rule_requests_ok (t_requests (w_db w))"
  shows "rule_requests_ok (t_requests (w_db (run_events E Q evs w)))"
  using assms(2)
proof (induction evs arbitrary: w)
  case (Cons ev evs)
  obtain e doc where ev: "ev = (e, doc)" by fastforce
  have "keeps (preserves (\<lambda>w. rule_requests_ok (requests w))) (on_event E Q ev)"
    using event_keeps_rule_requests [OF assms(1)] by (cases e) (simp_all add: ev)
  with Cons.prems have "rule_requests_ok (requests (snd (on_event E Q ev w)))"
    by (auto simp: keeps_def preserves_def requests_def)
  with Cons.IH show ?case by (simp add: requests_def)
qed simp


lemma resolve_signer_allowed:
  assumes "resolve_signer_user E p w = (Inr (Some u), w')"
  shows "\<exists>pf. row (t_profiles (w_db w)) p = Some pf \<and> u \<in> set (pf_allowed_users pf)
    \<and> (e_user E \<in> set (pf_allowed_users pf) \<longrightarrow> u = e_user E)"
  using assms
  by (auto simp: resolve_signer_user_def db_gets_def Let_def split: option.splits list.splits if_splits)

text \<open>A condition that compares two texts compares zeros: wherever \<open>flt\<close> gives 0 for both,
  as it does for any text that is no number, the field counts as equal to the target, not
  different from it, and neither greater nor less, whatever the texts are.\<close>

theorem text_comparisons_collapse:
  assumes "field (do_fields doc) f = FStr s" and "q_flt Q (FStr s) = Some (Fin 0)" and "q_flt Q (FStr t) = Some (Fin 0)"
  shows "check_condition Q \<lparr>rc_field = f, rc_operator = ''equals'', rc_value = Some t\<rparr> doc
    \<and> \<not> check_condition Q \<lparr>rc_field = f, rc_operator = ''not_equals'', rc_value = Some t\<rparr> doc
    \<and> \<not> check_condition Q \<lparr>rc_field = f, rc_operator = ''greater_than'', rc_value = Some t\<rparr> doc
    \<and> \<not> check_condition Q \<lparr>rc_field = f, rc_operator = ''less_than'', rc_value = Some t\<rparr> doc"
  using assms by (simp add: check_condition_def coerce_and_compare_def float_eq_def Let_def)

section \<open>The audit trail\<close>

lemma keeps_trail_rules [keeps_trail]:
  "keeps audit_ext (create_signing_request E Q doc ru_name ru)"
  "keeps audit_ext (evaluate_rules E Q doc ev)" "keeps audit_ext (evaluate_on_submit E Q doc)"
  "keeps audit_ext (evaluate_on_update E Q doc)" "keeps audit_ext (evaluate_on_change E Q doc)"
proof -
  have msg: "keeps audit_ext (msgprint s)" for s
    by (simp add: keeps_def audit_ext_def msgprint_def)
  have res: "keeps audit_ext (resolve_signer_user E p)" for p
    unfolding resolve_signer_user_def by (intro keeps_trail)
  show 1: "keeps audit_ext (create_signing_request E Q doc ru_name ru)" for ru_name ru
    unfolding create_signing_request_def announce_def notify_signer_def assign_signer_todo_def
    by (intro keeps_trail msg res)
  have 2: "keeps audit_ext (first_match E Q doc ev rs)" for ev rs
    unfolding first_match_find fire_rule_def by (intro keeps_trail 1)
  show 3: "keeps audit_ext (evaluate_rules E Q doc ev)" for ev
    unfolding evaluate_rules_def get_matching_rules_def by (intro keeps_trail 2)
  show "keeps audit_ext (evaluate_on_submit E Q doc)" "keeps audit_ext (evaluate_on_update E Q doc)"
    "keeps audit_ext (evaluate_on_change E Q doc)"
    unfolding evaluate_on_submit_def evaluate_on_update_def evaluate_on_change_def Let_def
    by (intro keeps_trail 3)+
qed

end
