(* ===== verification/Gates.thy ===== *)
theory Gates
  imports Finalize
begin

text \<open>
  The gates: \<open>print_gate.py\<close> and \<open>email_gate.py\<close>, which replace two whitelisted methods of
  the framework, \<open>file_protection.py\<close> on the deletion of files, and the permission hooks of
  \<open>permissions.py\<close>. The methods they hand over to are not under src/: a gate's result is
  what it passes on.
\<close>

section \<open>The print gate\<close>

datatype download =
    Delegated string string "(string \<times> json) list"
  | Served string content

definition print_blocking :: "string \<Rightarrow> rule \<Rightarrow> bool" where
  "print_blocking doctype r \<longleftrightarrow> ru_target_doctype r = doctype \<and> ru_is_enabled r \<and> ru_block_print_until_signed r"

definition signed_for :: "string \<Rightarrow> string \<Rightarrow> signing_request \<Rightarrow> bool" where
  "signed_for doctype docname r \<longleftrightarrow>
    sr_source_doctype r = doctype \<and> sr_source_name r = docname \<and> sr_status r = Signed"

text \<open>\<open>newargs\<close> is \<open>frappe.get_newargs\<close> for the core function: the arguments it declares.\<close>

definition delegate ::
  "((string \<times> json) list \<Rightarrow> (string \<times> json) list) \<Rightarrow> string \<Rightarrow> string \<Rightarrow> json \<Rightarrow> json \<Rightarrow> json \<Rightarrow>
   (string \<times> json) list \<Rightarrow> download" where
  "delegate newargs doctype name format doc no_letterhead kwargs = Delegated doctype name
    (newargs ([(''format'', format), (''doc'', doc), (''no_letterhead'', no_letterhead)] @ kwargs))"

definition signature_required :: "string \<Rightarrow> error" where
  "signature_required doctype = ValidationError
    (''This '' @ doctype @ '' requires a digital signature before printing. ''
     @ ''Please sign the document first using '' @ [CHR 0x27] @ ''Sign with DSC'' @ [CHR 0x27] @ ''.'')"

definition download_pdf ::
  "env \<Rightarrow> ((string \<times> json) list \<Rightarrow> (string \<times> json) list) \<Rightarrow> string \<Rightarrow> string \<Rightarrow> json \<Rightarrow> json \<Rightarrow> json \<Rightarrow>
   (string \<times> json) list \<Rightarrow> download act" where
  "download_pdf E newargs doctype name format doc no_letterhead kwargs =
    bind (find_row E ''DSC Rule'' t_rules (print_blocking doctype)) (\<lambda>blocking_rule.
    case blocking_rule of
      None \<Rightarrow> ret (delegate newargs doctype name format doc no_letterhead kwargs)
    | Some (_, rule) \<Rightarrow>
       bind (db_gets (\<lambda>d. e_has_permission E d doctype ''read'' (Some name))) (\<lambda>may_read.
       seq (throw_if (\<not> may_read)
             (PermissionError (''You do not have permission to access '' @ doctype @ '' '' @ name @ ''.'')))
       (bind (find_row E ''DSC Signing Request'' t_requests (signed_for doctype name)) (\<lambda>signed_request.
        case Option.bind signed_request (\<lambda>(_, r). if truthy (sr_signed_file r) then sr_signed_file r else None) of
          Some fn \<Rightarrow> bind (get_doc ''File'' t_files fn) (\<lambda>f. ret (Served (fl_file_name f) (fl_content f)))
        | None \<Rightarrow>
            seq (throw_if (ru_is_mandatory rule) (signature_required doctype))
            (ret (delegate newargs doctype name format doc no_letterhead kwargs))))))"

section \<open>The email gate\<close>

record mail_args =
  ma_doctype :: "string option"
  ma_name :: "string option"
  ma_attachments :: json
  ma_rest :: "(string \<times> json) list"

definition email_blocking :: "string \<Rightarrow> rule \<Rightarrow> bool" where
  "email_blocking doctype r \<longleftrightarrow> ru_target_doctype r = doctype \<and> ru_is_enabled r \<and> ru_block_email_until_signed r"

definition email_needs_signature :: "string \<Rightarrow> error" where
  "email_needs_signature doctype = ValidationError
    (''This '' @ doctype @ '' requires a digital signature before it can be emailed. ''
     @ ''Please sign the document first using '' @ [CHR 0x27] @ ''Sign with DSC'' @ [CHR 0x27] @ ''.'')"

definition check_email_allowed :: "env \<Rightarrow> string \<Rightarrow> string \<Rightarrow> unit act" where
  "check_email_allowed E doctype docname =
    bind (find_doc E ''DSC Rule'' t_rules (email_blocking doctype)) (\<lambda>blocking_rule.
    if blocking_rule = None then ret ()
    else
      bind (find_doc E ''DSC Signing Request'' t_requests (signed_for doctype docname)) (\<lambda>signed.
      if signed \<noteq> None then ret () else raise (email_needs_signature doctype)))"

definition get_signed_pdf_for_attachment :: "env \<Rightarrow> string \<Rightarrow> string \<Rightarrow> (string \<times> file_doc) option act" where
  "get_signed_pdf_for_attachment E doctype docname =
    bind (find_row E ''DSC Signing Request'' t_requests (signed_for doctype docname)) (\<lambda>found.
    case Option.bind found (\<lambda>(_, r). if truthy (sr_signed_file r) then sr_signed_file r else None) of
      Some fn \<Rightarrow> bind (get_doc ''File'' t_files fn) (\<lambda>f. ret (Some (fn, f)))
    | None \<Rightarrow> ret None)"

fun is_attachment :: "string \<Rightarrow> json \<Rightarrow> bool" where
  "is_attachment fid (JObj kvs) = (map_of (rev kvs) ''fid'' = Some (JStr fid))"
| "is_attachment fid (JStr s) = (s = fid)"
| "is_attachment fid _ = False"

text \<open>\<open>make\<close> up to the call of the original: the arguments that are passed on. Iterating over
  the attachments is what Python's \<open>for\<close> does with the value that came with the request.\<close>

definition make :: "env \<Rightarrow> mail_args \<Rightarrow> mail_args act" where
  "make E args =
    (if truthy (ma_doctype args) \<and> truthy (ma_name args) then
       let doctype = or_str (ma_doctype args) ''''; docname = or_str (ma_name args) '''' in
       seq (check_email_allowed E doctype docname)
       (bind (get_signed_pdf_for_attachment E doctype docname) (\<lambda>signed_file.
        case signed_file of
          None \<Rightarrow> ret args
        | Some (fid, _) \<Rightarrow>
           bind (lift (chain_items (ma_attachments args))) (\<lambda>existing.
           ret (if list_ex (is_attachment fid) existing then args
                else args\<lparr>ma_attachments := JList (existing @ [JObj [(''fid'', JStr fid)]])\<rparr>))))
     else ret args)"

section \<open>File protection\<close>

definition file_before_delete :: "env \<Rightarrow> file_doc \<Rightarrow> unit act" where
  "file_before_delete E f =
    throw_if (fl_is_dsc_signed f
        \<and> set (e_roles E (e_user E)) \<inter> {''DSC Administrator'', ''System Manager'', ''Administrator''} = {})
      (ValidationError (''This file is a DSC-signed PDF and cannot be deleted. ''
        @ ''Contact a DSC Administrator if removal is required.''))"

definition delete_file :: "env \<Rightarrow> string \<Rightarrow> unit act" where
  "delete_file E n =
    bind (get_doc ''File'' t_files n) (\<lambda>f.
    seq (file_before_delete E f)
    (db_modify (\<lambda>d. d\<lparr>t_files := drop_row n (t_files d)\<rparr>)))"

section \<open>Permissions\<close>

definition has_role :: "env \<Rightarrow> string \<Rightarrow> string \<Rightarrow> bool" where
  "has_role E user role \<longleftrightarrow> role \<in> set (e_roles E user)"

definition request_has_permission :: "env \<Rightarrow> signing_request \<Rightarrow> string \<Rightarrow> string \<Rightarrow> bool" where
  "request_has_permission E doc ptype user =
    (if ptype = ''read'' then
       (if has_role E user ''DSC Administrator'' then True
        else if has_role E user ''DSC Auditor'' then True
        else if has_role E user ''System Manager'' then True
        else sr_expected_signer_user doc = Some user \<or> sr_actual_signer_user doc = Some user)
     else if ptype = ''write'' \<or> ptype = ''create'' then
       (if has_role E user ''DSC Administrator'' then True
        else if has_role E user ''System Manager'' then True
        else has_role E user ''DSC Signer'' \<and> sr_expected_signer_user doc = Some user)
     else False)"

text \<open>The condition is empty or compares two columns with the user; \<open>esc\<close> is
  \<open>frappe.db.escape\<close>.\<close>

definition bypasses_filter :: "env \<Rightarrow> string \<Rightarrow> bool" where
  "bypasses_filter E user \<longleftrightarrow> has_role E user ''DSC Administrator'' \<or> has_role E user ''System Manager''
    \<or> has_role E user ''DSC Auditor''"

definition request_query_conditions :: "env \<Rightarrow> (string \<Rightarrow> string) \<Rightarrow> string option \<Rightarrow> string" where
  "request_query_conditions E esc user_arg =
    (let user = or_str user_arg (e_user E); escaped = esc user; col = [CHR 0x60] @ ''tabDSC Signing Request'' @ [CHR 0x60] in
     if bypasses_filter E user then ''''
     else ''('' @ col @ ''.'' @ [CHR 0x60] @ ''expected_signer_user'' @ [CHR 0x60] @ '' = '' @ escaped
       @ '' OR '' @ col @ ''.'' @ [CHR 0x60] @ ''actual_signer_user'' @ [CHR 0x60] @ '' = '' @ escaped @ '')'')"

text \<open>What the database makes of that condition for a row.\<close>

definition passes_filter :: "env \<Rightarrow> string \<Rightarrow> signing_request \<Rightarrow> bool" where
  "passes_filter E user r \<longleftrightarrow> bypasses_filter E user
    \<or> sr_expected_signer_user r = Some user \<or> sr_actual_signer_user r = Some user"

definition profile_has_permission :: "env \<Rightarrow> profile \<Rightarrow> string \<Rightarrow> string \<Rightarrow> bool" where
  "profile_has_permission E doc ptype user =
    (if has_role E user ''DSC Administrator'' then True
     else if has_role E user ''System Manager'' then True
     else if ptype = ''read'' \<and> has_role E user ''DSC Signer'' then user \<in> set (pf_allowed_users doc)
     else False)"

section \<open>What the gates let through\<close>

text \<open>C21: the print gate serves a stored file only to a user with read permission on the source
  document, and only the file that a Signed request of that document links.\<close>

theorem print_gate_serves_signed:
  assumes "scan_sound E" and "unique_names (t_requests (w_db w))"
    and "download_pdf E newargs doctype name fmt doc nl kwargs w = (Inr (Served fname bytes), w')"
  shows "e_has_permission E (w_db w) doctype ''read'' (Some name)
    \<and> (\<exists>n r fn f. row (t_requests (w_db w)) n = Some r \<and> signed_for doctype name r
        \<and> sr_signed_file r = Some fn \<and> row (t_files (w_db w)) fn = Some f
        \<and> fname = fl_file_name f \<and> bytes = fl_content f)"
proof -
  obtain b where b: "find_row E ''DSC Rule'' t_rules (print_blocking doctype) w = (Inr b, w)"
    by (simp add: find_row_run)
  obtain s where s: "find_row E ''DSC Signing Request'' t_requests (signed_for doctype name) w = (Inr s, w)"
    by (simp add: find_row_run)
  obtain n0 rule where some: "b = Some (n0, rule)"
    using assms(3) b by (cases b) (auto simp: download_pdf_def delegate_def)
  from assms(3) b some have read: "e_has_permission E (w_db w) doctype ''read'' (Some name)"
    by (cases "e_has_permission E (w_db w) doctype ''read'' (Some name)") (auto simp: download_pdf_def db_gets_run)
  let ?pick = "Option.bind s (\<lambda>(_, r). if truthy (sr_signed_file r) then sr_signed_file r else None)"
  have run: "(case ?pick of
          Some fn \<Rightarrow> bind (get_doc ''File'' t_files fn) (\<lambda>f. ret (Served (fl_file_name f) (fl_content f)))
        | None \<Rightarrow>
            seq (throw_if (ru_is_mandatory rule) (signature_required doctype))
            (ret (delegate newargs doctype name fmt doc nl kwargs))) w = (Inr (Served fname bytes), w')"
    using assms(3) b some read s by (simp add: download_pdf_def db_gets_run)
  then obtain fn f where fn: "?pick = Some fn" "row (t_files (w_db w)) fn = Some f" "fname = fl_file_name f"
      "bytes = fl_content f"
    by (cases ?pick) (auto simp: delegate_def elim!: bind_okE seq_okE get_doc_okE)
  then obtain n r where "s = Some (n, r)" "sr_signed_file r = Some fn"
    by (auto simp: bind_eq_Some_conv split: if_splits)
  with find_row_some [OF s [unfolded this(1)] assms(1,2)] read fn show ?thesis by blast
qed

text \<open>C22: when every enabled rule that blocks printing of the document type is mandatory, and there
  is one, a document without a signed file is never handed to the framework's own print.\<close>

theorem print_gate_blocks_unsigned:
  assumes "scan_sound E" and "unique_names (t_rules (w_db w))" and "unique_names (t_requests (w_db w))"
    and "row (t_rules (w_db w)) n = Some r" and "print_blocking doctype r"
    and "\<forall>m s. row (t_rules (w_db w)) m = Some s \<and> print_blocking doctype s \<longrightarrow> ru_is_mandatory s"
    and "\<forall>m s. row (t_requests (w_db w)) m = Some s \<and> signed_for doctype name s \<longrightarrow> \<not> truthy (sr_signed_file s)"
  shows "download_pdf E newargs doctype name fmt doc nl kwargs w =
    (Inl (if e_has_permission E (w_db w) doctype ''read'' (Some name) then signature_required doctype
          else PermissionError (''You do not have permission to access '' @ doctype @ '' '' @ name @ ''.'')), w)"
proof -
  obtain b where b: "find_row E ''DSC Rule'' t_rules (print_blocking doctype) w = (Inr b, w)"
    by (simp add: find_row_run)
  obtain s where s: "find_row E ''DSC Signing Request'' t_requests (signed_for doctype name) w = (Inr s, w)"
    by (simp add: find_row_run)
  obtain m rule where some: "b = Some (m, rule)"
    using find_row_none [where T = t_rules and P = "print_blocking doctype", OF _ assms(1,2,4)] b assms(5)
    by (cases b) auto
  from find_row_some [OF b [unfolded some] assms(1,2)] assms(6) have mandatory: "ru_is_mandatory rule" by blast
  have pick: "Option.bind s (\<lambda>(_, r). if truthy (sr_signed_file r) then sr_signed_file r else None) = None"
  proof (cases s)
    case (Some x)
    obtain k q where x: "x = (k, q)" by fastforce
    from find_row_some [OF s [unfolded Some x] assms(1,3)] assms(7) Some x show ?thesis by auto
  qed simp
  show ?thesis
    using b some s mandatory pick by (simp add: download_pdf_def db_gets_run)
qed


section \<open>Signed files and permissions\<close>

fun delete_files :: "env \<Rightarrow> string list \<Rightarrow> world \<Rightarrow> world" where
  "delete_files E [] w = w"
| "delete_files E (n # ns) w = delete_files E ns (snd (delete_file E n w))"

lemma delete_file_run:
  "delete_file E n w = (case row (t_files (w_db w)) n of
     None \<Rightarrow> (Inl (DoesNotExistError ''File'' n), w)
   | Some f \<Rightarrow> (case file_before_delete E f w of
       (Inl e, _) \<Rightarrow> (Inl e, w)
     | (Inr _, _) \<Rightarrow> (Inr (), w\<lparr>w_db := (w_db w)\<lparr>t_files := drop_row n (t_files (w_db w))\<rparr>\<rparr>)))"
  by (simp add: delete_file_def get_doc_def file_before_delete_def db_modify_def run_bind run_seq split: option.splits)



text \<open>An auditor who holds no other role reads every request and writes none, and whoever may
  write a request may read it.\<close>

theorem request_write_implies_read:
  "(request_has_permission E r ''write'' user \<longrightarrow> request_has_permission E r ''read'' user)
   \<and> (set (e_roles E user) = {''DSC Auditor''} \<longrightarrow>
        request_has_permission E r ''read'' user \<and> \<not> request_has_permission E r ''write'' user
        \<and> \<not> profile_has_permission E pf ''write'' user)"
  by (auto simp: request_has_permission_def profile_has_permission_def has_role_def)

end
