(* ===== verification/Maintenance.thy ===== *)
theory Maintenance
  imports Finalize
begin

text \<open>
  The scheduled jobs: \<open>cleanup.py\<close> (hourly), \<open>retention.py\<close> and \<open>cert_expiry.py\<close> (daily).
  \<open>add_years\<close> of the framework is an argument.
\<close>

section \<open>Expiring stale requests\<close>

definition timeout_of :: "settings \<Rightarrow> int" where
  "timeout_of cfg = (if se_signing_timeout_seconds cfg = 0 then 180 else se_signing_timeout_seconds cfg)"

definition timed_out :: "datetime \<Rightarrow> signing_request \<Rightarrow> bool" where
  "timed_out cutoff r \<longleftrightarrow> sr_status r = In_Progress \<and> sr_modified r < cutoff"

definition expire_one :: "int \<Rightarrow> signing_request \<Rightarrow> signing_request" where
  "expire_one timeout_seconds r = r\<lparr>sr_status := Failed,
    sr_failure_reason := Some (''Signing timed out after '' @ dec_int timeout_seconds @ '' seconds'')\<rparr>"

definition expire_stale_pending_requests :: "env \<Rightarrow> unit act" where
  "expire_stale_pending_requests E =
    bind (db_gets (\<lambda>d. timeout_of (t_settings d))) (\<lambda>timeout_seconds.
    bind (now_datetime E) (\<lambda>now.
    bind (get_all E ''DSC Signing Request'' t_requests (timed_out (now - seconds timeout_seconds))) (\<lambda>stale.
    seq (for_each stale (\<lambda>n. set_request E n (expire_one timeout_seconds)))
    (cond (stale \<noteq> []) commit))))"

section \<open>Retention\<close>

definition is_terminal :: "request_status \<Rightarrow> bool" where
  "is_terminal s \<longleftrightarrow> s \<in> {Signed, Failed, Cancelled}"

definition is_old :: "datetime \<Rightarrow> signing_request \<Rightarrow> bool" where
  "is_old cutoff r \<longleftrightarrow> is_terminal (sr_status r)
    \<and> (case sr_created_on r of None \<Rightarrow> False | Some t \<Rightarrow> t < cutoff)"

definition delete_request :: "string \<Rightarrow> unit act" where
  "delete_request n = db_modify (\<lambda>d. d\<lparr>t_requests := drop_row n (t_requests d)\<rparr>)"

definition purge_old_requests :: "env \<Rightarrow> (datetime \<Rightarrow> int \<Rightarrow> datetime) \<Rightarrow> unit act" where
  "purge_old_requests E add_years =
    bind (db_gets (\<lambda>d. se_retention_years_for_requests (t_settings d))) (\<lambda>years.
    bind (now_datetime E) (\<lambda>now.
    bind (get_all E ''DSC Signing Request'' t_requests
            (is_old (add_years now (- (if years = 0 then 7 else years))))) (\<lambda>old.
    seq (for_each old delete_request)
    (cond (old \<noteq> []) commit))))"

section \<open>Expiry warnings\<close>

definition send_expiry_warning :: "env \<Rightarrow> profile \<Rightarrow> int \<Rightarrow> unit act" where
  "send_expiry_warning E pf days_remaining =
    for_each (e_users_with_role E ''DSC Administrator'') (\<lambda>admin.
      call_service E (Mail [admin]
        (''DSC Certificate Expiring in '' @ dec_int days_remaining @ '' Days - '' @ pf_profile_name pf)
        (''The certificate for DSC Profile <b>'' @ pf_profile_name pf @ ''</b> (''
         @ py_str (pf_certificate_common_name pf) @ '') will expire in <b>'' @ dec_int days_remaining
         @ '' days</b> on '' @ (case pf_certificate_not_after pf of None \<Rightarrow> ''None'' | Some t \<Rightarrow> e_str_datetime E t)
         @ ''.<br><br>Please arrange for certificate renewal.'')))"

definition days_until_expiry :: "datetime \<Rightarrow> profile \<Rightarrow> int" where
  "days_until_expiry now pf =
    (case pf_certificate_not_after pf of None \<Rightarrow> 0 | Some t \<Rightarrow> getdate t - getdate now)"

definition warn_profile :: "env \<Rightarrow> int list \<Rightarrow> datetime \<Rightarrow> string \<Rightarrow> unit act" where
  "warn_profile E warning_days now n =
    bind (db_gets (\<lambda>d. row (t_profiles d) n)) (\<lambda>found.
    case found of
      None \<Rightarrow> ret ()
    | Some pf \<Rightarrow>
       cond (days_until_expiry now pf \<in> set warning_days)
         (send_expiry_warning E pf (days_until_expiry now pf)))"

definition notify_upcoming_expiries :: "env \<Rightarrow> unit act" where
  "notify_upcoming_expiries E =
    bind (db_gets t_settings) (\<lambda>cfg.
    if \<not> se_enable_expiry_warnings cfg then ret ()
    else if se_expiry_warning_days cfg = [] then ret ()
    else
      bind (now_datetime E) (\<lambda>now.
      bind (get_all E ''DSC Profile'' t_profiles
              (\<lambda>pf. pf_is_active pf \<and> pf_certificate_not_after pf \<noteq> None)) (\<lambda>profiles.
      for_each profiles (warn_profile E (se_expiry_warning_days cfg) now))))"

section \<open>What the jobs change\<close>

lemma get_all_run:
  "get_all E dt T P w = (Inr (e_scan E dt (w_db w) (names_where P (T (w_db w)))), w)"
  by (simp add: get_all_def db_gets_def)

lemma cond_commit: "\<exists>w'. cond c commit w = (Inr (), w') \<and> w_db w' = w_db w"
  by (cases c) (simp_all add: run_cond commit_def)

text \<open>Writing each of some rows once: those rows are changed, with some modification time.\<close>

definition rows_changed ::
  "string set \<Rightarrow> (signing_request \<Rightarrow> signing_request) \<Rightarrow> signing_request table \<Rightarrow> signing_request table \<Rightarrow> bool" where
  "rows_changed N f t t' \<longleftrightarrow> (\<forall>m. case row t m of
      None \<Rightarrow> row t' m = None
    | Some r \<Rightarrow> if m \<in> N then \<exists>tm. row t' m = Some ((f r)\<lparr>sr_modified := tm\<rparr>) else row t' m = Some r)"

lemma rows_changed_step:
  assumes "rows_changed N f (update_row n (\<lambda>r. (f r)\<lparr>sr_modified := tm\<rparr>) t) t'" and "n \<notin> N"
  shows "rows_changed (insert n N) f t t'"
  unfolding rows_changed_def
proof
  fix m
  from assms(1) have m: "case row (update_row n (\<lambda>r. (f r)\<lparr>sr_modified := tm\<rparr>) t) m of
      None \<Rightarrow> row t' m = None
    | Some r \<Rightarrow> if m \<in> N then \<exists>tm. row t' m = Some ((f r)\<lparr>sr_modified := tm\<rparr>) else row t' m = Some r"
    unfolding rows_changed_def by blast
  show "case row t m of None \<Rightarrow> row t' m = None
    | Some r \<Rightarrow> if m \<in> insert n N then \<exists>tm. row t' m = Some ((f r)\<lparr>sr_modified := tm\<rparr>) else row t' m = Some r"
  proof (cases "m = n")
    case True
    with m assms(2) show ?thesis by (cases "row t n") (simp_all, blast)
  next
    case False
    with m show ?thesis by (cases "row t m") simp_all
  qed
qed

lemma for_each_set_run:
  "distinct ns \<Longrightarrow> \<exists>w'. for_each ns (\<lambda>n. set_request E n f) w = (Inr (), w')
    \<and> rows_changed (set ns) f (t_requests (w_db w)) (t_requests (w_db w'))
    \<and> t_docsigns (w_db w') = t_docsigns (w_db w) \<and> t_events (w_db w') = t_events (w_db w)"
proof (induction ns arbitrary: w)
  case Nil
  then show ?case by (simp add: rows_changed_def split: option.splits)
next
  case (Cons n ns)
  let ?w1 = "snd (set_request E n f w)"
  from Cons obtain w2 where w2: "for_each ns (\<lambda>n. set_request E n f) ?w1 = (Inr (), w2)"
    "rows_changed (set ns) f (t_requests (w_db ?w1)) (t_requests (w_db w2))"
    "t_docsigns (w_db w2) = t_docsigns (w_db ?w1)" "t_events (w_db w2) = t_events (w_db ?w1)"
    by (metis distinct.simps(2))
  have "rows_changed (set (n # ns)) f (t_requests (w_db w)) (t_requests (w_db w2))"
    using rows_changed_step [of "set ns" f n "e_clock E (w_tick w)"] w2(2) Cons.prems
    by (simp add: set_request_run)
  moreover have "set_request E n f w = (Inr (), ?w1)" by (simp add: set_request_run)
  then have "for_each (n # ns) (\<lambda>n. set_request E n f) w = (Inr (), w2)"
    using w2(1) by simp
  moreover have "t_docsigns (w_db ?w1) = t_docsigns (w_db w)" "t_events (w_db ?w1) = t_events (w_db w)"
    by (simp_all add: set_request_run)
  ultimately show ?case using w2(3,4) by (intro exI [of _ w2]) simp
qed


lemma expire_run:
  assumes "scan_sound E" and "unique_names (t_requests (w_db w))"
  shows "\<exists>w'. expire_stale_pending_requests E w = (Inr (), w')
    \<and> (let secs = timeout_of (t_settings (w_db w)); cutoff = e_clock E (w_tick w) - seconds secs in
       \<forall>n. (case row (t_requests (w_db w)) n of
              None \<Rightarrow> row (t_requests (w_db w')) n = None
            | Some r \<Rightarrow> \<exists>t. row (t_requests (w_db w')) n =
                Some (if timed_out cutoff r then (expire_one secs r)\<lparr>sr_modified := t\<rparr> else r)))
    \<and> t_docsigns (w_db w') = t_docsigns (w_db w) \<and> t_events (w_db w') = t_events (w_db w)"
proof -
  let ?secs = "timeout_of (t_settings (w_db w))" and ?w1 = "w\<lparr>w_tick := Suc (w_tick w)\<rparr>"
  let ?cutoff = "e_clock E (w_tick w) - seconds ?secs"
  let ?ns = "e_scan E ''DSC Signing Request'' (w_db w) (names_where (timed_out ?cutoff) (t_requests (w_db w)))"
  have ns: "distinct ?ns" "set ?ns = set (names_where (timed_out ?cutoff) (t_requests (w_db w)))"
    using assms(1) distinct_names_where [OF assms(2)] by (simp_all add: scan_sound_def)
  obtain w2 where w2: "for_each ?ns (\<lambda>n. set_request E n (expire_one ?secs)) ?w1 = (Inr (), w2)"
    "rows_changed (set ?ns) (expire_one ?secs) (t_requests (w_db w)) (t_requests (w_db w2))"
    "t_docsigns (w_db w2) = t_docsigns (w_db w)" "t_events (w_db w2) = t_events (w_db w)"
    using for_each_set_run [OF ns(1), of E "expire_one ?secs" ?w1] by auto
  obtain w3 where w3: "cond (?ns \<noteq> []) commit w2 = (Inr (), w3)" "w_db w3 = w_db w2"
    using cond_commit by blast
  have run: "expire_stale_pending_requests E w = (Inr (), w3)"
    using w2(1) w3(1) by (simp add: expire_stale_pending_requests_def db_gets_run now_datetime_run get_all_run)
  have "case row (t_requests (w_db w)) n of
              None \<Rightarrow> row (t_requests (w_db w3)) n = None
            | Some r \<Rightarrow> \<exists>t. row (t_requests (w_db w3)) n =
                Some (if timed_out ?cutoff r then (expire_one ?secs r)\<lparr>sr_modified := t\<rparr> else r)" for n
  proof -
    from w2(2) have "case row (t_requests (w_db w)) n of
        None \<Rightarrow> row (t_requests (w_db w3)) n = None
      | Some r \<Rightarrow> if n \<in> set ?ns then \<exists>tm. row (t_requests (w_db w3)) n = Some ((expire_one ?secs r)\<lparr>sr_modified := tm\<rparr>)
          else row (t_requests (w_db w3)) n = Some r"
      unfolding rows_changed_def w3(2) by blast
    then show ?thesis
      using ns(2) assms(2) by (cases "row (t_requests (w_db w)) n") (auto simp: tbl.in_select)
  qed
  with run w2(3,4) w3(2) show ?thesis
    by (intro exI [of _ w3]) (simp add: Let_def)
qed


lemma delete_request_run:
  "delete_request n w = (Inr (), w\<lparr>w_db := (w_db w)\<lparr>t_requests := drop_row n (t_requests (w_db w))\<rparr>\<rparr>)"
  by (simp add: delete_request_def db_modify_def)

lemma for_each_delete_run:
  "\<exists>w'. for_each ns delete_request w = (Inr (), w')
    \<and> (\<forall>m. row (t_requests (w_db w')) m = (if m \<in> set ns then None else row (t_requests (w_db w)) m))
    \<and> t_events (w_db w') = t_events (w_db w)"
proof (induction ns arbitrary: w)
  case (Cons n ns)
  let ?w1 = "snd (delete_request n w)"
  from Cons.IH [of ?w1] obtain w2 where "for_each ns delete_request ?w1 = (Inr (), w2)"
    "\<forall>m. row (t_requests (w_db w2)) m = (if m \<in> set ns then None else row (t_requests (w_db ?w1)) m)"
    "t_events (w_db w2) = t_events (w_db ?w1)" by blast
  moreover have "delete_request n w = (Inr (), ?w1)" by (simp add: delete_request_run)
  moreover from this have "for_each (n # ns) delete_request w = for_each ns delete_request ?w1" by simp
  moreover have "row (t_requests (w_db ?w1)) m = (if m = n then None else row (t_requests (w_db w)) m)"
    "t_events (w_db ?w1) = t_events (w_db w)" for m
    by (simp_all add: delete_request_run)
  ultimately show ?case by (intro exI [of _ w2]) simp
qed simp

text \<open>C27: the retention job deletes exactly the requests in a terminal state that were created
  before the cutoff; Pending and In Progress requests and the whole audit trail stay.\<close>

theorem purge_outcome:
  assumes "scan_sound E" and "unique_names (t_requests (w_db w))"
  shows "\<exists>w'. purge_old_requests E add_years w = (Inr (), w')
    \<and> (let years = se_retention_years_for_requests (t_settings (w_db w));
           cutoff = add_years (e_clock E (w_tick w)) (- (if years = 0 then 7 else years)) in
       \<forall>n. row (t_requests (w_db w')) n = (case row (t_requests (w_db w)) n of
              None \<Rightarrow> None | Some r \<Rightarrow> if is_old cutoff r then None else Some r))
    \<and> t_events (w_db w') = t_events (w_db w)"
proof -
  let ?years = "se_retention_years_for_requests (t_settings (w_db w))" and ?w1 = "w\<lparr>w_tick := Suc (w_tick w)\<rparr>"
  let ?cutoff = "add_years (e_clock E (w_tick w)) (- (if ?years = 0 then 7 else ?years))"
  let ?ns = "e_scan E ''DSC Signing Request'' (w_db w) (names_where (is_old ?cutoff) (t_requests (w_db w)))"
  have ns: "set ?ns = set (names_where (is_old ?cutoff) (t_requests (w_db w)))"
    using assms(1) by (simp add: scan_sound_def)
  obtain w2 where w2: "for_each ?ns delete_request ?w1 = (Inr (), w2)"
    "row (t_requests (w_db w2)) m = (if m \<in> set ?ns then None else row (t_requests (w_db w)) m)"
    "t_events (w_db w2) = t_events (w_db w)" for m
    using for_each_delete_run [of ?ns ?w1] by auto
  obtain w3 where w3: "cond (?ns \<noteq> []) commit w2 = (Inr (), w3)" "w_db w3 = w_db w2"
    using cond_commit by blast
  have run: "purge_old_requests E add_years w = (Inr (), w3)"
    using w2(1) w3(1) by (simp add: purge_old_requests_def db_gets_run now_datetime_run get_all_run)
  have "row (t_requests (w_db w3)) n = (case row (t_requests (w_db w)) n of
              None \<Rightarrow> None | Some r \<Rightarrow> if is_old ?cutoff r then None else Some r)" for n
    using w2(2) [of n] w3(2) ns assms(2) by (auto simp: tbl.in_select split: option.splits)
  with run w2(3) w3(2) show ?thesis
    by (intro exI [of _ w3]) (simp add: Let_def)
qed

lemma keeps_trail_maintenance [keeps_trail]:
  "keeps audit_ext (expire_stale_pending_requests E)" "keeps audit_ext (purge_old_requests E add_years)"
  "keeps audit_ext (notify_upcoming_expiries E)"
  unfolding expire_stale_pending_requests_def purge_old_requests_def notify_upcoming_expiries_def
    warn_profile_def send_expiry_warning_def delete_request_def
  by (intro keeps_trail keeps_trail_db; simp add: names_kept)+

end
