(* ===== verification/Demo.thy ===== *)
theory Demo
  imports Lifecycle Rules Gates Maintenance
begin

text \<open>
  One concrete site, on which the witnesses of the properties run: a clock that ticks in
  seconds, scans in insertion order, names counted up, services that never fail, and for the
  packages the simplest functions with the documented behaviour. The site has one profile,
  one rule, one request of each kind the witnesses need and one signing session.
\<close>

section \<open>The framework and the packages\<close>

definition demo_env :: env where
  "demo_env =
    \<lparr>e_user = ''u'', e_request_ip = None, e_user_agent = None,
     e_clock = (\<lambda>n. seconds (int n)), e_unix_time = int,
     e_random = (\<lambda>n. ''r'' @ replicate n (CHR ''x'')), e_scan = (\<lambda>dt d ns. ns),
     e_new_name = (\<lambda>dt ns. concat ns @ ''n''), e_roles = (\<lambda>u. if u = ''a'' then [''DSC Auditor''] else []),
     e_has_permission = (\<lambda>d dt p n. True), e_service = (\<lambda>n x. None), e_handlers = (\<lambda>h. []),
     e_users_with_role = (\<lambda>r. []), e_owner = (\<lambda>dt dn. Some ''u''), e_site_url = ''s'',
     e_sha256 = (\<lambda>s. ''f''), e_hmac_sha256 = (\<lambda>k s. ''h''), e_str_datetime = (\<lambda>t. ''t''),
     e_float = (\<lambda>s. Some s), e_escape_html = (\<lambda>s. s)\<rparr>"

definition demo_pdf :: pdf_env where
  "demo_pdf =
    \<lparr>p_get_print = (\<lambda>d dt dn pf. Inr ''x''), p_get_pdf = Inr, p_extract_pages = (\<lambda>s. None),
     p_load_cert = (\<lambda>der. Inr \<lparr>ce_issuer = ''i'', ce_serial_number = 1, ce_der = der\<rparr>),
     p_digest_doc_for_signing = (\<lambda>q. Inr \<lparr>dr_prepared_pdf = ''p'', dr_document_digest = ''d'',
        dr_region_start = 0, dr_region_end = 1\<rparr>),
     p_signed_attrs = (\<lambda>t d. d), p_cms_der = ci_signature, p_fill_with_cms = (\<lambda>pdf a b cms. Inr (pdf @ cms)),
     p_hex = (\<lambda>s. s), p_like = (\<lambda>p s. False), p_store_file = (\<lambda>d f. (fl_file_name f, ''u'')),
     p_has_dsc_signed_field = True, p_builtin_bundle = None, p_unarmor = (\<lambda>s. Inr []),
     p_embedded_signatures = (\<lambda>pdf. Inr [\<lparr>es_field_name = ''s'', es_data = pdf\<rparr>]),
     p_validate = (\<lambda>c s. Inr \<lparr>sg_intact = True, sg_valid = True, sg_trusted = True, sg_bottom_line = True\<rparr>),
     p_default_print_format = (\<lambda>dt. None), p_json_loads = (\<lambda>s. None)\<rparr>"

definition demo_geo :: geo_env where
  "demo_geo = \<lparr>g_round4 = (\<lambda>s. s), g_nominatim = (\<lambda>a x y. Inl (OtherError ''HTTPError'' '''')),
    g_google = (\<lambda>a x y. Inl (OtherError ''HTTPError'' ''''))\<rparr>"

definition demo_rules :: rule_env where
  "demo_rules = \<lparr>q_flt = (\<lambda>v. Some (Fin 0)), q_scrub = (\<lambda>s. s)\<rparr>"

section \<open>The site\<close>

definition demo_profile :: profile where
  "demo_profile =
    \<lparr>pf_profile_name = ''P'', pf_label = None, pf_company = None, pf_is_active = True,
     pf_allowed_users = [''u''], pf_certificate_fingerprint = Some ''f'', pf_certificate_common_name = None,
     pf_certificate_issuer = None, pf_certificate_serial = None, pf_certificate_not_before = None,
     pf_certificate_not_after = None, pf_registered_on = None, pf_certificate_pem_public = None,
     pf_previous_certificates = [], pf_designation_for_stamp = None\<rparr>"

definition demo_rule :: rule where
  "demo_rule =
    \<lparr>ru_priority = 1, ru_is_enabled = True, ru_target_doctype = ''D'', ru_trigger_event = ''on_submit'',
     ru_trigger_workflow_state = None, ru_conditions = [], ru_profile = ''P'', ru_print_format = None,
     ru_signature_template = None, ru_is_mandatory = True, ru_block_print_until_signed = True,
     ru_block_email_until_signed = True, ru_auto_attach_to_source = True, ru_company = None\<rparr>"

definition demo_settings :: settings where
  "demo_settings =
    \<lparr>se_default_reason = None, se_default_location = None, se_signing_timeout_seconds = 0,
     se_retention_years_for_requests = 0, se_agent_listen_port = 1, se_pdf_preparation_engine = None, se_default_hash_algorithm = None,
     se_trust_store_bundle = None, se_enable_expiry_warnings = False, se_expiry_warning_days = [],
     se_hmac_secret = None, se_enforce_signer_location = False, se_geocoding_provider = None,
     se_geocoding_api_key = None, se_geocoding_user_agent = None\<rparr>"

definition demo_request :: "string \<Rightarrow> request_status \<Rightarrow> signing_request" where
  "demo_request docname s = (blank_request ''D'' docname ''P'')
    \<lparr>sr_status := s, sr_expected_signer_user := Some ''u''\<rparr>"

definition demo_file :: file_doc where
  "demo_file = \<lparr>fl_file_name = ''F'', fl_file_url = ''U'', fl_attached_to_doctype = Some ''D'',
    fl_attached_to_name = Some ''e'', fl_content = Bytes ''b'', fl_is_private = True, fl_is_dsc_signed = True\<rparr>"

definition demo_db :: db where
  "demo_db =
    \<lparr>t_requests = [(''A'', demo_request ''a'' Pending), (''B'', demo_request ''b'' In_Progress),
        (''C'', demo_request ''c'' Failed), (''E'', (demo_request ''e'' Signed)\<lparr>sr_signed_file := Some ''F''\<rparr>)],
     t_events = [], t_docsigns = [], t_profiles = [(''P'', demo_profile)], t_rules = [(''R'', demo_rule)],
     t_templates = [], t_files = [(''F'', demo_file)], t_agents = [], t_comments = [], t_settings = demo_settings\<rparr>"

text \<open>The session \<open>s\<close> waits for the signature of the request \<open>B\<close>.\<close>

definition demo_session :: session where
  "demo_session =
    \<lparr>ss_hash_algorithm = ''sha256'', ss_field_name = ''DSC_Signature_B'', ss_signing_request_name = ''B'',
     ss_doctype = ''D'', ss_docname = ''b'', ss_print_format = None, ss_created_at = ''t'',
     ss_prepared_pdf_b64 = b64encode ''p'', ss_signed_attrs_b64 = b64encode ''d'',
     ss_cert_der_b64 = b64encode ''c'', ss_document_digest_hex = ''d'', ss_reserved_region_start = 0,
     ss_reserved_region_end = 1\<rparr>"

definition demo_world :: world where
  "demo_world = \<lparr>w_db = demo_db, w_saved = demo_db,
    w_cache = [(session_key ''s'', (CSession demo_session, seconds 600))], w_tick = 0, w_journal = []\<rparr>"

lemma demo_ok:
  "scan_sound demo_env" "unique_names (t_requests (w_db demo_world))" "unique_names (t_rules (w_db demo_world))"
  "unique_names (t_files (w_db demo_world))"
  by (simp_all add: scan_sound_def demo_env_def unique_names_def demo_world_def demo_db_def)

lemma demo_request_fields [simp]:
  "sr_status (demo_request dn s) = s" "sr_source_doctype (demo_request dn s) = ''D''"
  "sr_source_name (demo_request dn s) = dn" "sr_rule (demo_request dn s) = None"
  "sr_profile (demo_request dn s) = ''P''" "sr_signed_file (demo_request dn s) = None"
  "sr_expected_signer_user (demo_request dn s) = Some ''u''" "sr_actual_signer_user (demo_request dn s) = None"
  "sr_created_on (demo_request dn s) = None"
  by (simp_all add: demo_request_def blank_request_def)

lemma demo_rows:
  "row (t_requests (w_db demo_world)) n =
    (if n = ''A'' then Some (demo_request ''a'' Pending) else if n = ''B'' then Some (demo_request ''b'' In_Progress)
     else if n = ''C'' then Some (demo_request ''c'' Failed)
     else if n = ''E'' then Some ((demo_request ''e'' Signed)\<lparr>sr_signed_file := Some ''F''\<rparr>) else None)"
  "row (t_rules (w_db demo_world)) n = (if n = ''R'' then Some demo_rule else None)"
  "row (t_profiles (w_db demo_world)) n = (if n = ''P'' then Some demo_profile else None)"
  "row (t_files (w_db demo_world)) n = (if n = ''F'' then Some demo_file else None)"
  by (simp_all add: demo_world_def demo_db_def row_def)

lemma length_in_concat: "x \<in> set ns \<Longrightarrow> length x \<le> length (concat ns)"
  by (induction ns) auto

lemma concat_fresh: "concat ns @ ''n'' \<notin> set ns"
  using length_in_concat [of "concat ns @ ''n''" ns] by auto


lemma demo_fresh: "fresh_names demo_env"
  by (simp add: fresh_names_def demo_env_def concat_fresh)

end
