(* ===== verification/Evidence.thy ===== *)
theory Evidence
  imports Finalize
begin

text \<open>
  The export of the evidence for a signed request (\<open>api/evidence.py\<close>): the guards, the
  members of the archive in the order in which they are written, and the text of its README.
  The archive is the list of its members; the encoding as a ZIP file is left out.
\<close>

section \<open>\<open>json.dumps(..., indent=2)\<close>\<close>

definition spaces :: "nat \<Rightarrow> string" where
  "spaces n = replicate n (CHR '' '')"

definition newline :: string where
  "newline = [CHR 0x0A]"

fun dumps_indent :: "nat \<Rightarrow> json \<Rightarrow> string" where
  "dumps_indent k (JList xs) =
    (if xs = [] then ''[]''
     else ''['' @ newline @ join ('','' @ newline) (map (\<lambda>x. spaces (k + 2) @ dumps_indent (k + 2) x) xs)
       @ newline @ spaces k @ '']'')"
| "dumps_indent k (JObj kvs) =
    (if kvs = [] then ''{}''
     else ''{'' @ newline @ join ('','' @ newline)
            (map (\<lambda>kv. spaces (k + 2) @ dump_string (fst kv) @ '': '' @ dumps_indent (k + 2) (snd kv)) kvs)
       @ newline @ spaces k @ ''}'')"
| "dumps_indent k v = dumps v"

section \<open>The members of the pack\<close>

definition str_time :: "env \<Rightarrow> datetime option \<Rightarrow> string" where
  "str_time E t = (case t of None \<Rightarrow> ''None'' | Some x \<Rightarrow> e_str_datetime E x)"

text \<open>The events of the request by time of occurrence, as the dictionaries \<open>get_all\<close> returns
  with \<open>occurred_at\<close> turned into text.\<close>

definition occurred_key :: "audit_event \<Rightarrow> int" where
  "occurred_key ev = (case ev_occurred_at ev of None \<Rightarrow> 0 | Some t \<Rightarrow> t)"

definition events_of :: "env \<Rightarrow> string \<Rightarrow> (string \<times> audit_event) list act" where
  "events_of E request =
    bind (get_all E ''DSC Audit Event'' t_events (\<lambda>ev. ev_request ev = request)) (\<lambda>names.
    db_gets (\<lambda>d. sort_key (\<lambda>(n, ev). occurred_key ev)
      (List.map_filter (\<lambda>n. map_option (Pair n) (row (t_events d) n)) names)))"

definition event_dict :: "env \<Rightarrow> string \<times> audit_event \<Rightarrow> json" where
  "event_dict E = (\<lambda>(n, ev). JObj
    [(''name'', JStr n), (''event_type'', JStr (ev_event_type ev)),
     (''occurred_at'', JStr (str_time E (ev_occurred_at ev))), (''actor_user'', json_opt (ev_actor_user ev)),
     (''client_ip'', json_opt (ev_client_ip ev)), (''user_agent'', json_opt (ev_user_agent ev)),
     (''details_json'', json_opt (ev_details_json ev)), (''event_hash'', json_opt (ev_event_hash ev))])"

definition audit_json :: "env \<Rightarrow> string \<Rightarrow> signing_request \<Rightarrow> (string \<times> audit_event) list \<Rightarrow> string" where
  "audit_json E name req events = dumps_indent 0 (JObj
    [(''signing_request'', JStr name), (''source_doctype'', JStr (sr_source_doctype req)),
     (''source_name'', JStr (sr_source_name req)), (''status'', JStr (status_text (sr_status req))),
     (''signed_on'', JStr (str_time E (sr_signed_on req))), (''signer_user'', json_opt (sr_actual_signer_user req)),
     (''certificate_fingerprint'', json_opt (sr_certificate_fingerprint_presented req)),
     (''hash_algorithm'', json_opt (sr_hash_algorithm req)), (''events'', JList (map (event_dict E) events))])"

definition or_na :: "string option \<Rightarrow> string" where
  "or_na x = or_str x ''N/A''"

definition duration_text :: "int option \<Rightarrow> string" where
  "duration_text d = (case d of None \<Rightarrow> ''N/A'' | Some i \<Rightarrow> if i = 0 then ''N/A'' else dec_int i)"

text \<open>\<open>str.rstrip('.')\<close>.\<close>

definition rstrip_dots :: "string \<Rightarrow> string" where
  "rstrip_dots s = rev (dropWhile (\<lambda>c. c = CHR ''.'') (rev s))"

definition build_readme ::
  "env \<Rightarrow> string \<Rightarrow> signing_request \<Rightarrow> profile \<Rightarrow> nat \<Rightarrow> datetime \<Rightarrow> string" where
  "build_readme E name req pf n_events generated_on = join newline
    [''DIGITAL SIGNATURE EVIDENCE PACK'',
     ''================================'',
     '''',
     ''Signing Request:  '' @ name,
     ''Source Document:   '' @ sr_source_doctype req @ '' / '' @ sr_source_name req,
     ''Status:           '' @ status_text (sr_status req),
     '''',
     ''SIGNER INFORMATION'',
     ''------------------'',
     ''Profile:          '' @ pf_profile_name pf,
     ''Signer Name:      '' @ py_str (or_opt (pf_certificate_common_name pf) (pf_label pf)),
     ''Designation:      '' @ or_na (or_opt (pf_designation_for_stamp pf) (pf_label pf)),
     ''Certificate:      '' @ or_na (pf_certificate_fingerprint pf),
     ''Issuer:           '' @ or_na (pf_certificate_issuer pf),
     ''Valid From:        '' @ (if pf_certificate_not_before pf = None then ''N/A'' else str_time E (pf_certificate_not_before pf)),
     ''Valid Until:       '' @ (if pf_certificate_not_after pf = None then ''N/A'' else str_time E (pf_certificate_not_after pf)),
     '''',
     ''SIGNING DETAILS'',
     ''---------------'',
     ''Signed By User:   '' @ py_str (sr_actual_signer_user req),
     ''Signed On:        '' @ str_time E (sr_signed_on req),
     ''Hash Algorithm:   '' @ py_str (sr_hash_algorithm req),
     ''Duration:         '' @ duration_text (sr_sign_duration_seconds req) @ '' seconds'',
     ''Client IP:        '' @ or_na (sr_client_ip req),
     '''',
     ''CONTENTS OF THIS PACK'',
     ''---------------------'',
     ''1. signed_'' @ sr_source_name req @ ''.pdf  - The digitally signed PDF document'',
     ''2. audit_trail.json             - Complete audit trail with '' @ dec_int (int n_events) @ '' events'',
     ''3. signer_certificate.pem       - Public certificate of the signer (PEM format)'',
     ''4. ocsp_response.der            - OCSP response at time of signing (DER format)'',
     ''5. README.txt                   - This file'',
     '''',
     ''VERIFICATION'',
     ''------------'',
     ''To verify the signed PDF:'',
     ''1. Open the PDF in Adobe Acrobat Reader'',
     ''2. Check the signature panel for validity'',
     ''3. The signature should show as valid if the signer's CA root'',
     ''   is in Adobe's Approved Trust List (AATL)'',
     '''',
     ''For Indian CAs (eMudhra, Sify, nCode), the root certificates'',
     ''are included in Adobe's AATL by default.'',
     '''',
     ''LEGAL NOTICE'',
     ''------------'',
     ''This evidence pack is generated by the frappe_dsc digital signing'',
     ''platform. The audit trail records are append-only and tamper-evident.'',
     ''The signed PDF conforms to the PAdES B-B signature standard.'',
     '''',
     ''Generated on: '' @ e_str_datetime E generated_on,
     '''']"

section \<open>\<open>export_evidence_pack\<close>\<close>

datatype member = Member (mb_name: string) (mb_content: content)

definition text_member :: "string \<Rightarrow> string \<Rightarrow> member" where
  "text_member name s = Member name (Text (map of_char s))"

definition signed_member :: "signing_request \<Rightarrow> member list act" where
  "signed_member req =
    (if truthy (sr_signed_file req)
     then bind (get_doc ''File'' t_files (or_str (sr_signed_file req) '''')) (\<lambda>f.
       ret [Member (''signed_'' @ sr_source_name req @ ''.pdf'') (fl_content f)])
     else ret [])"

definition ocsp_member :: "signing_request \<Rightarrow> member list" where
  "ocsp_member req =
    (if truthy (sr_ocsp_response_b64 req)
     then (case b64decode (rstrip_dots (or_str (sr_ocsp_response_b64 req) '''')) of
             None \<Rightarrow> [] | Some der \<Rightarrow> [Member ''ocsp_response.der'' (Bytes der)])
     else [])"

definition certificate_member :: "profile \<Rightarrow> member list" where
  "certificate_member pf =
    (if truthy (pf_certificate_pem_public pf)
     then [text_member ''signer_certificate.pem'' (or_str (pf_certificate_pem_public pf) '''')] else [])"

record evidence_pack =
  ep_filename :: string
  ep_members :: "member list"

definition not_signed :: error where
  "not_signed = ValidationError ''Evidence pack can only be exported for signed requests.''"

definition export_evidence_pack :: "env \<Rightarrow> string \<Rightarrow> evidence_pack act" where
  "export_evidence_pack E signing_request =
    bind (get_doc ''DSC Signing Request'' t_requests signing_request) (\<lambda>req.
    bind (db_gets (\<lambda>d. e_has_permission E d ''DSC Signing Request'' ''read'' (Some signing_request))) (\<lambda>may_read.
    seq (throw_if (\<not> may_read) (PermissionError ''''))
    (seq (throw_if (sr_status req \<noteq> Signed) not_signed)
    (bind (signed_member req) (\<lambda>pdf.
     bind (events_of E signing_request) (\<lambda>events.
     bind (get_doc ''DSC Profile'' t_profiles (sr_profile req)) (\<lambda>pf.
     bind (now_datetime E) (\<lambda>generated_on.
     ret \<lparr>ep_filename = ''evidence_pack_'' @ signing_request @ ''.zip'',
          ep_members = pdf @ [text_member ''audit_trail.json'' (audit_json E signing_request req events)]
            @ certificate_member pf @ ocsp_member req
            @ [text_member ''README.txt'' (build_readme E signing_request req pf (length events) generated_on)]\<rparr>))))))))"

section \<open>What a pack contains\<close>

lemma events_of_run:
  assumes "scan_sound E" and "unique_names (t_events (w_db w))"
  obtains evs where "events_of E n w = (Inr evs, w)" "distinct evs" "sorted (map (\<lambda>(k, ev). occurred_key ev) evs)"
    "set evs = {(k, ev). row (t_events (w_db w)) k = Some ev \<and> ev_request ev = n}"
proof -
  let ?t = "t_events (w_db w)"
  let ?ns = "e_scan E ''DSC Audit Event'' (w_db w) (names_where (\<lambda>ev. ev_request ev = n) ?t)"
  let ?raw = "List.map_filter (\<lambda>n. map_option (Pair n) (row ?t n)) ?ns"
  have ns: "distinct ?ns" "set ?ns = set (names_where (\<lambda>ev. ev_request ev = n) ?t)"
    using assms distinct_names_where [OF assms(2)] by (auto simp: scan_sound_def)
  have "distinct (map fst ?raw)" using ns(1) by (simp add: map_fst_found)
  then have "distinct ?raw" by (simp add: distinct_map)
  moreover have "set ?raw = {(k, ev). row ?t k = Some ev \<and> ev_request ev = n}"
    using ns(2) by (auto simp: set_found tbl.in_select [OF assms(2)])
  moreover have "events_of E n w = (Inr (sort_key (\<lambda>(n, ev). occurred_key ev) ?raw), w)"
    by (simp add: events_of_def get_all_def db_gets_run)
  ultimately show thesis by (intro that [of "sort_key (\<lambda>(n, ev). occurred_key ev) ?raw"]) (simp_all only: distinct_sort set_sort sorted_sort_key)
qed

lemma export_okE:
  assumes "export_evidence_pack E n w = (Inr pack, w')" and "scan_sound E" and "unique_names (t_events (w_db w))"
  obtains req pf evs pdf t where
    "row (t_requests (w_db w)) n = Some req" "sr_status req = Signed"
    "e_has_permission E (w_db w) ''DSC Signing Request'' ''read'' (Some n)"
    "row (t_profiles (w_db w)) (sr_profile req) = Some pf"
    "distinct evs" "sorted (map (\<lambda>(k, ev). occurred_key ev) evs)"
    "set evs = {(k, ev). row (t_events (w_db w)) k = Some ev \<and> ev_request ev = n}"
    "signed_member req w = (Inr pdf, w)"
    "ep_members pack = pdf @ [text_member ''audit_trail.json'' (audit_json E n req evs)]
            @ certificate_member pf @ ocsp_member req
            @ [text_member ''README.txt'' (build_readme E n req pf (length evs) t)]"
    "both_dbs w' = both_dbs w"
proof -
  obtain evs where evs: "events_of E n w = (Inr evs, w)" "distinct evs" "sorted (map (\<lambda>(k, ev). occurred_key ev) evs)"
    "set evs = {(k, ev). row (t_events (w_db w)) k = Some ev \<and> ev_request ev = n}"
    using events_of_run [OF assms(2,3)] .
  have member: "signed_member req v = (Inr x, v') \<Longrightarrow> v' = v" for req x v v'
    by (auto simp: signed_member_def elim!: bind_okE get_doc_okE split: if_splits)
  from assms(1) obtain req w1 mr w2 w3 w4 pdf w5 evs' w6 pf w7 t w8 where
    c: "get_doc ''DSC Signing Request'' t_requests n w = (Inr req, w1)"
      "db_gets (\<lambda>d. e_has_permission E d ''DSC Signing Request'' ''read'' (Some n)) w1 = (Inr mr, w2)"
      "throw_if (\<not> mr) (PermissionError '''') w2 = (Inr (), w3)"
      "throw_if (sr_status req \<noteq> Signed) not_signed w3 = (Inr (), w4)"
      "signed_member req w4 = (Inr pdf, w5)" "events_of E n w5 = (Inr evs', w6)"
      "get_doc ''DSC Profile'' t_profiles (sr_profile req) w6 = (Inr pf, w7)" "now_datetime E w7 = (Inr t, w8)" and
    p: "pack = \<lparr>ep_filename = ''evidence_pack_'' @ n @ ''.zip'',
          ep_members = pdf @ [text_member ''audit_trail.json'' (audit_json E n req evs')]
            @ certificate_member pf @ ocsp_member req
            @ [text_member ''README.txt'' (build_readme E n req pf (length evs') t)]\<rparr>" "w' = w8"
    unfolding export_evidence_pack_def by (elim bind_okE seq_okE) (auto intro: that)
  from c(1-4) have w: "w4 = w" "row (t_requests (w_db w)) n = Some req" "sr_status req = Signed"
    "e_has_permission E (w_db w) ''DSC Signing Request'' ''read'' (Some n)"
    by (auto simp: db_gets_run elim!: get_doc_okE split: if_splits)
  with c(5) member have w5: "w5 = w" "signed_member req w = (Inr pdf, w)" by auto
  with c(6) evs(1) have w6: "w6 = w" "evs' = evs" by auto
  with c(7,8) have "row (t_profiles (w_db w)) (sr_profile req) = Some pf" "both_dbs w8 = both_dbs w"
    by (auto simp: now_datetime_run both_dbs_def elim!: get_doc_okE)
  with w w5(2) w6(2) evs(2-4) p show thesis by (intro that [of req pf evs pdf t]) simp_all
qed

text \<open>C32: an evidence pack is exported only for a Signed request and only to a user who may read
  it. It holds the signed file, if the request links one, an audit trail made of exactly the
  events of the request, each once and in order of time, and a README that gives their number;
  nothing is written.\<close>

theorem evidence_pack_complete:
  assumes "scan_sound E" and "unique_names (t_events (w_db w))"
    and "export_evidence_pack E n w = (Inr pack, w')"
  shows "\<exists>req pf evs t. row (t_requests (w_db w)) n = Some req \<and> sr_status req = Signed
    \<and> e_has_permission E (w_db w) ''DSC Signing Request'' ''read'' (Some n)
    \<and> row (t_profiles (w_db w)) (sr_profile req) = Some pf
    \<and> distinct evs \<and> sorted (map (\<lambda>(k, ev). occurred_key ev) evs)
    \<and> set evs = {(k, ev). row (t_events (w_db w)) k = Some ev \<and> ev_request ev = n}
    \<and> text_member ''audit_trail.json'' (audit_json E n req evs) \<in> set (ep_members pack)
    \<and> text_member ''README.txt'' (build_readme E n req pf (length evs) t) \<in> set (ep_members pack)
    \<and> (\<forall>fn. sr_signed_file req = Some fn \<and> fn \<noteq> '''' \<longrightarrow>
        (\<exists>f. row (t_files (w_db w)) fn = Some f
          \<and> Member (''signed_'' @ sr_source_name req @ ''.pdf'') (fl_content f) \<in> set (ep_members pack)))
    \<and> both_dbs w' = both_dbs w"
proof -
  obtain req pf evs pdf t where e:
    "row (t_requests (w_db w)) n = Some req" "sr_status req = Signed"
    "e_has_permission E (w_db w) ''DSC Signing Request'' ''read'' (Some n)"
    "row (t_profiles (w_db w)) (sr_profile req) = Some pf"
    "distinct evs" "sorted (map (\<lambda>(k, ev). occurred_key ev) evs)"
    "set evs = {(k, ev). row (t_events (w_db w)) k = Some ev \<and> ev_request ev = n}"
    "signed_member req w = (Inr pdf, w)"
    "ep_members pack = pdf @ [text_member ''audit_trail.json'' (audit_json E n req evs)]
            @ certificate_member pf @ ocsp_member req
            @ [text_member ''README.txt'' (build_readme E n req pf (length evs) t)]"
    "both_dbs w' = both_dbs w"
    by (rule export_okE [OF assms(3,1,2)])
  have "\<exists>f. row (t_files (w_db w)) fn = Some f
          \<and> Member (''signed_'' @ sr_source_name req @ ''.pdf'') (fl_content f) \<in> set (ep_members pack)"
    if "sr_signed_file req = Some fn" "fn \<noteq> ''''" for fn
    using e(8) that by (auto simp: signed_member_def e(9) elim!: bind_okE get_doc_okE)
  with e(1-7,10) show ?thesis
    by (intro exI [of _ req] exI [of _ pf] exI [of _ evs] exI [of _ t]) (simp add: e(9))
qed

lemma keeps_db_export [keeps_db]: "keeps (same both_dbs) (export_evidence_pack E n)"
  unfolding export_evidence_pack_def signed_member_def events_of_def by (intro keeps_db)

declare keeps_db_export [THEN keeps_db_trail, keeps_trail]

end
