(* ===== verification/Handshake.thy ===== *)
theory Handshake
  imports Evidence
begin

text \<open>
  The two halves of the handshake together, and with the export of the evidence: what the token
  was asked to sign is what ends up in the stored file, and the pack exported for the request
  holds that file.
\<close>

lemma initiate_session:
  assumes "scan_sound E" and "unique_names (t_requests (w_db w))"
    and "initiate E P G dt dn c la lo ac w = (Inr i, w')"
  obtains der where "b64decode (or_str c '''') = Some der"
    "session_waits E w' (in_session_id i) (in_signing_request i) dt dn der (in_hash_to_sign i)"
proof -
  let ?n = "in_signing_request i"
  from initiate_okE [OF assms(3,1,2)] obtain req pf geo tmpl w1 where
    req: "row (t_requests (w_db w)) ?n = Some req" and w1: "both_dbs w1 = both_dbs w"
    and s: "start_signing E P dt dn (pending_columns ?n req) pf (t_settings (w_db w)) tmpl
       (null_arg la) (null_arg lo) (null_arg ac) c geo w1 = (Inr i, w')" .
  have name: "or_str (dget (pending_columns ?n req) ''name'') '''' = ?n"
    by (simp add: pending_columns_def dget_def)
  obtain upd up pfm w2 w3 where
    u: "requests w2 = requests w1"
    "set_request E ?n (\<lambda>r. upd (r\<lparr>sr_status := In_Progress,
           sr_client_ip := e_request_ip E, sr_client_user_agent := e_user_agent E\<rparr>)) w2 = (Inr (), w3)" and
    h: "hand_over E P dt dn ?n (or_str (dget (pending_columns ?n req) ''profile'') '''') pf
        (t_settings (w_db w)) tmpl (null_arg la) (null_arg lo) (null_arg ac) c geo pfm up w3 = (Inr i, w')"
    by (rule start_signing_okE [OF s, unfolded name]) blast
  have "requests w2 = requests w" using u(1) w1 by (simp add: both_dbs_def requests_def)
  with u(2) req obtain req1 where "row (requests w3) ?n = Some req1"
    by (auto simp: set_request_run requests_def)
  from hand_over_result [OF h this] show thesis using that by blast
qed

text \<open>C12: hash binding: when \<open>initiate\<close> returned a hash and, with the session as it stored it, a
  \<open>finalize\<close> for its session id returns, by whomever, the stored file of the request of that
  \<open>initiate\<close> embeds the returned signature over signed attributes with exactly the hash the
  token was given, in a CMS made for the certificate the browser sent to \<open>initiate\<close>.\<close>

theorem handshake_binds_hash:
  assumes "scan_sound E" and "unique_names (t_requests (w_db w))"
    and "initiate E P G doctype docname cert_b64 lat lng accuracy w = (Inr i, w1)"
    and "w_cache w2 = w_cache w1"
    and "finalize F P (in_session_id i) sig c chain ocsp w2 = (Inr r, w3)"
  shows "\<exists>req fn f out der cert attrs sigb pdf certs s t. fi_signing_request r = in_signing_request i
    \<and> row (t_requests (w_saved w3)) (in_signing_request i) = Some req \<and> sr_status req = Signed
    \<and> sr_signed_file req = Some fn \<and> row (t_files (w_saved w3)) fn = Some f
    \<and> fl_content f = Bytes out \<and> fl_attached_to_doctype f = Some doctype \<and> fl_attached_to_name f = Some docname
    \<and> b64decode (or_str cert_b64 '''') = Some der \<and> p_load_cert P der = Inr cert
    \<and> b64decode sig = Some sigb \<and> e_sha256 E attrs = in_hash_to_sign i
    \<and> p_fill_with_cms P pdf s t (p_cms_der P \<lparr>ci_signer_cert = cert, ci_chain = certs,
         ci_signed_attrs = attrs, ci_signature = sigb\<rparr>) = Inr out"
proof -
  obtain der where der: "b64decode (or_str cert_b64 '''') = Some der"
    "session_waits E w1 (in_session_id i) (in_signing_request i) doctype docname der (in_hash_to_sign i)"
    by (rule initiate_session [OF assms(1-3)])
  from der(2) obtain ss ex attrs where
    ss: "map_of (w_cache w1) (session_key (in_session_id i)) = Some (CSession ss, ex)"
      "ss_signing_request_name ss = in_signing_request i" "ss_doctype ss = doctype" "ss_docname ss = docname"
      "b64decode (ss_cert_der_b64 ss) = Some der" "b64decode (ss_signed_attrs_b64 ss) = Some attrs"
      "in_hash_to_sign i = e_sha256 E attrs"
    by (auto simp: session_waits_def)
  from assms(5) obtain ss0 t0 w4 where f: "live_session F w2 (in_session_id i) = Some ss0" "w_cache w4 = w_cache w2"
    "complete_signing F P (ss_signing_request_name ss0) (in_session_id i) sig (parse_chain P chain) ocsp t0 w4 = (Inr r, w3)"
    by (rule finalize_okE)
  from f(1) ss(1) assms(4) have "ss0 = ss"
    by (auto simp: live_session_def split: option.splits cached.splits if_splits)
  from f(3) obtain ss1 req fn where g: "live_session F w4 (in_session_id i) = Some ss1" "w_saved w3 = w_db w3"
    "row (requests w3) (ss_signing_request_name ss0) = Some req" "sr_status req = Signed" "sr_signed_file req = Some fn"
    "fi_signing_request r = ss_signing_request_name ss0" "signed_file_of (w_db w3) P ss1 sig fn (fi_file_url r)"
    by (rule complete_signing_okE) blast
  have "ss1 = ss" using live_session_cache [OF f(1,2) g(1)] \<open>ss0 = ss\<close> by simp
  with g(7) obtain fd out sigb cert pdf certs where
    "row (t_files (w_db w3)) fn = Some fd" "fl_content fd = Bytes out"
    "fl_attached_to_doctype fd = Some doctype" "fl_attached_to_name fd = Some docname"
    "b64decode sig = Some sigb" "p_load_cert P der = Inr cert"
    "p_fill_with_cms P pdf (ss_reserved_region_start ss) (ss_reserved_region_end ss)
          (p_cms_der P \<lparr>ci_signer_cert = cert, ci_chain = certs, ci_signed_attrs = attrs, ci_signature = sigb\<rparr>)
        = Inr out"
    using ss(3-6) by (auto simp: signed_file_of_def embeds_def)
  with g(2-6) ss(2,7) der(1) \<open>ss0 = ss\<close> show ?thesis
    by (intro exI [of _ req] exI [of _ fn] exI [of _ fd] exI [of _ out] exI [of _ der] exI [of _ cert]
        exI [of _ attrs] exI [of _ sigb] exI [of _ pdf] exI [of _ certs]
        exI [of _ "ss_reserved_region_start ss"] exI [of _ "ss_reserved_region_end ss"])
      (simp add: requests_def)
qed

section \<open>The evidence of a signature\<close>

definition logged :: "world \<Rightarrow> string \<Rightarrow> string \<Rightarrow> bool" where
  "logged w n ty \<longleftrightarrow> (\<exists>nm ev. (nm, ev) \<in> set (t_events (w_db w)) \<and> ev_request ev = n \<and> ev_event_type ev = ty)"

lemma logged_ext: "logged w n ty \<Longrightarrow> audit_ext w w' \<Longrightarrow> logged w' n ty"
  unfolding logged_def audit_ext_def db_ext_def trail_prefix_def by (metis UnI1 set_append)

lemma record_signature_logged:
  assumes "record_signature E n t0 sig ocsp sd fn fd w = (Inr (), w')"
  shows "logged w' n ''Request Signed''"
proof -
  let ?mail = "catch (send_signed_notification E (sd_doctype sd) (sd_docname sd) n)
           (\<lambda>_. log_error ''DSC: signed notification email failed'')"
  from assms obtain i w5 w6 where
    a: "audit E n ''Request Signed'' [(''duration_seconds'', JInt i), (''file_name'', JStr (fl_file_name fd)),
            (''file_size'', JInt (int (length (sd_signed_pdf_bytes sd))))] w5 = (Inr (), w6)" and
    b: "seq (add_timeline_entry E (sd_doctype sd) (sd_docname sd) n) (seq ?mail commit) w6 = (Inr (), w')"
    unfolding record_signature_def Let_def by (elim bind_okE seq_okE) (auto intro: that simp: run_seq)
  from a have "logged w6 n ''Request Signed''" unfolding logged_def by (rule audit_logged) blast
  moreover have k: "keeps audit_ext (seq (add_timeline_entry E (sd_doctype sd) (sd_docname sd) n) (seq ?mail commit))"
    by (intro keeps_trail)
  ultimately show ?thesis using keeps_runD [OF k b] logged_ext by blast
qed

lemma complete_signing_logged:
  assumes "complete_signing E P n sid sig chain ocsp t0 w = (Inr r, w')"
  shows "logged w' n ''Request Signed''"
proof -
  from assms obtain sd fn fd w5 w6 w7 where
    f: "record_signature E n t0 sig ocsp sd fn fd w5 = (Inr (), w6)" and
    g: "run_dev_hooks E ''dsc_after_sign''
            [(''signing_request'', n), (''doctype'', sd_doctype sd), (''docname'', sd_docname sd),
             (''file_url'', fl_file_url fd)] w6 = (Inr (), w7)" and h: "w' = w7"
    unfolding complete_signing_def by (auto elim!: bind_okE seq_okE split: prod.splits)
  have "keeps audit_ext (run_dev_hooks E h kw)" for h kw
    unfolding run_dev_hooks_def by (intro keeps_trail)
  from keeps_runD [OF this g] record_signature_logged [OF f] h show ?thesis
    by (auto intro: logged_ext)
qed

text \<open>C31: the evidence of a signature can be taken from the pack: after a \<open>finalize\<close> that
  returned, every pack exported for its request from the committed documents holds the stored
  PDF, which embeds the given signature in the session's prepared PDF, and its audit trail
  contains the event of the signature.\<close>

theorem signature_in_evidence:
  assumes "finalize E P sid sig c chain ocsp w = (Inr r, w1)"
    and "w_db w2 = w_saved w1" and "scan_sound X" and "unique_names (t_events (w_db w2))"
    and "\<forall>n. row (t_files (w_db w2)) n \<noteq> None \<longrightarrow> n \<noteq> ''''"
    and "export_evidence_pack X (fi_signing_request r) w2 = (Inr pack, w3)"
  shows "\<exists>ss req out evs nm ev. live_session E w sid = Some ss \<and> embeds P ss sig out
    \<and> row (t_requests (w_db w2)) (fi_signing_request r) = Some req
    \<and> Member (''signed_'' @ sr_source_name req @ ''.pdf'') (Bytes out) \<in> set (ep_members pack)
    \<and> text_member ''audit_trail.json'' (audit_json X (fi_signing_request r) req evs) \<in> set (ep_members pack)
    \<and> (nm, ev) \<in> set evs \<and> ev_event_type ev = ''Request Signed''"
proof -
  from assms(1) obtain ss t0 w0 where f: "live_session E w sid = Some ss" "w_cache w0 = w_cache w"
    "complete_signing E P (ss_signing_request_name ss) sid sig (parse_chain P chain) ocsp t0 w0 = (Inr r, w1)"
    by (rule finalize_okE)
  from f(3) obtain ss1 req fn where g: "live_session E w0 sid = Some ss1" "w_saved w1 = w_db w1"
    "row (requests w1) (ss_signing_request_name ss) = Some req" "sr_signed_file req = Some fn"
    "fi_signing_request r = ss_signing_request_name ss" "signed_file_of (w_db w1) P ss1 sig fn (fi_file_url r)"
    by (rule complete_signing_okE) blast
  have "ss1 = ss" using live_session_cache [OF f(1,2) g(1)] .
  with g(6) obtain fd out where fd: "row (t_files (w_db w1)) fn = Some fd" "fl_content fd = Bytes out" "embeds P ss sig out"
    by (auto simp: signed_file_of_def)
  have db: "w_db w2 = w_db w1" using assms(2) g(2) by simp
  obtain req' pf evs pdf t where e:
    "row (t_requests (w_db w2)) (fi_signing_request r) = Some req'"
    "set evs = {(k, ev). row (t_events (w_db w2)) k = Some ev \<and> ev_request ev = fi_signing_request r}"
    "signed_member req' w2 = (Inr pdf, w2)"
    "ep_members pack = pdf @ [text_member ''audit_trail.json'' (audit_json X (fi_signing_request r) req' evs)]
            @ certificate_member pf @ ocsp_member req'
            @ [text_member ''README.txt'' (build_readme X (fi_signing_request r) req' pf (length evs) t)]"
    by (rule export_okE [OF assms(6,3,4)])
  have req: "req' = req" using e(1) g(3,5) db by (simp add: requests_def)
  have "fn \<noteq> ''''" using assms(5) fd(1) db by auto
  with e(3) req g(4) fd(1,2) db have "pdf = [Member (''signed_'' @ sr_source_name req @ ''.pdf'') (Bytes out)]"
    by (auto simp: signed_member_def elim!: bind_okE get_doc_okE)
  moreover from complete_signing_logged [OF f(3)] obtain nm ev where
    "(nm, ev) \<in> set (t_events (w_db w1))" "ev_request ev = fi_signing_request r" "ev_event_type ev = ''Request Signed''"
    by (auto simp: logged_def g(5))
  moreover from this(1) have "row (t_events (w_db w1)) nm = Some ev"
    using assms(4) db by (simp add: row_def unique_names_def)
  ultimately show ?thesis
    using e fd(3) f(1) g(3,5) db req
    by (intro exI [of _ ss] exI [of _ req] exI [of _ out] exI [of _ evs] exI [of _ nm] exI [of _ ev]) simp
qed

end
