(* ===== verification/Demo_Runs.thy ===== *)
theory Demo_Runs
  imports Demo Handshake
begin

text \<open>
  The two long runs on the demo site, each evaluated once: \<open>initiate\<close> with the \<open>finalize\<close> that
  follows it, and a \<open>finalize\<close> of the waiting session with the export of its evidence.
\<close>

definition demo_handshake :: "(initiated \<times> world) option" where
  "demo_handshake =
    (case initiate demo_env demo_pdf demo_geo ''D'' ''a'' (Some (b64encode ''c'')) None None None demo_world of
       (Inr i, w1) \<Rightarrow>
         if isl (fst (finalize demo_env demo_pdf (in_session_id i) (b64encode ''g'') None JNull None w1)) then None
         else (case map_of (w_cache w1) (session_key (in_session_id i)) of
             Some (CSession ss, expires) \<Rightarrow>
               if e_clock demo_env (w_tick w1) < expires \<and> e_clock demo_env (w_tick w1 + 4) < expires then Some (i, w1) else None
           | _ \<Rightarrow> None)
     | _ \<Rightarrow> None)"

lemma demo_handshake: "demo_handshake \<noteq> None"
  by code_simp

definition demo_exported :: "(finalized \<times> world) option" where
  "demo_exported =
    (case finalize demo_env demo_pdf ''s'' (b64encode ''g'') (Some (b64encode ''c'')) (JList []) None demo_world of
       (Inr r, w1) \<Rightarrow>
         (let w2 = w1\<lparr>w_db := w_saved w1\<rparr> in
          if \<not> isl (fst (export_evidence_pack demo_env (fi_signing_request r) w2)) \<and> unique_names (t_events (w_db w2))
            \<and> list_all (\<lambda>kf. fst kf \<noteq> '''') (t_files (w_db w2))
          then Some (r, w1) else None)
     | _ \<Rightarrow> None)"

lemma demo_exported: "demo_exported \<noteq> None"
  by code_simp

end
