(* ===== verification/Witnesses.thy ===== *)
theory Witnesses
  imports Demo_Runs
begin

definition demo_args :: mail_args where
  "demo_args = \<lparr>ma_doctype = Some ''D'', ma_name = Some ''e'', ma_attachments = JNull, ma_rest = []\<rparr>"

definition demo_doc :: source_doc where
  "demo_doc = \<lparr>do_doctype = ''D'', do_name = ''z'', do_fields = [(''f'', FStr ''x'')], do_before_save = None\<rparr>"

lemma demo_run_error: "isl (fst m) \<Longrightarrow> \<exists>e w'. m = (Inl e, w')"
  by (cases m) (auto simp: isl_def)

lemma demo_run_ok: "\<not> isl (fst m) \<Longrightarrow> \<exists>x w'. m = (Inr x, w')"
  by (cases m) (metis isl_def sum.exhaust_sel fst_conv)

section \<open>Signing\<close>

lemma demo_initiates:
  obtains r w' where "initiate demo_env demo_pdf demo_geo ''D'' ''a'' (Some (b64encode ''c'')) None None None demo_world
    = (Inr r, w')"
  using demo_handshake that unfolding demo_handshake_def by (auto split: prod.splits sum.splits)


lemma initiate_authorised_witness:
  "\<exists>n req pf. row (t_requests (w_db demo_world)) n = Some req \<and> is_pending_for ''D'' ''a'' req
      \<and> row (t_profiles (w_db demo_world)) (sr_profile req) = Some pf
      \<and> may_sign demo_env (w_db demo_world) (e_clock demo_env (w_tick demo_world)) (Some (b64encode ''c''))
          (null_arg None) (null_arg None) req pf"
proof -
  obtain r w' where run: "initiate demo_env demo_pdf demo_geo ''D'' ''a'' (Some (b64encode ''c'')) None None None demo_world
    = (Inr r, w')" by (rule demo_initiates)
  from initiate_authorised [OF demo_ok(1,2) run] show ?thesis by blast
qed

lemma demo_finalizes:
  obtains r w' where "finalize demo_env demo_pdf ''s'' (b64encode ''g'') (Some (b64encode ''c'')) (JList []) None demo_world
    = (Inr r, w')"
  using demo_exported that unfolding demo_exported_def by (auto split: prod.splits sum.splits)

lemma demo_live: "live_session demo_env demo_world ''s'' = Some demo_session"
  by (simp add: live_session_def demo_world_def demo_env_def seconds_def)

lemma finalize_commits_evidence_witness:
  "\<exists>r w' req. finalize demo_env demo_pdf ''s'' (b64encode ''g'') (Some (b64encode ''c'')) (JList []) None demo_world = (Inr r, w')
    \<and> row (t_requests (w_saved w')) ''B'' = Some req \<and> sr_status req = Signed"
proof -
  obtain r w' where run: "finalize demo_env demo_pdf ''s'' (b64encode ''g'') (Some (b64encode ''c'')) (JList []) None demo_world
    = (Inr r, w')" by (rule demo_finalizes)
  from finalize_commits_evidence [OF run] obtain req where
    "row (t_requests (w_saved w')) (ss_signing_request_name demo_session) = Some req" "sr_status req = Signed"
    unfolding demo_live by auto
  with run show ?thesis by (simp add: demo_session_def)
qed

lemma finalize_session_once_witness:
  "\<exists>r w'. finalize demo_env demo_pdf ''s'' (b64encode ''g'') (Some (b64encode ''c'')) (JList []) None demo_world = (Inr r, w')
    \<and> finalize demo_env demo_pdf ''s'' (b64encode ''h'') None JNull None w'
        = (Inl session_expired, w'\<lparr>w_tick := Suc (w_tick w')\<rparr>)"
proof -
  obtain r w' where run: "finalize demo_env demo_pdf ''s'' (b64encode ''g'') (Some (b64encode ''c'')) (JList []) None demo_world
    = (Inr r, w')" by (rule demo_finalizes)
  from finalize_session_once [OF run] run show ?thesis by blast
qed

lemma demo_request_B:
  "row (t_requests (w_db demo_world)) (ss_signing_request_name demo_session) = Some (demo_request ''b'' In_Progress)"
  by (simp add: demo_rows demo_session_def)

lemma demo_decodes: "b64decode (or_str (Some (b64encode ''c'')) '''') = Some ''c''"
  using b64_round_trip [of "''c''"] by (simp del: b64encode.simps)

lemma demo_files: "t_files (w_db demo_world) = [(''F'', demo_file)]"
  by (simp add: demo_world_def demo_db_def)

text \<open>A signature that is no base64 fails in the body of the \<open>try\<close>.\<close>

lemma finalize_failure_survives_witness:
  "\<exists>e w'. run_request (finalize demo_env demo_pdf ''s'' ''A'' (Some (b64encode ''c'')) JNull None) demo_world = (Inl e, w')
    \<and> failure_committed ''B'' w'"
proof -
  have "isl (fst (run_request (finalize demo_env demo_pdf ''s'' ''A'' (Some (b64encode ''c'')) JNull None) demo_world))"
    by code_simp
  then obtain e w' where run:
    "run_request (finalize demo_env demo_pdf ''s'' ''A'' (Some (b64encode ''c'')) JNull None) demo_world = (Inl e, w')"
    using demo_run_error by blast
  from finalize_failure_survives [OF demo_fresh demo_live demo_request_B demo_decodes run] run show ?thesis
    by (simp add: demo_session_def)
qed

text \<open>The same site with another hash function: no certificate has the registered fingerprint.\<close>

definition demo_other_token :: env where
  "demo_other_token = demo_env\<lparr>e_sha256 := (\<lambda>s. ''0'')\<rparr>"

lemma finalize_wrong_certificate_witness:
  "\<exists>w'. run_request (finalize demo_other_token demo_pdf ''s'' (b64encode ''g'') (Some (b64encode ''c'')) JNull None) demo_world
      = (Inl wrong_token, w')
    \<and> failure_committed ''B'' w' \<and> t_files (w_db w') = [(''F'', demo_file)]"
proof -
  have live: "live_session demo_other_token demo_world ''s'' = Some demo_session"
    using demo_live by (simp add: demo_other_token_def live_session_def cong: option.case_cong cached.case_cong)
  have fresh: "fresh_names demo_other_token"
    using demo_fresh by (simp add: demo_other_token_def fresh_names_def)
  have "fingerprint_mismatch (expected_fingerprint (w_db demo_world) (demo_request ''b'' In_Progress))
      (presented_fingerprint demo_other_token ''c'')"
    by (simp add: fingerprint_mismatch_def expected_fingerprint_def presented_fingerprint_def demo_rows
        demo_profile_def demo_other_token_def lower_def lower_char_def)
  from finalize_wrong_certificate [OF fresh live demo_request_B demo_decodes this,
      where P = demo_pdf and sig = "b64encode ''g''" and chain = JNull and ocsp = None] show ?thesis
    by (simp add: demo_session_def demo_files del: b64encode.simps) blast
qed

lemma retry_forgets_reason_witness:
  "\<exists>s w' r'. retry demo_env ''C'' demo_world = (Inr s, w')
    \<and> row (t_requests (w_db w')) ''C'' = Some r' \<and> sr_status r' = Pending"
proof -
  have "\<not> isl (fst (retry demo_env ''C'' demo_world))" by code_simp
  then obtain s w' where run: "retry demo_env ''C'' demo_world = (Inr s, w')" using demo_run_ok by blast
  from retry_forgets_reason [OF run] run show ?thesis by blast
qed

lemma cancel_outcome_witness:
  "\<exists>w' r'. cancel demo_env ''A'' '''' demo_world = (Inr Cancelled, w')
    \<and> row (t_requests (w_db w')) ''A'' = Some r' \<and> sr_status r' = Cancelled \<and> sr_cancelled_on r' \<noteq> None"
  using cancel_outcome [OF demo_fresh, where w = demo_world and n = "''A''" and reason = "[]"]
  by (simp add: demo_rows)

lemma signing_status_unfreezes_witness:
  "\<exists>si w'. get_signing_status demo_env ''D'' ''b'' demo_world = (Inr si, w')
    \<and> set (si_requests si) = {(n, r). row (t_requests (w_db w')) n = Some r \<and> of_document ''D'' ''b'' r}"
  using signing_status_unfreezes [OF demo_ok(1,2), of "''D''" "''b''"] by blast

lemma evaluate_fires_first_witness:
  "evaluate_rules demo_env demo_rules demo_doc ''on_submit'' demo_world
    = fire_rule demo_env demo_rules demo_doc ''on_submit'' ''R'' demo_rule demo_world"
proof -
  have c: "candidate demo_rules (w_db demo_world) demo_doc ''on_submit'' n r \<longleftrightarrow> n = ''R'' \<and> r = demo_rule" for n r
    by (auto simp: candidate_def demo_rows demo_rule_def demo_doc_def
        rule_applies_def evaluate_conditions_def split: if_splits)
  show ?thesis
    using evaluate_fires_first [OF demo_ok(1,3), of demo_rules demo_doc "''on_submit''"] by (auto simp: c)
qed

lemma demo_rule_requests: "rule_requests_ok (t_requests (w_db demo_world))"
  by (auto simp: rule_requests_ok_def one_per_rule_def demo_ok(2) demo_rows split: if_splits)

lemma one_request_per_rule_witness:
  "rule_requests_ok (t_requests (w_db (run_events demo_env demo_rules
     [(Submitted, demo_doc), (Updated, demo_doc), (Submitted, demo_doc)] demo_world)))"
  by (rule one_request_per_rule [OF demo_ok(1) demo_rule_requests])


lemma text_comparisons_collapse_witness:
  "check_condition demo_rules \<lparr>rc_field = ''f'', rc_operator = ''equals'', rc_value = Some ''y''\<rparr> demo_doc"
  using text_comparisons_collapse [of demo_doc "''f''" "''x''" demo_rules "''y''"]
  by (simp add: demo_doc_def demo_rules_def field_def)

lemma print_gate_serves_signed_witness:
  "\<exists>n r. row (t_requests (w_db demo_world)) n = Some r \<and> signed_for ''D'' ''e'' r \<and> sr_signed_file r = Some ''F''"
proof -
  have run: "download_pdf demo_env (\<lambda>x. x) ''D'' ''e'' JNull JNull JNull [] demo_world
      = (Inr (Served ''F'' (Bytes ''b'')), demo_world)"
    by code_simp
  show ?thesis
    using print_gate_serves_signed [OF demo_ok(1,2) run]
    by (auto simp: demo_rows demo_file_def split: if_splits)
qed

lemma print_gate_blocks_unsigned_witness:
  "download_pdf demo_env (\<lambda>x. x) ''D'' ''a'' JNull JNull JNull [] demo_world
    = (Inl (signature_required ''D''), demo_world)"
proof -
  have "\<forall>m s. row (t_rules (w_db demo_world)) m = Some s \<and> print_blocking ''D'' s \<longrightarrow> ru_is_mandatory s"
    "\<forall>m s. row (t_requests (w_db demo_world)) m = Some s \<and> signed_for ''D'' ''a'' s \<longrightarrow> \<not> truthy (sr_signed_file s)"
    "row (t_rules (w_db demo_world)) ''R'' = Some demo_rule" "print_blocking ''D'' demo_rule"
    "e_has_permission demo_env (w_db demo_world) ''D'' ''read'' (Some ''a'')"
    by (auto simp: demo_rows demo_rule_def print_blocking_def signed_for_def demo_env_def split: if_splits)
  with print_gate_blocks_unsigned [OF demo_ok(1,3,2) this(3,4,1,2)] show ?thesis by simp
qed



lemma request_write_implies_read_witness:
  "request_has_permission demo_env (demo_request ''a'' Pending) ''read'' ''a''
    \<and> \<not> request_has_permission demo_env (demo_request ''a'' Pending) ''write'' ''a''"
  using request_write_implies_read [of demo_env "demo_request ''a'' Pending" "''a''" demo_profile]
  by (simp add: demo_env_def)


lemma purge_outcome_witness:
  "\<exists>w'. purge_old_requests demo_env (\<lambda>t n. t + seconds (86400 * 365 * n)) demo_world = (Inr (), w')
    \<and> row (t_requests (w_db w')) ''A'' = Some (demo_request ''a'' Pending)"
proof -
  have "row (t_requests (w_db demo_world)) ''A'' = Some (demo_request ''a'' Pending)"
    "\<not> is_old c (demo_request ''a'' Pending)" for c
    by (simp_all add: demo_rows is_old_def is_terminal_def)
  with purge_outcome [OF demo_ok(1,2), of "\<lambda>t n. t + seconds (86400 * 365 * n)"] show ?thesis
    by (auto simp: Let_def dest!: spec [of _ "''A''"])
qed

end
