(* ===== verification/Agent.thy ===== *)
theory Agent
  imports Finalize
begin

text \<open>
  The endpoints of the desktop agent (\<open>api/agent.py\<close>): pairing with a one-time code, the
  lookup of an agent by its site token, and the registration of a certificate on a DSC
  Profile, with the profile's controller (\<open>dsc_profile.py\<close>). Pairing codes live in the
  cache; of a site token only a hash is stored.
\<close>

section \<open>Pairing\<close>

definition PAIRING_TTL_SECONDS :: int where
  "PAIRING_TTL_SECONDS = 600"

definition pairing_key :: "string \<Rightarrow> string" where
  "pairing_key code = ''e_sign:pairing:'' @ code"

definition encode_utf8 :: "string \<Rightarrow> string" where
  "encode_utf8 s = concat (map (\<lambda>c. utf8 (of_char c)) s)"

definition hash_token :: "env \<Rightarrow> string \<Rightarrow> string" where
  "hash_token E token = e_sha256 E (encode_utf8 token)"

text \<open>The HTTP request, as far as the public URL is read from it; None outside a request.\<close>

record http_request =
  rq_forwarded_host :: "string option"
  rq_original_host :: "string option"
  rq_host :: string
  rq_forwarded_proto :: "string option"
  rq_is_secure :: bool

definition public_site_url :: "env \<Rightarrow> http_request option \<Rightarrow> string" where
  "public_site_url E req =
    (case req of
       None \<Rightarrow> e_site_url E
     | Some r \<Rightarrow>
        let xfh = or_opt (rq_forwarded_host r) (rq_original_host r);
            host = or_str xfh (rq_host r);
            proto = or_str (rq_forwarded_proto r) (if rq_is_secure r then ''https'' else ''http'')
        in if host \<noteq> '''' then proto @ ''://'' @ host else e_site_url E)"

record pairing_offer =
  po_pairing_code :: string
  po_expires_in_seconds :: int
  po_site_url :: string

definition generate_pairing_code :: "env \<Rightarrow> http_request option \<Rightarrow> pairing_offer act" where
  "generate_pairing_code E req =
    (let site_url = public_site_url E req in
     bind (random_token E) (\<lambda>code.
     bind (now_datetime E) (\<lambda>t.
     seq (cache_set E (pairing_key code)
            (CPairing \<lparr>pa_user = e_user E, pa_created_at = e_str_datetime E t, pa_site_url = site_url\<rparr>)
            PAIRING_TTL_SECONDS)
     (ret \<lparr>po_pairing_code = code, po_expires_in_seconds = PAIRING_TTL_SECONDS, po_site_url = site_url\<rparr>))))"

record paired =
  pd_site_token :: string
  pd_site_url :: string
  pd_agent_registration :: string
  pd_hmac_secret :: string

definition invalid_code :: error where
  "invalid_code = AuthenticationError ''Invalid or expired pairing code.''"

text \<open>The registration: the plaintext token is returned, its hash is stored.\<close>

definition new_registration ::
  "env \<Rightarrow> pairing \<Rightarrow> string option \<Rightarrow> string option \<Rightarrow> string option \<Rightarrow> string \<Rightarrow> datetime \<Rightarrow> datetime \<Rightarrow>
   agent_registration" where
  "new_registration E code_data agent_fingerprint os_platform agent_version site_token paired_on last_seen =
    \<lparr>ag_user = pa_user code_data, ag_agent_fingerprint = agent_fingerprint,
     ag_display_name = or_str os_platform ''Unknown'' @ '' Agent'', ag_paired_on = paired_on,
     ag_last_seen_on = last_seen, ag_is_active = True, ag_os_platform = os_platform,
     ag_agent_version = agent_version, ag_site_token_hash = hash_token E site_token\<rparr>"

definition register_agent ::
  "env \<Rightarrow> pairing \<Rightarrow> string option \<Rightarrow> string option \<Rightarrow> string option \<Rightarrow> paired act" where
  "register_agent E code_data agent_fingerprint os_platform agent_version =
    bind (random_token E) (\<lambda>site_token.
    bind (now_datetime E) (\<lambda>paired_on.
    bind (now_datetime E) (\<lambda>last_seen.
    bind (new_name E ''DSC Agent Registration'' t_agents) (\<lambda>n.
    bind (insert_row ''DSC Agent Registration'' t_agents (\<lambda>u d. d\<lparr>t_agents := u (t_agents d)\<rparr>) n
            (new_registration E code_data agent_fingerprint os_platform agent_version site_token
              paired_on last_seen)) (\<lambda>_.
    seq commit
    (bind (get_or_create_hmac_secret E) (\<lambda>hmac_secret.
    ret \<lparr>pd_site_token = site_token, pd_site_url = pa_site_url code_data,
         pd_agent_registration = n, pd_hmac_secret = hmac_secret\<rparr>)))))))"

text \<open>Whatever else is found under the key of a pairing code has no \<open>user\<close>.\<close>

definition validate_pairing_code ::
  "env \<Rightarrow> string \<Rightarrow> string option \<Rightarrow> string option \<Rightarrow> string option \<Rightarrow> paired act" where
  "validate_pairing_code E pairing_code agent_fingerprint os_platform agent_version =
    bind (cache_get E (pairing_key pairing_code)) (\<lambda>raw.
    case raw of
      None \<Rightarrow> raise invalid_code
    | Some v \<Rightarrow>
        seq (cache_delete (pairing_key pairing_code))
        (case v of
           CPairing code_data \<Rightarrow> register_agent E code_data agent_fingerprint os_platform agent_version
         | _ \<Rightarrow> raise (OtherError ''KeyError'' ''user'')))"

section \<open>Site tokens\<close>

definition set_agent :: "string \<Rightarrow> (agent_registration \<Rightarrow> agent_registration) \<Rightarrow> unit act" where
  "set_agent n f = db_modify (\<lambda>d. d\<lparr>t_agents := update_row n f (t_agents d)\<rparr>)"

definition is_agent :: "env \<Rightarrow> string \<Rightarrow> string option \<Rightarrow> agent_registration \<Rightarrow> bool" where
  "is_agent E site_token agent_fingerprint a \<longleftrightarrow>
    ag_site_token_hash a = hash_token E site_token \<and> ag_is_active a
    \<and> (truthy agent_fingerprint \<longrightarrow> ag_agent_fingerprint a = agent_fingerprint)"

definition verify_site_token :: "env \<Rightarrow> string option \<Rightarrow> string option \<Rightarrow> string option act" where
  "verify_site_token E site_token agent_fingerprint =
    (if \<not> truthy site_token then ret None
     else
       bind (find_doc E ''DSC Agent Registration'' t_agents
               (is_agent E (or_str site_token '''') agent_fingerprint)) (\<lambda>agent_name.
       case agent_name of
         None \<Rightarrow> ret None
       | Some n \<Rightarrow>
          bind (now_datetime E) (\<lambda>t.
          seq (set_agent n (\<lambda>a. a\<lparr>ag_last_seen_on := t\<rparr>))
          (ret (Some n)))))"

section \<open>Certificates of a profile\<close>

text \<open>\<open>dsc_profile.py\<close>: \<open>validate\<close>, and the framework's save around it.\<close>

definition duplicate_user :: error where
  "duplicate_user = ValidationError ''Each user can only be added once to the allowed users list.''"

definition validate_unique_users :: "profile \<Rightarrow> unit act" where
  "validate_unique_users pf =
    (let users = pf_allowed_users pf in
     throw_if (length users \<noteq> length (remdups users)) duplicate_user)"

definition save_profile :: "string \<Rightarrow> profile \<Rightarrow> unit act" where
  "save_profile n pf =
    seq (validate_unique_users pf)
    (db_modify (\<lambda>d. d\<lparr>t_profiles := update_row n (\<lambda>_. pf) (t_profiles d)\<rparr>))"

text \<open>What asn1crypto gives for a certificate: names as their common names (one, several or
  none) and a readable form, times with an offset from UTC in microseconds, or none.\<close>

datatype common_names = No_CN | One_CN string | Many_CN "string list"

record cert_name =
  cn_native :: common_names
  cn_human_friendly :: string

record cert_time =
  ct_local :: datetime
  ct_offset :: "int option"

record cert_details =
  cd_subject :: cert_name
  cd_issuer :: cert_name
  cd_serial :: nat
  cd_not_before :: "cert_time option"
  cd_not_after :: "cert_time option"

definition common_name :: "cert_name \<Rightarrow> string" where
  "common_name name =
    (let cn = (case cn_native name of
          No_CN \<Rightarrow> '''' | One_CN s \<Rightarrow> s | Many_CN [] \<Rightarrow> '''' | Many_CN (s # _) \<Rightarrow> s)
     in take 140 (if cn \<noteq> '''' then cn else cn_human_friendly name))"

definition naive_utc :: "cert_time option \<Rightarrow> datetime option" where
  "naive_utc dt = map_option (\<lambda>t. case ct_offset t of None \<Rightarrow> ct_local t | Some off \<Rightarrow> ct_local t - off) dt"

definition upper_hex_digit :: "nat \<Rightarrow> char" where
  "upper_hex_digit d = char_of (if d < 10 then 48 + d else 55 + d)"

fun upper_hex :: "nat \<Rightarrow> string" where
  "upper_hex n = (if n < 16 then [upper_hex_digit n] else upper_hex (n div 16) @ [upper_hex_digit (n mod 16)])"

declare upper_hex.simps [simp del]

definition cert_pem :: "string \<Rightarrow> string" where
  "cert_pem cert_der =
    ''-----BEGIN CERTIFICATE-----'' @ [CHR 0x0A] @ b64encode cert_der @ [CHR 0x0A] @ ''-----END CERTIFICATE-----''"

record registered_certificate =
  rg_fingerprint :: string
  rg_common_name :: string
  rg_issuer :: string
  rg_not_before :: "datetime option"
  rg_not_after :: "datetime option"

definition archive_certificate :: "env \<Rightarrow> profile \<Rightarrow> profile act" where
  "archive_certificate E pf =
    (if truthy (pf_certificate_fingerprint pf)
     then bind (now_datetime E) (\<lambda>t.
       ret (pf\<lparr>pf_previous_certificates := pf_previous_certificates pf @
         [\<lparr>pc_certificate_fingerprint = pf_certificate_fingerprint pf,
           pc_certificate_common_name = pf_certificate_common_name pf,
           pc_certificate_not_after = pf_certificate_not_after pf, pc_replaced_on = t\<rparr>]\<rparr>))
     else ret pf)"

definition with_certificate :: "env \<Rightarrow> string \<Rightarrow> cert_details \<Rightarrow> datetime \<Rightarrow> profile \<Rightarrow> profile" where
  "with_certificate E cert_der cert t pf = pf
    \<lparr>pf_certificate_fingerprint := Some (e_sha256 E cert_der),
     pf_certificate_common_name := Some (common_name (cd_subject cert)),
     pf_certificate_issuer := Some (common_name (cd_issuer cert)),
     pf_certificate_serial := Some (upper_hex (cd_serial cert)),
     pf_certificate_not_before := naive_utc (cd_not_before cert),
     pf_certificate_not_after := naive_utc (cd_not_after cert),
     pf_certificate_pem_public := Some (cert_pem cert_der), pf_registered_on := Some t\<rparr>"

text \<open>\<open>load\<close> is \<open>x509.Certificate.load\<close> with the fields read from it. The framework's message
  for a missing permission is left out.\<close>

definition register_certificate ::
  "env \<Rightarrow> (string \<Rightarrow> error + cert_details) \<Rightarrow> string \<Rightarrow> string \<Rightarrow> registered_certificate act" where
  "register_certificate E load profile_name cert_der_b64 =
    bind (decode cert_der_b64) (\<lambda>cert_der.
    bind (lift (load cert_der)) (\<lambda>cert.
    bind (get_doc ''DSC Profile'' t_profiles profile_name) (\<lambda>pf.
    bind (db_gets (\<lambda>d. e_has_permission E d ''DSC Profile'' ''write'' (Some profile_name))) (\<lambda>may_write.
    seq (throw_if (\<not> may_write) (PermissionError ''''))
    (bind (archive_certificate E pf) (\<lambda>pf1.
     bind (now_datetime E) (\<lambda>t.
     seq (save_profile profile_name (with_certificate E cert_der cert t pf1))
     (ret \<lparr>rg_fingerprint = e_sha256 E cert_der, rg_common_name = common_name (cd_subject cert),
          rg_issuer = common_name (cd_issuer cert), rg_not_before = naive_utc (cd_not_before cert),
          rg_not_after = naive_utc (cd_not_after cert)\<rparr>))))))))"

definition list_agent_certificates :: "string option \<Rightarrow> string" where
  "list_agent_certificates agent_port =
    ''Call the agent directly at https://127.0.0.1:'' @ or_str agent_port ''4645'' @ ''/v1/certs''"

section \<open>A code pairs once\<close>

definition live_code :: "env \<Rightarrow> world \<Rightarrow> string \<Rightarrow> pairing option" where
  "live_code E w code =
    (case map_of (w_cache w) (pairing_key code) of
       Some (CPairing p, expires) \<Rightarrow> if e_clock E (w_tick w) < expires then Some p else None
     | _ \<Rightarrow> None)"

lemma keeps_cache_secret [keeps_cache]: "keeps (same w_cache) (get_or_create_hmac_secret E)"
  unfolding get_or_create_hmac_secret_def by (intro keeps_cache)

lemma keeps_cache_register [keeps_cache]: "keeps (same w_cache) (register_agent E p fp os ver)"
  unfolding register_agent_def by (intro keeps_cache)

lemma cache_get_run_map:
  "cache_get E key w = (Inr (case map_of (w_cache w) key of
        None \<Rightarrow> None
      | Some (v, expires) \<Rightarrow> if e_clock E (w_tick w) < expires then Some v else None), w\<lparr>w_tick := Suc (w_tick w)\<rparr>)"
  by (simp add: cache_get_def now_datetime_run)

lemma cache_delete_run: "cache_delete key w = (Inr (), w\<lparr>w_cache := AList.delete key (w_cache w)\<rparr>)"
  by (simp add: cache_delete_def)

text \<open>A validation that gets past the cache has removed the code, whatever follows.\<close>

lemma validate_consumes:
  assumes "validate_pairing_code E code fp os ver w = (res, w')"
  shows "res = Inl invalid_code \<or> map_of (w_cache w') (pairing_key code) = None"
proof -
  let ?w = "w\<lparr>w_tick := Suc (w_tick w)\<rparr>"
  obtain raw where raw: "cache_get E (pairing_key code) w = (Inr raw, ?w)"
    using cache_get_run_map by blast
  show ?thesis
  proof (cases raw)
    case None
    with assms raw show ?thesis by (simp add: validate_pairing_code_def)
  next
    case (Some v)
    let ?w1 = "?w\<lparr>w_cache := AList.delete (pairing_key code) (w_cache w)\<rparr>"
    have "(case v of CPairing p \<Rightarrow> register_agent E p fp os ver
         | _ \<Rightarrow> raise (OtherError ''KeyError'' ''user'')) ?w1 = (res, w')"
      using assms raw Some by (simp add: validate_pairing_code_def cache_delete_run)
    then have "w_cache w' = w_cache ?w1"
      using keeps_same_runD [OF keeps_cache_register, of E _ fp os ver ?w1 res w'] by (cases v) auto
    then show ?thesis by (simp add: AList.delete_conv')
  qed
qed

text \<open>C34: a pairing code pairs one agent: once a validation of the code has got as far as finding
  it, whatever its outcome, every further validation is refused as invalid, whoever calls it,
  and registers nothing.\<close>

theorem pairing_code_once:
  assumes "validate_pairing_code E code fp os ver w = (res, w')" and "res \<noteq> Inl invalid_code"
  shows "validate_pairing_code E' code fp' os' ver' w' = (Inl invalid_code, w'\<lparr>w_tick := Suc (w_tick w')\<rparr>)"
  using validate_consumes [OF assms(1)] assms(2)
  by (simp add: validate_pairing_code_def cache_get_run_map)

section \<open>From the code to the token\<close>

lemma register_agent_okE:
  assumes "register_agent E p fp os ver w = (Inr r, w')"
  obtains a where "row (t_agents (w_db w)) (pd_agent_registration r) = None"
    "t_agents (w_db w') = add_row (pd_agent_registration r) a (t_agents (w_db w))"
    "t_agents (w_saved w') = t_agents (w_db w')"
    "ag_user a = pa_user p" "ag_agent_fingerprint a = fp" "ag_is_active a"
    "ag_site_token_hash a = hash_token E (pd_site_token r)"
proof -
  from assms obtain tok w1 t1 w2 t2 w3 n w4 n' w5 w6 secret where
    c: "random_token E w = (Inr tok, w1)" "now_datetime E w1 = (Inr t1, w2)" "now_datetime E w2 = (Inr t2, w3)"
    "new_name E ''DSC Agent Registration'' t_agents w3 = (Inr n, w4)"
    "insert_row ''DSC Agent Registration'' t_agents (\<lambda>u d. d\<lparr>t_agents := u (t_agents d)\<rparr>) n
            (new_registration E p fp os ver tok t1 t2) w4 = (Inr n', w5)"
    "commit w5 = (Inr (), w6)" "get_or_create_hmac_secret E w6 = (Inr secret, w')" and
    r: "r = \<lparr>pd_site_token = tok, pd_site_url = pa_site_url p, pd_agent_registration = n, pd_hmac_secret = secret\<rparr>"
    unfolding register_agent_def by (auto elim!: bind_okE seq_okE)
  have same: "t_agents (w_db w4) = t_agents (w_db w)"
    using c(1-4) by (auto simp: random_token_def now_datetime_def new_name_def db_gets_def)
  have ins: "row (t_agents (w_db w4)) n = None" "t_agents (w_db w5) = add_row n (new_registration E p fp os ver tok t1 t2) (t_agents (w_db w4))"
    using c(5) by (auto simp: insert_row_def db_gets_def db_modify_def elim!: bind_okE seq_okE guard_okE)
  have "keeps (same (\<lambda>w. t_agents (w_db w))) (get_or_create_hmac_secret E)"
    unfolding get_or_create_hmac_secret_def by (intro keeps_now) simp_all
  from keeps_same_runD [OF this c(7)] have now: "t_agents (w_db w') = t_agents (w_db w6)" .
  have "t_agents (w_saved w') = t_agents (w_db w6)"
    using c(6,7) by (cases "truthy (se_hmac_secret (t_settings (w_db w6)))")
      (auto simp: get_or_create_hmac_secret_def db_gets_def commit_def random_token_def set_settings_def db_modify_def
        elim!: bind_okE seq_okE)
  with now ins same c(6) r show thesis
    by (intro that [of "new_registration E p fp os ver tok t1 t2"]) (auto simp: new_registration_def commit_def)
qed

text \<open>C35: pairing round trip: a code that an administrator generated, validated by the agent
  before it expires, gives a committed active registration for that administrator under the
  agent's fingerprint; and the site token returned to the agent is then accepted by
  \<open>verify_site_token\<close>, for a registration with the token's hash.\<close>

theorem pairing_round_trip:
  assumes "generate_pairing_code E req w = (Inr g, w1)"
    and "e_clock A (w_tick w1) < e_clock E (Suc (Suc (w_tick w))) + seconds PAIRING_TTL_SECONDS"
    and "validate_pairing_code A (po_pairing_code g) fp os ver w1 = (Inr r, w2)"
    and "scan_sound V" and "e_sha256 V = e_sha256 A" and "unique_names (t_agents (w_db w2))"
    and "pd_site_token r \<noteq> ''''"
  shows "\<exists>a n b w3. row (t_agents (w_saved w2)) (pd_agent_registration r) = Some a
    \<and> ag_user a = e_user E \<and> ag_agent_fingerprint a = fp \<and> ag_is_active a
    \<and> verify_site_token V (Some (pd_site_token r)) fp w2 = (Inr (Some n), w3)
    \<and> row (t_agents (w_db w2)) n = Some b \<and> ag_site_token_hash b = hash_token A (pd_site_token r)
    \<and> ag_is_active b"
proof -
  let ?p = "\<lparr>pa_user = e_user E, pa_created_at = e_str_datetime E (e_clock E (Suc (w_tick w))),
      pa_site_url = public_site_url E req\<rparr>"
  let ?k = "pairing_key (po_pairing_code g)"
  have entry: "map_of (w_cache w1) ?k = Some (CPairing ?p, e_clock E (Suc (Suc (w_tick w))) + seconds PAIRING_TTL_SECONDS)"
    using assms(1)
    by (auto simp: generate_pairing_code_def Let_def random_token_def now_datetime_run cache_set_run AList.update_conv'
        run_bind run_seq)
  let ?w = "w1\<lparr>w_tick := Suc (w_tick w1), w_cache := AList.delete ?k (w_cache w1)\<rparr>"
  have "register_agent A ?p fp os ver ?w = (Inr r, w2)"
    using assms(2,3) entry by (simp add: validate_pairing_code_def cache_get_run_map cache_delete_run)
  then obtain a where a: "t_agents (w_db w2) = add_row (pd_agent_registration r) a (t_agents (w_db ?w))"
    "t_agents (w_saved w2) = t_agents (w_db w2)" "ag_user a = e_user E" "ag_agent_fingerprint a = fp" "ag_is_active a"
    "ag_site_token_hash a = hash_token A (pd_site_token r)" "row (t_agents (w_db ?w)) (pd_agent_registration r) = None"
    by (auto elim: register_agent_okE)
  have row: "row (t_agents (w_db w2)) (pd_agent_registration r) = Some a"
    using a(1,7) by simp
  have hash: "hash_token V t = hash_token A t" for t
    using assms(5) by (simp add: hash_token_def)
  have "is_agent V (pd_site_token r) fp a"
    using a hash by (simp add: is_agent_def)
  from find_doc_exists [where T = t_agents and P = "is_agent V (pd_site_token r) fp", OF assms(4,6) row this] obtain n b where
    n: "find_doc V ''DSC Agent Registration'' t_agents (is_agent V (pd_site_token r) fp) w2 = (Inr (Some n), w2)"
      "row (t_agents (w_db w2)) n = Some b" "is_agent V (pd_site_token r) fp b" .
  obtain w3 where w3: "verify_site_token V (Some (pd_site_token r)) fp w2 = (Inr (Some n), w3)"
    using n(1) assms(7) by (simp add: verify_site_token_def now_datetime_run set_agent_def db_modify_def)
  have "row (t_agents (w_saved w2)) (pd_agent_registration r) = Some a" using row a(2) by simp
  moreover have "ag_site_token_hash b = hash_token A (pd_site_token r)" "ag_is_active b"
    using n(3) hash by (simp_all add: is_agent_def)
  ultimately show ?thesis using w3 n(2) a(3-5) by blast
qed

text \<open>\<open>verify_site_token\<close> accepts a token only for an active registration that stores the
  token's hash, and that has the given fingerprint if one is given; and it changes nothing in the
  registrations but the time the agent was last seen.\<close>

theorem site_token_sound:
  assumes "scan_sound E" and "unique_names (t_agents (w_db w))"
    and "verify_site_token E token fp w = (Inr (Some n), w')"
  shows "\<exists>tok a. token = Some tok \<and> tok \<noteq> '''' \<and> row (t_agents (w_db w)) n = Some a \<and> ag_is_active a
    \<and> ag_site_token_hash a = hash_token E tok \<and> (truthy fp \<longrightarrow> ag_agent_fingerprint a = fp)
    \<and> t_agents (w_db w') = update_row n (\<lambda>a. a\<lparr>ag_last_seen_on := e_clock E (w_tick w)\<rparr>) (t_agents (w_db w))"
proof -
  from assms(3) have t: "truthy token" by (auto simp: verify_site_token_def split: if_splits)
  then obtain tok where tok: "token = Some tok" "tok \<noteq> ''''" by (cases token) auto
  obtain x where x: "find_doc E ''DSC Agent Registration'' t_agents (is_agent E tok fp) w = (Inr x, w)"
    by (simp add: find_doc_run)
  from assms(3) x tok have xn: "x = Some n" and w': "w' = w\<lparr>w_tick := Suc (w_tick w),
      w_db := (w_db w)\<lparr>t_agents := update_row n (\<lambda>a. a\<lparr>ag_last_seen_on := e_clock E (w_tick w)\<rparr>) (t_agents (w_db w))\<rparr>\<rparr>"
    by (cases x; auto simp: verify_site_token_def now_datetime_run set_agent_def db_modify_def)+
  obtain a where "row (t_agents (w_db w)) n = Some a" "is_agent E tok fp a"
    by (rule find_doc_some [OF x [unfolded xn] assms(1,2)])
  with tok w' show ?thesis by (auto simp: is_agent_def)
qed

section \<open>Registering a certificate\<close>

lemma archive_run:
  "\<exists>pf1 w'. archive_certificate E pf w = (Inr pf1, w') \<and> both_dbs w' = both_dbs w \<and> w_cache w' = w_cache w
    \<and> pf_allowed_users pf1 = pf_allowed_users pf
    \<and> (if truthy (pf_certificate_fingerprint pf)
       then \<exists>t. pf_previous_certificates pf1 = pf_previous_certificates pf
          @ [\<lparr>pc_certificate_fingerprint = pf_certificate_fingerprint pf,
              pc_certificate_common_name = pf_certificate_common_name pf,
              pc_certificate_not_after = pf_certificate_not_after pf, pc_replaced_on = t\<rparr>]
       else pf1 = pf)"
  by (simp add: archive_certificate_def now_datetime_run both_dbs_def)

lemma archive_total: "archive_certificate E pf w \<noteq> (Inl e, w')"
  using archive_run [of E pf w] by auto

lemma archive_db: "archive_certificate E pf w = (Inr pf1, w') \<Longrightarrow> w_db w' = w_db w"
  using archive_run [of E pf w] by (auto simp: both_dbs_def)

lemma common_name_bounded: "length (common_name n) \<le> 140"
  by (simp add: common_name_def Let_def)

lemma register_certificate_okE:
  assumes "register_certificate E load n b64 w = (Inr r, w')"
  obtains der cert pf pf1 t where
    "b64decode b64 = Some der" "load der = Inr cert" "row (t_profiles (w_db w)) n = Some pf"
    "e_has_permission E (w_db w) ''DSC Profile'' ''write'' (Some n)" "distinct (pf_allowed_users pf)"
    "if truthy (pf_certificate_fingerprint pf)
       then \<exists>t. pf_previous_certificates pf1 = pf_previous_certificates pf
          @ [\<lparr>pc_certificate_fingerprint = pf_certificate_fingerprint pf,
              pc_certificate_common_name = pf_certificate_common_name pf,
              pc_certificate_not_after = pf_certificate_not_after pf, pc_replaced_on = t\<rparr>]
       else pf1 = pf"
    "w_db w' = (w_db w)\<lparr>t_profiles := update_row n (\<lambda>_. with_certificate E der cert t pf1) (t_profiles (w_db w))\<rparr>"
    "pf_allowed_users pf1 = pf_allowed_users pf"
    "rg_common_name r = common_name (cd_subject cert)" "rg_issuer r = common_name (cd_issuer cert)"
proof -
  from assms obtain der w1 cert w2 pf w3 mw w4 w5 pf1 w6 t w7 w8 where
    c: "decode b64 w = (Inr der, w1)" "lift (load der) w1 = (Inr cert, w2)"
      "get_doc ''DSC Profile'' t_profiles n w2 = (Inr pf, w3)"
      "db_gets (\<lambda>d. e_has_permission E d ''DSC Profile'' ''write'' (Some n)) w3 = (Inr mw, w4)"
      "throw_if (\<not> mw) (PermissionError '''') w4 = (Inr (), w5)"
      "archive_certificate E pf w5 = (Inr pf1, w6)" "now_datetime E w6 = (Inr t, w7)"
      "save_profile n (with_certificate E der cert t pf1) w7 = (Inr (), w8)" and
    r: "(Inr r, w') = (Inr \<lparr>rg_fingerprint = e_sha256 E der, rg_common_name = common_name (cd_subject cert),
          rg_issuer = common_name (cd_issuer cert), rg_not_before = naive_utc (cd_not_before cert),
          rg_not_after = naive_utc (cd_not_after cert)\<rparr> :: error + registered_certificate, w8)"
    unfolding register_certificate_def by (elim bind_okE seq_okE) (auto intro: that)
  from c(1) have der: "b64decode b64 = Some der" "w1 = w" by (auto simp: decode_def split: option.splits)
  from c(2,3) der have pf: "load der = Inr cert" "row (t_profiles (w_db w)) n = Some pf" "w3 = w"
    by (auto elim: get_doc_okE)
  from c(4,5) pf(3) have perm: "e_has_permission E (w_db w) ''DSC Profile'' ''write'' (Some n)" "w5 = w"
    by (auto simp: db_gets_run split: if_splits)
  from c(6) archive_run [of E pf w5] have arch: "both_dbs w6 = both_dbs w5" "pf_allowed_users pf1 = pf_allowed_users pf"
    "if truthy (pf_certificate_fingerprint pf)
       then \<exists>t. pf_previous_certificates pf1 = pf_previous_certificates pf
          @ [\<lparr>pc_certificate_fingerprint = pf_certificate_fingerprint pf,
              pc_certificate_common_name = pf_certificate_common_name pf,
              pc_certificate_not_after = pf_certificate_not_after pf, pc_replaced_on = t\<rparr>]
       else pf1 = pf" by auto
  have db7: "w_db w7 = w_db w" using c(7) arch(1) perm(2) by (auto simp: now_datetime_run both_dbs_def)
  have "pf_allowed_users (with_certificate E der cert t pf1) = pf_allowed_users pf"
    using arch(2) by (simp add: with_certificate_def)
  with c(8) have "distinct (pf_allowed_users pf)"
    "w8 = w7\<lparr>w_db := (w_db w7)\<lparr>t_profiles := update_row n (\<lambda>_. with_certificate E der cert t pf1) (t_profiles (w_db w7))\<rparr>\<rparr>"
    by (auto simp: save_profile_def validate_unique_users_def Let_def db_modify_def run_seq length_remdups_eq
        dest: sym split: if_splits)
  with der(1) pf(1,2) perm(1) arch(2,3) r db7 show thesis
    by (intro that [of der cert pf pf1 t]) auto
qed


text \<open>Registration and signing agree: once a certificate is registered on a profile, the
  check of \<open>finalize\<close> refuses, for every request of that profile, exactly the certificates whose
  fingerprint differs from the registered one.\<close>

theorem registered_certificate_decides:
  assumes "register_certificate E load n b64 w = (Inr r, w')" and "b64decode b64 = Some der"
    and "sr_profile req = n" and "n \<noteq> ''''" and "\<forall>x. e_sha256 E x \<noteq> ''''"
  shows "fingerprint_mismatch (expected_fingerprint (w_db w') req) (presented_fingerprint E other)
    \<longleftrightarrow> other \<noteq> '''' \<and> lower (e_sha256 E other) \<noteq> lower (e_sha256 E der)"
proof -
  from assms(1,2) obtain cert pf pf1 t where "row (t_profiles (w_db w)) n = Some pf"
    "w_db w' = (w_db w)\<lparr>t_profiles := update_row n (\<lambda>_. with_certificate E der cert t pf1) (t_profiles (w_db w))\<rparr>"
    by (auto elim: register_certificate_okE)
  then have "expected_fingerprint (w_db w') req = Some (e_sha256 E der)"
    using assms(3,4) by (simp add: expected_fingerprint_def with_certificate_def)
  with assms(5) show ?thesis
    by (auto simp: fingerprint_mismatch_def presented_fingerprint_def)
qed

section \<open>The audit trail\<close>

lemma keeps_trail_agent [keeps_trail]:
  "keeps audit_ext (generate_pairing_code E req)" "keeps audit_ext (validate_pairing_code E code fp os ver)"
  "keeps audit_ext (verify_site_token E tok fp)" "keeps audit_ext (register_certificate E load n b64)"
proof -
  have set: "keeps audit_ext (set_agent m f)" for m f
    unfolding set_agent_def by (intro keeps_trail keeps_trail_db) (simp_all add: names_kept)
  have ins: "keeps audit_ext (insert_row dt t_agents (\<lambda>u d. d\<lparr>t_agents := u (t_agents d)\<rparr>) m a)" for dt m a
    by (intro keeps_trail_insert) (simp_all add: trail_prefix_def names_kept)
  have "keeps audit_ext (cache_delete k)" "keeps audit_ext (cache_get E k)" "keeps audit_ext (cache_set E k v i)" for k v i
    by (simp_all add: keeps_def audit_ext_def cache_delete_run cache_get_run_map cache_set_run)
  note prims = set ins this
  show "keeps audit_ext (generate_pairing_code E req)"
    unfolding generate_pairing_code_def Let_def by (intro keeps_trail prims)
  show "keeps audit_ext (verify_site_token E tok fp)"
    unfolding verify_site_token_def by (intro keeps_trail prims)
  have "keeps audit_ext (case v of CPairing p \<Rightarrow> register_agent E p fp os ver | CSession s \<Rightarrow> raise e | CGeo g \<Rightarrow> raise e)" for v e
    unfolding register_agent_def by (cases v; simp; intro keeps_trail prims)
  then show "keeps audit_ext (validate_pairing_code E code fp os ver)"
    unfolding validate_pairing_code_def by (intro keeps_trail prims) simp_all
  show "keeps audit_ext (register_certificate E load n b64)"
    unfolding register_certificate_def archive_certificate_def save_profile_def validate_unique_users_def Let_def
    by (intro keeps_trail keeps_trail_db) (simp_all add: names_kept)
qed

end
