(* ===== verification/Template.thy ===== *)
theory Template
  imports Request Rules
begin

text \<open>
  The controllers of the documents a signing starts from: DSC Signature Template
  (\<open>dsc_signature_template.py\<close>), which versions a template that signatures depend on, and
  DSC Document Sign (\<open>dsc_document_sign.py\<close>), which creates the signing request of an
  uploaded PDF.
\<close>

section \<open>Signature templates\<close>

text \<open>The versioned fields with what \<open>or ""\<close> makes of an empty value, and the field rows.\<close>

definition versioned_values :: "signature_template \<Rightarrow> string list \<times> bool list \<times> rat" where
  "versioned_values t =
    ([st_target_doctype t, st_print_format t, or_str (st_stamp_timestamp_format t) '''',
      or_str (st_stamp_font_family t) ''''],
     [st_stamp_show_signer_name t, st_stamp_show_designation t, st_stamp_show_digitally_signed_by t,
      st_stamp_show_timestamp t, st_stamp_show_reason t, st_stamp_show_location t, st_stamp_show_dn_cn t,
      st_stamp_include_signature_image t, st_stamp_include_seal_image t, st_stamp_border t],
     st_stamp_font_size t)"

definition versioned_fields_changed :: "signature_template \<Rightarrow> signature_template \<Rightarrow> bool" where
  "versioned_fields_changed t previous \<longleftrightarrow>
    versioned_values t \<noteq> versioned_values previous \<or> st_fields previous \<noteq> st_fields t"

text \<open>Setting the versioned fields and the field rows of \<open>dst\<close> to those of \<open>src\<close>.\<close>

definition copy_versioned :: "signature_template \<Rightarrow> signature_template \<Rightarrow> signature_template" where
  "copy_versioned src dst = dst
    \<lparr>st_target_doctype := st_target_doctype src, st_print_format := st_print_format src,
     st_stamp_show_signer_name := st_stamp_show_signer_name src,
     st_stamp_show_designation := st_stamp_show_designation src,
     st_stamp_show_digitally_signed_by := st_stamp_show_digitally_signed_by src,
     st_stamp_show_timestamp := st_stamp_show_timestamp src,
     st_stamp_timestamp_format := st_stamp_timestamp_format src,
     st_stamp_show_reason := st_stamp_show_reason src, st_stamp_show_location := st_stamp_show_location src,
     st_stamp_show_dn_cn := st_stamp_show_dn_cn src,
     st_stamp_include_signature_image := st_stamp_include_signature_image src,
     st_stamp_include_seal_image := st_stamp_include_seal_image src,
     st_stamp_font_family := st_stamp_font_family src, st_stamp_font_size := st_stamp_font_size src,
     st_stamp_border := st_stamp_border src, st_fields := st_fields src\<rparr>"

definition uses_template :: "string \<Rightarrow> signing_request \<Rightarrow> bool" where
  "uses_template n r \<longleftrightarrow> sr_signature_template r = Some n"

definition has_signing_history :: "env \<Rightarrow> string \<Rightarrow> bool act" where
  "has_signing_history E n =
    bind (find_doc E ''DSC Signing Request'' t_requests (uses_template n)) (\<lambda>found. ret (found \<noteq> None))"

definition next_version :: "signature_template \<Rightarrow> int" where
  "next_version previous = (if st_version previous = 0 then 1 else st_version previous) + 1"

definition version_name :: "signature_template \<Rightarrow> string" where
  "version_name previous = st_template_name previous @ '' v'' @ dec_int (next_version previous)"

text \<open>A new template is named by its \<open>template_name\<close>; its version is 1 when none is given.\<close>

definition insert_template :: "signature_template \<Rightarrow> string act" where
  "insert_template t =
    insert_row ''DSC Signature Template'' t_templates (\<lambda>u d. d\<lparr>t_templates := u (t_templates d)\<rparr>)
      (st_template_name t) (if st_version t = 0 then t\<lparr>st_version := 1\<rparr> else t)"

definition fork_new_version :: "signature_template \<Rightarrow> signature_template \<Rightarrow> string act" where
  "fork_new_version t previous =
    insert_template (copy_versioned t default_template
      \<lparr>st_template_name := version_name previous, st_version := next_version previous, st_is_active := True\<rparr>)"

definition template_before_save :: "env \<Rightarrow> string \<Rightarrow> signature_template \<Rightarrow> signature_template \<Rightarrow> signature_template act" where
  "template_before_save E n t previous =
    bind (has_signing_history E n) (\<lambda>used.
    if \<not> used then ret t
    else if \<not> versioned_fields_changed t previous then ret t
    else
      bind (fork_new_version t previous) (\<lambda>new_name.
      seq (msgprint (''This template has been used by signed documents and cannot be edited ''
            @ ''in place. A new version <b>'' @ new_name @ ''</b> has been created with your ''
            @ ''changes - the original is now inactive.''))
      (ret ((copy_versioned previous t)\<lparr>st_is_active := False\<rparr>))))"

text \<open>\<open>save\<close> of a template that exists: the framework reads the stored version first.\<close>

definition save_template :: "env \<Rightarrow> string \<Rightarrow> signature_template \<Rightarrow> unit act" where
  "save_template E n t =
    bind (get_doc ''DSC Signature Template'' t_templates n) (\<lambda>previous.
    bind (template_before_save E n t previous) (\<lambda>t'.
    db_modify (\<lambda>d. d\<lparr>t_templates := update_row n (\<lambda>_. t') (t_templates d)\<rparr>)))"

section \<open>Uploaded documents\<close>

definition docsign_validate :: "document_sign \<Rightarrow> document_sign act" where
  "docsign_validate ds =
    (let ds1 = (if ds_status ds = None then ds\<lparr>ds_status := Some Draft\<rparr> else ds) in
     if \<not> truthy (ds_profile ds1) then ret ds1
     else
       let p = or_str (ds_profile ds1) '''' in
       bind (db_gets (\<lambda>d. row (t_profiles d) p)) (\<lambda>found.
       case found of
         None \<Rightarrow> ret ds1
       | Some pf \<Rightarrow>
          seq (throw_if (\<not> pf_is_active pf) (ValidationError
            (''DSC Profile '' @ quoted (if pf_profile_name pf = '''' then p else pf_profile_name pf) @ '' is not active.'')))
          (ret ds1)))"

definition open_request_for :: "string \<Rightarrow> signing_request \<Rightarrow> bool" where
  "open_request_for n r \<longleftrightarrow> sr_source_doctype r = ''DSC Document Sign'' \<and> sr_source_name r = n
    \<and> (sr_status r = Pending \<or> sr_status r = In_Progress)"

text \<open>Returns the name of the request that is open already, or creates one and links it.\<close>

definition create_docsign_request :: "env \<Rightarrow> string \<Rightarrow> document_sign \<Rightarrow> string act" where
  "create_docsign_request E n ds =
    bind (find_doc E ''DSC Signing Request'' t_requests (open_request_for n)) (\<lambda>existing.
    case existing of
      Some m \<Rightarrow> ret m
    | None \<Rightarrow>
       bind (now_datetime E) (\<lambda>t.
       bind (insert_request E ((blank_request ''DSC Document Sign'' n (or_str (ds_profile ds) ''''))
              \<lparr>sr_signature_template := (if truthy (ds_signature_template ds) then ds_signature_template ds else None),
               sr_expected_signer_user := Some (e_user E), sr_created_on := Some t\<rparr>)) (\<lambda>m.
       seq (set_docsign n (\<lambda>s. s\<lparr>ds_signing_request := Some m\<rparr>))
       (seq (set_docsign n (\<lambda>s. s\<lparr>ds_status := Some (Mirrors Pending)\<rparr>))
       (ret m)))))"

definition ready_to_sign :: "document_sign \<Rightarrow> bool" where
  "ready_to_sign ds \<longleftrightarrow> truthy (ds_uploaded_pdf ds) \<and> truthy (ds_profile ds)
    \<and> ds_sig_width ds \<noteq> 0 \<and> ds_sig_height ds \<noteq> 0"

definition docsign_on_update :: "env \<Rightarrow> string \<Rightarrow> document_sign \<Rightarrow> unit act" where
  "docsign_on_update E n ds =
    (if ds_status ds \<noteq> Some Draft then ret ()
     else if \<not> ready_to_sign ds then ret ()
     else bind (create_docsign_request E n ds) (\<lambda>_. ret ()))"

text \<open>The framework's save and insert with these hooks in place.\<close>

definition save_docsign :: "env \<Rightarrow> string \<Rightarrow> document_sign \<Rightarrow> unit act" where
  "save_docsign E n ds =
    bind (get_doc ''DSC Document Sign'' t_docsigns n) (\<lambda>_.
    bind (docsign_validate ds) (\<lambda>ds1.
    seq (set_docsign n (\<lambda>_. ds1))
    (docsign_on_update E n ds1)))"

definition insert_docsign :: "env \<Rightarrow> document_sign \<Rightarrow> string act" where
  "insert_docsign E ds =
    bind (new_name E ''DSC Document Sign'' t_docsigns) (\<lambda>n.
    bind (docsign_validate ds) (\<lambda>ds1.
    bind (insert_row ''DSC Document Sign'' t_docsigns (\<lambda>u d. d\<lparr>t_docsigns := u (t_docsigns d)\<rparr>) n ds1) (\<lambda>_.
    seq (docsign_on_update E n ds1)
    (ret n))))"

section \<open>What saving a template does\<close>

definition used :: "world \<Rightarrow> string \<Rightarrow> bool" where
  "used w n \<longleftrightarrow> (\<exists>m r. row (t_requests (w_db w)) m = Some r \<and> uses_template n r)"

lemma has_history_run:
  assumes "scan_sound E" and "unique_names (t_requests (w_db w))"
  shows "has_signing_history E n w = (Inr (used w n), w)"
proof -
  obtain x where x: "find_doc E ''DSC Signing Request'' t_requests (uses_template n) w = (Inr x, w)"
    by (simp add: find_doc_run)
  have "x \<noteq> None \<longleftrightarrow> used w n"
  proof (cases x)
    case None
    with x find_doc_none [where T = t_requests and P = "uses_template n", OF _ assms] show ?thesis
      by (auto simp: used_def)
  next
    case (Some m)
    obtain r where "row (t_requests (w_db w)) m = Some r" "uses_template n r"
      by (rule find_doc_some [where T = t_requests, OF x [unfolded Some] assms])
    with Some show ?thesis by (auto simp: used_def)
  qed
  with x show ?thesis by (simp add: has_signing_history_def)
qed

definition new_version :: "signature_template \<Rightarrow> signature_template \<Rightarrow> signature_template" where
  "new_version t previous = copy_versioned t default_template
      \<lparr>st_template_name := version_name previous, st_version := next_version previous, st_is_active := True\<rparr>"

lemma fork_run:
  "fork_new_version t previous w =
    (case row (t_templates (w_db w)) (version_name previous) of
       Some x \<Rightarrow> (Inl (DuplicateEntryError ''DSC Signature Template'' (version_name previous)), w)
     | None \<Rightarrow> (Inr (version_name previous), w\<lparr>w_db := (w_db w)\<lparr>t_templates := add_row (version_name previous)
         (if next_version previous = 0 then (new_version t previous)\<lparr>st_version := 1\<rparr> else new_version t previous)
         (t_templates (w_db w))\<rparr>\<rparr>))"
  by (simp add: fork_new_version_def insert_template_def new_version_def copy_versioned_def prim_runs split: option.split)

text \<open>Every branch of a save: an unused or unchanged template is written in place; otherwise the
  edits go to a new version and the old content is kept, inactive, unless the new version's name
  is taken, which refuses the save.\<close>

lemma save_template_run:
  assumes "scan_sound E" and "unique_names (t_requests (w_db w))"
    and "row (t_templates (w_db w)) n = Some previous" and "save_template E n t w = (res, w')"
  shows "if \<not> used w n \<or> \<not> versioned_fields_changed t previous
    then res = Inr () \<and> t_templates (w_db w') = update_row n (\<lambda>_. t) (t_templates (w_db w))
    else if row (t_templates (w_db w)) (version_name previous) = None
    then res = Inr () \<and> (\<exists>v. t_templates (w_db w') = update_row n (\<lambda>_. (copy_versioned previous t)\<lparr>st_is_active := False\<rparr>)
        (add_row (version_name previous) ((new_version t previous)\<lparr>st_version := v\<rparr>) (t_templates (w_db w)))
        \<and> (next_version previous \<noteq> 0 \<longrightarrow> v = next_version previous))
    else res = Inl (DuplicateEntryError ''DSC Signature Template'' (version_name previous)) \<and> w' = w"
proof -
  have hist: "has_signing_history E n w = (Inr (used w n), w)" by (rule has_history_run [OF assms(1,2)])
  show ?thesis
  proof (cases "used w n \<and> versioned_fields_changed t previous")
    case False
    with assms(3,4) hist show ?thesis
      by (cases "used w n") (simp_all add: save_template_def template_before_save_def get_doc_run db_modify_def, auto)
  next
    case True
    show ?thesis
    proof (cases "row (t_templates (w_db w)) (version_name previous)")
      case None
      obtain v where v: "(if next_version previous = 0 then (new_version t previous)\<lparr>st_version := 1\<rparr> else new_version t previous)
          = (new_version t previous)\<lparr>st_version := v\<rparr>" "next_version previous \<noteq> 0 \<longrightarrow> v = next_version previous"
      proof (cases "next_version previous = 0")
        case False
        then show thesis by (intro that [of "next_version previous"]) (simp_all add: new_version_def copy_versioned_def)
      qed (auto intro: that [of 1])
      have "fork_new_version t previous w = (Inr (version_name previous), w\<lparr>w_db := (w_db w)\<lparr>t_templates :=
          add_row (version_name previous) ((new_version t previous)\<lparr>st_version := v\<rparr>) (t_templates (w_db w))\<rparr>\<rparr>)"
        by (simp add: fork_run None v(1))
      with True assms(3,4) hist None v(2) show ?thesis
        by (auto simp: save_template_def template_before_save_def get_doc_run db_modify_def msgprint_def)
    next
      case (Some x)
      with True assms(3,4) hist show ?thesis
        by (auto simp: save_template_def template_before_save_def get_doc_run fork_run)
    qed
  qed
qed

lemma save_template_requests: "keeps (same requests) (save_template E n t)"
  unfolding save_template_def template_before_save_def fork_new_version_def insert_template_def msgprint_def
    has_signing_history_def
  by (intro keeps_requests keeps_requests_insert keeps_requests_modify)
    (simp_all add: keeps_def same_def requests_def)

fun save_templates :: "env \<Rightarrow> (string \<times> signature_template) list \<Rightarrow> world \<Rightarrow> world" where
  "save_templates E [] w = w"
| "save_templates E ((n, t) # edits) w = save_templates E edits (snd (save_template E n t w))"

lemma versioned_copy [simp]:
  "versioned_values ((copy_versioned src dst)\<lparr>st_is_active := a\<rparr>) = versioned_values src"
  "st_fields ((copy_versioned src dst)\<lparr>st_is_active := a\<rparr>) = st_fields src"
  by (simp_all add: versioned_values_def copy_versioned_def)

lemma save_template_keeps_used:
  assumes "scan_sound E" and "unique_names (t_requests (w_db w))" and "used w n"
    and "row (t_templates (w_db w)) n = Some t"
  shows "\<exists>t'. row (t_templates (w_db (snd (save_template E m x w)))) n = Some t'
    \<and> versioned_values t' = versioned_values t \<and> st_fields t' = st_fields t"
proof (cases "row (t_templates (w_db w)) m")
  case None
  with assms(4) show ?thesis by (simp add: save_template_def get_doc_def)
next
  case (Some previous)
  obtain res w' where run: "save_template E m x w = (res, w')" by fastforce
  from save_template_run [OF assms(1,2) Some run] assms(3,4) Some run show ?thesis
    by (cases "m = n") (auto simp: versioned_fields_changed_def split: if_splits)
qed

text \<open>C36: a template that a signing request refers to stays reproducible: whatever edits of
  whatever templates are saved, in any order and with any outcome, it keeps its print format, its
  stamp settings and the positions of its fields.\<close>

theorem used_template_reproducible:
  assumes "scan_sound E" and "unique_names (t_requests (w_db w))"
    and "row (t_requests (w_db w)) k = Some r" and "sr_signature_template r = Some n"
    and "row (t_templates (w_db w)) n = Some t"
  shows "\<exists>t'. row (t_templates (w_db (save_templates E edits w))) n = Some t'
    \<and> versioned_values t' = versioned_values t \<and> st_fields t' = st_fields t"
  using assms(2-)
proof (induction edits arbitrary: w t)
  case (Cons e edits)
  obtain m x where e: "e = (m, x)" by fastforce
  let ?w = "snd (save_template E m x w)"
  have "requests ?w = requests w"
    using keepsD [OF save_template_requests] by (auto simp: same_def)
  then have req: "unique_names (t_requests (w_db ?w))" "row (t_requests (w_db ?w)) k = Some r"
    using Cons.prems by (simp_all add: requests_def)
  have "used w n" using Cons.prems by (auto simp: used_def uses_template_def)
  from save_template_keeps_used [OF assms(1) Cons.prems(1) this Cons.prems(4)] obtain t1 where
    "row (t_templates (w_db ?w)) n = Some t1" "versioned_values t1 = versioned_values t" "st_fields t1 = st_fields t"
    by blast
  with Cons.IH [OF req Cons.prems(3), of t1] show ?case by (simp add: e)
qed simp

text \<open>C37: the first edit of a template in use goes to a new active version with the next version
  number, the original being deactivated; a second edit of the original is refused, because the
  new version would get the name of the first one, and changes nothing.\<close>

theorem template_forks_once:
  assumes "scan_sound E" and "unique_names (t_requests (w_db w))"
    and "row (t_requests (w_db w)) k = Some r" and "sr_signature_template r = Some n"
    and "row (t_templates (w_db w)) n = Some previous" and "versioned_fields_changed t previous"
    and "st_version previous > 0" and "row (t_templates (w_db w)) (version_name previous) = None"
    and "st_template_name t' = st_template_name previous" and "versioned_fields_changed t' previous"
    and "st_version t = st_version previous" and "st_template_name t = st_template_name previous"
  shows "\<exists>w' v old. save_template E n t w = (Inr (), w')
    \<and> row (t_templates (w_db w')) (version_name previous) = Some v
    \<and> versioned_values v = versioned_values t \<and> st_fields v = st_fields t
    \<and> st_is_active v \<and> st_version v = st_version previous + 1
    \<and> row (t_templates (w_db w')) n = Some old \<and> \<not> st_is_active old
    \<and> versioned_values old = versioned_values previous
    \<and> save_template E n t' w' = (Inl (DuplicateEntryError ''DSC Signature Template'' (version_name previous)), w')"
proof -
  have used: "used w n" using assms(3,4) by (auto simp: used_def uses_template_def)
  obtain res w' where run: "save_template E n t w = (res, w')" by fastforce
  have "n \<noteq> version_name previous" using assms(5,8) by auto
  let ?old = "(copy_versioned previous t)\<lparr>st_is_active := False\<rparr>"
  from save_template_run [OF assms(1,2,5) run] used assms(6,7,8) have ok: "res = Inr ()" and
    tt: "t_templates (w_db w') = update_row n (\<lambda>_. ?old)
        (add_row (version_name previous) ((new_version t previous)\<lparr>st_version := next_version previous\<rparr>) (t_templates (w_db w)))"
    by (auto simp: next_version_def split: if_splits)
  have rows: "row (t_templates (w_db w')) n = Some ?old"
    "row (t_templates (w_db w')) (version_name previous) = Some ((new_version t previous)\<lparr>st_version := next_version previous\<rparr>)"
    using assms(5,8) \<open>n \<noteq> version_name previous\<close> by (simp_all add: tt)
  have "requests w' = requests w" using keeps_same_runD [OF save_template_requests run] .
  then have req: "unique_names (t_requests (w_db w'))" "used w' n"
    using assms(2) used by (simp_all add: requests_def used_def)
  obtain res2 w2 where run2: "save_template E n t' w' = (res2, w2)" by fastforce
  have name: "version_name ?old = version_name previous" "versioned_fields_changed t' ?old"
    using assms(10-12) by (simp_all add: version_name_def next_version_def copy_versioned_def versioned_fields_changed_def
        versioned_values_def)
  with save_template_run [OF assms(1) req(1) rows(1) run2] req(2) rows(2) run2
  have "save_template E n t' w' = (Inl (DuplicateEntryError ''DSC Signature Template'' (version_name previous)), w')"
    by simp
  moreover let ?new = "(new_version t previous)\<lparr>st_version := next_version previous\<rparr>"
  have "versioned_values ?new = versioned_values t" "st_fields ?new = st_fields t" "st_is_active ?new"
    "st_version ?new = st_version previous + 1"
    using assms(7) by (simp_all add: new_version_def copy_versioned_def versioned_values_def next_version_def)
  moreover have "\<not> st_is_active ?old" "versioned_values ?old = versioned_values previous" by simp_all
  ultimately show ?thesis using rows ok run by blast
qed

section \<open>What saving an uploaded document does\<close>

definition docsign_request :: "env \<Rightarrow> world \<Rightarrow> string \<Rightarrow> document_sign \<Rightarrow> signing_request" where
  "docsign_request E w n ds =
    (blank_request ''DSC Document Sign'' n (or_str (ds_profile ds) ''''))
      \<lparr>sr_signature_template := (if truthy (ds_signature_template ds) then ds_signature_template ds else None),
       sr_expected_signer_user := Some (e_user E), sr_created_on := Some (e_clock E (Suc (w_tick w))),
       sr_creation := e_clock E (Suc (Suc (w_tick w))), sr_modified := e_clock E (Suc (Suc (w_tick w)))\<rparr>"

lemma create_docsign_cases:
  assumes "scan_sound E" and "unique_names (requests w)"
  obtains (existing) m r where "create_docsign_request E n ds w = (Inr m, w)"
      "row (requests w) m = Some r" "open_request_for n r"
  | (created) m w' where "create_docsign_request E n ds w = (Inr m, w')" "row (requests w) m = None"
      "\<forall>k s. row (requests w) k = Some s \<longrightarrow> \<not> open_request_for n s"
      "requests w' = add_row m (docsign_request E w n ds) (requests w)"
      "t_docsigns (w_db w') = update_row n (\<lambda>s. s\<lparr>ds_status := Some (Mirrors Pending)\<rparr>)
        (update_row n (\<lambda>s. s\<lparr>ds_signing_request := Some m\<rparr>) (t_docsigns (w_db w)))"
  | (refused) e w' where "create_docsign_request E n ds w = (Inl e, w')" "requests w' = requests w"
      "row (requests w) (e_new_name E ''DSC Signing Request'' (map fst (requests w))) \<noteq> None"
proof -
  obtain x where f: "find_doc E ''DSC Signing Request'' t_requests (open_request_for n) w = (Inr x, w)"
    by (simp add: find_doc_run)
  show thesis
  proof (cases x)
    case (Some m)
    from find_doc_some [OF f [unfolded Some] assms(1)] assms(2) obtain r where
      "row (requests w) m = Some r" "open_request_for n r" by (auto simp: requests_def)
    moreover have "create_docsign_request E n ds w = (Inr m, w)"
      using f Some by (simp add: create_docsign_request_def)
    ultimately show thesis by (intro existing)
  next
    case None
    let ?w = "w\<lparr>w_tick := Suc (w_tick w)\<rparr>"
    let ?m = "e_new_name E ''DSC Signing Request'' (map fst (requests ?w))"
    let ?r = "(blank_request ''DSC Document Sign'' n (or_str (ds_profile ds) ''''))
              \<lparr>sr_signature_template := (if truthy (ds_signature_template ds) then ds_signature_template ds else None),
               sr_expected_signer_user := Some (e_user E), sr_created_on := Some (e_clock E (w_tick w))\<rparr>"
    have pending: "sr_status ?r = Pending" by (simp add: blank_request_def)
    have run: "create_docsign_request E n ds w = bind (insert_request E ?r) (\<lambda>m.
       seq (set_docsign n (\<lambda>s. s\<lparr>ds_signing_request := Some m\<rparr>))
       (seq (set_docsign n (\<lambda>s. s\<lparr>ds_status := Some (Mirrors Pending)\<rparr>))
       (ret m))) ?w"
      using f None by (simp add: create_docsign_request_def now_datetime_run)
    show thesis
    proof (cases "row (requests ?w) ?m")
      case (Some s)
      then show thesis
        by (intro refused [of _ "?w\<lparr>w_tick := Suc (Suc (w_tick ?w))\<rparr>"])
          (simp_all add: run insert_request_taken [OF pending Some refl], simp_all add: requests_def)
    next
      case none: None
      have new: "\<forall>k s. row (requests w) k = Some s \<longrightarrow> \<not> open_request_for n s"
        using find_doc_none [OF f [unfolded None] assms(1)] assms(2) by (auto simp: requests_def)
      let ?w1 = "?w\<lparr>w_tick := Suc (Suc (w_tick ?w)), w_db := (w_db ?w)\<lparr>t_requests := add_row ?m
        (docsign_request E w n ds) (requests ?w)\<rparr>\<rparr>"
      have ins: "insert_request E ?r ?w = (Inr ?m, ?w1)"
        using insert_request_fresh [OF pending none refl] by (simp add: docsign_request_def)
      have "create_docsign_request E n ds w = (Inr ?m, snd (set_docsign n (\<lambda>s. s\<lparr>ds_status := Some (Mirrors Pending)\<rparr>)
          (snd (set_docsign n (\<lambda>s. s\<lparr>ds_signing_request := Some ?m\<rparr>) ?w1))))"
        unfolding run by (simp only: run_bind ins prod.case sum.case) (simp add: set_quietly_run)
      then show thesis
        by (rule created [OF _ _ new]) (use none in \<open>simp_all add: set_quietly_run requests_def\<close>)
    qed
  qed
qed

definition one_open_request :: "signing_request table \<Rightarrow> bool" where
  "one_open_request t \<longleftrightarrow> unique_names t
    \<and> (\<forall>k n m r s. row t n = Some r \<and> row t m = Some s \<and> open_request_for k r \<and> open_request_for k s \<longrightarrow> n = m)"

lemma open_request_name: "open_request_for k r \<Longrightarrow> open_request_for n r \<Longrightarrow> k = n"
  by (auto simp: open_request_for_def)

lemma create_docsign_keeps_one:
  assumes "scan_sound E"
  shows "keeps (preserves (\<lambda>w. one_open_request (requests w))) (create_docsign_request E n ds)"
proof (rule keepsI, unfold preserves_def, rule impI)
  fix w assume ok: "one_open_request (requests w)"
  then have u: "unique_names (requests w)" by (simp add: one_open_request_def)
  show "one_open_request (requests (snd (create_docsign_request E n ds w)))"
  proof (rule create_docsign_cases [OF assms u, of n ds], goal_cases)
    case created: (2 m w')
    let ?r = "docsign_request E w n ds"
    have r: "open_request_for k ?r \<Longrightarrow> k = n" for k
      by (auto simp: open_request_for_def docsign_request_def blank_request_def)
    have "unique_names (add_row m ?r (requests w))"
      using u created(2) by (rule tbl.unique_add)
    moreover have "a = b" if ab: "row (add_row m ?r (requests w)) a = Some x" "row (add_row m ?r (requests w)) b = Some y"
      "open_request_for k x" "open_request_for k y" for a b x y k
    proof -
      have row: "row (add_row m ?r (requests w)) c = (if c = m then Some ?r else row (requests w) c)" for c
        using tbl.lookup_add [OF created(2)] by simp
      have old: "\<not> open_request_for n s" if "row (requests w) c = Some s" for c s
        using created(3) that by blast
      consider "a = m" "b = m" | "a = m" "b \<noteq> m" | "a \<noteq> m" "b = m" | "a \<noteq> m" "b \<noteq> m" by blast
      then show "a = b"
      proof cases
        case 2
        have "x = ?r" using ab(1) 2(1) by (simp only: row if_True option.inject simp_thms)
        with r ab(3) have "k = n" by blast
        moreover have "row (requests w) b = Some y" using ab(2) 2(2) by (simp only: row if_False)
        ultimately show ?thesis using old ab(4) by blast
      next
        case 3
        have "y = ?r" using ab(2) 3(2) by (simp only: row if_True option.inject simp_thms)
        with r ab(4) have "k = n" by blast
        moreover have "row (requests w) a = Some x" using ab(1) 3(1) by (simp only: row if_False)
        ultimately show ?thesis using old ab(3) by blast
      next
        case 4
        then have "row (requests w) a = Some x" "row (requests w) b = Some y" using ab by (simp_all only: row if_False)
        with ok ab(3,4) show ?thesis unfolding one_open_request_def by blast
      qed simp
    qed
    ultimately have "one_open_request (add_row m ?r (requests w))" unfolding one_open_request_def by blast
    then show ?thesis by (simp only: created(1,4) snd_conv)
  qed (use ok in simp_all)
qed

lemma keeps_requests_validate_docsign [keeps_requests]: "keeps (same requests) (docsign_validate ds)"
  unfolding docsign_validate_def Let_def by (intro keeps_requests)

lemma save_docsign_keeps_one:
  assumes "scan_sound E"
  shows "keeps (preserves (\<lambda>w. one_open_request (requests w))) (save_docsign E n ds)"
    and "keeps (preserves (\<lambda>w. one_open_request (requests w))) (insert_docsign E ds)"
proof -
  have upd: "keeps (preserves (\<lambda>w. one_open_request (requests w))) (docsign_on_update E m x)" for m x
    unfolding docsign_on_update_def by (intro inv.keeps_intros create_docsign_keeps_one assms)
  have ins: "keeps (same requests) (insert_row dt t_docsigns (\<lambda>u d. d\<lparr>t_docsigns := u (t_docsigns d)\<rparr>) m x)" for dt m x
    by (intro keeps_requests_insert) simp
  show "keeps (preserves (\<lambda>w. one_open_request (requests w))) (save_docsign E n ds)"
    unfolding save_docsign_def by (intro inv.keeps_intros upd requests_preserves keeps_requests)
  show "keeps (preserves (\<lambda>w. one_open_request (requests w))) (insert_docsign E ds)"
    unfolding insert_docsign_def by (intro inv.keeps_intros upd requests_preserves keeps_requests ins)
qed

fun save_docsigns :: "env \<Rightarrow> (string \<times> document_sign) list \<Rightarrow> world \<Rightarrow> world" where
  "save_docsigns E [] w = w"
| "save_docsigns E ((n, ds) # edits) w = save_docsigns E edits (snd (save_docsign E n ds w))"

text \<open>C38: however often uploaded documents are saved, in whatever state and with whatever
  outcome, no document ever gets a second open (Pending or In Progress) signing request.\<close>

theorem docsign_one_open_request:
  assumes "scan_sound E" and "one_open_request (t_requests (w_db w))"
  shows "one_open_request (t_requests (w_db (save_docsigns E edits w)))"
  using assms(2)
proof (induction edits arbitrary: w)
  case (Cons e edits)
  obtain n ds where e: "e = (n, ds)" by fastforce
  have "one_open_request (requests (snd (save_docsign E n ds w)))"
    using keepsD [OF save_docsign_keeps_one(1) [OF assms(1)], of w n ds] Cons.prems
    by (simp add: preserves_def requests_def)
  with Cons.IH show ?case by (simp add: requests_def e)
qed simp

text \<open>C39: saving a draft that has a PDF, a placed box and an active profile, when no request of it
  is open, creates one: Pending, expecting the user who saved it, linked from the document, whose
  status becomes Pending; an inactive profile refuses the save and writes nothing.\<close>

theorem docsign_save_creates:
  assumes "scan_sound E" and "unique_names (t_requests (w_db w))" and "fresh_names E"
    and "row (t_docsigns (w_db w)) n = Some old" and "ready_to_sign ds" and "ds_status ds = Some Draft"
    and "ds_profile ds = Some p" and "row (t_profiles (w_db w)) p = Some pf"
    and "\<forall>m r. row (t_requests (w_db w)) m = Some r \<longrightarrow> \<not> open_request_for n r"
  shows "if pf_is_active pf
    then \<exists>w' m r s. save_docsign E n ds w = (Inr (), w') \<and> row (t_requests (w_db w)) m = None
      \<and> t_requests (w_db w') = add_row m r (t_requests (w_db w)) \<and> open_request_for n r \<and> sr_status r = Pending
      \<and> sr_profile r = p \<and> sr_expected_signer_user r = Some (e_user E)
      \<and> row (t_docsigns (w_db w')) n = Some s \<and> ds_signing_request s = Some m \<and> ds_status s = Some (Mirrors Pending)
    else \<exists>e. save_docsign E n ds w = (Inl e, w)"
proof -
  have p: "p \<noteq> ''''" using assms(5,7) by (auto simp: ready_to_sign_def)
  have valid: "docsign_validate ds w = (if pf_is_active pf then (Inr ds, w)
      else (Inl (ValidationError (''DSC Profile '' @ quoted (if pf_profile_name pf = '''' then p else pf_profile_name pf)
        @ '' is not active.'')), w))"
    using assms(6-8) p by (simp add: docsign_validate_def Let_def db_gets_run run_bind run_seq)
  show ?thesis
  proof (cases "pf_is_active pf")
    case False
    with valid assms(4) show ?thesis by (simp add: save_docsign_def get_doc_run)
  next
    case True
    let ?w = "snd (set_docsign n (\<lambda>_. ds) w)"
    have w: "requests ?w = requests w" "unique_names (requests ?w)"
      "row (t_docsigns (w_db ?w)) n = Some ds"
      using assms(2,4) by (simp_all add: set_quietly_run requests_def)
    have run: "save_docsign E n ds w = bind (create_docsign_request E n ds) (\<lambda>_. ret ()) ?w"
      using valid True assms(4-6) by (simp add: save_docsign_def get_doc_run docsign_on_update_def set_quietly_run)
    show ?thesis
    proof (rule create_docsign_cases [OF assms(1) w(2), of n ds], goal_cases)
      case (1 m r)
      with w(1) assms(9) show ?case by (simp add: requests_def)
    next
      case (2 m w')
      let ?r = "docsign_request E ?w n ds"
      have r: "open_request_for n ?r" "sr_status ?r = Pending" "sr_profile ?r = p"
        "sr_expected_signer_user ?r = Some (e_user E)"
        using assms(7) p by (simp_all add: docsign_request_def blank_request_def open_request_for_def)
      have s: "row (t_docsigns (w_db w')) n
          = Some (ds\<lparr>ds_signing_request := Some m, ds_status := Some (Mirrors Pending)\<rparr>)"
        using 2(5) w(3) by simp
      from run 2(1) have "save_docsign E n ds w = (Inr (), w')" by simp
      with 2(2,4) w(1) r s True show ?case unfolding requests_def by auto
    next
      case (3 e w')
      with row_new [OF assms(3), of "requests ?w" "''DSC Signing Request''"] show ?case by simp
    qed
  qed
qed

section \<open>The audit trail\<close>

lemma keeps_trail_template [keeps_trail]:
  "keeps audit_ext (save_template E n t)" "keeps audit_ext (insert_template t)"
  "keeps audit_ext (save_docsign E n ds)" "keeps audit_ext (insert_docsign E ds)"
proof -
  have ins: "keeps audit_ext (insert_row dt t_templates (\<lambda>u d. d\<lparr>t_templates := u (t_templates d)\<rparr>) m a)"
    "keeps audit_ext (insert_row dt t_docsigns (\<lambda>u d. d\<lparr>t_docsigns := u (t_docsigns d)\<rparr>) m b)" for dt m a b
    by (auto intro!: keeps_trail_insert simp: trail_prefix_def names_kept)
  have msg: "keeps audit_ext (msgprint s)" for s
    by (simp add: keeps_def audit_ext_def msgprint_def)
  have val: "keeps audit_ext (docsign_validate x)" for x
    unfolding docsign_validate_def Let_def by (intro keeps_trail)
  have upd: "keeps audit_ext (docsign_on_update E m x)" for m x
    unfolding docsign_on_update_def create_docsign_request_def by (intro keeps_trail)
  show 1: "keeps audit_ext (insert_template t)" for t
    unfolding insert_template_def by (intro ins)
  show "keeps audit_ext (save_template E n t)"
    unfolding save_template_def template_before_save_def has_signing_history_def fork_new_version_def
    by (intro keeps_trail keeps_trail_db 1 msg) (simp_all add: names_kept)
  show "keeps audit_ext (save_docsign E n ds)"
    unfolding save_docsign_def by (intro keeps_trail val upd)
  show "keeps audit_ext (insert_docsign E ds)"
    unfolding insert_docsign_def by (intro keeps_trail val upd ins)
qed

end
