(* ===== verification/Hooks.thy ===== *)
theory Hooks
  imports Rules Gates Maintenance
begin

text \<open>
  What \<open>hooks.py\<close> registers when the application is loaded: the document types the rule engine
  listens to, the handler of each document event, and the scheduled jobs.
\<close>

section \<open>Tracked document types\<close>

definition DEFAULT_TRACKED_DOCTYPES :: "string list" where
  "DEFAULT_TRACKED_DOCTYPES =
    [''Sales Invoice'', ''Purchase Invoice'', ''Sales Order'', ''Purchase Order'', ''Quotation'',
     ''Delivery Note'', ''Stock Entry'', ''Material Request'', ''Journal Entry'', ''Payment Entry'']"

text \<open>The rows of \<open>SELECT DISTINCT target_doctype\<close> over the enabled rules, in some order.\<close>

definition configured_doctypes :: "db \<Rightarrow> string list" where
  "configured_doctypes d = filter (\<lambda>dt. dt \<noteq> '''')
    (remdups (map (\<lambda>(n, r). ru_target_doctype r) (filter (\<lambda>(n, r). ru_is_enabled r) (t_rules d))))"

text \<open>None stands for a process without a database connection, an error for a query that
  raised; Python sorts strings by code point.\<close>

definition get_tracked_doctypes :: "(error + db) option \<Rightarrow> string list" where
  "get_tracked_doctypes connection =
    (case connection of
       Some (Inr d) \<Rightarrow> sort (remdups (DEFAULT_TRACKED_DOCTYPES @ configured_doctypes d))
     | _ \<Rightarrow> DEFAULT_TRACKED_DOCTYPES)"

section \<open>Document events\<close>

datatype handler = Rule_Handler doc_event | Protect_File

definition RULE_ENGINE_EVENTS :: "(string \<times> handler) list" where
  "RULE_ENGINE_EVENTS =
    [(''on_submit'', Rule_Handler Submitted), (''on_update_after_submit'', Rule_Handler Updated),
     (''on_change'', Rule_Handler Changed)]"

definition doc_events :: "(error + db) option \<Rightarrow> (string \<times> (string \<times> handler) list) list" where
  "doc_events connection =
    AList.update ''File'' [(''before_delete'', Protect_File)]
      (map (\<lambda>dt. (dt, RULE_ENGINE_EVENTS)) (get_tracked_doctypes connection))"

definition handler_for :: "(string \<times> (string \<times> handler) list) list \<Rightarrow> string \<Rightarrow> string \<Rightarrow> handler option" where
  "handler_for events doctype event = Option.bind (map_of events doctype) (\<lambda>hs. map_of hs event)"

text \<open>The framework runs the handler registered for a document's type and the event. A file
  that is being deleted goes to \<open>delete_file\<close>.\<close>

definition fire_event ::
  "env \<Rightarrow> rule_env \<Rightarrow> (string \<times> (string \<times> handler) list) list \<Rightarrow> string \<Rightarrow> source_doc \<Rightarrow> unit act" where
  "fire_event E Q events event doc =
    (case handler_for events (do_doctype doc) event of
       Some (Rule_Handler ev) \<Rightarrow> on_event E Q (ev, doc)
     | _ \<Rightarrow> ret ())"

section \<open>Scheduled jobs\<close>

datatype job = Notify_Upcoming_Expiries | Purge_Old_Requests | Expire_Stale_Requests

definition scheduler_events :: "(string \<times> job list) list" where
  "scheduler_events =
    [(''daily'', [Notify_Upcoming_Expiries, Purge_Old_Requests]), (''hourly'', [Expire_Stale_Requests])]"

fun run_job :: "env \<Rightarrow> (datetime \<Rightarrow> int \<Rightarrow> datetime) \<Rightarrow> job \<Rightarrow> unit act" where
  "run_job E add_years Notify_Upcoming_Expiries = notify_upcoming_expiries E"
| "run_job E add_years Purge_Old_Requests = purge_old_requests E add_years"
| "run_job E add_years Expire_Stale_Requests = expire_stale_pending_requests E"

section \<open>What the rule engine hears\<close>

lemma map_of_tracked:
  "map_of (map (\<lambda>dt. (dt, x)) dts) dt = (if dt \<in> set dts then Some x else None)"
  by (induction dts) auto

lemma set_tracked:
  "set (get_tracked_doctypes (Some (Inr d))) = set DEFAULT_TRACKED_DOCTYPES
    \<union> {ru_target_doctype r | n r. (n, r) \<in> set (t_rules d) \<and> ru_is_enabled r \<and> ru_target_doctype r \<noteq> ''''}"
  by (auto simp: get_tracked_doctypes_def configured_doctypes_def)

lemma handler_for_tracked:
  "handler_for (doc_events c) dt ev =
    (if dt = ''File'' then (if ev = ''before_delete'' then Some Protect_File else None)
     else if dt \<in> set (get_tracked_doctypes c) then map_of RULE_ENGINE_EVENTS ev else None)"
  by (simp add: handler_for_def doc_events_def AList.update_conv' map_of_tracked)


end
