(* ===== verification/Witnesses_Setup.thy ===== *)
theory Witnesses_Setup
  imports Demo Agent Template Handshake Hooks
begin

text \<open>
  Witnesses for the properties of pairing, certificates, templates, uploaded documents and
  evidence: each theorem applied on the demo site, or on a variation of it given here.
\<close>

lemma run_ok: "\<not> isl (fst m) \<Longrightarrow> \<exists>x w'. m = (Inr x, w')"
  by (cases m) (metis isl_def sum.exhaust_sel fst_conv)

section \<open>Pairing\<close>

definition demo_offer :: pairing_offer where
  "demo_offer = \<lparr>po_pairing_code = ''r'', po_expires_in_seconds = 600, po_site_url = ''s''\<rparr>"

definition demo_offered :: world where
  "demo_offered = snd (generate_pairing_code demo_env None demo_world)"

lemma demo_generates: "generate_pairing_code demo_env None demo_world = (Inr demo_offer, demo_offered)"
  by (simp add: generate_pairing_code_def demo_offered_def demo_offer_def public_site_url_def random_token_def
      now_datetime_run cache_set_run PAIRING_TTL_SECONDS_def run_bind run_seq Let_def) (simp add: demo_env_def demo_world_def)

lemma demo_pairs:
  obtains r w' where "validate_pairing_code demo_env ''r'' (Some ''fp'') None None demo_offered = (Inr r, w')"
    "pd_site_token r \<noteq> ''''" "unique_names (t_agents (w_db w'))"
proof -
  let ?run = "validate_pairing_code demo_env ''r'' (Some ''fp'') None None demo_offered"
  have "\<not> isl (fst ?run)" by code_simp
  then obtain r w' where run: "?run = (Inr r, w')" using run_ok by blast
  have "pd_site_token (projr (fst ?run)) \<noteq> '''' \<and> length (t_agents (w_db (snd ?run))) = 1" by code_simp
  with run have "pd_site_token r \<noteq> ''''" "length (t_agents (w_db w')) = 1" by simp_all
  with run that show thesis by (auto simp: length_Suc_conv unique_names_def)
qed

lemma pairing_code_once_witness:
  "\<exists>r w'. validate_pairing_code demo_env ''r'' (Some ''fp'') None None demo_offered = (Inr r, w')
    \<and> validate_pairing_code demo_env ''r'' (Some ''other'') None None w'
      = (Inl invalid_code, w'\<lparr>w_tick := Suc (w_tick w')\<rparr>)"
proof -
  obtain r w' where run: "validate_pairing_code demo_env ''r'' (Some ''fp'') None None demo_offered = (Inr r, w')"
    by (rule demo_pairs)
  from pairing_code_once [OF run] run show ?thesis by simp
qed

lemma pairing_round_trip_witness:
  "\<exists>r w2 n w3. validate_pairing_code demo_env ''r'' (Some ''fp'') None None demo_offered = (Inr r, w2)
    \<and> verify_site_token demo_env (Some (pd_site_token r)) (Some ''fp'') w2 = (Inr (Some n), w3)"
proof -
  obtain r w2 where run: "validate_pairing_code demo_env ''r'' (Some ''fp'') None None demo_offered = (Inr r, w2)"
    and r: "pd_site_token r \<noteq> ''''" "unique_names (t_agents (w_db w2))"
    by (rule demo_pairs)
  have "e_clock demo_env (w_tick demo_offered)
      < e_clock demo_env (Suc (Suc (w_tick demo_world))) + seconds PAIRING_TTL_SECONDS"
    by (simp add: demo_offered_def generate_pairing_code_def random_token_def now_datetime_run cache_set_run
        run_bind run_seq PAIRING_TTL_SECONDS_def seconds_def Let_def) (simp add: demo_env_def demo_world_def seconds_def)
  from pairing_round_trip [OF demo_generates this _ demo_ok(1) refl r(2,1)] run show ?thesis
    by (simp add: demo_offer_def) blast
qed

lemma site_token_sound_witness:
  "\<exists>n w w' a. verify_site_token demo_env (Some ''t'') None w = (Inr (Some n), w')
    \<and> row (t_agents (w_db w)) n = Some a \<and> ag_is_active a"
proof -
  let ?a = "\<lparr>ag_user = ''u'', ag_agent_fingerprint = None, ag_display_name = ''d'', ag_paired_on = 0,
    ag_last_seen_on = 0, ag_is_active = True, ag_os_platform = None, ag_agent_version = None, ag_site_token_hash = ''f''\<rparr>"
  let ?w = "demo_world\<lparr>w_db := demo_db\<lparr>t_agents := [(''N'', ?a)]\<rparr>\<rparr>"
  let ?run = "verify_site_token demo_env (Some ''t'') None ?w"
  have u: "unique_names (t_agents (w_db ?w))" by (simp add: unique_names_def)
  have "fst ?run = Inr (Some ''N'')" by code_simp
  then obtain w' where run: "?run = (Inr (Some ''N''), w')" by (cases ?run) simp
  from site_token_sound [OF demo_ok(1) u run] run show ?thesis by blast
qed

definition demo_cert :: cert_details where
  "demo_cert = \<lparr>cd_subject = \<lparr>cn_native = One_CN ''n'', cn_human_friendly = ''h''\<rparr>,
     cd_issuer = \<lparr>cn_native = No_CN, cn_human_friendly = ''i''\<rparr>, cd_serial = 1,
     cd_not_before = None, cd_not_after = None\<rparr>"

lemma registered_certificate_decides_witness:
  "\<exists>r w'. register_certificate demo_env (\<lambda>der. Inr demo_cert) ''P'' (b64encode ''c'') demo_world = (Inr r, w')
    \<and> \<not> fingerprint_mismatch (expected_fingerprint (w_db w') (demo_request ''b'' In_Progress))
        (presented_fingerprint demo_env ''c'')"
proof -
  let ?run = "register_certificate demo_env (\<lambda>der. Inr demo_cert) ''P'' (b64encode ''c'') demo_world"
  have "\<not> isl (fst ?run)" by code_simp
  then obtain r w' where run: "?run = (Inr r, w')" using run_ok by blast
  have "\<forall>x. e_sha256 demo_env x \<noteq> ''''" by (simp add: demo_env_def)
  with registered_certificate_decides [OF run b64_round_trip, of "demo_request ''b'' In_Progress" "''c''"] run
  show ?thesis by simp
qed

section \<open>Templates and uploaded documents\<close>

definition demo_template :: signature_template where
  "demo_template = default_template\<lparr>st_template_name := ''T''\<rparr>"

definition demo_templates :: world where
  "demo_templates = demo_world\<lparr>w_db := demo_db
    \<lparr>t_requests := [(''A'', (demo_request ''a'' Signed)\<lparr>sr_signature_template := Some ''T''\<rparr>)],
     t_templates := [(''T'', demo_template)]\<rparr>\<rparr>"

lemma demo_templates_rows:
  "unique_names (t_requests (w_db demo_templates))"
  "row (t_requests (w_db demo_templates)) ''A'' = Some ((demo_request ''a'' Signed)\<lparr>sr_signature_template := Some ''T''\<rparr>)"
  "row (t_templates (w_db demo_templates)) ''T'' = Some demo_template"
  "row (t_templates (w_db demo_templates)) (version_name demo_template) = None"
proof -
  show "row (t_templates (w_db demo_templates)) (version_name demo_template) = None" by code_simp
qed (simp_all add: demo_templates_def unique_names_def row_def)

lemma used_template_reproducible_witness:
  "\<exists>t'. row (t_templates (w_db (save_templates demo_env
      [(''T'', demo_template\<lparr>st_stamp_border := \<not> st_stamp_border demo_template\<rparr>)] demo_templates))) ''T'' = Some t'
    \<and> st_stamp_border t' = st_stamp_border demo_template"
proof -
  let ?edits = "[(''T'', demo_template\<lparr>st_stamp_border := \<not> st_stamp_border demo_template\<rparr>)]"
  have "sr_signature_template ((demo_request ''a'' Signed)\<lparr>sr_signature_template := Some ''T''\<rparr>) = Some ''T''" by simp
  from used_template_reproducible [OF demo_ok(1) demo_templates_rows(1,2) this demo_templates_rows(3), of ?edits]
  obtain t' where "row (t_templates (w_db (save_templates demo_env ?edits demo_templates))) ''T'' = Some t'"
    "versioned_values t' = versioned_values demo_template" by blast
  then show ?thesis by (auto simp: versioned_values_def simp del: save_templates.simps)
qed

lemma template_forks_once_witness:
  "\<exists>w' e. save_template demo_env ''T'' (demo_template\<lparr>st_stamp_font_size := 20\<rparr>) demo_templates = (Inr (), w')
    \<and> save_template demo_env ''T'' (demo_template\<lparr>st_stamp_font_size := 30\<rparr>) w' = (Inl e, w')"
proof -
  have "versioned_fields_changed (demo_template\<lparr>st_stamp_font_size := 20\<rparr>) demo_template"
    "versioned_fields_changed (demo_template\<lparr>st_stamp_font_size := 30\<rparr>) demo_template" "st_version demo_template > 0"
    by (simp_all add: versioned_fields_changed_def versioned_values_def demo_template_def default_template_def)
  from template_forks_once [OF demo_ok(1) demo_templates_rows(1,2) _ demo_templates_rows(3) this(1,3)
    demo_templates_rows(4) _ this(2)]
  obtain w' where "save_template demo_env ''T'' (demo_template\<lparr>st_stamp_font_size := 20\<rparr>) demo_templates = (Inr (), w')"
    "save_template demo_env ''T'' (demo_template\<lparr>st_stamp_font_size := 30\<rparr>) w'
      = (Inl (DuplicateEntryError ''DSC Signature Template'' (version_name demo_template)), w')"
    by (auto simp del: version_name_def)
  then show ?thesis by blast
qed

definition demo_docsign :: document_sign where
  "demo_docsign = \<lparr>ds_uploaded_pdf = Some ''U'', ds_profile = Some ''P'', ds_signature_template = None,
    ds_sig_page = 1, ds_sig_x = 0, ds_sig_y = 0, ds_sig_width = 1, ds_sig_height = 1, ds_status = Some Draft,
    ds_signing_request = None, ds_signed_file = None\<rparr>"

definition demo_uploads :: world where
  "demo_uploads = demo_world\<lparr>w_db := demo_db\<lparr>t_docsigns := [(''V'', demo_docsign)]\<rparr>\<rparr>"

lemma demo_uploads_rows: "t_requests (w_db demo_uploads) = t_requests (w_db demo_world)"
  by (simp add: demo_uploads_def demo_world_def)

lemma demo_none_open: "\<not> open_request_for n r" if "row (t_requests (w_db demo_world)) m = Some r"
  using that by (auto simp: demo_rows open_request_for_def split: if_splits)

lemma docsign_one_open_request_witness:
  "one_open_request (t_requests (w_db (save_docsigns demo_env [(''V'', demo_docsign), (''V'', demo_docsign)] demo_uploads)))"
  by (rule docsign_one_open_request [OF demo_ok(1)])
    (use demo_none_open in \<open>auto simp: demo_uploads_rows one_open_request_def demo_ok(2)\<close>)

lemma docsign_save_creates_witness:
  "\<exists>w' m r. save_docsign demo_env ''V'' demo_docsign demo_uploads = (Inr (), w')
    \<and> t_requests (w_db w') = add_row m r (t_requests (w_db demo_uploads)) \<and> open_request_for ''V'' r"
proof -
  have "row (t_docsigns (w_db demo_uploads)) ''V'' = Some demo_docsign" "ready_to_sign demo_docsign"
    "ds_status demo_docsign = Some Draft" "ds_profile demo_docsign = Some ''P''"
    "row (t_profiles (w_db demo_uploads)) ''P'' = Some demo_profile"
    by (simp_all add: demo_uploads_def demo_db_def row_def ready_to_sign_def demo_docsign_def)
  from docsign_save_creates [OF demo_ok(1) _ demo_fresh this] demo_none_open [of _ _ "''V''"] show ?thesis
    by (auto simp: demo_uploads_rows demo_ok(2) demo_profile_def)
qed

end
