(* ===== verification/Witnesses_Evidence.thy ===== *)
theory Witnesses_Evidence
  imports Demo_Runs
begin

text \<open>
  Witnesses for the properties that join the two halves of a signing and the evidence pack: the
  runs are evaluated on the demo site, each once.
\<close>

section \<open>The evidence of a request\<close>

definition demo_event :: audit_event where
  "demo_event = \<lparr>ev_request = ''E'', ev_event_type = ''Request Signed'', ev_occurred_at = Some 1,
    ev_actor_user = None, ev_client_ip = None, ev_user_agent = None, ev_details_json = None, ev_event_hash = None\<rparr>"

definition demo_audited :: world where
  "demo_audited = demo_world\<lparr>w_db := demo_db\<lparr>t_events := [(''X'', demo_event)]\<rparr>\<rparr>"

lemma evidence_pack_complete_witness:
  "\<exists>pack w' evs. export_evidence_pack demo_env ''E'' demo_audited = (Inr pack, w') \<and> set evs = {(''X'', demo_event)}
    \<and> text_member ''audit_trail.json'' (audit_json demo_env ''E'' ((demo_request ''e'' Signed)\<lparr>sr_signed_file := Some ''F''\<rparr>) evs)
        \<in> set (ep_members pack)"
proof -
  have u: "unique_names (t_events (w_db demo_audited))" by (simp add: demo_audited_def unique_names_def)
  have rows: "row (t_events (w_db demo_audited)) k = (if k = ''X'' then Some demo_event else None)"
    "row (t_requests (w_db demo_audited)) ''E'' = Some ((demo_request ''e'' Signed)\<lparr>sr_signed_file := Some ''F''\<rparr>)" for k
    by (simp_all add: demo_audited_def demo_db_def row_def)
  have "\<not> isl (fst (export_evidence_pack demo_env ''E'' demo_audited))" by code_simp
  then obtain pack w' where run: "export_evidence_pack demo_env ''E'' demo_audited = (Inr pack, w')"
    by (cases "export_evidence_pack demo_env ''E'' demo_audited") (metis isl_def sum.exhaust_sel fst_conv)
  from evidence_pack_complete [OF demo_ok(1) u run, unfolded rows(2)] obtain evs where
    "set evs = {(k, ev). row (t_events (w_db demo_audited)) k = Some ev \<and> ev_request ev = ''E''}"
    "text_member ''audit_trail.json'' (audit_json demo_env ''E'' ((demo_request ''e'' Signed)\<lparr>sr_signed_file := Some ''F''\<rparr>) evs)
        \<in> set (ep_members pack)" by blast
  moreover have "{(k, ev). row (t_events (w_db demo_audited)) k = Some ev \<and> ev_request ev = ''E''} = {(''X'', demo_event)}"
    by (auto simp: rows(1) demo_event_def split: if_splits)
  ultimately show ?thesis using run by auto
qed

section \<open>Both halves of a signing\<close>

lemma handshake_binds_hash_witness:
  "\<exists>i w1 r w3 attrs. initiate demo_env demo_pdf demo_geo ''D'' ''a'' (Some (b64encode ''c'')) None None None demo_world = (Inr i, w1)
    \<and> finalize demo_env demo_pdf (in_session_id i) (b64encode ''g'') None JNull None w1 = (Inr r, w3)
    \<and> e_sha256 demo_env attrs = in_hash_to_sign i"
proof -
  from demo_handshake obtain i w1 where i: "initiate demo_env demo_pdf demo_geo ''D'' ''a'' (Some (b64encode ''c'')) None None None demo_world
      = (Inr i, w1)"
    and "\<not> isl (fst (finalize demo_env demo_pdf (in_session_id i) (b64encode ''g'') None JNull None w1))"
    unfolding demo_handshake_def by (auto split: prod.splits sum.splits if_splits)
  then obtain r w3 where f: "finalize demo_env demo_pdf (in_session_id i) (b64encode ''g'') None JNull None w1 = (Inr r, w3)"
    by (cases "finalize demo_env demo_pdf (in_session_id i) (b64encode ''g'') None JNull None w1")
      (metis isl_def sum.exhaust_sel fst_conv)
  from handshake_binds_hash [OF demo_ok(1,2) i refl f] i f show ?thesis by blast
qed

section \<open>A signing and its evidence\<close>

lemma signature_in_evidence_witness:
  "\<exists>r w1 pack w3 out (req :: signing_request). finalize demo_env demo_pdf ''s'' (b64encode ''g'') (Some (b64encode ''c'')) (JList []) None demo_world = (Inr r, w1)
    \<and> export_evidence_pack demo_env (fi_signing_request r) (w1\<lparr>w_db := w_saved w1\<rparr>) = (Inr pack, w3)
    \<and> Member (''signed_'' @ sr_source_name req @ ''.pdf'') (Bytes out) \<in> set (ep_members pack)"
proof -
  from demo_exported obtain r w1 where f:
      "finalize demo_env demo_pdf ''s'' (b64encode ''g'') (Some (b64encode ''c'')) (JList []) None demo_world = (Inr r, w1)"
    and g: "\<not> isl (fst (export_evidence_pack demo_env (fi_signing_request r) (w1\<lparr>w_db := w_saved w1\<rparr>)))"
      "unique_names (t_events (w_db (w1\<lparr>w_db := w_saved w1\<rparr>)))" "list_all (\<lambda>kf. fst kf \<noteq> '''') (t_files (w_saved w1))"
    unfolding demo_exported_def Let_def by (auto split: prod.splits sum.splits if_splits)
  let ?w = "w1\<lparr>w_db := w_saved w1\<rparr>"
  obtain pack w3 where x: "export_evidence_pack demo_env (fi_signing_request r) ?w = (Inr pack, w3)"
    using g(1) by (cases "export_evidence_pack demo_env (fi_signing_request r) ?w") (metis isl_def sum.exhaust_sel fst_conv)
  have files: "\<forall>n. row (t_files (w_db ?w)) n \<noteq> None \<longrightarrow> n \<noteq> ''''"
    using g(3) by (auto simp: row_def list_all_iff dest!: map_of_SomeD)
  have "w_db ?w = w_saved w1" by simp
  from signature_in_evidence [OF f this demo_ok(1) g(2) files x] obtain req :: signing_request and out where
    "Member (''signed_'' @ sr_source_name req @ ''.pdf'') (Bytes out) \<in> set (ep_members pack)" by blast
  with f x show ?thesis by (intro exI conjI)
qed

end
