(* ===== verification/Phases.thy ===== *)
theory Phases
  imports Lifecycle Hooks Agent Template Evidence
begin

text \<open>
  The abstract view of a signing request: its identity, which is what it asks of whom, and the
  phase of its life it is in, with the evidence once it is Signed. \<open>run_moves M\<close> says that an action moves every request along \<open>M\<close> only, in
  the running database and in what it commits; it is a \<open>run_relation\<close>, and the collection
  \<open>keeps_moves\<close> has its rules for the framework's operations and for the handlers.
\<close>

section \<open>Phases\<close>

record evidence =
  ed_signed_file :: "string option"
  ed_signer :: "string option"
  ed_signed_on :: "datetime option"
  ed_signature :: "string option"
  ed_fingerprint :: "string option"

record identity =
  id_doctype :: string
  id_docname :: string
  id_rule :: "string option"
  id_profile :: string
  id_template :: "string option"
  id_expected_signer :: "string option"

datatype phase = Waiting | Started | Complete evidence | Unsuccessful | Withdrawn

type_synonym stage = "identity \<times> phase"

definition evidence_of :: "signing_request \<Rightarrow> evidence" where
  "evidence_of r = \<lparr>ed_signed_file = sr_signed_file r, ed_signer = sr_actual_signer_user r,
    ed_signed_on = sr_signed_on r, ed_signature = sr_signature_bytes r,
    ed_fingerprint = sr_certificate_fingerprint_presented r\<rparr>"

definition phase_of :: "signing_request \<Rightarrow> phase" where
  "phase_of r = (case sr_status r of
     Pending \<Rightarrow> Waiting | In_Progress \<Rightarrow> Started | Signed \<Rightarrow> Complete (evidence_of r)
   | Failed \<Rightarrow> Unsuccessful | Cancelled \<Rightarrow> Withdrawn)"

definition identity_of :: "signing_request \<Rightarrow> identity" where
  "identity_of r = \<lparr>id_doctype = sr_source_doctype r, id_docname = sr_source_name r, id_rule = sr_rule r,
    id_profile = sr_profile r, id_template = sr_signature_template r,
    id_expected_signer = sr_expected_signer_user r\<rparr>"

definition stage_of :: "signing_request \<Rightarrow> stage" where
  "stage_of r = (identity_of r, phase_of r)"

definition stage_at :: "db \<Rightarrow> string \<Rightarrow> stage option" where
  "stage_at d n = map_option stage_of (row (t_requests d) n)"

lemma phase_of_modified [simp]: "phase_of (r\<lparr>sr_modified := t\<rparr>) = phase_of r"
  by (simp add: phase_of_def evidence_of_def split: request_status.split)

text \<open>What the handlers write of a request is not its identity.\<close>

lemma identity_of_updates [simp]:
  "identity_of (r\<lparr>sr_status := a\<rparr>) = identity_of r" "identity_of (r\<lparr>sr_failure_reason := b\<rparr>) = identity_of r"
  "identity_of (r\<lparr>sr_actual_signer_user := c\<rparr>) = identity_of r" "identity_of (r\<lparr>sr_modified := e\<rparr>) = identity_of r"
  "identity_of (r\<lparr>sr_hash_algorithm := b\<rparr>) = identity_of r" "identity_of (r\<lparr>sr_hash_to_be_signed := b\<rparr>) = identity_of r"
  "identity_of (r\<lparr>sr_signature_bytes := b\<rparr>) = identity_of r"
  "identity_of (r\<lparr>sr_certificate_fingerprint_presented := b\<rparr>) = identity_of r"
  "identity_of (r\<lparr>sr_ocsp_response_b64 := b\<rparr>) = identity_of r" "identity_of (r\<lparr>sr_signed_file := b\<rparr>) = identity_of r"
  "identity_of (r\<lparr>sr_created_on := d\<rparr>) = identity_of r" "identity_of (r\<lparr>sr_signed_on := d\<rparr>) = identity_of r"
  "identity_of (r\<lparr>sr_cancelled_on := d\<rparr>) = identity_of r" "identity_of (r\<lparr>sr_sign_duration_seconds := f\<rparr>) = identity_of r"
  "identity_of (r\<lparr>sr_client_ip := b\<rparr>) = identity_of r" "identity_of (r\<lparr>sr_client_user_agent := b\<rparr>) = identity_of r"
  "identity_of (r\<lparr>sr_signer_lat := b\<rparr>) = identity_of r" "identity_of (r\<lparr>sr_signer_lng := b\<rparr>) = identity_of r"
  "identity_of (r\<lparr>sr_signer_accuracy_m := b\<rparr>) = identity_of r" "identity_of (r\<lparr>sr_signer_address := b\<rparr>) = identity_of r"
  "identity_of (r\<lparr>sr_signer_location_provider := b\<rparr>) = identity_of r" "identity_of (r\<lparr>sr_creation := e\<rparr>) = identity_of r"
  by (simp_all add: identity_of_def)

lemma stage_of_modified [simp]: "stage_of (r\<lparr>sr_modified := t\<rparr>) = stage_of r"
  by (simp add: stage_of_def)

lemma phase_of_status:
  "sr_status r = Pending \<Longrightarrow> phase_of r = Waiting" "sr_status r = In_Progress \<Longrightarrow> phase_of r = Started"
  "sr_status r = Failed \<Longrightarrow> phase_of r = Unsuccessful" "sr_status r = Cancelled \<Longrightarrow> phase_of r = Withdrawn"
  by (simp_all add: phase_of_def)

section \<open>Moves\<close>

type_synonym moves = "string \<Rightarrow> stage option \<Rightarrow> stage option \<Rightarrow> bool"

definition moved :: "moves \<Rightarrow> db \<Rightarrow> db \<Rightarrow> bool" where
  "moved M d d' \<longleftrightarrow> (unique_names (t_requests d) \<longrightarrow>
    unique_names (t_requests d') \<and> (\<forall>n. (M n)\<^sup>*\<^sup>* (stage_at d n) (stage_at d' n)))"

lemma moved_refl [simp]: "moved M d d"
  by (simp add: moved_def)

lemma moved_trans: "moved M d d' \<Longrightarrow> moved M d' d'' \<Longrightarrow> moved M d d''"
  by (auto simp: moved_def intro: rtranclp_trans)

lemma moved_same: "t_requests d' = t_requests d \<Longrightarrow> moved M d d'"
  by (simp add: moved_def stage_at_def)

lemma moved_same_left: "t_requests d' = t_requests d \<Longrightarrow> moved M d' x \<longleftrightarrow> moved M d x"
  by (simp add: moved_def stage_at_def)

definition run_moves :: "moves \<Rightarrow> world \<Rightarrow> world \<Rightarrow> bool" where
  "run_moves M w w' \<longleftrightarrow> moved M (w_db w) (w_db w')
    \<and> (w_saved w' = w_saved w \<or> moved M (w_db w) (w_saved w'))"

interpretation moves: run_relation "run_moves M" for M
  by unfold_locales (auto simp: run_moves_def intro: moved_trans)

named_theorems keeps_moves "actions that move requests only as permitted"

declare moves.keeps_intros [keeps_moves]

lemma keeps_moves_same: "keeps (same requests) m \<Longrightarrow> keeps (same w_saved) m \<Longrightarrow> keeps (run_moves M) m"
  by (auto simp: keeps_def same_def requests_def run_moves_def intro: moved_same)

lemma keeps_moves_db: "keeps (same both_dbs) m \<Longrightarrow> keeps (run_moves M) m"
  by (auto simp: keeps_def same_def both_dbs_def run_moves_def)

lemma keeps_moves_modify: "(\<And>d. t_requests (f d) = t_requests d) \<Longrightarrow> keeps (run_moves M) (db_modify f)"
  by (intro keeps_moves_same keeps_requests_modify keeps_saved)

lemma keeps_moves_insert_row:
  "(\<And>u d. t_requests (U u d) = t_requests d) \<Longrightarrow> keeps (run_moves M) (insert_row dt T U n r)"
  by (intro keeps_moves_same keeps_requests_insert keeps_saved)

lemma keeps_moves_prims [keeps_moves]:
  "keeps (run_moves M) (now_datetime E)" "keeps (run_moves M) (unix_time E)"
  "keeps (run_moves M) (random_token E)" "keeps (run_moves M) (call_service E x)"
  "keeps (run_moves M) (log_error s)" "keeps (run_moves M) (db_gets g)"
  "keeps (run_moves M) (get_doc dt T n)" "keeps (run_moves M) (get_all E dt T P)"
  "keeps (run_moves M) (find_doc E dt T P)" "keeps (run_moves M) (new_name E dt T)"
  "keeps (run_moves M) (find_row E dt T P)"
  unfolding find_row_def by (intro keeps_moves_db keeps_db)+

lemma keeps_moves_commit [keeps_moves]: "keeps (run_moves M) commit"
  by (simp add: keeps_def run_moves_def commit_def)

lemma keeps_moves_writes [keeps_moves]:
  "keeps (run_moves M) (set_docsign n g)" "keeps (run_moves M) (set_file n h)"
  "keeps (run_moves M) (set_settings k)" "keeps (run_moves M) (audit E r ty ds)"
  by (intro keeps_moves_same keeps_requests keeps_saved)+

lemma keeps_moves_cache [keeps_moves]:
  "keeps (run_moves M) (cache_get E k)" "keeps (run_moves M) (cache_set E k v i)"
  "keeps (run_moves M) (cache_delete k)" "keeps (run_moves M) (msgprint s)"
  by (simp_all add: keeps_def run_moves_def cache_get_run_map cache_set_run cache_delete_run msgprint_def)

text \<open>A write of a request moves that request at most.\<close>

lemma run_moves_update:
  assumes "\<And>r. row (t_requests (w_db w)) n = Some r \<Longrightarrow> (M n)\<^sup>*\<^sup>* (Some (stage_of r)) (Some (stage_of (f r)))"
  shows "moved M (w_db w) ((w_db w)\<lparr>t_requests := update_row n f (t_requests (w_db w))\<rparr>)"
  using assms
  by (cases "row (t_requests (w_db w)) n") (auto simp: moved_def stage_at_def intro: unique_names_ops)

lemma run_moves_set_request:
  assumes "\<And>r. row (t_requests (w_db w)) n = Some r \<Longrightarrow> (M n)\<^sup>*\<^sup>* (Some (stage_of r)) (Some (stage_of (f r)))"
  shows "run_moves M w (snd (set_request E n f w))"
  using run_moves_update [of w n M "\<lambda>r. (f r)\<lparr>sr_modified := e_clock E (w_tick w)\<rparr>"] assms
  by (simp add: set_request_run run_moves_def)

lemma keeps_moves_set_request:
  "(\<And>r. (M n)\<^sup>*\<^sup>* (Some (stage_of r)) (Some (stage_of (f r)))) \<Longrightarrow> keeps (run_moves M) (set_request E n f)"
  by (intro keepsI run_moves_set_request)

lemma keeps_moves_set_quietly:
  "(\<And>r. (M n)\<^sup>*\<^sup>* (Some (stage_of r)) (Some (stage_of (f r)))) \<Longrightarrow> keeps (run_moves M) (set_request_quietly n f)"
  by (auto simp: keeps_def run_moves_def set_quietly_run intro!: run_moves_update)

lemma keeps_moves_insert_request:
  assumes "sr_status r = Pending" and "\<And>n. M n None (Some (identity_of r, Waiting))"
  shows "keeps (run_moves M) (insert_request E r)"
proof (rule keepsI)
  fix w
  let ?n = "e_new_name E ''DSC Signing Request'' (map fst (requests w))"
  show "run_moves M w (snd (insert_request E r w))"
  proof (cases "row (requests w) ?n")
    case None
    then have "row (t_requests (w_db w)) ?n = None" by (simp add: requests_def)
    then show ?thesis
      using insert_request_fresh [OF assms(1) None refl] assms
      by (auto simp: run_moves_def moved_def stage_at_def stage_of_def phase_of_status requests_def
          intro: unique_names_ops split: option.split)
  qed (simp add: insert_request_taken [OF assms(1) _ refl] run_moves_def)
qed

text \<open>A read before the write gives what is known of the rows; without unique names there is
  nothing to show.\<close>

lemma run_moves_not_unique: "\<not> unique_names (requests w) \<Longrightarrow> run_moves M w w'"
  by (simp add: run_moves_def moved_def requests_def)

lemma run_moves_after:
  assumes "keeps (same requests) m" and "keeps (same w_saved) m"
    and "\<And>x w1. m w = (Inr x, w1) \<Longrightarrow> requests w1 = requests w \<Longrightarrow> run_moves M w1 (snd (f x w1))"
  shows "run_moves M w (snd (bind m f w))"
proof -
  obtain r w1 where m: "m w = (r, w1)" by fastforce
  have w1: "requests w1 = requests w" "w_saved w1 = w_saved w"
    using keeps_same_runD [OF assms(1) m] keeps_same_runD [OF assms(2) m] by simp_all
  show ?thesis
  proof (cases r)
    case (Inl e)
    have "moved M (w_db w) (w_db w1)" using w1(1) by (intro moved_same) (simp add: requests_def)
    then show ?thesis by (simp add: m Inl run_moves_def w1(2))
  next
    case (Inr x)
    from w1(1) have "moved M (w_db w1) = moved M (w_db w)"
      by (intro ext moved_same_left) (simp add: requests_def)
    with assms(3) [OF m [unfolded Inr] w1(1)] w1(2) show ?thesis by (simp add: m Inr run_moves_def)
  qed
qed

lemma run_moves_after_seq:
  assumes "keeps (same requests) m" and "keeps (same w_saved) m"
    and "\<And>w1. m w = (Inr (), w1) \<Longrightarrow> requests w1 = requests w \<Longrightarrow> run_moves M w1 (snd (k w1))"
  shows "run_moves M w (snd (seq m k w))"
  unfolding seq_def using assms by (intro run_moves_after) simp_all

lemma run_moves_then:
  assumes "run_moves M w (snd (m w))" and "keeps (run_moves M) k"
  shows "run_moves M w (snd (seq m k w))"
proof -
  obtain r w1 where m: "m w = (r, w1)" by fastforce
  with assms(1) show ?thesis by (cases r) (auto simp: run_seq intro: moves.trans keepsD [OF assms(2)])
qed

end
