(* ===== verification/System.thy ===== *)
theory System
  imports Phases
begin

text \<open>
  The application as a whole: every endpoint, document event, gate and job as one \<open>call\<close>, each
  run as a web request against the site. \<open>permitted\<close> is the specification: which requests a
  call may create or delete, and which it may move from which phase to which; no rule changes the
  identity of a request.
\<close>

section \<open>Calls\<close>

text \<open>What surrounds the application while it serves a call.\<close>

record surroundings =
  su_env :: env
  su_pdf :: pdf_env
  su_geo :: geo_env
  su_rules :: rule_env
  su_events :: "(string \<times> (string \<times> handler) list) list"
  su_load :: "string \<Rightarrow> error + cert_details"
  su_newargs :: "(string \<times> json) list \<Rightarrow> (string \<times> json) list"
  su_add_years :: "datetime \<Rightarrow> int \<Rightarrow> datetime"
  su_http :: "http_request option"

datatype call =
    Initiate string string "string option" "string option" "string option" "string option"
  | Finalize string string "string option" json "string option"
  | Signing_Status string string
  | Form_Actions string string
  | Retry string
  | Cancel string string
  | Abort string string
  | Document_Event string source_doc
  | Print string string json json json "(string \<times> json) list"
  | Email mail_args
  | Delete_File string
  | Save_Event string "audit_event \<Rightarrow> audit_event"
  | Delete_Event string
  | Pairing_Code
  | Pair string "string option" "string option" "string option"
  | Site_Token "string option" "string option"
  | Register_Certificate string string
  | Save_Profile string profile
  | Save_Template string signature_template
  | Insert_Document document_sign
  | Save_Document string document_sign
  | Export_Evidence string
  | Scheduled job

definition void :: "'a act \<Rightarrow> unit act" where
  "void m = bind m (\<lambda>_. ret ())"

fun handle :: "surroundings \<Rightarrow> call \<Rightarrow> unit act" where
  "handle S (Initiate dt dn c la lo ac) = void (initiate (su_env S) (su_pdf S) (su_geo S) dt dn c la lo ac)"
| "handle S (Finalize sid sig c chain ocsp) = void (finalize (su_env S) (su_pdf S) sid sig c chain ocsp)"
| "handle S (Signing_Status dt dn) = void (get_signing_status (su_env S) dt dn)"
| "handle S (Form_Actions dt dn) = void (get_form_actions (su_env S) dt dn)"
| "handle S (Retry n) = void (retry (su_env S) n)"
| "handle S (Cancel n reason) = void (cancel (su_env S) n reason)"
| "handle S (Abort n reason) = void (abort_in_progress (su_env S) n reason)"
| "handle S (Document_Event ev doc) = fire_event (su_env S) (su_rules S) (su_events S) ev doc"
| "handle S (Print dt n format doc letterhead kwargs) =
     void (download_pdf (su_env S) (su_newargs S) dt n format doc letterhead kwargs)"
| "handle S (Email args) = void (Gates.make (su_env S) args)"
| "handle S (Delete_File n) = delete_file (su_env S) n"
| "handle S (Save_Event n f) = save_event (su_env S) n f"
| "handle S (Delete_Event n) = delete_event n"
| "handle S Pairing_Code = void (generate_pairing_code (su_env S) (su_http S))"
| "handle S (Pair code fp os ver) = void (validate_pairing_code (su_env S) code fp os ver)"
| "handle S (Site_Token tok fp) = void (verify_site_token (su_env S) tok fp)"
| "handle S (Register_Certificate n b64) = void (register_certificate (su_env S) (su_load S) n b64)"
| "handle S (Save_Profile n pf) = save_profile n pf"
| "handle S (Save_Template n t) = save_template (su_env S) n t"
| "handle S (Insert_Document ds) = void (insert_docsign (su_env S) ds)"
| "handle S (Save_Document n ds) = save_docsign (su_env S) n ds"
| "handle S (Export_Evidence n) = void (export_evidence_pack (su_env S) n)"
| "handle S (Scheduled j) = run_job (su_env S) (su_add_years S) j"

section \<open>The specification\<close>

text \<open>Complete evidence: the signed file, who signed it and when, the signature and the
  fingerprint of the certificate.\<close>

definition full_evidence :: "evidence \<Rightarrow> bool" where
  "full_evidence e \<longleftrightarrow> ed_signed_file e \<noteq> None \<and> ed_signer e \<noteq> None \<and> ed_signed_on e \<noteq> None
    \<and> ed_signature e \<noteq> None \<and> ed_fingerprint e \<noteq> None"

text \<open>The requests a call may create: of a rule for the document of the event, and of no rule for an
  uploaded document.\<close>

fun creates :: "env \<Rightarrow> call \<Rightarrow> identity \<Rightarrow> bool" where
  "creates E (Document_Event ev doc) i \<longleftrightarrow> id_doctype i = do_doctype doc \<and> id_docname i = do_name doc \<and> id_rule i \<noteq> None"
| "creates E (Insert_Document ds) i \<longleftrightarrow> id_doctype i = ''DSC Document Sign'' \<and> id_rule i = None
    \<and> id_expected_signer i = Some (e_user E)"
| "creates E (Save_Document n ds) i \<longleftrightarrow> id_doctype i = ''DSC Document Sign'' \<and> id_docname i = n \<and> id_rule i = None
    \<and> id_expected_signer i = Some (e_user E)"
| "creates E _ i \<longleftrightarrow> False"

text \<open>The source's \<open>finalize\<close> does not look at the status of the request of its session: the
  two rules for it start from any phase.\<close>

inductive permitted :: "surroundings \<Rightarrow> world \<Rightarrow> call \<Rightarrow> moves" for S w where
  create: "creates (su_env S) c i \<Longrightarrow> permitted S w c n None (Some (i, Waiting))"
| start: "row (t_requests (w_db w)) n = Some r \<Longrightarrow> is_pending_for dt dn r \<Longrightarrow>
    permitted S w (Initiate dt dn ct la lo ac) n (Some (i, Waiting)) (Some (i, Started))"
| sign: "live_session (su_env S) w sid = Some ss \<Longrightarrow> full_evidence e \<Longrightarrow>
    ed_signer e = Some (e_user (su_env S)) \<Longrightarrow> ed_signature e = Some sig \<Longrightarrow>
    permitted S w (Finalize sid sig ct chain ocsp) (ss_signing_request_name ss) (Some (i, p)) (Some (i, Complete e))"
| fail: "live_session (su_env S) w sid = Some ss \<Longrightarrow>
    permitted S w (Finalize sid sig ct chain ocsp) (ss_signing_request_name ss) (Some (i, p)) (Some (i, Unsuccessful))"
| again: "permitted S w (Retry n) n (Some (i, Unsuccessful)) (Some (i, Waiting))"
| withdraw: "permitted S w (Cancel n reason) n (Some (i, Waiting)) (Some (i, Withdrawn))"
| recover: "c = Signing_Status dt dn \<or> c = Form_Actions dt dn \<Longrightarrow> row (t_requests (w_db w)) n = Some r \<Longrightarrow>
    of_document dt dn r \<Longrightarrow> permitted S w c n (Some (i, Started)) (Some (i, Waiting))"
| expire: "permitted S w (Scheduled Expire_Stale_Requests) n (Some (i, Started)) (Some (i, Unsuccessful))"
| purge: "p \<noteq> Waiting \<Longrightarrow> p \<noteq> Started \<Longrightarrow> permitted S w (Scheduled Purge_Old_Requests) n (Some (i, p)) None"

inductive_cases permittedE: "permitted S w c n p q"

text \<open>One call moves a request once: two permitted moves in a row are one.\<close>

lemma permitted_trans: "permitted S w c n p q \<Longrightarrow> permitted S w c n q s \<Longrightarrow> permitted S w c n p s"
  by (erule permittedE; erule permittedE; simp; (intro permitted.intros; simp; fail)?)

lemma permitted_once: "(permitted S w c n)\<^sup>*\<^sup>* p q \<Longrightarrow> p = q \<or> permitted S w c n p q"
  by (induction rule: rtranclp_induct) (auto intro: permitted_trans)

section \<open>Calls that move nothing\<close>

lemma keeps_moves_void [keeps_moves]: "keeps (run_moves M) m \<Longrightarrow> keeps (run_moves M) (void m)"
  unfolding void_def by (intro keeps_moves)

lemma keeps_moves_reads:
  "keeps (run_moves M) (download_pdf E na dt n fm doc lh kw)" "keeps (run_moves M) (Gates.make E args)"
  "keeps (run_moves M) (export_evidence_pack E n)" "keeps (run_moves M) (notify_upcoming_expiries E)"
  unfolding download_pdf_def Gates.make_def check_email_allowed_def get_signed_pdf_for_attachment_def
    notify_upcoming_expiries_def warn_profile_def send_expiry_warning_def Let_def
  by (intro keeps_moves keeps_db_export [THEN keeps_moves_db])+

lemma keeps_moves_other:
  "keeps (run_moves M) (delete_file E n)" "keeps (run_moves M) (save_event E n f)"
  "keeps (run_moves M) (delete_event n)" "keeps (run_moves M) (save_profile n pf)"
  "keeps (run_moves M) (save_template E n t)" "keeps (run_moves M) (generate_pairing_code E req)"
  "keeps (run_moves M) (verify_site_token E tok fp)" "keeps (run_moves M) (register_certificate E load n b64)"
  unfolding delete_file_def file_before_delete_def save_event_def event_before_save_def delete_event_def
    event_on_trash_def save_profile_def validate_unique_users_def save_template_def template_before_save_def
    fork_new_version_def insert_template_def has_signing_history_def generate_pairing_code_def
    verify_site_token_def set_agent_def register_certificate_def archive_certificate_def decode_def Let_def
  by ((intro keeps_moves keeps_moves_modify keeps_moves_insert_row; simp)+)

lemma keeps_moves_secret [keeps_moves]: "keeps (run_moves M) (get_or_create_hmac_secret E)"
  unfolding get_or_create_hmac_secret_def by (intro keeps_moves)

lemma keeps_moves_pair: "keeps (run_moves M) (validate_pairing_code E code fp os ver)"
proof -
  have reg: "keeps (run_moves M) (register_agent E p fp os ver)" for p
    unfolding register_agent_def by (intro keeps_moves keeps_moves_insert_row) simp
  have "keeps (run_moves M) (case v of CPairing p \<Rightarrow> register_agent E p fp os ver
      | CSession s \<Rightarrow> raise e | CGeo g \<Rightarrow> raise e)" for v e
    by (cases v) (simp_all add: reg moves.keeps_raise)
  then show ?thesis unfolding validate_pairing_code_def by (intro keeps_moves) simp_all
qed

section \<open>Calls that create requests\<close>

lemma keeps_moves_rules:
  assumes "\<And>n i. id_doctype i = do_doctype doc \<Longrightarrow> id_docname i = do_name doc \<Longrightarrow> id_rule i \<noteq> None \<Longrightarrow>
    M n None (Some (i, Waiting))"
  shows "keeps (run_moves M) (fire_event E Q events ev doc)"
proof -
  have res: "keeps (run_moves M) (resolve_signer_user E p)" for p
    unfolding resolve_signer_user_def by (intro keeps_moves)
  have ins: "keeps (run_moves M) (insert_request E ((blank_request (do_doctype doc) (do_name doc) c)
      \<lparr>sr_rule := Some x, sr_signature_template := y, sr_expected_signer_user := z\<rparr>))" for c x y z
    by (rule keeps_moves_insert_request) (simp_all add: blank_request_def identity_of_def assms)
  have 1: "keeps (run_moves M) (create_signing_request E Q doc n r)" for n r
    unfolding create_signing_request_def announce_def notify_signer_def assign_signer_todo_def
    by (intro keeps_moves res ins)
  have 2: "keeps (run_moves M) (evaluate_rules E Q doc t)" for t
    unfolding evaluate_rules_def get_matching_rules_def first_match_find fire_rule_def
    by (intro keeps_moves 1)
  have 3: "keeps (run_moves M) (on_event E Q (x, doc))" for x
    by (cases x)
      (simp_all add: evaluate_on_submit_def evaluate_on_update_def evaluate_on_change_def Let_def 2
        moves.keeps_seq moves.keeps_ret)
  show ?thesis
    unfolding fire_event_def by (auto split: option.split handler.split intro: 3 moves.keeps_ret)
qed

lemma keeps_moves_docsign:
  assumes "\<And>m i. id_doctype i = ''DSC Document Sign'' \<Longrightarrow> id_docname i \<in> N \<Longrightarrow> id_rule i = None \<Longrightarrow>
    id_expected_signer i = Some (e_user E) \<Longrightarrow> M m None (Some (i, Waiting))"
  shows "n \<in> N \<Longrightarrow> keeps (run_moves M) (save_docsign E n ds)"
    and "N = UNIV \<Longrightarrow> keeps (run_moves M) (insert_docsign E ds)"
proof -
  have val: "keeps (run_moves M) (docsign_validate x)" for x
    unfolding docsign_validate_def Let_def by (intro keeps_moves)
  have ins: "keeps (run_moves M) (insert_request E ((blank_request ''DSC Document Sign'' m c)
      \<lparr>sr_signature_template := x, sr_expected_signer_user := Some (e_user E), sr_created_on := z\<rparr>))" if "m \<in> N" for m c x z
    using that by (intro keeps_moves_insert_request) (simp_all add: blank_request_def identity_of_def assms)
  have upd: "keeps (run_moves M) (docsign_on_update E m x)" if "m \<in> N" for m x
    using that
    unfolding docsign_on_update_def create_docsign_request_def by (intro keeps_moves ins)
  show "keeps (run_moves M) (save_docsign E n ds)" if "n \<in> N"
    using that unfolding save_docsign_def by (intro keeps_moves val upd)
  show "keeps (run_moves M) (insert_docsign E ds)" if "N = UNIV"
    using that unfolding insert_docsign_def by (intro keeps_moves val upd keeps_moves_insert_row) simp_all
qed

section \<open>Calls that read a request before they move it\<close>

lemma keeps_moves_on_update:
  "status \<noteq> Signed \<Longrightarrow> keeps (run_moves M) (request_on_update E n changed status)"
  unfolding request_on_update_def
  by (intro keeps_moves keeps_moves_set_quietly)
    (simp_all add: stage_of_def phase_of_def evidence_of_def split: request_status.split)

lemma save_request_moves:
  assumes "sr_status r \<noteq> Signed"
    and "\<And>old. sr_status old = sr_status r \<or> allowed_transition (sr_status old) (sr_status r) \<Longrightarrow>
      row (t_requests (w_db w)) n = Some old \<Longrightarrow> (M n)\<^sup>*\<^sup>* (Some (stage_of old)) (Some (stage_of r))"
  shows "run_moves M w (snd (save_request E n r w))"
  unfolding save_request_def
proof (intro run_moves_after keeps_requests keeps_saved, goal_cases)
  case (1 old w1)
  then have old: "row (t_requests (w_db w)) n = Some old" "w1 = w" by (auto elim: get_doc_okE)
  show ?case
  proof (cases "sr_status old = sr_status r \<or> allowed_transition (sr_status old) (sr_status r)")
    case True
    then have "validate_status_transition False (sr_status old) (sr_status r) w1 = (Inr (), w1)"
      by (simp add: validate_run)
    moreover have "run_moves M w1 (snd (seq (set_request E n (\<lambda>_. r))
        (request_on_update E n (sr_status old \<noteq> sr_status r) (sr_status r)) w1))"
      using assms True old
      by (intro run_moves_then keeps_moves_on_update run_moves_set_request) simp_all
    ultimately show ?thesis by simp
  qed (simp add: validate_run old moves.refl)
qed

lemma get_doc_moves:
  assumes "\<And>r. row (T (w_db w)) n = Some r \<Longrightarrow> run_moves M w (snd (f r w))"
  shows "run_moves M w (snd (bind (get_doc dt T n) f w))"
  using assms by (cases "row (T (w_db w)) n") (simp_all add: get_doc_def run_bind moves.refl)

lemma retry_moves: "run_moves (permitted S w (Retry n)) w (snd (retry E n w))"
  unfolding retry_def Let_def
proof (intro get_doc_moves, goal_cases)
  case (1 r)
  have rest: "keeps (run_moves M) (seq (mirror_status doc s) (seq (audit E n ty ds) (ret x)))" for M doc s ty ds and x :: request_status
    unfolding mirror_status_def by (intro keeps_moves)
  show ?case
  proof (cases "sr_status r = Failed")
    case True
    have "(permitted S w (Retry n) n)\<^sup>*\<^sup>* (Some (i, Unsuccessful)) (Some (i, Waiting))" for i
      by (rule r_into_rtranclp) (rule permitted.again)
    with 1 True show ?thesis
      by (auto simp: stage_of_def phase_of_status allowed_simps intro!: run_moves_then rest save_request_moves)
  qed (simp add: moves.refl)
qed

lemma cancel_moves: "run_moves (permitted S w (Cancel n reason)) w (snd (cancel E n reason w))"
  unfolding cancel_def Let_def
proof (intro get_doc_moves, goal_cases)
  case (1 r)
  have rest: "keeps (run_moves M) (seq (mirror_status doc s) (seq (audit E n ty ds) (seq (run_dev_hooks E h kw) (ret x))))"
    for M doc s ty ds h kw and x :: request_status
    unfolding mirror_status_def by (intro keeps_moves keeps_db_initiate(1) [THEN keeps_moves_db])
  show ?case
  proof (cases "sr_status r \<in> {Pending, Failed}")
    case True
    have "run_moves (permitted S w (Cancel n reason)) w (snd (bind (now_datetime E) (\<lambda>t.
        seq (save_request E n (r\<lparr>sr_status := Cancelled, sr_cancelled_on := Some t\<rparr>))
         (seq (mirror_status (r\<lparr>sr_status := Cancelled, sr_cancelled_on := Some t\<rparr>) Cancelled)
         (seq (audit E n ''Request Cancelled'' [(''reason'', JStr reason)])
         (seq (run_dev_hooks E ''dsc_on_decline''
            [(''signing_request'', n), (''reason'', reason), (''doctype'', sr_source_doctype (r\<lparr>sr_status := Cancelled, sr_cancelled_on := Some t\<rparr>)),
             (''docname'', sr_source_name (r\<lparr>sr_status := Cancelled, sr_cancelled_on := Some t\<rparr>))]) (ret Cancelled))))) w))"
    proof (intro run_moves_after keeps_requests keeps_saved, goal_cases)
      case (1 t w1)
      have row: "row (t_requests (w_db w1)) n = Some r" using 1 \<open>row (t_requests (w_db w)) n = Some r\<close> by (simp add: requests_def)
      show ?case
      proof (intro run_moves_then rest save_request_moves, goal_cases)
        case (2 old)
        then have old: "old = r" using row by simp
        from 2 have "phase_of old = Waiting \<or> phase_of old = Withdrawn"
          by (cases "sr_status old") (auto simp: phase_of_status allowed_simps)
        moreover have "(permitted S w (Cancel n reason) n)\<^sup>*\<^sup>* (Some (i, Waiting)) (Some (i, Withdrawn))" for i
          by (rule r_into_rtranclp) (rule permitted.withdraw)
        ultimately show ?case by (auto simp: stage_of_def phase_of_status old)
      qed simp
    qed
    with True show ?thesis by simp
  qed (simp add: moves.refl)
qed

lemma abort_moves: "run_moves M w (snd (abort_in_progress E n reason w))"
  unfolding abort_in_progress_def Let_def
proof (intro get_doc_moves, goal_cases)
  case (1 r)
  then show ?case
    by (cases "sr_status r = In_Progress") (simp_all add: save_request_refused allowed_simps moves.refl)
qed

lemma recover_moves:
  assumes "distinct (map fst rs)" and "\<forall>(n, r) \<in> set rs. row (requests w) n = Some r \<and> M n (Some (identity_of r, Started)) (Some (identity_of r, Waiting))"
  shows "run_moves M w (snd (recover_stale dt dn now rs w))"
  using assms
proof (induction rs arbitrary: w)
  case (Cons x rs)
  obtain n r where x: "x = (n, r)" by fastforce
  let ?step = "cond (is_stale now r)
      (seq (set_request_quietly n (\<lambda>r. r\<lparr>sr_status := Pending\<rparr>))
       (cond (dt = ''DSC Document Sign'')
         (set_docsign dn (\<lambda>s. s\<lparr>ds_status := Some (Mirrors Pending)\<rparr>))))"
  obtain w1 where w1: "?step w = (Inr (), w1)"
    "requests w1 = (if is_stale now r then update_row n (\<lambda>r. r\<lparr>sr_status := Pending\<rparr>) (requests w) else requests w)"
    using recover_step by blast
  have row: "row (requests w) n = Some r" "M n (Some (identity_of r, Started)) (Some (identity_of r, Waiting))" "n \<notin> fst ` set rs"
    using Cons.prems by (auto simp: x)
  have "keeps (same w_saved) ?step" by (intro keeps_saved)
  then have saved: "w_saved w1 = w_saved w" using w1(1) by (rule keeps_same_runD)
  have "moved M (w_db w) (w_db w1)"
    using row w1(2)
    by (cases "is_stale now r") (auto simp: moved_def stage_at_def stage_of_def requests_def phase_of_status is_stale_def intro: unique_names_ops)
  then have step: "run_moves M w w1" by (simp add: run_moves_def saved)
  have "\<forall>(m, s) \<in> set rs. row (requests w1) m = Some s \<and> M m (Some (identity_of s, Started)) (Some (identity_of s, Waiting))"
    using Cons.prems row(3) by (force simp: w1(2))
  with Cons.IH [of w1] Cons.prems(1) have "run_moves M w1 (snd (recover_stale dt dn now rs w1))" by simp
  moreover have "recover_stale dt dn now (x # rs) w = bind (recover_stale dt dn now rs) (\<lambda>rest.
      ret ((n, if is_stale now r then r\<lparr>sr_status := Pending\<rparr> else r) # rest)) w1"
    using w1(1) by (simp add: x)
  ultimately show ?case
    by (cases "recover_stale dt dn now rs w1") (auto simp: run_bind split: sum.splits intro: moves.trans [OF step])
qed (simp add: moves.refl)

lemma status_moves:
  assumes "scan_sound E"
    and "\<And>n r. row (t_requests (w_db w)) n = Some r \<Longrightarrow> of_document dt dn r \<Longrightarrow> M n (Some (identity_of r, Started)) (Some (identity_of r, Waiting))"
  shows "run_moves M w (snd (get_signing_status E dt dn w))"
proof (cases "unique_names (t_requests (w_db w))")
  case False
  then show ?thesis by (intro run_moves_not_unique) (simp add: requests_def)
next
  case True
  obtain rs where rs: "requests_of E dt dn w = (Inr rs, w)" "distinct (map fst rs)"
    "set rs = {(n, r). row (t_requests (w_db w)) n = Some r \<and> of_document dt dn r}"
    by (rule requests_of_run [OF assms(1) True])
  show ?thesis
  proof (cases "rs = []")
    case False
    let ?w = "w\<lparr>w_tick := Suc (w_tick w)\<rparr>" and ?now = "e_clock E (w_tick w)"
    have "\<forall>(n, r) \<in> set rs. row (requests ?w) n = Some r \<and> M n (Some (identity_of r, Started)) (Some (identity_of r, Waiting))"
      using assms(2) by (auto simp: rs(3) requests_def)
    with rs(2) have rec: "run_moves M ?w (snd (recover_stale dt dn ?now rs ?w))" by (rule recover_moves)
    have w: "run_moves M w ?w" by (simp add: run_moves_def)
    have "get_signing_status E dt dn w = bind (recover_stale dt dn ?now rs) (\<lambda>rs'.
      ret \<lparr>si_status = overall_status (map (\<lambda>(n, r). sr_status r) rs'), si_requests = rs',
           si_can_sign = (\<exists>(n, r) \<in> set rs'. sr_status r = Pending
             \<and> sr_expected_signer_user r = Some (e_user E))\<rparr>) ?w"
      using rs(1) False by (simp add: get_signing_status_def now_datetime_run)
    with moves.trans [OF w rec] show ?thesis
      by (cases "recover_stale dt dn ?now rs ?w") (simp add: run_bind split: sum.splits)
  qed (use rs(1) in \<open>simp add: get_signing_status_def moves.refl\<close>)
qed

lemma keeps_bind_moves: "run_moves M w (snd (m w)) \<Longrightarrow> (\<And>x. keeps (run_moves M) (f x)) \<Longrightarrow> run_moves M w (snd (bind m f w))"
  by (cases "m w") (auto simp: run_bind split: sum.splits intro: moves.trans keepsD)

section \<open>The jobs\<close>

lemma for_each_set_moves:
  assumes "distinct ns" and "\<forall>n \<in> set ns. \<forall>r. row (requests w) n = Some r \<longrightarrow> (M n)\<^sup>*\<^sup>* (Some (stage_of r)) (Some (stage_of (f r)))"
  shows "run_moves M w (snd (for_each ns (\<lambda>n. set_request E n f) w))"
  using assms
proof (induction ns arbitrary: w)
  case (Cons n ns)
  let ?w = "snd (set_request E n f w)"
  have step: "run_moves M w ?w"
    using Cons.prems(2) by (intro run_moves_set_request) (simp add: requests_def)
  have "\<forall>m \<in> set ns. \<forall>r. row (requests ?w) m = Some r \<longrightarrow> (M m)\<^sup>*\<^sup>* (Some (stage_of r)) (Some (stage_of (f r)))"
    using Cons.prems by (auto simp: set_request_run requests_def)
  with Cons.IH [of ?w] Cons.prems(1) have "run_moves M ?w (snd (for_each ns (\<lambda>n. set_request E n f) ?w))" by simp
  moreover have "for_each (n # ns) (\<lambda>n. set_request E n f) w = for_each ns (\<lambda>n. set_request E n f) ?w"
    by (simp add: set_request_run)
  ultimately show ?case using moves.trans [OF step] by simp
qed (simp add: moves.refl)

lemma for_each_delete_moves:
  assumes "\<forall>n \<in> set ns. \<forall>r. row (requests w) n = Some r \<longrightarrow> M n (Some (stage_of r)) None"
  shows "run_moves M w (snd (for_each ns delete_request w))"
  using assms
proof (induction ns arbitrary: w)
  case (Cons n ns)
  let ?w = "snd (delete_request n w)"
  have "moved M (w_db w) (w_db ?w)"
    using Cons.prems
    by (cases "row (requests w) n")
      (auto simp: moved_def stage_at_def delete_request_run requests_def intro: unique_names_ops)
  then have step: "run_moves M w ?w" by (simp add: run_moves_def delete_request_run)
  have "\<forall>m \<in> set ns. \<forall>r. row (requests ?w) m = Some r \<longrightarrow> M m (Some (stage_of r)) None"
    using Cons.prems by (auto simp: delete_request_run requests_def)
  with Cons.IH [of ?w] have "run_moves M ?w (snd (for_each ns delete_request ?w))" by simp
  moreover have "for_each (n # ns) delete_request w = for_each ns delete_request ?w"
    by (simp add: delete_request_run)
  ultimately show ?case using moves.trans [OF step] by simp
qed (simp add: moves.refl)

lemma job_moves:
  assumes "scan_sound E"
    and "j = Expire_Stale_Requests \<Longrightarrow> \<forall>n i. M n (Some (i, Started)) (Some (i, Unsuccessful))"
    and "j = Purge_Old_Requests \<Longrightarrow> \<forall>n i p. p \<noteq> Waiting \<longrightarrow> p \<noteq> Started \<longrightarrow> M n (Some (i, p)) None"
  shows "run_moves M w (snd (run_job E add_years j w))"
proof (cases "unique_names (t_requests (w_db w))")
  case False
  then show ?thesis by (intro run_moves_not_unique) (simp add: requests_def)
next
  case True
  have tick: "run_moves M w (w\<lparr>w_tick := Suc (w_tick w)\<rparr>)" by (simp add: run_moves_def)
  have last: "keeps (run_moves M) (cond c commit)" for c by (intro keeps_moves)
  show ?thesis
  proof (cases j)
    case Notify_Upcoming_Expiries
    then show ?thesis using keepsD [OF keeps_moves_reads(4)] by simp
  next
    case Purge_Old_Requests
    let ?P = "is_old (add_years (e_clock E (w_tick w)) (- (if se_retention_years_for_requests (t_settings (w_db w)) = 0
        then 7 else se_retention_years_for_requests (t_settings (w_db w)))))"
    let ?ns = "e_scan E ''DSC Signing Request'' (w_db w) (names_where ?P (t_requests (w_db w)))"
    have "M n (Some (stage_of r)) None" if "n \<in> set ?ns" "row (t_requests (w_db w)) n = Some r" for n r
    proof -
      have "is_terminal (sr_status r)"
        using that True assms(1) by (auto simp: scan_sound_def tbl.in_select is_old_def)
      then show ?thesis
        using assms(3) [OF Purge_Old_Requests] by (cases "sr_status r") (auto simp: stage_of_def phase_of_def is_terminal_def)
    qed
    then have "run_moves M (w\<lparr>w_tick := Suc (w_tick w)\<rparr>) (snd (for_each ?ns delete_request (w\<lparr>w_tick := Suc (w_tick w)\<rparr>)))"
      by (intro for_each_delete_moves) (simp add: requests_def)
    then show ?thesis
      using moves.trans [OF tick run_moves_then [OF _ last]]
      by (simp add: Purge_Old_Requests purge_old_requests_def db_gets_run now_datetime_run get_all_run)
  next
    case Expire_Stale_Requests
    let ?secs = "timeout_of (t_settings (w_db w))"
    let ?P = "timed_out (e_clock E (w_tick w) - seconds ?secs)"
    let ?ns = "e_scan E ''DSC Signing Request'' (w_db w) (names_where ?P (t_requests (w_db w)))"
    have "(M n)\<^sup>*\<^sup>* (Some (stage_of r)) (Some (stage_of (expire_one ?secs r)))"
      if "n \<in> set ?ns" "row (t_requests (w_db w)) n = Some r" for n r
    proof -
      have "sr_status r = In_Progress"
        using that True assms(1) by (auto simp: scan_sound_def tbl.in_select timed_out_def)
      then show ?thesis
        using assms(2) [OF Expire_Stale_Requests] by (auto simp: stage_of_def phase_of_status expire_one_def)
    qed
    moreover have "distinct ?ns"
      using assms(1) distinct_names_where [OF True] by (simp add: scan_sound_def)
    ultimately have "run_moves M (w\<lparr>w_tick := Suc (w_tick w)\<rparr>)
        (snd (for_each ?ns (\<lambda>n. set_request E n (expire_one ?secs)) (w\<lparr>w_tick := Suc (w_tick w)\<rparr>)))"
      by (intro for_each_set_moves) (simp_all add: requests_def)
    then show ?thesis
      using moves.trans [OF tick run_moves_then [OF _ last]]
      by (simp add: Expire_Stale_Requests expire_stale_pending_requests_def db_gets_run now_datetime_run get_all_run)
  qed
qed

section \<open>The two halves of a signing\<close>

lemma location_update_identity:
  assumes "location_update E lat lng acc geo w = (Inr upd, w')"
  shows "identity_of (upd r) = identity_of r"
  using assms unfolding location_update_def
  by (auto elim!: bind_okE split: option.splits)

lemma initiate_moves:
  assumes "scan_sound E"
    and "\<And>n r. row (t_requests (w_db w)) n = Some r \<Longrightarrow> is_pending_for dt dn r \<Longrightarrow> M n (Some (identity_of r, Waiting)) (Some (identity_of r, Started))"
  shows "run_moves M w (snd (initiate E P G dt dn c la lo ac w))"
proof (cases "unique_names (t_requests (w_db w))")
  case False
  then show ?thesis by (intro run_moves_not_unique) (simp add: requests_def)
next
  case True
  have later: "keeps (run_moves M) (hand_over E P dt dn n pn pf cfg tmpl lat lng acc ct geo pfm up)"
    for n pn pf cfg tmpl lat lng acc ct geo pfm up
  proof -
    have "keeps (run_moves M) (set_request E n (\<lambda>r. r\<lparr>sr_hash_algorithm := a, sr_hash_to_be_signed := b\<rparr>))" for a b
      by (rule keeps_moves_set_request) (simp add: stage_of_def phase_of_def evidence_of_def split: request_status.split)
    then show ?thesis
      unfolding hand_over_def respond_def
      by (intro keeps_moves keeps_db_initiate [THEN keeps_moves_db] keeps_db_embed [THEN keeps_moves_db]
          keeps_db_prepare [THEN keeps_moves_db])
  qed
  have from_start: "run_moves M w2 (snd (start_signing E P dt dn (pending_columns n r) pf cfg tmpl lat lng acc ct geo w2))"
    if "requests w2 = requests w" "row (t_requests (w_db w)) n = Some r" "is_pending_for dt dn r"
    for w2 n r pf cfg tmpl lat lng acc ct geo
    unfolding start_signing_def Let_def
  proof (intro run_moves_after keeps_requests keeps_saved, goal_cases)
    case (1 up w3 pfm w4 upd w5)
    have name: "or_str (dget (pending_columns n r) ''name'') '''' = n"
      by (simp add: pending_columns_def dget_def)
    have row: "row (t_requests (w_db w5)) n = Some r" using 1 that by (simp add: requests_def)
    show ?case
      unfolding name
    proof (rule run_moves_then [OF run_moves_set_request later], goal_cases)
      case (1 s)
      then have "s = r" "phase_of r = Waiting" using row that(3) by (simp_all add: phase_of_status is_pending_for_def)
      moreover have "phase_of (upd (s\<lparr>sr_status := In_Progress, sr_client_ip := e_request_ip E,
          sr_client_user_agent := e_user_agent E\<rparr>)) = Started"
        using location_update_status [OF \<open>location_update E lat lng acc geo w4 = (Inr upd, w5)\<close>]
        by (simp add: phase_of_status)
      ultimately show ?case
        using assms(2) [OF that(2,3)] location_update_identity [OF \<open>location_update E lat lng acc geo w4 = (Inr upd, w5)\<close>]
        by (simp add: stage_of_def r_into_rtranclp)
    qed
  qed
  show ?thesis
    unfolding initiate_def Let_def
  proof (intro run_moves_after_seq run_moves_after keeps_requests keeps_saved, goal_cases)
    case (1 w1 found w2)
    show ?case
    proof (cases found)
      case (Some sr)
      have "unique_names (t_requests (w_db w1))" using True 1(1,2) by (simp add: requests_def)
      from find_pending_okE [OF 1(3) [unfolded Some] assms(1) this] obtain n r where
        sr: "w2 = w1" "sr = pending_columns n r" "row (t_requests (w_db w1)) n = Some r" "is_pending_for dt dn r" .
      show ?thesis
        unfolding Some option.case sign_pending_def sr(2)
        by (intro run_moves_after_seq run_moves_after keeps_requests keeps_saved from_start)
          (use sr(3,4) 1 in \<open>simp_all add: requests_def\<close>)
    qed (simp add: moves.refl)
  qed
qed

lemma finalize_moves:
  assumes "\<And>ss i p. live_session E w sid = Some ss \<Longrightarrow> M (ss_signing_request_name ss) (Some (i, p)) (Some (i, Unsuccessful))"
    and "\<And>ss i p e. live_session E w sid = Some ss \<Longrightarrow> full_evidence e \<Longrightarrow> ed_signer e = Some (e_user E) \<Longrightarrow>
      ed_signature e = Some sig \<Longrightarrow> M (ss_signing_request_name ss) (Some (i, p)) (Some (i, Complete e))"
  shows "run_moves M w (snd (finalize E P sid sig c chain ocsp w))"
  unfolding finalize_def
proof (intro run_moves_after keeps_requests keeps_saved, goal_cases)
  case (1 session w1)
  then have session: "session = live_session E w sid"
    by (simp add: get_session_info_def load_session_run)
  show ?case
  proof (cases session)
    case (Some ss)
    let ?n = "ss_signing_request_name ss"
    have failed: "keeps (run_moves M) (set_request E ?n f)" if "\<And>r. sr_status (f r) = Failed \<and> identity_of (f r) = identity_of r" for f
      using assms(1) session Some that by (intro keeps_moves_set_request) (simp add: stage_of_def phase_of_status r_into_rtranclp)
    have signed: "keeps (run_moves M) (set_request E ?n (\<lambda>r. r\<lparr>sr_status := Signed,
          sr_actual_signer_user := Some (e_user E), sr_signed_on := Some t, sr_sign_duration_seconds := Some d,
          sr_signature_bytes := Some sig, sr_certificate_fingerprint_presented := Some fp,
          sr_ocsp_response_b64 := ocsp, sr_signed_file := Some fn\<rparr>))" for t d fp fn
      using assms(2) session Some
      by (intro keeps_moves_set_request)
        (simp add: stage_of_def phase_of_def evidence_of_def full_evidence_def r_into_rtranclp)
    have timeline: "keeps (run_moves M) (add_timeline_entry E dt dn n)" for dt dn n
      by (intro keeps_moves_same keeps_timeline)
    have store: "keeps (run_moves M) (save_signed_pdf E P sd)" for sd
      by (intro keeps_moves_same keeps_saved keeps_requests)
    have complete: "keeps (run_moves M) (complete_signing E P ?n sid sig ch ocsp t)" for ch t
      unfolding complete_signing_def record_signature_def reject_pdf_def Let_def
      by (intro keeps_moves keeps_db_embed [THEN keeps_moves_db] keeps_db_initiate(1) [THEN keeps_moves_db]
          keeps_db_mails [THEN keeps_moves_db] failed signed timeline store; simp)
    have reject: "keeps (run_moves M) (reject_certificate E ?n x y)" for x y
      unfolding reject_certificate_def by (intro keeps_moves failed) simp
    have handler: "keeps (run_moves M) (handle_failure E ?n req e)" for req e
      unfolding handle_failure_def by (intro keeps_moves keeps_db_mails [THEN keeps_moves_db] failed) simp
    show ?thesis
      unfolding Some option.case Let_def
      by (rule keepsD, intro keeps_moves keeps_db_embed(1) [THEN keeps_moves_db] complete reject handler)
  qed (simp add: moves.refl)
qed

section \<open>The application refines the specification\<close>

lemma keeps_moves_void_run: "run_moves M w (snd (m w)) \<Longrightarrow> run_moves M w (snd (void m w))"
  unfolding void_def by (intro keeps_bind_moves moves.keeps_ret)

lemmas quiet_runs = keeps_moves_reads [THEN keepsD] keeps_moves_other [THEN keepsD] keeps_moves_pair [THEN keepsD]
  keeps_moves_rules [THEN keepsD]

text \<open>Every call, whether it returns or raises, moves requests only as permitted.\<close>

lemma handle_moves:
  assumes "scan_sound (su_env S)"
  shows "run_moves (permitted S w c) w (snd (handle S c w))"
proof -
  show ?thesis
  proof (cases "(S, c)" rule: handle.cases)
    case (1 S dt dn ct la lo ac)
    then show ?thesis
      using assms by (auto intro!: keeps_moves_void_run initiate_moves permitted.start)
  next
    case (2 S sid sig ct chain ocsp)
    then show ?thesis
      using assms by (auto intro!: keeps_moves_void_run finalize_moves permitted.sign permitted.fail)
  next
    case (3 S dt dn)
    then show ?thesis
      using assms by (auto intro!: keeps_moves_void_run status_moves intro: permitted.recover)
  next
    case (4 S dt dn)
    then show ?thesis
      using assms
      by (auto simp: get_form_actions_def intro!: keeps_moves_void_run keeps_bind_moves status_moves keeps_moves
          intro: permitted.recover)
  next
    case (20 S ds)
    then show ?thesis
      by (auto intro!: keeps_moves_void_run keepsD [OF keeps_moves_docsign(2) [of UNIV]] permitted.create)
  next
    case (21 S n ds)
    then show ?thesis
      by (auto intro!: keepsD [OF keeps_moves_docsign(1) [of "{n}"]] permitted.create)
  qed (use assms in \<open>auto intro!: keeps_moves_void_run retry_moves cancel_moves abort_moves job_moves quiet_runs
      intro: permitted.intros\<close>)
qed

section \<open>Runs of the site\<close>

text \<open>Between requests nothing is left uncommitted.\<close>

definition settled :: "world \<Rightarrow> bool" where
  "settled w \<longleftrightarrow> w_saved w = w_db w \<and> unique_names (t_requests (w_db w))"

inductive site_step :: "world \<Rightarrow> surroundings \<Rightarrow> call \<Rightarrow> world \<Rightarrow> bool" where
  serve: "scan_sound (su_env S) \<Longrightarrow> run_request (handle S c) w = (res, w') \<Longrightarrow> site_step w S c w'"

inductive_cases site_stepE: "site_step w S c w'"

text \<open>Between two calls anything may happen to the cache, the clock and the other services.\<close>

inductive reachable :: "world \<Rightarrow> world \<Rightarrow> bool" for w0 where
  here: "reachable w0 w0"
| call: "reachable w0 w \<Longrightarrow> site_step w S c w' \<Longrightarrow> reachable w0 w'"
| elapse: "reachable w0 w \<Longrightarrow> both_dbs w' = both_dbs w \<Longrightarrow> reachable w0 w'"

lemma run_request_db:
  assumes "run_request m w = (res, w')" and "m w = (r, w1)"
  shows "w_saved w' = w_db w'" and "w_db w' = (if isl r then w_saved w1 else w_db w1)" and "res = r"
  using assms by (auto simp: run_request_def split: sum.splits)

lemma serve_moves:
  assumes "site_step w S c w'" and "settled w"
  shows "w_saved w' = w_db w' \<and> moved (permitted S w c) (w_db w) (w_db w')"
proof -
  from assms(1) obtain res where ok: "scan_sound (su_env S)" "run_request (handle S c) w = (res, w')"
    by (rule site_stepE)
  obtain r w1 where m: "handle S c w = (r, w1)" by fastforce
  from handle_moves [OF ok(1), of w c] m run_request_db [OF ok(2) m] assms(2) show ?thesis
    by (auto simp: run_moves_def settled_def)
qed

lemma serve_phase:
  assumes "site_step w S c w'" and "settled w"
  shows "settled w'" and "stage_at (w_db w') n = stage_at (w_db w) n
    \<or> permitted S w c n (stage_at (w_db w) n) (stage_at (w_db w') n)"
proof -
  from serve_moves [OF assms] assms(2) have "settled w'"
    and "(permitted S w c n)\<^sup>*\<^sup>* (stage_at (w_db w) n) (stage_at (w_db w') n)"
    by (auto simp: settled_def moved_def)
  then show "settled w'" and "stage_at (w_db w') n = stage_at (w_db w) n
      \<or> permitted S w c n (stage_at (w_db w) n) (stage_at (w_db w') n)"
    by (auto dest: permitted_once)
qed

text \<open>C4: the application refines its specification: served in any surroundings, with any outcome,
  a call commits or rolls back everything, and moves each request by at most one step, and only by
  one that \<open>permitted\<close> allows that call. So only \<open>finalize\<close>, for the request of a live session
  and with complete evidence of the caller's signature, makes a request Signed, and no call changes
  which document, rule, profile, template and signer a request is for.\<close>

theorem application_refines:
  assumes "site_step w S c w'" and "settled w"
  shows "settled w' \<and> (\<forall>n. stage_at (w_db w') n = stage_at (w_db w) n
    \<or> permitted S w c n (stage_at (w_db w) n) (stage_at (w_db w') n))"
  using serve_phase [OF assms] by blast

lemma stage_at_signed:
  "row (t_requests d) n = Some r \<Longrightarrow> sr_status r = Signed \<Longrightarrow> stage_at d n = Some (identity_of r, Complete (evidence_of r))"
  by (simp add: stage_at_def stage_of_def phase_of_def)

lemma stage_at_complete:
  assumes "stage_at d n = Some (i, Complete e)"
  obtains r where "row (t_requests d) n = Some r" "sr_status r = Signed" "evidence_of r = e" "identity_of r = i"
proof -
  from assms obtain r where r: "row (t_requests d) n = Some r" "phase_of r = Complete e" "identity_of r = i"
    by (auto simp: stage_at_def stage_of_def)
  with that show thesis by (cases "sr_status r") (auto simp: phase_of_def)
qed

text \<open>C7: evidence is final but for two calls: a Signed request stays Signed with the same file,
  signer, time, signature and fingerprint, and for the same document, through every call that is neither the retention job nor
  a \<open>finalize\<close> whose live session is for that request.\<close>

theorem signed_evidence_stable:
  assumes "site_step w S c w'" and "settled w"
    and "row (t_requests (w_db w)) n = Some r" and "sr_status r = Signed"
    and "c \<noteq> Scheduled Purge_Old_Requests"
    and "\<And>sid sig ct chain ocsp ss. c = Finalize sid sig ct chain ocsp \<Longrightarrow>
      live_session (su_env S) w sid = Some ss \<Longrightarrow> ss_signing_request_name ss \<noteq> n"
  shows "\<exists>r'. row (t_requests (w_db w')) n = Some r' \<and> sr_status r' = Signed \<and> evidence_of r' = evidence_of r
    \<and> identity_of r' = identity_of r"
proof -
  have before: "stage_at (w_db w) n = Some (identity_of r, Complete (evidence_of r))"
    using assms(3,4) by (rule stage_at_signed)
  have "\<not> permitted S w c n (Some (identity_of r, Complete (evidence_of r))) p" for p
    using assms(5) by (auto elim!: permittedE dest: assms(6))
  with serve_phase(2) [OF assms(1,2), of n] before
  have "stage_at (w_db w') n = Some (identity_of r, Complete (evidence_of r))" by auto
  then show ?thesis by (elim stage_at_complete) blast
qed

section \<open>The audit trail\<close>

lemma keeps_trail_void [keeps_trail]: "keeps audit_ext m \<Longrightarrow> keeps audit_ext (void m)"
  unfolding void_def by (intro keeps_trail)

lemma keeps_trail_gates:
  "keeps audit_ext (download_pdf E na dt n fm doc lh kw)" "keeps audit_ext (Gates.make E args)"
  "keeps audit_ext (delete_file E n)" "keeps audit_ext (save_profile n pf)"
  "keeps audit_ext (save_event E n f)" "keeps audit_ext (delete_event n)"
proof -
  have row: "keeps audit_ext (find_row E dt T P)" for dt and T :: "db \<Rightarrow> 'r table" and P
    unfolding find_row_def by (intro keeps_trail)
  have "seq (event_before_save False) k = raise (ValidationError
      ''DSC Audit Events cannot be modified after creation. They are append-only.'')" for k :: "unit act"
    by (rule ext) (simp add: event_before_save_def run_seq)
  then show "keeps audit_ext (save_event E n f)"
    unfolding save_event_def by (simp only:) (intro keeps_trail)
  have "seq event_on_trash k = event_on_trash" for k :: "unit act"
    by (rule ext) (simp add: event_on_trash_def run_seq)
  then show "keeps audit_ext (delete_event n)"
    unfolding delete_event_def by (simp only: event_on_trash_def) (intro keeps_trail)
  show "keeps audit_ext (delete_file E n)" "keeps audit_ext (save_profile n pf)"
    unfolding delete_file_def file_before_delete_def save_profile_def validate_unique_users_def Let_def
    by (intro keeps_trail keeps_trail_db; simp add: names_kept)+
  show "keeps audit_ext (download_pdf E na dt n fm doc lh kw)" "keeps audit_ext (Gates.make E args)"
    unfolding download_pdf_def Gates.make_def check_email_allowed_def get_signed_pdf_for_attachment_def
      find_row_def Let_def
    by (intro keeps_trail)+
qed

lemma keeps_trail_fire [keeps_trail]: "keeps audit_ext (fire_event E Q events ev doc)"
proof -
  have "keeps audit_ext (on_event E Q x)" for x
    by (cases "(E, Q, x)" rule: on_event.cases) (simp_all add: keeps_trail_rules)
  then show ?thesis
    unfolding fire_event_def by (auto split: option.split handler.split intro: trail.keeps_ret)
qed

lemma keeps_trail_handle: "keeps audit_ext (handle S c)"
proof (cases "(S, c)" rule: handle.cases)
  case (23 S j)
  then show ?thesis by (cases j) (auto intro: keeps_trail)
qed (auto intro!: keeps_trail keeps_trail_gates)

lemma serve_trail:
  assumes "site_step w S c w'" and "settled w"
  shows "db_ext (w_db w) (w_db w')"
proof -
  from assms(1) obtain res where run: "run_request (handle S c) w = (res, w')" by (rule site_stepE)
  obtain r w1 where m: "handle S c w = (r, w1)" by fastforce
  have "audit_ext w w1" using keeps_trail_handle m by (rule keeps_runD)
  with run_request_db(2) [OF run m] assms(2) show ?thesis by (auto simp: audit_ext_def settled_def)
qed

end
