(* ===== verification/Assurance.thy ===== *)
theory Assurance
  imports System Handshake
begin

text \<open>
  What holds in every state the site can reach, by rule induction over \<open>reachable\<close>: the audit
  trail has only grown, and every Signed request has its evidence and its event in the trail.
\<close>

section \<open>The trail\<close>

lemma reachable_settled: "reachable w0 w \<Longrightarrow> settled w0 \<Longrightarrow> settled w"
proof (induction rule: reachable.induct)
  case (call w S c w')
  then show ?case using serve_phase(1) by blast
qed (auto simp: settled_def both_dbs_def)

lemma reachable_ext: "reachable w0 w \<Longrightarrow> settled w0 \<Longrightarrow> db_ext (w_db w0) (w_db w)"
proof (induction rule: reachable.induct)
  case (call w S c w')
  have "db_ext (w_db w) (w_db w')"
    using call.hyps(2) reachable_settled [OF call.hyps(1) call.prems] by (rule serve_trail)
  with call show ?case by (auto intro: db_ext_trans)
qed (auto simp: both_dbs_def)

text \<open>C5: the audit trail is append-only: whatever calls are served in whatever order and
  surroundings, with whatever outcome, attempts to save or delete events included, what was in the
  trail is still there unchanged and in front of what was added.\<close>

theorem trail_append_only:
  assumes "reachable w0 w" and "settled w0"
  shows "\<exists>added. t_events (w_db w) = t_events (w_db w0) @ added"
  using reachable_ext [OF assms] by (simp add: db_ext_def trail_prefix_def)


section \<open>A failed \<open>finalize\<close> leaves no new signature\<close>

definition unsigned :: "string \<Rightarrow> db \<Rightarrow> bool" where
  "unsigned n d \<longleftrightarrow> (\<forall>r. row (t_requests d) n = Some r \<longrightarrow> sr_status r \<noteq> Signed)"

definition saves_unsigned :: "string \<Rightarrow> world \<Rightarrow> world \<Rightarrow> bool" where
  "saves_unsigned n w w' \<longleftrightarrow> w_saved w' = w_saved w \<or> unsigned n (w_saved w')"

interpretation unsigned: run_relation "saves_unsigned n" for n
  by unfold_locales (auto simp: saves_unsigned_def)

text \<open>The same from a state in which the request is not Signed.\<close>

definition stays_unsigned :: "string \<Rightarrow> world \<Rightarrow> world \<Rightarrow> bool" where
  "stays_unsigned n w w' \<longleftrightarrow> (unsigned n (w_db w) \<longrightarrow> unsigned n (w_db w') \<and> saves_unsigned n w w')"

interpretation stays: run_relation "stays_unsigned n" for n
  by unfold_locales (auto simp: stays_unsigned_def saves_unsigned_def)

lemma keeps_saves: "keeps (same w_saved) m \<Longrightarrow> keeps (saves_unsigned n) m"
  by (simp add: keeps_def same_def saves_unsigned_def)

lemma keeps_stays: "keeps (same requests) m \<Longrightarrow> keeps (same w_saved) m \<Longrightarrow> keeps (stays_unsigned n) m"
  by (simp add: keeps_def same_def stays_unsigned_def saves_unsigned_def unsigned_def requests_def)

lemma keeps_stays_commit: "keeps (stays_unsigned n) commit"
  by (simp add: keeps_def stays_unsigned_def saves_unsigned_def commit_def)

text \<open>A step that makes the request Failed, and then steps that leave it alone or commit.\<close>

lemma fail_then:
  assumes "\<And>r. sr_status (f r) = Failed" and "keeps (stays_unsigned n) k"
  shows "keeps (saves_unsigned n) (seq (set_request E n f) k)"
proof (rule keepsI)
  fix w
  let ?w = "snd (set_request E n f w)"
  have "unsigned n (w_db ?w)" "w_saved ?w = w_saved w"
    using assms(1) by (auto simp: set_request_run unsigned_def)
  with keepsD [OF assms(2), of ?w] have "saves_unsigned n w (snd (k ?w))"
    by (simp add: stays_unsigned_def saves_unsigned_def)
  then show "saves_unsigned n w (snd (seq (set_request E n f) k w))" by (simp add: set_request_run)
qed

lemma keeps_saves_reject: "keeps (saves_unsigned n) (reject_certificate E n x p)"
  unfolding reject_certificate_def
  by (rule fail_then, simp, intro stays.keeps_intros keeps_stays_commit keeps_stays keeps_requests keeps_saved)

lemma keeps_saves_failure: "keeps (saves_unsigned n) (handle_failure E n req e)"
  unfolding handle_failure_def
  by (rule fail_then, simp, intro stays.keeps_seq stays.keeps_cond stays.keeps_catch stays.keeps_raise
      keeps_stays_commit keeps_stays keeps_requests keeps_saved)

text \<open>The body of the \<open>try\<close> commits last: an error comes before.\<close>

lemma on_error_then: "on_error R m \<Longrightarrow> total k \<Longrightarrow> on_error R (seq m k)"
  unfolding on_error_def by (intro allI impI, erule seq_errE) (simp, erule (1) totalD)

lemma complete_uncommitted: "on_error (same w_saved) (complete_signing E P n sid sig chain ocsp t0)"
proof -
  have "total (run_dev_hooks E h kw)" for h kw by (rule run_dev_hooks_total)
  then have rest: "total (seq (run_dev_hooks E h kw) (ret x))" for h kw and x :: finalized
    by (intro total_seq total_prims)
  have "on_error (same w_saved) (record_signature E n t0 sig ocsp sd fn fd)" for sd fn fd
    unfolding record_signature_def Let_def
    by (intro frame.on_error_bind frame.on_error_seq keeps_saved on_error_total total_prims_site)
  then have tail: "on_error (same w_saved) (seq (record_signature E n t0 sig ocsp sd fn fd)
      (seq (run_dev_hooks E h kw) (ret x)))" for sd fn fd h kw and x :: finalized
    by (intro on_error_then rest)
  have reject: "keeps (same w_saved) (reject_pdf E n v)" for v
    unfolding reject_pdf_def by (intro keeps_saved)
  show ?thesis
    unfolding complete_signing_def
    apply (intro frame.on_error_bind frame.on_error_seq keeps_saved reject)
    subgoal for sd v x by (cases x) (simp add: tail)
    done
qed

lemma finalize_error_unsigned: "on_error (saves_unsigned (ss_signing_request_name ss)) (m :: finalized act)"
  if "m = catch (complete_signing E P (ss_signing_request_name ss) sid sig chain ocsp t0)
    (handle_failure E (ss_signing_request_name ss) req)"
  unfolding that on_error_def
proof (intro allI impI)
  let ?n = "ss_signing_request_name ss"
  fix w e w' assume "catch (complete_signing E P ?n sid sig chain ocsp t0) (handle_failure E ?n req) w = (Inl e, w')"
  then obtain e1 w1 where c: "complete_signing E P ?n sid sig chain ocsp t0 w = (Inl e1, w1)"
    and h: "handle_failure E ?n req e1 w1 = (Inl e, w')"
    by (auto simp: run_catch split: prod.splits sum.splits)
  have "saves_unsigned ?n w w1" using on_errorD [OF complete_uncommitted c] by (simp add: saves_unsigned_def same_def)
  then show "saves_unsigned ?n w w'" using keeps_runD [OF keeps_saves_failure h] by (rule unsigned.trans)
qed

lemma finalize_error:
  assumes "finalize E P sid sig c chain ocsp w = (Inl e, w')" and "live_session E w sid = Some ss"
  shows "saves_unsigned (ss_signing_request_name ss) w w'"
proof -
  let ?n = "ss_signing_request_name ss"
  let ?rest = "bind (now_datetime E) (\<lambda>start_time.
        bind (if truthy c then decode (or_str c '''') else ret '''') (\<lambda>cert_der.
        let presented = presented_fingerprint E cert_der in
        seq (audit E ?n ''Signature Returned''
              [(''cert_fingerprint'', json_opt presented), (''has_chain'', JBool (json_truth chain)),
               (''has_ocsp'', JBool (truthy ocsp))])
        (seq (audit E ?n ''Cert Presented'' [(''fingerprint'', json_opt presented)])
        (bind (get_doc ''DSC Signing Request'' t_requests ?n) (\<lambda>req.
         bind (db_gets (\<lambda>d. expected_fingerprint d req)) (\<lambda>expected.
         if fingerprint_mismatch expected presented then reject_certificate E ?n expected presented
         else catch
           (complete_signing E P ?n sid sig (parse_chain P chain) ocsp start_time)
           (handle_failure E ?n req)))))))"
  have "on_error (saves_unsigned ?n) ?rest"
    unfolding Let_def
    by (intro unsigned.on_error_bind unsigned.on_error_seq keeps_saves keeps_saved)
      (auto intro: on_error_keeps keeps_saves_reject finalize_error_unsigned)
  moreover have "?rest (w\<lparr>w_tick := Suc (w_tick w)\<rparr>) = (Inl e, w')"
    using assms by (simp add: finalize_def get_session_info_def load_session_run Let_def)
  ultimately show ?thesis by (auto simp: saves_unsigned_def dest: on_errorD)
qed

section \<open>Every Signed request has its evidence\<close>

definition proven :: "world \<Rightarrow> bool" where
  "proven w \<longleftrightarrow> (\<forall>n r. row (t_requests (w_db w)) n = Some r \<longrightarrow> sr_status r = Signed \<longrightarrow>
    full_evidence (evidence_of r) \<and> logged w n ''Request Signed'')"

lemma logged_prefix: "logged w n ty \<Longrightarrow> trail_prefix (w_db w) (w_db w') \<Longrightarrow> logged w' n ty"
  unfolding logged_def trail_prefix_def by (metis UnI1 set_append)

text \<open>A request that a \<open>finalize\<close> has made Signed has the event of it in the trail.\<close>

lemma finalize_logs:
  assumes "run_request (handle S (Finalize sid sig c chain ocsp)) w = (res, w')" and "settled w"
    and "live_session (su_env S) w sid = Some ss"
    and "row (t_requests (w_db w')) (ss_signing_request_name ss) = Some r" and "sr_status r = Signed"
  shows "logged w' (ss_signing_request_name ss) ''Request Signed'' \<or> w_db w' = w_db w"
proof -
  let ?n = "ss_signing_request_name ss"
  obtain x w1 where m: "finalize (su_env S) (su_pdf S) sid sig c chain ocsp w = (x, w1)" by fastforce
  then obtain y where h: "handle S (Finalize sid sig c chain ocsp) w = (y, w1)" "isl y \<longleftrightarrow> isl x"
    by (cases x) (simp_all add: void_def run_bind)
  note db = run_request_db [OF assms(1) h(1)]
  show ?thesis
  proof (cases x)
    case (Inl e)
    from finalize_error [OF m [unfolded Inl] assms(3)] have "saves_unsigned ?n w w1" .
    with db(2) h(2) Inl assms(2,4,5) show ?thesis by (auto simp: saves_unsigned_def unsigned_def settled_def)
  next
    case (Inr f)
    from finalize_okE [OF m [unfolded Inr]] obtain ss' t0 w0 where
      "live_session (su_env S) w sid = Some ss'" "complete_signing (su_env S) (su_pdf S)
        (ss_signing_request_name ss') sid sig (parse_chain (su_pdf S) chain) ocsp t0 w0 = (Inr f, w1)" .
    with assms(3) have "logged w1 ?n ''Request Signed''" by (auto intro: complete_signing_logged)
    with db(2) h(2) Inr show ?thesis by (simp add: logged_def)
  qed
qed

lemma serve_proven:
  assumes "site_step w S c w'" and "settled w" and "proven w"
  shows "proven w'"
  unfolding proven_def
proof (intro allI impI)
  fix n r' assume r': "row (t_requests (w_db w')) n = Some r'" "sr_status r' = Signed"
  then have after: "stage_at (w_db w') n = Some (identity_of r', Complete (evidence_of r'))" by (rule stage_at_signed)
  have trail: "trail_prefix (w_db w) (w_db w')" using serve_trail [OF assms(1,2)] by (simp add: db_ext_def)
  have kept: "full_evidence (evidence_of r') \<and> logged w' n ''Request Signed''"
    if same: "stage_at (w_db w') n = stage_at (w_db w) n"
  proof -
    from after same have "stage_at (w_db w) n = Some (identity_of r', Complete (evidence_of r'))" by simp
    then obtain r where r: "row (t_requests (w_db w)) n = Some r" "sr_status r = Signed"
      "evidence_of r = evidence_of r'" by (rule stage_at_complete)
    with assms(3) have "full_evidence (evidence_of r)" "logged w n ''Request Signed''"
      unfolding proven_def by blast+
    with r(3) logged_prefix [OF _ trail] show ?thesis by simp
  qed
  show "full_evidence (evidence_of r') \<and> logged w' n ''Request Signed''"
  proof (cases "stage_at (w_db w') n = stage_at (w_db w) n")
    case False
    with serve_phase(2) [OF assms(1,2), of n] after
    have "permitted S w c n (stage_at (w_db w) n) (Some (identity_of r', Complete (evidence_of r')))" by auto
    then obtain sid sig ct chain ocsp ss where c: "c = Finalize sid sig ct chain ocsp"
      and ss: "live_session (su_env S) w sid = Some ss" "n = ss_signing_request_name ss"
      and full: "full_evidence (evidence_of r')" by (auto elim: permittedE)
    from assms(1) obtain res where "run_request (handle S c) w = (res, w')" by (rule site_stepE)
    from finalize_logs [OF this [unfolded c] assms(2) ss(1)] r' ss(2) False full show ?thesis by auto
  qed (rule kept)
qed


section \<open>One request for each rule and document\<close>

lemma fire_keeps_rule_ok:
  assumes "scan_sound E"
  shows "keeps (preserves (\<lambda>w. rule_requests_ok (requests w))) (fire_event E Q events ev doc)"
proof -
  have "keeps (preserves (\<lambda>w. rule_requests_ok (requests w))) (on_event E Q (x, doc))" for x
    using event_keeps_rule_requests [OF assms] by (cases x) simp_all
  then show ?thesis
    unfolding fire_event_def by (auto split: option.split handler.split intro: inv.keeps_ret)
qed

lemma fire_keeps_saved: "keeps (same w_saved) (fire_event E Q events ev doc)"
proof -
  have msg: "keeps (same w_saved) (msgprint s)" for s
    by (simp add: keeps_def same_def msgprint_def)
  have ins: "keeps (same w_saved) (insert_request E r)" for r
    unfolding insert_request_def request_before_insert_def validate_status_transition_def request_on_update_def
    by (intro keeps_saved)
  have 1: "keeps (same w_saved) (create_signing_request E Q doc n r)" for n r
    unfolding create_signing_request_def announce_def notify_signer_def assign_signer_todo_def resolve_signer_user_def
    by (intro keeps_saved msg ins)
  have 2: "keeps (same w_saved) (evaluate_rules E Q doc t)" for t
    unfolding evaluate_rules_def get_matching_rules_def first_match_find fire_rule_def
    by (intro keeps_saved 1)
  have "keeps (same w_saved) (on_event E Q (x, doc))" for x
    by (cases x) (simp_all add: evaluate_on_submit_def evaluate_on_update_def evaluate_on_change_def Let_def 2
        frame.keeps_seq frame.keeps_ret)
  then show ?thesis
    unfolding fire_event_def by (auto split: option.split handler.split intro: frame.keeps_ret)
qed

text \<open>Any other call leaves the requests of rules what they were, or deletes them.\<close>

lemma rule_request_before:
  assumes "site_step w S c w'" and "settled w" and "\<And>ev doc. c \<noteq> Document_Event ev doc"
    and "row (t_requests (w_db w')) n = Some r'" and "sr_rule r' \<noteq> None"
  obtains r where "row (t_requests (w_db w)) n = Some r" "identity_of r = identity_of r'"
proof -
  have after: "stage_at (w_db w') n = Some (identity_of r', phase_of r')"
    using assms(4) by (simp add: stage_at_def stage_of_def)
  have "id_rule (identity_of r') \<noteq> None" using assms(5) by (simp add: identity_of_def)
  then have new: "\<not> creates (su_env S) c (identity_of r')" using assms(3) by (cases c) auto
  have "\<exists>p. stage_at (w_db w) n = Some (identity_of r', p)"
  proof (cases "stage_at (w_db w') n = stage_at (w_db w) n")
    case False
    with serve_phase(2) [OF assms(1,2), of n] have "permitted S w c n (stage_at (w_db w) n) (Some (identity_of r', phase_of r'))"
      by (simp add: after)
    then show ?thesis using new by (auto elim: permittedE)
  next
    case True
    then have "stage_at (w_db w) n = Some (identity_of r', phase_of r')" using after by simp
    then show ?thesis by blast
  qed
  then show thesis using that by (auto simp: stage_at_def stage_of_def)
qed

lemma serve_rule_requests:
  assumes "site_step w S c w'" and "settled w" and "rule_requests_ok (t_requests (w_db w))"
  shows "rule_requests_ok (t_requests (w_db w'))"
proof (cases "\<exists>ev doc. c = Document_Event ev doc")
  case True
  then obtain ev doc where c: "c = Document_Event ev doc" by blast
  from assms(1) obtain res where sound: "scan_sound (su_env S)" and run: "run_request (handle S c) w = (res, w')"
    by (rule site_stepE)
  obtain x w1 where m: "handle S c w = (x, w1)" by fastforce
  then have f: "fire_event (su_env S) (su_rules S) (su_events S) ev doc w = (x, w1)" by (simp add: c)
  have "rule_requests_ok (t_requests (w_db w1))" "w_saved w1 = w_saved w"
    using keeps_runD [OF fire_keeps_rule_ok [OF sound] f] keeps_same_runD [OF fire_keeps_saved f] assms(3)
    by (simp_all add: preserves_def requests_def)
  then show ?thesis
    using run_request_db(2) [OF run m] assms(2,3) by (simp add: settled_def)
next
  case False
  have "one_per_rule (t_requests (w_db w'))"
    unfolding one_per_rule_def
  proof (intro allI impI, elim conjE)
    fix n m r' s' assume r': "row (t_requests (w_db w')) n = Some r'" "sr_rule r' \<noteq> None"
      and s': "row (t_requests (w_db w')) m = Some s'" "sr_rule s' = sr_rule r'"
        "sr_source_doctype s' = sr_source_doctype r'" "sr_source_name s' = sr_source_name r'"
    obtain r where r: "row (t_requests (w_db w)) n = Some r" "identity_of r = identity_of r'"
      by (rule rule_request_before [OF assms(1,2) _ r']) (use False in blast)
    obtain s where s: "row (t_requests (w_db w)) m = Some s" "identity_of s = identity_of s'"
      by (rule rule_request_before [OF assms(1,2) _ s'(1)]) (use False s'(2) r'(2) in auto)
    from assms(3) have "one_per_rule (t_requests (w_db w))" by (simp add: rule_requests_ok_def)
    moreover have "sr_rule r \<noteq> None" "sr_rule s = sr_rule r" "sr_source_doctype s = sr_source_doctype r"
      "sr_source_name s = sr_source_name r" using r(2) s(2) s'(2-4) r'(2) by (simp_all add: identity_of_def)
    ultimately show "n = m" using r(1) s(1) unfolding one_per_rule_def by blast
  qed
  moreover have "unique_names (t_requests (w_db w'))" using serve_phase(1) [OF assms(1,2)] by (simp add: settled_def)
  ultimately show ?thesis by (simp add: rule_requests_ok_def)
qed

text \<open>C8: in every state the site can reach, whatever events, signatures, retries, cancellations, jobs
  and other calls are served in whatever order and with whatever outcome, no document has two
  signing requests for the same rule.\<close>

theorem one_request_per_rule_always:
  assumes "reachable w0 w" and "settled w0" and "rule_requests_ok (t_requests (w_db w0))"
    and "row (t_requests (w_db w)) n = Some r" and "row (t_requests (w_db w)) m = Some s"
    and "sr_rule r = Some ru" and "sr_rule s = Some ru"
    and "sr_source_doctype s = sr_source_doctype r" and "sr_source_name s = sr_source_name r"
  shows "n = m"
proof -
  have "rule_requests_ok (t_requests (w_db w))"
    using assms(1)
  proof (induction rule: reachable.induct)
    case (call w S c w')
    then show ?case using serve_rule_requests [OF call.hyps(2) reachable_settled [OF call.hyps(1) assms(2)]] by blast
  qed (use assms(3) in \<open>simp_all add: both_dbs_def\<close>)
  with assms(4-) show ?thesis unfolding rule_requests_ok_def one_per_rule_def by (metis option.distinct(1))
qed

section \<open>No request stays unfinished for ever\<close>

lemma served:
  assumes "scan_sound (su_env S)" and "handle S c w = (Inr (), w1)"
  obtains w' where "site_step w S c w'" "w_db w' = w_db w1"
proof -
  obtain res w' where run: "run_request (handle S c) w = (res, w')" by fastforce
  from run_request_db(2) [OF run assms(2)] have "w_db w' = w_db w1" by simp
  with site_step.serve [OF assms(1) run] that show thesis by blast
qed

text \<open>The time before which a request In Progress must have been modified to be failed by the job.\<close>

definition expiry_cutoff :: "env \<Rightarrow> world \<Rightarrow> datetime" where
  "expiry_cutoff E w = e_clock E (w_tick w) - seconds (timeout_of (t_settings (w_db w)))"

lemma expire_step:
  assumes "scan_sound (su_env S)" and "settled w" and "row (t_requests (w_db w)) n = Some r"
    and "sr_status r = Failed \<or> timed_out (expiry_cutoff (su_env S) w) r"
  obtains w' r' where "site_step w S (Scheduled Expire_Stale_Requests) w'"
    "row (t_requests (w_db w')) n = Some r'" "sr_status r' = Failed"
proof -
  let ?E = "su_env S"
  from assms(2) have "unique_names (t_requests (w_db w))" by (simp add: settled_def)
  from expire_run [OF assms(1) this] obtain w1 where
    run: "expire_stale_pending_requests ?E w = (Inr (), w1)" and
    rows: "case row (t_requests (w_db w)) n of
              None \<Rightarrow> row (t_requests (w_db w1)) n = None
            | Some r \<Rightarrow> \<exists>t. row (t_requests (w_db w1)) n = Some (if timed_out (expiry_cutoff ?E w) r
                then (expire_one (timeout_of (t_settings (w_db w))) r)\<lparr>sr_modified := t\<rparr> else r)"
    unfolding Let_def expiry_cutoff_def by blast
  have "handle S (Scheduled Expire_Stale_Requests) w = (Inr (), w1)" by (simp add: run)
  from served [OF assms(1) this] obtain w' where
    "site_step w S (Scheduled Expire_Stale_Requests) w'" "w_db w' = w_db w1" .
  with rows assms(3,4) that show thesis by (auto simp: expire_one_def)
qed

lemma retry_step:
  assumes "scan_sound (su_env S)" and "fresh_names (su_env S)"
    and "row (t_requests (w_db w)) n = Some r" and "sr_status r = Failed"
  obtains w' r' where "site_step w S (Retry n) w'" "row (t_requests (w_db w')) n = Some r'" "sr_status r' = Pending"
proof -
  obtain w1 r' where run: "retry (su_env S) n w = (Inr Pending, w1)" "row (t_requests (w_db w1)) n = Some r'" "sr_status r' = Pending"
    by (rule retry_failed [OF assms(2-4)])
  have "handle S (Retry n) w = (Inr (), w1)" by (simp add: run(1) void_def run_bind)
  from served [OF assms(1) this] obtain w' where "site_step w S (Retry n) w'" "w_db w' = w_db w1" .
  with run(2,3) that show thesis by simp
qed

text \<open>C9: no request is stuck: one that has failed, or has been In Progress without a change for
  longer than the timeout, becomes Pending again, committed, when the hourly job runs and then a
  user retries it, whatever else the site holds.\<close>

theorem no_request_stuck:
  assumes "settled w" and "scan_sound (su_env S)" and "scan_sound (su_env S')" and "fresh_names (su_env S')"
    and "row (t_requests (w_db w)) n = Some r"
    and "sr_status r = Failed \<or> timed_out (expiry_cutoff (su_env S) w) r"
  shows "\<exists>w1 w2 r2. site_step w S (Scheduled Expire_Stale_Requests) w1 \<and> site_step w1 S' (Retry n) w2
    \<and> w_saved w2 = w_db w2 \<and> row (t_requests (w_db w2)) n = Some r2 \<and> sr_status r2 = Pending"
proof -
  obtain w1 r1 where w1: "site_step w S (Scheduled Expire_Stale_Requests) w1"
    "row (t_requests (w_db w1)) n = Some r1" "sr_status r1 = Failed"
    by (rule expire_step [OF assms(2,1,5,6)])
  obtain w2 r2 where w2: "site_step w1 S' (Retry n) w2" "row (t_requests (w_db w2)) n = Some r2" "sr_status r2 = Pending"
    by (rule retry_step [OF assms(3,4) w1(2,3)])
  have "settled w2" using serve_phase(1) [OF w2(1)] serve_phase(1) [OF w1(1) assms(1)] by blast
  with w1(1) w2 show ?thesis unfolding settled_def by blast
qed

end
