(* ===== verification/Witnesses_System.thy ===== *)
theory Witnesses_System
  imports Demo Assurance
begin

text \<open>
  Witnesses for the properties of the application as a whole: a call served on the demo site.
\<close>

definition demo_surroundings :: surroundings where
  "demo_surroundings = \<lparr>su_env = demo_env, su_pdf = demo_pdf, su_geo = demo_geo, su_rules = demo_rules,
    su_events = doc_events None, su_load = (\<lambda>der. Inl (OtherError ''ValueError'' '''')), su_newargs = (\<lambda>kvs. kvs),
    su_add_years = (\<lambda>t n. t + n), su_http = None\<rparr>"

text \<open>A site on which \<open>E\<close> was signed and \<open>C\<close> has failed.\<close>

definition demo_proven :: world where
  "demo_proven =
    (let d = demo_db\<lparr>t_requests := [(''C'', demo_request ''c'' Failed),
           (''E'', (demo_request ''e'' Signed)\<lparr>sr_signed_file := Some ''F'', sr_actual_signer_user := Some ''u'',
              sr_signed_on := Some 1, sr_signature_bytes := Some ''g'',
              sr_certificate_fingerprint_presented := Some ''f''\<rparr>)],
         t_events := [(''X'', \<lparr>ev_request = ''E'', ev_event_type = ''Request Signed'', ev_occurred_at = Some 1,
           ev_actor_user = None, ev_client_ip = None, ev_user_agent = None, ev_details_json = None,
           ev_event_hash = None\<rparr>)]\<rparr>
     in demo_world\<lparr>w_db := d, w_saved := d\<rparr>)"

lemma demo_settled: "settled demo_proven"
  by (simp add: settled_def demo_proven_def Let_def unique_names_def)

definition demo_after :: world where
  "demo_after = snd (run_request (handle demo_surroundings (Retry ''C'')) demo_proven)"

lemma demo_step: "site_step demo_proven demo_surroundings (Retry ''C'') demo_after"
proof (rule site_step.serve)
  show "run_request (handle demo_surroundings (Retry ''C'')) demo_proven
      = (fst (run_request (handle demo_surroundings (Retry ''C'')) demo_proven), demo_after)"
    by (simp add: demo_after_def)
qed (simp add: demo_surroundings_def demo_ok)

lemma demo_reached: "reachable demo_proven demo_after"
  using reachable.here demo_step by (rule reachable.call)

lemma application_refines_witness:
  "settled demo_after \<and> stage_at (w_db demo_after) ''E'' = stage_at (w_db demo_proven) ''E''"
proof -
  have "\<not> permitted demo_surroundings demo_proven (Retry ''C'') ''E'' p q" for p q
    by (auto elim: permittedE)
  with application_refines [OF demo_step demo_settled] show ?thesis by blast
qed

lemma demo_signed:
  "row (t_requests (w_db demo_proven)) n = Some r \<and> sr_status r = Signed \<longleftrightarrow>
    n = ''E'' \<and> r = (demo_request ''e'' Signed)\<lparr>sr_signed_file := Some ''F'', sr_actual_signer_user := Some ''u'',
              sr_signed_on := Some 1, sr_signature_bytes := Some ''g'',
              sr_certificate_fingerprint_presented := Some ''f''\<rparr>"
  by (auto simp: demo_proven_def row_def Let_def)

lemma demo_logged: "logged demo_proven ''E'' ''Request Signed''"
  by (simp add: logged_def demo_proven_def Let_def)

lemma signed_evidence_stable_witness:
  "\<exists>r'. row (t_requests (w_db demo_after)) ''E'' = Some r' \<and> sr_status r' = Signed \<and> sr_signed_file r' = Some ''F''"
proof -
  obtain r where r: "row (t_requests (w_db demo_proven)) ''E'' = Some r" "sr_status r = Signed"
    "sr_signed_file r = Some ''F''" using demo_signed by fastforce
  from signed_evidence_stable [OF demo_step demo_settled r(1,2)] obtain r' where
    "row (t_requests (w_db demo_after)) ''E'' = Some r'" "sr_status r' = Signed" "evidence_of r' = evidence_of r"
    by auto
  with r(3) show ?thesis by (auto simp: evidence_of_def)
qed

lemma demo_named: "well_named (w_db demo_proven)"
  by (simp add: well_named_def unique_names_def demo_proven_def demo_world_def demo_db_def Let_def)


lemma trail_append_only_witness:
  "\<exists>added. t_events (w_db demo_after) = t_events (w_db demo_proven) @ added"
  by (rule trail_append_only [OF demo_reached demo_settled])


lemma no_request_stuck_witness:
  "\<exists>w1 w2 r2. site_step demo_proven demo_surroundings (Scheduled Expire_Stale_Requests) w1
    \<and> site_step w1 demo_surroundings (Retry ''C'') w2
    \<and> row (t_requests (w_db w2)) ''C'' = Some r2 \<and> sr_status r2 = Pending"
proof -
  have env: "su_env demo_surroundings = demo_env" by (simp add: demo_surroundings_def)
  have "row (t_requests (w_db demo_proven)) ''C'' = Some (demo_request ''c'' Failed)"
    by (simp add: demo_proven_def Let_def row_def)
  from no_request_stuck [OF demo_settled _ _ _ this, of demo_surroundings demo_surroundings] demo_ok(1) demo_fresh
  show ?thesis unfolding env by auto
qed

text \<open>Two events for one document: the first creates the request of the rule \<open>R\<close>.\<close>

definition event_surroundings :: surroundings where
  "event_surroundings = demo_surroundings\<lparr>su_events := [(''D'', RULE_ENGINE_EVENTS)]\<rparr>"

definition demo_submit :: call where
  "demo_submit = Document_Event ''on_submit'' \<lparr>do_doctype = ''D'', do_name = ''x'', do_fields = [], do_before_save = None\<rparr>"

definition demo_submitted :: world where
  "demo_submitted = snd (run_request (handle event_surroundings demo_submit) demo_proven)"

lemma event_sound: "scan_sound (su_env event_surroundings)"
  by (simp add: event_surroundings_def demo_surroundings_def demo_ok)

lemma event_step: "site_step w event_surroundings demo_submit (snd (run_request (handle event_surroundings demo_submit) w))"
  by (rule site_step.serve [OF event_sound prod.collapse [symmetric]])

lemma demo_submitted_reached: "reachable demo_proven demo_submitted"
  unfolding demo_submitted_def using reachable.here event_step by (rule reachable.call)

definition of_rule_R :: "world \<Rightarrow> string list" where
  "of_rule_R w = map fst (filter (\<lambda>(n, r). sr_rule r = Some ''R'' \<and> sr_source_doctype r = ''D''
     \<and> sr_source_name r = ''x'') (t_requests (w_db w)))"

lemma demo_rule_created: "length (of_rule_R demo_submitted) = 1"
  by code_simp

lemma one_request_per_rule_always_witness:
  "\<exists>n r. row (t_requests (w_db demo_submitted)) n = Some r \<and> sr_rule r = Some ''R''
    \<and> (\<forall>m s. row (t_requests (w_db demo_submitted)) m = Some s \<and> sr_rule s = Some ''R''
          \<and> sr_source_doctype s = ''D'' \<and> sr_source_name s = ''x'' \<longrightarrow> n = m)"
proof -
  have ok: "rule_requests_ok (t_requests (w_db demo_proven))"
    by (auto simp: rule_requests_ok_def unique_names_def one_per_rule_def demo_proven_def row_def Let_def split: if_splits)
  have "unique_names (t_requests (w_db demo_submitted))"
    using reachable_settled [OF demo_submitted_reached demo_settled] by (simp add: settled_def)
  moreover obtain n where "n \<in> set (of_rule_R demo_submitted)"
    using demo_rule_created by (cases "of_rule_R demo_submitted") auto
  ultimately obtain r where r: "row (t_requests (w_db demo_submitted)) n = Some r" "sr_rule r = Some ''R''"
    "sr_source_doctype r = ''D''" "sr_source_name r = ''x''"
    by (auto simp: of_rule_R_def row_def unique_names_def)
  have "n = m" if "row (t_requests (w_db demo_submitted)) m = Some s" "sr_rule s = Some ''R''"
    "sr_source_doctype s = ''D''" "sr_source_name s = ''x''" for m s
    by (rule one_request_per_rule_always [OF demo_submitted_reached demo_settled ok r(1) that(1) r(2) that(2)])
      (simp_all add: r that)
  with r show ?thesis by blast
qed

end
