(* ===== verification/Reports.thy ===== *)
theory Reports
  imports Frames "HOL-Library.Multiset" "HOL-Library.Product_Lexorder"
begin

text \<open>
  The three script reports: \<open>dsc_sign_volume.py\<close>, \<open>dsc_failure_reasons.py\<close> and
  \<open>dsc_average_time_to_sign.py\<close>. Each is one SELECT with GROUP BY over the signing requests;
  the groups are formed as MariaDB forms them; the order of rows of equal rank, which the queries
  leave open, is fixed by the order of the scan.
  The arguments \<open>key\<close> (two texts that the database's collation holds equal have one key),
  \<open>tr\<close> (translation of a label) and \<open>str_date\<close> belong to the database and the framework.
\<close>

section \<open>Queries\<close>

text \<open>The rows a WHERE clause selects, in the order of the scan.\<close>

definition select_requests :: "env \<Rightarrow> (signing_request \<Rightarrow> bool) \<Rightarrow> signing_request list act" where
  "select_requests E P =
    bind (get_all E ''DSC Signing Request'' t_requests P) (\<lambda>ns.
    db_gets (\<lambda>d. List.map_filter (row (t_requests d)) ns))"

text \<open>GROUP BY: the rows with one key form a group, which is never empty; a selected column
  outside the key is that of some row of the group, here the first.\<close>

definition group_rows :: "('a \<Rightarrow> 'k) \<Rightarrow> 'a list \<Rightarrow> 'a list list" where
  "group_rows key xs = map (\<lambda>k. filter (\<lambda>x. key x = k) xs) (remdups (map key xs))"

text \<open>Report filters: \<open>filters.get\<close> of an absent or empty filter is false. Dates are days.\<close>

record report_filters =
  rf_from_date :: "int option"
  rf_to_date :: "int option"
  rf_profile :: "string option"
  rf_source_doctype :: "string option"

definition in_period :: "report_filters \<Rightarrow> datetime \<Rightarrow> bool" where
  "in_period flt t \<longleftrightarrow> (case rf_from_date flt of None \<Rightarrow> True | Some a \<Rightarrow> a \<le> getdate t)
    \<and> (case rf_to_date flt of None \<Rightarrow> True | Some b \<Rightarrow> getdate t \<le> b)"

definition chosen :: "(string \<Rightarrow> string) \<Rightarrow> string option \<Rightarrow> string \<Rightarrow> bool" where
  "chosen key wanted s \<longleftrightarrow> (truthy wanted \<longrightarrow> key s = key (the wanted))"

text \<open>The columns and the chart of a report; the message, always None, is left out.\<close>

record report_column =
  rc_label :: string
  rc_fieldname :: string
  rc_fieldtype :: string
  rc_options :: "string option"
  rc_precision :: "nat option"
  rc_width :: nat

definition column :: "(string \<Rightarrow> string) \<Rightarrow> string \<Rightarrow> string \<Rightarrow> string \<Rightarrow> string option \<Rightarrow> nat \<Rightarrow> report_column" where
  "column tr label fieldname fieldtype opts width =
    \<lparr>rc_label = tr label, rc_fieldname = fieldname, rc_fieldtype = fieldtype, rc_options = opts,
     rc_precision = None, rc_width = width\<rparr>"

record report_chart =
  ch_labels :: "string list"
  ch_name :: string
  ch_values :: "nat list"
  ch_type :: string

section \<open>Sign volume\<close>

record volume_row =
  vr_day :: int
  vr_source_doctype :: string
  vr_profile :: string
  vr_total :: nat
  vr_signed :: nat
  vr_pending :: nat
  vr_failed :: nat
  vr_cancelled :: nat

definition volume_columns :: "(string \<Rightarrow> string) \<Rightarrow> report_column list" where
  "volume_columns tr =
    [column tr ''Date'' ''day'' ''Date'' None 110,
     column tr ''Source DocType'' ''source_doctype'' ''Data'' None 160,
     column tr ''Profile'' ''profile'' ''Link'' (Some ''DSC Profile'') 200,
     column tr ''Total'' ''total'' ''Int'' None 90,
     column tr ''Signed'' ''signed'' ''Int'' None 90,
     column tr ''Pending'' ''pending'' ''Int'' None 90,
     column tr ''Failed'' ''failed'' ''Int'' None 90,
     column tr ''Cancelled'' ''cancelled'' ''Int'' None 100]"

definition volume_where :: "(string \<Rightarrow> string) \<Rightarrow> report_filters \<Rightarrow> signing_request \<Rightarrow> bool" where
  "volume_where key flt r \<longleftrightarrow> in_period flt (sr_creation r)
    \<and> chosen key (rf_profile flt) (sr_profile r) \<and> chosen key (rf_source_doctype flt) (sr_source_doctype r)"

definition volume_key :: "(string \<Rightarrow> string) \<Rightarrow> signing_request \<Rightarrow> int \<times> string \<times> string" where
  "volume_key key r = (getdate (sr_creation r), key (sr_source_doctype r), key (sr_profile r))"

definition count_status :: "request_status \<Rightarrow> signing_request list \<Rightarrow> nat" where
  "count_status s g = sum_list (map (\<lambda>r. if sr_status r = s then 1 else 0) g)"

definition volume_row_of :: "signing_request list \<Rightarrow> volume_row" where
  "volume_row_of g =
    \<lparr>vr_day = getdate (sr_creation (hd g)), vr_source_doctype = sr_source_doctype (hd g),
     vr_profile = sr_profile (hd g), vr_total = length g, vr_signed = count_status Signed g,
     vr_pending = count_status Pending g, vr_failed = count_status Failed g,
     vr_cancelled = count_status Cancelled g\<rparr>"

definition volume_rows :: "(string \<Rightarrow> string) \<Rightarrow> signing_request list \<Rightarrow> volume_row list" where
  "volume_rows key rs = sort_key (\<lambda>v. - vr_day v) (map volume_row_of (group_rows (volume_key key) rs))"

definition volume_chart :: "(int \<Rightarrow> string) \<Rightarrow> volume_row list \<Rightarrow> report_chart" where
  "volume_chart str_date rows =
    \<lparr>ch_labels = rev (map (\<lambda>v. str_date (vr_day v)) (take 30 rows)), ch_name = ''Signed'',
     ch_values = rev (map vr_signed (take 30 rows)), ch_type = ''bar''\<rparr>"

definition execute_volume ::
  "env \<Rightarrow> (string \<Rightarrow> string) \<Rightarrow> (string \<Rightarrow> string) \<Rightarrow> (int \<Rightarrow> string) \<Rightarrow> report_filters
    \<Rightarrow> (report_column list \<times> volume_row list \<times> report_chart) act" where
  "execute_volume E key tr str_date flt =
    bind (select_requests E (volume_where key flt)) (\<lambda>rs.
    ret (volume_columns tr, volume_rows key rs, volume_chart str_date (volume_rows key rs)))"

section \<open>Failure reasons\<close>

record failure_row =
  fr_failure_reason :: string
  fr_source_doctype :: string
  fr_count :: nat
  fr_latest :: datetime

definition failure_columns :: "(string \<Rightarrow> string) \<Rightarrow> report_column list" where
  "failure_columns tr =
    [column tr ''Failure Reason'' ''failure_reason'' ''Data'' None 380,
     column tr ''Count'' ''count'' ''Int'' None 100,
     column tr ''Latest'' ''latest'' ''Datetime'' None 180,
     column tr ''Source DocType'' ''source_doctype'' ''Data'' None 160]"

definition failure_where :: "(string \<Rightarrow> string) \<Rightarrow> report_filters \<Rightarrow> signing_request \<Rightarrow> bool" where
  "failure_where key flt r \<longleftrightarrow> sr_status r = Failed \<and> in_period flt (sr_creation r)
    \<and> chosen key (rf_source_doctype flt) (sr_source_doctype r)"

text \<open>GROUP BY \<open>failure_reason\<close> names the column, which comes before the alias of the select
  list, so absent and empty reasons are groups of their own.\<close>

definition failure_key :: "(string \<Rightarrow> string) \<Rightarrow> signing_request \<Rightarrow> string option \<times> string" where
  "failure_key key r = (map_option key (sr_failure_reason r), key (sr_source_doctype r))"

definition trim_spaces :: "string \<Rightarrow> string" where
  "trim_spaces s = rev (dropWhile (\<lambda>c. c = CHR 0x20) (rev (dropWhile (\<lambda>c. c = CHR 0x20) s)))"

definition reason_label :: "(string \<Rightarrow> string) \<Rightarrow> string option \<Rightarrow> string" where
  "reason_label key reason =
    (case reason of
       None \<Rightarrow> ''(no reason recorded)''
     | Some s \<Rightarrow> (if key (trim_spaces s) = key '''' then ''(no reason recorded)'' else trim_spaces s))"

definition failure_row_of :: "(string \<Rightarrow> string) \<Rightarrow> signing_request list \<Rightarrow> failure_row" where
  "failure_row_of key g =
    \<lparr>fr_failure_reason = reason_label key (sr_failure_reason (hd g)),
     fr_source_doctype = sr_source_doctype (hd g), fr_count = length g,
     fr_latest = Max (set (map sr_modified g))\<rparr>"

definition failure_rows :: "(string \<Rightarrow> string) \<Rightarrow> signing_request list \<Rightarrow> failure_row list" where
  "failure_rows key rs = sort_key (\<lambda>f. (- int (fr_count f), - fr_latest f))
    (map (failure_row_of key) (group_rows (failure_key key) rs))"

definition failure_chart :: "failure_row list \<Rightarrow> report_chart" where
  "failure_chart rows =
    \<lparr>ch_labels = map (\<lambda>f. take 60 (fr_failure_reason f)) (take 8 rows), ch_name = ''Failures'',
     ch_values = map fr_count (take 8 rows), ch_type = ''bar''\<rparr>"

definition execute_failures ::
  "env \<Rightarrow> (string \<Rightarrow> string) \<Rightarrow> (string \<Rightarrow> string) \<Rightarrow> report_filters
    \<Rightarrow> (report_column list \<times> failure_row list \<times> report_chart) act" where
  "execute_failures E key tr flt =
    bind (select_requests E (failure_where key flt)) (\<lambda>rs.
    ret (failure_columns tr, failure_rows key rs, failure_chart (failure_rows key rs)))"

section \<open>Average time to sign\<close>

text \<open>AVG of an integer column has four decimals, rounded half away from zero; it is kept here
  in ten-thousandths.\<close>

record sign_time_row =
  ar_profile :: string
  ar_source_doctype :: string
  ar_signed_count :: nat
  ar_avg_seconds :: int
  ar_min_seconds :: int
  ar_max_seconds :: int

definition sign_time_columns :: "(string \<Rightarrow> string) \<Rightarrow> report_column list" where
  "sign_time_columns tr =
    [column tr ''Profile'' ''profile'' ''Link'' (Some ''DSC Profile'') 200,
     column tr ''Source DocType'' ''source_doctype'' ''Data'' None 160,
     column tr ''Signed Count'' ''signed_count'' ''Int'' None 110,
     (column tr ''Avg Time (s)'' ''avg_seconds'' ''Float'' None 130)\<lparr>rc_precision := Some 1\<rparr>,
     column tr ''Min Time (s)'' ''min_seconds'' ''Int'' None 120,
     column tr ''Max Time (s)'' ''max_seconds'' ''Int'' None 120]"

definition sign_time_where :: "(string \<Rightarrow> string) \<Rightarrow> report_filters \<Rightarrow> signing_request \<Rightarrow> bool" where
  "sign_time_where key flt r \<longleftrightarrow> sr_status r = Signed \<and> sr_sign_duration_seconds r \<noteq> None
    \<and> (case sr_signed_on r of
         None \<Rightarrow> rf_from_date flt = None \<and> rf_to_date flt = None
       | Some t \<Rightarrow> in_period flt t)
    \<and> chosen key (rf_profile flt) (sr_profile r)"

definition sign_time_key :: "(string \<Rightarrow> string) \<Rightarrow> signing_request \<Rightarrow> string \<times> string" where
  "sign_time_key key r = (key (sr_profile r), key (sr_source_doctype r))"

definition durations :: "signing_request list \<Rightarrow> int list" where
  "durations g = List.map_filter sr_sign_duration_seconds g"

definition round_div :: "int \<Rightarrow> nat \<Rightarrow> int" where
  "round_div a n = (if 0 \<le> a then (2 * a + int n) div (2 * int n) else - ((- 2 * a + int n) div (2 * int n)))"

definition sql_avg :: "int list \<Rightarrow> int" where
  "sql_avg ds = round_div (10000 * sum_list ds) (length ds)"

definition sign_time_row_of :: "signing_request list \<Rightarrow> sign_time_row" where
  "sign_time_row_of g =
    \<lparr>ar_profile = sr_profile (hd g), ar_source_doctype = sr_source_doctype (hd g),
     ar_signed_count = length g, ar_avg_seconds = sql_avg (durations g),
     ar_min_seconds = Min (set (durations g)), ar_max_seconds = Max (set (durations g))\<rparr>"

definition sign_time_rows :: "(string \<Rightarrow> string) \<Rightarrow> signing_request list \<Rightarrow> sign_time_row list" where
  "sign_time_rows key rs = sort_key (\<lambda>a. - ar_avg_seconds a)
    (map sign_time_row_of (group_rows (sign_time_key key) rs))"

definition execute_sign_time ::
  "env \<Rightarrow> (string \<Rightarrow> string) \<Rightarrow> (string \<Rightarrow> string) \<Rightarrow> report_filters
    \<Rightarrow> (report_column list \<times> sign_time_row list) act" where
  "execute_sign_time E key tr flt =
    bind (select_requests E (sign_time_where key flt)) (\<lambda>rs.
    ret (sign_time_columns tr, sign_time_rows key rs))"

section \<open>What a query finds\<close>

lemma mset_map_filter: "mset xs = mset ys \<Longrightarrow> mset (List.map_filter f xs) = mset (List.map_filter f ys)"
  by (simp add: List.map_filter_def)

text \<open>The rows a query selects are the rows of the table with its property, each as often as it
  is there.\<close>

lemma select_requests_run:
  assumes "scan_sound E" and "unique_names (t_requests (w_db w))"
  obtains rs where "select_requests E P w = (Inr rs, w)"
    "mset rs = mset (filter P (map snd (t_requests (w_db w))))"
proof -
  let ?t = "t_requests (w_db w)"
  let ?ns = "e_scan E ''DSC Signing Request'' (w_db w) (names_where P ?t)"
  have "distinct (names_where P ?t)" by (rule distinct_names_where [OF assms(2)])
  then have ns: "mset ?ns = mset (names_where P ?t)"
    using assms(1) by (simp add: scan_sound_def set_eq_iff_mset_eq_distinct [symmetric])
  have look: "row ?t n = Some r" if "(n, r) \<in> set ?t" for n r
    using that assms(2) by (simp add: row_def unique_names_def)
  have "List.map_filter (row ?t) (map fst xs) = map snd xs" if "set xs \<subseteq> set ?t" for xs
    using that by (induction xs) (auto simp: List.map_filter_simps look)
  then have "List.map_filter (row ?t) (names_where P ?t) = filter P (map snd ?t)"
    by (subst names_where_def) (simp add: filter_map comp_def case_prod_unfold)
  moreover have "mset (List.map_filter (row ?t) ?ns) = mset (List.map_filter (row ?t) (names_where P ?t))"
    by (rule mset_map_filter [OF ns])
  ultimately have "mset (List.map_filter (row ?t) ?ns) = mset (filter P (map snd ?t))" by simp
  then show thesis
    by (intro that [of "List.map_filter (row ?t) ?ns"])
      (simp_all add: select_requests_def get_all_def db_gets_def run_bind)
qed

section \<open>Groups\<close>

lemma in_group_rows: "g \<in> set (group_rows key xs) \<longleftrightarrow> (\<exists>x \<in> set xs. g = filter (\<lambda>y. key y = key x) xs)"
  by (auto simp: group_rows_def)

lemma group_rowsE:
  assumes "g \<in> set (group_rows key xs)"
  obtains "g \<noteq> []" "hd g \<in> set xs" "g = filter (\<lambda>y. key y = key (hd g)) xs" "\<forall>y \<in> set g. key y = key (hd g)"
proof -
  obtain x where x: "x \<in> set xs" "g = filter (\<lambda>y. key y = key x) xs"
    using assms by (auto simp: in_group_rows)
  then have "g \<noteq> []" by (auto simp: filter_empty_conv)
  then have "hd g \<in> set g" by simp
  with x(2) have hd: "hd g \<in> set xs" "key (hd g) = key x" by auto
  have "\<forall>y \<in> set g. key y = key (hd g)" unfolding hd(2) by (simp add: x(2))
  moreover have "g = filter (\<lambda>y. key y = key (hd g)) xs" unfolding hd(2) by (rule x(2))
  ultimately show thesis using \<open>g \<noteq> []\<close> hd(1) that by blast
qed

lemma group_keys: "map (\<lambda>g. key (hd g)) (group_rows key xs) = remdups (map key xs)"
proof -
  have "key (hd (filter (\<lambda>x. key x = k) xs)) = k" if "k \<in> set (map key xs)" for k
    using that hd_in_set [of "filter (\<lambda>x. key x = k) xs"] by (auto simp: filter_empty_conv)
  then have "map (\<lambda>k. key (hd (filter (\<lambda>x. key x = k) xs))) (remdups (map key xs)) = remdups (map key xs)"
    by (intro map_idI) simp
  then show ?thesis by (simp add: group_rows_def comp_def)
qed

lemma group_rows_partition: "mset (concat (group_rows key xs)) = mset xs"
proof -
  have part: "mset (concat (map (\<lambda>k. filter (\<lambda>x. key x = k) ys) ks)) = mset (filter (\<lambda>x. key x \<in> set ks) ys)"
    if "distinct ks" for ks ys
    using that
  proof (induction ks)
    case (Cons k ks)
    have "filter_mset (\<lambda>x. key x = k \<or> key x \<in> set ks) (mset ys)
        = filter_mset (\<lambda>x. key x = k) (mset ys) + filter_mset (\<lambda>x. key x \<in> set ks) (mset ys)"
      using Cons.prems by (induction ys) auto
    with Cons show ?case by simp
  qed simp
  have "filter (\<lambda>x. key x \<in> set (remdups (map key xs))) xs = xs" by (simp add: filter_id_conv)
  with part [of "remdups (map key xs)" xs] show ?thesis by (simp add: group_rows_def)
qed

lemma group_rows_total: "sum_list (map length (group_rows key xs)) = length xs"
  using arg_cong [OF group_rows_partition [of key xs], of size] by (simp add: length_concat)

lemma length_filter_mset: "mset xs = mset ys \<Longrightarrow> length (filter P xs) = length (filter P ys)"
  by (metis mset_filter size_mset)

text \<open>The rows of a report, whatever their order: each is made of all the selected requests with
  the key of one of them, and every selected request is in one.\<close>

lemma report_row_group:
  assumes "mset rs = mset (filter P rs')" and "v \<in> set (sort_key ord (map row_of (group_rows key rs)))"
  obtains g where "v = row_of g" "g \<noteq> []" "hd g \<in> set rs'"
    "mset g = mset (filter (\<lambda>r. P r \<and> key r = key (hd g)) rs')"
proof -
  obtain g where g: "g \<in> set (group_rows key rs)" "v = row_of g" using assms(2) by auto
  obtain ne: "g \<noteq> []" and hd: "hd g \<in> set rs" and gf: "g = filter (\<lambda>y. key y = key (hd g)) rs"
    using g(1) by (rule group_rowsE)
  have "mset g = mset (filter (\<lambda>y. key y = key (hd g)) (filter P rs'))"
    by (subst gf) (simp only: mset_filter assms(1))
  then have "mset g = mset (filter (\<lambda>r. P r \<and> key r = key (hd g)) rs')"
    by (simp add: filter_filter_mset conj_commute)
  moreover have "hd g \<in> set rs'" using hd mset_eq_setD [OF assms(1)] by simp
  ultimately show thesis using g(2) ne that by blast
qed

lemma report_row_exists:
  assumes "mset rs = mset (filter P rs')" and "r \<in> set rs'" and "P r"
  obtains g where "row_of g \<in> set (sort_key ord (map row_of (group_rows key rs)))" "g \<noteq> []"
    "g = filter (\<lambda>y. key y = key (hd g)) rs" "key (hd g) = key r"
proof -
  let ?g = "filter (\<lambda>y. key y = key r) rs"
  have r: "r \<in> set rs" using assms(2,3) mset_eq_setD [OF assms(1)] by simp
  then have "?g \<in> set (group_rows key rs)" by (auto simp: in_group_rows)
  moreover from r have ne: "?g \<noteq> []" by (auto simp: filter_empty_conv)
  moreover from hd_in_set [OF ne] have "key (hd ?g) = key r" by simp
  ultimately show thesis using that [of ?g] by simp
qed

lemma report_total:
  assumes "\<And>g. count_of (row_of g) = length g"
  shows "sum_list (map count_of (sort_key ord (map row_of (group_rows key rs)))) = length rs"
proof -
  have "sum_list (map count_of (sort_key ord rows)) = sum_list (map count_of rows)" for rows
    by (metis mset_map mset_sort sum_mset_sum_list)
  then show ?thesis using group_rows_total [of key rs] assms by (simp add: comp_def)
qed

lemma report_keys:
  assumes "\<And>g. g \<noteq> [] \<Longrightarrow> k (row_of g) = key (hd g)"
  shows "distinct (map k (sort_key ord (map row_of (group_rows key rs))))"
proof -
  have "map (k \<circ> row_of) (group_rows key rs) = map (\<lambda>g. key (hd g)) (group_rows key rs)"
  proof (rule map_cong [OF refl])
    fix g assume "g \<in> set (group_rows key rs)"
    then have "g \<noteq> []" by (rule group_rowsE)
    then show "(k \<circ> row_of) g = key (hd g)" by (simp add: assms)
  qed
  then have "distinct (map k (map row_of (group_rows key rs)))"
    using group_keys [of key rs] by (metis distinct_remdups map_map)
  moreover have "mset (map k (sort_key ord rows)) = mset (map k rows)" for rows by simp
  ultimately show ?thesis using mset_eq_imp_distinct_iff by blast
qed

lemma count_status_filter: "count_status s g = length (filter (\<lambda>r. sr_status r = s) g)"
  by (induction g) (simp_all add: count_status_def)

lemma count_statuses:
  "length g = count_status Signed g + count_status Pending g + count_status Failed g
    + count_status Cancelled g + count_status In_Progress g"
proof (induction g)
  case (Cons r g)
  then show ?case by (cases "sr_status r") (simp_all add: count_status_def)
qed (simp add: count_status_def)

section \<open>What the reports count\<close>

definition all_requests :: "world \<Rightarrow> signing_request list" where
  "all_requests w = map snd (t_requests (w_db w))"

definition volume_row_key :: "(string \<Rightarrow> string) \<Rightarrow> volume_row \<Rightarrow> int \<times> string \<times> string" where
  "volume_row_key key v = (vr_day v, key (vr_source_doctype v), key (vr_profile v))"

definition counted_in :: "(string \<Rightarrow> string) \<Rightarrow> report_filters \<Rightarrow> volume_row \<Rightarrow> signing_request \<Rightarrow> bool" where
  "counted_in key flt v r \<longleftrightarrow> volume_where key flt r \<and> volume_key key r = volume_row_key key v"

lemma volume_row_counts:
  assumes "mset rs = mset (filter (volume_where key flt) rs')" and "v \<in> set (volume_rows key rs)"
  shows "vr_total v = length (filter (counted_in key flt v) rs')"
    and "vr_signed v = count_status Signed (filter (counted_in key flt v) rs')"
    and "vr_pending v = count_status Pending (filter (counted_in key flt v) rs')"
    and "vr_failed v = count_status Failed (filter (counted_in key flt v) rs')"
    and "vr_cancelled v = count_status Cancelled (filter (counted_in key flt v) rs')"
    and "vr_total v > 0"
proof -
  obtain g where g: "v = volume_row_of g" "g \<noteq> []"
    "mset g = mset (filter (\<lambda>r. volume_where key flt r \<and> volume_key key r = volume_key key (hd g)) rs')"
    using assms(2) unfolding volume_rows_def by (rule report_row_group [OF assms(1)])
  have vk: "volume_row_key key v = volume_key key (hd g)"
    by (simp add: g(1) volume_row_key_def volume_key_def volume_row_of_def)
  have m: "mset g = mset (filter (counted_in key flt v) rs')"
    unfolding g(3) by (rule arg_cong [of _ _ "\<lambda>P. mset (filter P rs')"]) (simp add: counted_in_def vk fun_eq_iff)
  have st: "count_status s g = count_status s (filter (counted_in key flt v) rs')" for s
    using length_filter_mset [OF m] by (simp add: count_status_filter)
  show "vr_total v = length (filter (counted_in key flt v) rs')"
    using mset_eq_length [OF m] by (simp only: g(1) volume_row_of_def volume_row.select_convs)
  show "vr_signed v = count_status Signed (filter (counted_in key flt v) rs')"
    "vr_pending v = count_status Pending (filter (counted_in key flt v) rs')"
    "vr_failed v = count_status Failed (filter (counted_in key flt v) rs')"
    "vr_cancelled v = count_status Cancelled (filter (counted_in key flt v) rs')"
    unfolding st [symmetric] by (simp_all add: g(1) volume_row_of_def)
  show "vr_total v > 0" using g(2) by (simp add: g(1) volume_row_of_def)
qed

text \<open>C28: the sign volume report counts every request that passes its filters once: its rows are
  in descending order of days, one for each day, document type and profile that occur, their
  totals add up to the number of those requests, and the four counts of a row are its requests
  of that status. A total exceeds the four counts by the row's requests In Progress, for which
  the report has no column. Nothing is written.\<close>

theorem volume_report_counts:
  assumes "scan_sound E" and "unique_names (t_requests (w_db w))"
  shows "\<exists>rows. execute_volume E key tr str_date flt w
      = (Inr (volume_columns tr, rows, volume_chart str_date rows), w)
    \<and> sorted (map (\<lambda>v. - vr_day v) rows) \<and> distinct (map (volume_row_key key) rows)
    \<and> sum_list (map vr_total rows) = length (filter (volume_where key flt) (all_requests w))
    \<and> (\<forall>r. r \<in> set (all_requests w) \<and> volume_where key flt r
          \<longrightarrow> (\<exists>v \<in> set rows. counted_in key flt v r))
    \<and> (\<forall>v \<in> set rows. let g = filter (counted_in key flt v) (all_requests w) in
          vr_signed v = count_status Signed g \<and> vr_pending v = count_status Pending g
        \<and> vr_failed v = count_status Failed g \<and> vr_cancelled v = count_status Cancelled g
        \<and> vr_total v = length g \<and> vr_total v > 0
        \<and> vr_total v = vr_signed v + vr_pending v + vr_failed v + vr_cancelled v + count_status In_Progress g)"
proof -
  obtain rs where rs: "select_requests E (volume_where key flt) w = (Inr rs, w)"
    "mset rs = mset (filter (volume_where key flt) (all_requests w))"
    by (rule select_requests_run [OF assms]) (simp add: all_requests_def)
  have run: "execute_volume E key tr str_date flt w
      = (Inr (volume_columns tr, volume_rows key rs, volume_chart str_date (volume_rows key rs)), w)"
    by (simp add: execute_volume_def run_bind rs(1))
  have total: "sum_list (map vr_total (volume_rows key rs)) = length (filter (volume_where key flt) (all_requests w))"
    unfolding volume_rows_def mset_eq_length [OF rs(2), symmetric]
    by (rule report_total) (simp add: volume_row_of_def)
  have keys: "distinct (map (volume_row_key key) (volume_rows key rs))"
    unfolding volume_rows_def
    by (rule report_keys) (simp add: volume_row_key_def volume_key_def volume_row_of_def)
  have found: "\<exists>v \<in> set (volume_rows key rs). counted_in key flt v r"
    if r: "r \<in> set (all_requests w)" "volume_where key flt r" for r
  proof -
    obtain g where g: "volume_row_of g \<in> set (volume_rows key rs)" "g \<noteq> []"
      "g = filter (\<lambda>y. volume_key key y = volume_key key (hd g)) rs" "volume_key key (hd g) = volume_key key r"
      unfolding volume_rows_def by (rule report_row_exists [OF rs(2) r])
    show ?thesis
      using r(2) g(4)
      by (intro bexI [OF _ g(1)]) (simp add: counted_in_def volume_row_key_def volume_row_of_def volume_key_def)
  qed
  show ?thesis
    using run total keys found volume_row_counts [OF rs(2)] count_statuses
    by (intro exI [of _ "volume_rows key rs"]) (simp add: Let_def volume_rows_def)
qed

definition same_failure :: "(string \<Rightarrow> string) \<Rightarrow> report_filters \<Rightarrow> signing_request \<Rightarrow> signing_request \<Rightarrow> bool" where
  "same_failure key flt r r' \<longleftrightarrow> failure_where key flt r' \<and> failure_key key r' = failure_key key r"

definition failure_row_for :: "(string \<Rightarrow> string) \<Rightarrow> report_filters \<Rightarrow> signing_request list \<Rightarrow> failure_row \<Rightarrow> signing_request \<Rightarrow> bool" where
  "failure_row_for key flt all f r \<longleftrightarrow>
     fr_failure_reason f = reason_label key (sr_failure_reason r)
   \<and> fr_source_doctype f = sr_source_doctype r
   \<and> fr_count f = length (filter (same_failure key flt r) all)
   \<and> fr_latest f \<in> sr_modified ` set (filter (same_failure key flt r) all)
   \<and> (\<forall>r' \<in> set (filter (same_failure key flt r) all). sr_modified r' \<le> fr_latest f)"

lemma failure_row_group:
  assumes "g \<noteq> []" and "mset g = mset (filter (\<lambda>r. failure_where key flt r \<and> failure_key key r = failure_key key (hd g)) all)"
  shows "failure_row_for key flt all (failure_row_of key g) (hd g)"
proof -
  have m: "mset g = mset (filter (same_failure key flt (hd g)) all)"
    unfolding assms(2) by (rule arg_cong [of _ _ "\<lambda>P. mset (filter P all)"]) (simp add: same_failure_def fun_eq_iff)
  have "sr_modified ` set g \<noteq> {}" using assms(1) by simp
  then have "Max (sr_modified ` set g) \<in> sr_modified ` set g" "\<forall>t \<in> sr_modified ` set g. t \<le> Max (sr_modified ` set g)"
    by (auto intro: Max_in Max_ge)
  then show ?thesis
    using mset_eq_setD [OF m] mset_eq_length [OF m]
    by (simp only: failure_row_for_def failure_row_of_def failure_row.select_convs list.set_map) auto
qed

text \<open>The failure report lists every failed request that passes its filters in exactly one row,
  with the reason and document type of one of them, their number and the time of the latest; the
  rows come by descending number and, for equal numbers, latest first, and the numbers add up to
  the failed requests. Nothing is written.\<close>

theorem failure_report_counts:
  assumes "scan_sound E" and "unique_names (t_requests (w_db w))"
  shows "\<exists>rows. execute_failures E key tr flt w = (Inr (failure_columns tr, rows, failure_chart rows), w)
    \<and> sorted (map (\<lambda>f. (- int (fr_count f), - fr_latest f)) rows)
    \<and> sum_list (map fr_count rows) = length (filter (failure_where key flt) (all_requests w))
    \<and> length rows = card (failure_key key ` set (filter (failure_where key flt) (all_requests w)))
    \<and> (\<forall>f \<in> set rows. \<exists>r \<in> set (all_requests w). failure_row_for key flt (all_requests w) f r)
    \<and> (\<forall>r. r \<in> set (all_requests w) \<and> failure_where key flt r
          \<longrightarrow> (\<exists>f \<in> set rows. \<exists>r'. failure_key key r' = failure_key key r
                \<and> failure_row_for key flt (all_requests w) f r'))"
proof -
  obtain rs where rs: "select_requests E (failure_where key flt) w = (Inr rs, w)"
    "mset rs = mset (filter (failure_where key flt) (all_requests w))"
    by (rule select_requests_run [OF assms]) (simp add: all_requests_def)
  have run: "execute_failures E key tr flt w
      = (Inr (failure_columns tr, failure_rows key rs, failure_chart (failure_rows key rs)), w)"
    by (simp add: execute_failures_def run_bind rs(1))
  have total: "sum_list (map fr_count (failure_rows key rs)) = length (filter (failure_where key flt) (all_requests w))"
    unfolding failure_rows_def mset_eq_length [OF rs(2), symmetric]
    by (rule report_total) (simp add: failure_row_of_def)
  have "length (failure_rows key rs) = card (failure_key key ` set rs)"
    using arg_cong [OF group_keys [of "failure_key key" rs], of length] by (simp add: failure_rows_def length_remdups_card_conv)
  then have card: "length (failure_rows key rs) = card (failure_key key ` set (filter (failure_where key flt) (all_requests w)))"
    using mset_eq_setD [OF rs(2)] by simp
  have rows: "\<exists>r \<in> set (all_requests w). failure_row_for key flt (all_requests w) f r"
    if "f \<in> set (failure_rows key rs)" for f
    using that unfolding failure_rows_def
    by (rule report_row_group [OF rs(2)]) (use failure_row_group in blast)
  have found: "\<exists>f \<in> set (failure_rows key rs). \<exists>r'. failure_key key r' = failure_key key r
      \<and> failure_row_for key flt (all_requests w) f r'"
    if r: "r \<in> set (all_requests w)" "failure_where key flt r" for r
  proof -
    obtain g where g: "failure_row_of key g \<in> set (failure_rows key rs)"
      "g \<noteq> []" "g = filter (\<lambda>y. failure_key key y = failure_key key (hd g)) rs" "failure_key key (hd g) = failure_key key r"
      unfolding failure_rows_def by (rule report_row_exists [OF rs(2) r])
    have "mset g = mset (filter (\<lambda>y. failure_where key flt y \<and> failure_key key y = failure_key key (hd g)) (all_requests w))"
      by (subst g(3)) (simp only: mset_filter rs(2) filter_filter_mset conj_commute)
    from failure_row_group [OF g(2) this] g(1,4) show ?thesis by blast
  qed
  show ?thesis
    using run total card rows found
    by (intro exI [of _ "failure_rows key rs"]) (simp add: failure_rows_def)
qed

lemma round_div_bounds:
  assumes "0 < n"
  shows "2 * \<bar>round_div a n * int n - a\<bar> \<le> int n"
    and "lo * int n \<le> a \<Longrightarrow> lo \<le> round_div a n" and "a \<le> hi * int n \<Longrightarrow> round_div a n \<le> hi"
proof -
  have near: "2 * \<bar>(2 * b + int n) div (2 * int n) * int n - b\<bar> \<le> int n" for b
  proof -
    define q r where qr: "q = (2 * b + int n) div (2 * int n)" "r = (2 * b + int n) mod (2 * int n)"
    have "2 * b + int n = q * (2 * int n) + r" unfolding qr by (rule div_mult_mod_eq [symmetric])
    then have "2 * b + int n = 2 * (q * int n) + r" by simp
    moreover have "0 \<le> r" "r < 2 * int n" using assms by (simp_all add: qr)
    ultimately show ?thesis unfolding qr(1) [symmetric] by (cases "b \<le> q * int n") simp_all
  qed
  have e: "round_div a n = - ((2 * (- a) + int n) div (2 * int n))" if "a < 0"
    using that by (simp add: round_div_def)
  show close: "2 * \<bar>round_div a n * int n - a\<bar> \<le> int n"
  proof (cases "0 \<le> a")
    case True
    then show ?thesis using near [of a] by (simp add: round_div_def)
  next
    case False
    have "\<bar>- x * int n - a\<bar> = \<bar>x * int n - (- a)\<bar>" for x by (simp add: abs_if)
    with False show ?thesis using near [of "- a"] e by simp
  qed
  show "lo \<le> round_div a n" if "lo * int n \<le> a"
  proof (rule ccontr)
    assume "\<not> lo \<le> round_div a n"
    then have "round_div a n + 1 \<le> lo" by simp
    then have "(round_div a n + 1) * int n \<le> lo * int n" by (rule mult_right_mono) simp
    with that close assms show False by (simp add: distrib_right)
  qed
  show "round_div a n \<le> hi" if "a \<le> hi * int n"
  proof (rule ccontr)
    assume "\<not> round_div a n \<le> hi"
    then have "hi + 1 \<le> round_div a n" by simp
    then have "(hi + 1) * int n \<le> round_div a n * int n" by (rule mult_right_mono) simp
    with that close assms show False by (simp add: distrib_right)
  qed
qed

lemma sum_list_bounds:
  assumes "\<And>x. x \<in> set xs \<Longrightarrow> lo \<le> x" and "\<And>x. x \<in> set xs \<Longrightarrow> x \<le> hi"
  shows "lo * int (length xs) \<le> sum_list xs" and "sum_list xs \<le> hi * int (length xs)"
  using assms by (induction xs) (fastforce simp: distrib_left)+

lemma sql_avg_bounds:
  assumes "ds \<noteq> []"
  shows "10000 * Min (set ds) \<le> sql_avg ds" and "sql_avg ds \<le> 10000 * Max (set ds)"
    and "2 * \<bar>sql_avg ds * int (length ds) - 10000 * sum_list ds\<bar> \<le> int (length ds)"
proof -
  have n: "0 < length ds" using assms by simp
  have "Min (set ds) * int (length ds) \<le> sum_list ds" "sum_list ds \<le> Max (set ds) * int (length ds)"
    by (rule sum_list_bounds [where lo = "Min (set ds)" and hi = "Max (set ds)"]; simp)+
  then show "10000 * Min (set ds) \<le> sql_avg ds" "sql_avg ds \<le> 10000 * Max (set ds)"
    unfolding sql_avg_def by (intro round_div_bounds [OF n]; simp add: mult.assoc)+
  show "2 * \<bar>sql_avg ds * int (length ds) - 10000 * sum_list ds\<bar> \<le> int (length ds)"
    unfolding sql_avg_def by (rule round_div_bounds(1) [OF n])
qed

lemma durations_simps [simp]:
  "durations [] = []"
  "durations (r # rs) = (case sr_sign_duration_seconds r of None \<Rightarrow> durations rs | Some d \<Rightarrow> d # durations rs)"
  by (simp_all add: durations_def List.map_filter_simps split: option.split)

lemma length_durations: "(\<And>r. r \<in> set g \<Longrightarrow> sr_sign_duration_seconds r \<noteq> None) \<Longrightarrow> length (durations g) = length g"
  by (induction g) (auto split: option.split)

definition timed_in :: "(string \<Rightarrow> string) \<Rightarrow> report_filters \<Rightarrow> sign_time_row \<Rightarrow> signing_request \<Rightarrow> bool" where
  "timed_in key flt a r \<longleftrightarrow> sign_time_where key flt r
    \<and> sign_time_key key r = (key (ar_profile a), key (ar_source_doctype a))"

lemma sign_time_row_values:
  assumes "g \<noteq> []"
    and "mset g = mset (filter (\<lambda>r. sign_time_where key flt r \<and> sign_time_key key r = sign_time_key key (hd g)) all)"
  shows "let a = sign_time_row_of g; ds = durations (filter (timed_in key flt a) all) in
      ar_signed_count a = length ds \<and> ds \<noteq> []
    \<and> ar_min_seconds a = Min (set ds) \<and> ar_max_seconds a = Max (set ds)
    \<and> 10000 * ar_min_seconds a \<le> ar_avg_seconds a \<and> ar_avg_seconds a \<le> 10000 * ar_max_seconds a
    \<and> 2 * \<bar>ar_avg_seconds a * int (ar_signed_count a) - 10000 * sum_list ds\<bar> \<le> int (ar_signed_count a)"
proof -
  let ?a = "sign_time_row_of g"
  let ?ds = "durations (filter (timed_in key flt ?a) all)"
  have "(key (ar_profile ?a), key (ar_source_doctype ?a)) = sign_time_key key (hd g)"
    by (simp add: sign_time_row_of_def sign_time_key_def)
  then have m: "mset g = mset (filter (timed_in key flt ?a) all)"
    unfolding assms(2) by (intro arg_cong [of _ _ "\<lambda>P. mset (filter P all)"]) (simp add: timed_in_def fun_eq_iff)
  have len: "length (durations g) = length g"
    using mset_eq_setD [OF m] by (intro length_durations) (auto simp: timed_in_def sign_time_where_def)
  then have ne: "durations g \<noteq> []" using assms(1) by auto
  have d: "mset ?ds = mset (durations g)" unfolding durations_def by (rule mset_map_filter [OF m [symmetric]])
  have ds: "set ?ds = set (durations g)" "length ?ds = length (durations g)" "sum_list ?ds = sum_list (durations g)"
    using mset_eq_setD [OF d] mset_eq_length [OF d] d by (simp_all flip: sum_mset_sum_list)
  then have "?ds \<noteq> []" using ne by auto
  then show ?thesis
    unfolding Let_def ds
    using sql_avg_bounds [OF ne] by (simp only: sign_time_row_of_def sign_time_row.select_convs len [symmetric]) simp
qed

text \<open>C29: the average time to sign is computed from exactly the signed requests that pass the
  filters: there is one row for each profile and document type that occur, its count, minimum and
  maximum are those of the durations of its requests, its average lies between them and is the
  exact quotient rounded to four decimals; the rows come by descending average. Nothing is
  written.\<close>

theorem sign_time_report_bounds:
  assumes "scan_sound E" and "unique_names (t_requests (w_db w))"
  shows "\<exists>rows. execute_sign_time E key tr flt w = (Inr (sign_time_columns tr, rows), w)
    \<and> sorted (map (\<lambda>a. - ar_avg_seconds a) rows)
    \<and> distinct (map (\<lambda>a. (key (ar_profile a), key (ar_source_doctype a))) rows)
    \<and> (\<forall>r. r \<in> set (all_requests w) \<and> sign_time_where key flt r
          \<longrightarrow> (\<exists>a \<in> set rows. timed_in key flt a r))
    \<and> (\<forall>a \<in> set rows. let ds = durations (filter (timed_in key flt a) (all_requests w)) in
          ar_signed_count a = length ds \<and> ds \<noteq> []
        \<and> ar_min_seconds a = Min (set ds) \<and> ar_max_seconds a = Max (set ds)
        \<and> 10000 * ar_min_seconds a \<le> ar_avg_seconds a \<and> ar_avg_seconds a \<le> 10000 * ar_max_seconds a
        \<and> 2 * \<bar>ar_avg_seconds a * int (ar_signed_count a) - 10000 * sum_list ds\<bar> \<le> int (ar_signed_count a))"
proof -
  obtain rs where rs: "select_requests E (sign_time_where key flt) w = (Inr rs, w)"
    "mset rs = mset (filter (sign_time_where key flt) (all_requests w))"
    by (rule select_requests_run [OF assms]) (simp add: all_requests_def)
  have run: "execute_sign_time E key tr flt w = (Inr (sign_time_columns tr, sign_time_rows key rs), w)"
    by (simp add: execute_sign_time_def run_bind rs(1))
  have sorted: "sorted (map (\<lambda>a. - ar_avg_seconds a) (sign_time_rows key rs))" by (simp add: sign_time_rows_def)
  have keys: "distinct (map (\<lambda>a. (key (ar_profile a), key (ar_source_doctype a))) (sign_time_rows key rs))"
    unfolding sign_time_rows_def by (rule report_keys) (simp add: sign_time_key_def sign_time_row_of_def)
  have found: "\<exists>a \<in> set (sign_time_rows key rs). timed_in key flt a r"
    if r: "r \<in> set (all_requests w)" "sign_time_where key flt r" for r
  proof -
    obtain g where g: "sign_time_row_of g \<in> set (sign_time_rows key rs)" "g \<noteq> []"
      "g = filter (\<lambda>y. sign_time_key key y = sign_time_key key (hd g)) rs" "sign_time_key key (hd g) = sign_time_key key r"
      unfolding sign_time_rows_def by (rule report_row_exists [OF rs(2) r])
    show ?thesis
      using r(2) g(4) by (intro bexI [OF _ g(1)]) (simp add: timed_in_def sign_time_row_of_def sign_time_key_def)
  qed
  have figures: "let ds = durations (filter (timed_in key flt a) (all_requests w)) in
          ar_signed_count a = length ds \<and> ds \<noteq> []
        \<and> ar_min_seconds a = Min (set ds) \<and> ar_max_seconds a = Max (set ds)
        \<and> 10000 * ar_min_seconds a \<le> ar_avg_seconds a \<and> ar_avg_seconds a \<le> 10000 * ar_max_seconds a
        \<and> 2 * \<bar>ar_avg_seconds a * int (ar_signed_count a) - 10000 * sum_list ds\<bar> \<le> int (ar_signed_count a)"
    if "a \<in> set (sign_time_rows key rs)" for a
    using that unfolding sign_time_rows_def
    by (rule report_row_group [OF rs(2)]) (use sign_time_row_values in \<open>simp only: Let_def\<close>)
  show ?thesis using run sorted keys found figures by blast
qed

text \<open>Under an exact collation, an absent and an empty reason give two rows with one label.\<close>

theorem failure_labels_repeat:
  "map fr_failure_reason (failure_rows (\<lambda>s. s)
     [(blank_request ''D'' ''a'' ''P'')\<lparr>sr_status := Failed\<rparr>,
      (blank_request ''D'' ''b'' ''P'')\<lparr>sr_status := Failed, sr_failure_reason := Some ''''\<rparr>])
   = [''(no reason recorded)'', ''(no reason recorded)'']"
  by code_simp

end
