(* ===== verification/Setup.thy ===== *)
theory Setup
  imports Template Agent
begin

text \<open>
  The demonstration data (\<open>setup_demo.py\<close>): \<open>run\<close> writes settings, a profile, a template and a
  rule, \<open>teardown\<close> removes the last three. What the framework finds in tables that are not the
  application's (users, companies, print formats) is the argument \<open>picks\<close>. The smoke tests of
  the module are in the theory \<open>Smoke\<close>.
\<close>

section \<open>The data\<close>

definition PROFILE_NAME :: string where
  "PROFILE_NAME = ''RAJESH-CFO-2026''"

definition TEMPLATE_NAME :: string where
  "TEMPLATE_NAME = ''Sales Invoice Bottom Right''"

definition RULE_NAME :: string where
  "RULE_NAME = ''Sign all Sales Invoices over 50K''"

text \<open>The first enabled user but Administrator and Guest, the first company, and the first enabled
  print format of a document type.\<close>

record picks =
  pk_user :: "string option"
  pk_company :: "string option"
  pk_print_format :: "string \<Rightarrow> string option"

definition pick_user :: "picks \<Rightarrow> string" where
  "pick_user K = or_str (pk_user K) ''Administrator''"

definition pick_company :: "picks \<Rightarrow> string option" where
  "pick_company K = pk_company K"

definition no_print_format :: "string \<Rightarrow> error" where
  "no_print_format doctype = ValidationError (''No Print Format found for '' @ doctype @ '' - create one first.'')"

definition pick_print_format :: "picks \<Rightarrow> string \<Rightarrow> string act" where
  "pick_print_format K doctype =
    (if truthy (pk_print_format K doctype) then ret (or_str (pk_print_format K doctype) '''')
     else raise (no_print_format doctype))"

definition settings_values :: "settings \<Rightarrow> settings" where
  "settings_values doc = doc
    \<lparr>se_default_reason := Some ''Approved by Authorised Signatory'', se_default_location := Some ''Chennai, IN'',
     se_signing_timeout_seconds := 180, se_retention_years_for_requests := 7, se_agent_listen_port := 4645,
     se_pdf_preparation_engine := Some ''pyhanko'', se_default_hash_algorithm := Some ''sha256'',
     se_enable_expiry_warnings := True, se_enforce_signer_location := True,
     se_geocoding_provider := Some ''nominatim'',
     se_geocoding_user_agent := Some ''e_sign DSC Demo (demo@example.com)'',
     se_expiry_warning_days := [30, 15, 7, 1]\<rparr>"

definition setup_settings :: "unit act" where
  "setup_settings = set_settings settings_values"

text \<open>A new profile, with the defaults of its DocType.\<close>

definition blank_profile :: profile where
  "blank_profile =
    \<lparr>pf_profile_name = '''', pf_label = None, pf_company = None, pf_is_active = True, pf_allowed_users = [],
     pf_certificate_fingerprint = None, pf_certificate_common_name = None, pf_certificate_issuer = None,
     pf_certificate_serial = None, pf_certificate_not_before = None, pf_certificate_not_after = None,
     pf_registered_on = None, pf_certificate_pem_public = None, pf_previous_certificates = [],
     pf_designation_for_stamp = None\<rparr>"

definition profile_values :: "string \<Rightarrow> string option \<Rightarrow> profile \<Rightarrow> profile" where
  "profile_values user company doc = doc
    \<lparr>pf_label := Some ''Chief Financial Officer'', pf_company := company, pf_is_active := True,
     pf_designation_for_stamp := Some ''Chief Financial Officer, Acme Corp'', pf_allowed_users := [user]\<rparr>"

definition insert_profile :: "profile \<Rightarrow> string act" where
  "insert_profile pf =
    seq (validate_unique_users pf)
    (insert_row ''DSC Profile'' t_profiles (\<lambda>u d. d\<lparr>t_profiles := u (t_profiles d)\<rparr>) (pf_profile_name pf) pf)"

definition setup_profile :: "string \<Rightarrow> string option \<Rightarrow> unit act" where
  "setup_profile user company =
    bind (db_gets (\<lambda>d. row (t_profiles d) PROFILE_NAME)) (\<lambda>found.
    case found of
      Some doc \<Rightarrow> save_profile PROFILE_NAME (profile_values user company doc)
    | None \<Rightarrow> bind (insert_profile (profile_values user company (blank_profile\<lparr>pf_profile_name := PROFILE_NAME\<rparr>)))
        (\<lambda>_. ret ()))"

definition demo_field :: signature_field where
  "demo_field = \<lparr>sf_field_name = ''primary'', sf_page_number = 1, sf_x = 350, sf_y = 60, sf_width = 200,
     sf_height = 80, sf_assigned_profile = Some PROFILE_NAME\<rparr>"

definition template_values :: "string \<Rightarrow> signature_template \<Rightarrow> signature_template" where
  "template_values print_format doc = doc
    \<lparr>st_target_doctype := ''Sales Invoice'', st_print_format := print_format, st_version := 1, st_is_active := True,
     st_stamp_show_signer_name := True, st_stamp_show_designation := True, st_stamp_show_digitally_signed_by := True,
     st_stamp_show_timestamp := True, st_stamp_timestamp_format := Some ''%d-%m-%Y %H:%M:%S %Z'',
     st_stamp_show_reason := True, st_stamp_show_location := True, st_stamp_show_dn_cn := False,
     st_stamp_include_signature_image := False, st_stamp_include_seal_image := False,
     st_stamp_font_family := Some ''Helvetica'', st_stamp_font_size := 8, st_stamp_border := True,
     st_fields := [demo_field]\<rparr>"

definition setup_template :: "env \<Rightarrow> picks \<Rightarrow> unit act" where
  "setup_template E K =
    bind (db_gets (\<lambda>d. row (t_templates d) TEMPLATE_NAME)) (\<lambda>found.
    bind (pick_print_format K ''Sales Invoice'') (\<lambda>pf.
    case found of
      Some doc \<Rightarrow> save_template E TEMPLATE_NAME (template_values pf doc)
    | None \<Rightarrow> bind (insert_template (template_values pf (default_template\<lparr>st_template_name := TEMPLATE_NAME\<rparr>)))
        (\<lambda>_. ret ())))"

text \<open>A new rule: every field that has no value here is given one below.\<close>

definition blank_rule :: rule where
  "blank_rule =
    \<lparr>ru_priority = 10, ru_is_enabled = True, ru_target_doctype = '''', ru_trigger_event = ''on_submit'',
     ru_trigger_workflow_state = None, ru_conditions = [], ru_profile = '''', ru_print_format = None,
     ru_signature_template = None, ru_is_mandatory = True, ru_block_print_until_signed = False,
     ru_block_email_until_signed = False, ru_auto_attach_to_source = True, ru_company = None\<rparr>"

definition rule_values :: "string \<Rightarrow> string option \<Rightarrow> rule \<Rightarrow> rule" where
  "rule_values print_format company doc = doc
    \<lparr>ru_priority := 10, ru_is_enabled := True, ru_target_doctype := ''Sales Invoice'', ru_trigger_event := ''on_submit'',
     ru_profile := PROFILE_NAME, ru_print_format := Some print_format, ru_signature_template := Some TEMPLATE_NAME,
     ru_is_mandatory := True, ru_block_print_until_signed := True, ru_block_email_until_signed := False,
     ru_auto_attach_to_source := True, ru_company := company,
     ru_conditions := [\<lparr>rc_field = ''grand_total'', rc_operator = ''greater_than'', rc_value = Some ''50000''\<rparr>]\<rparr>"

definition setup_rule :: "picks \<Rightarrow> string option \<Rightarrow> unit act" where
  "setup_rule K company =
    bind (db_gets (\<lambda>d. row (t_rules d) RULE_NAME)) (\<lambda>found.
    bind (pick_print_format K ''Sales Invoice'') (\<lambda>pf.
    case found of
      Some doc \<Rightarrow> db_modify (\<lambda>d. d\<lparr>t_rules := update_row RULE_NAME (\<lambda>_. rule_values pf company doc) (t_rules d)\<rparr>)
    | None \<Rightarrow> bind (insert_row ''DSC Rule'' t_rules (\<lambda>u d. d\<lparr>t_rules := u (t_rules d)\<rparr>) RULE_NAME
          (rule_values pf company blank_rule)) (\<lambda>_. ret ())))"

section \<open>The scripts\<close>

text \<open>Both return the lines they print.\<close>

definition setup_lines :: "picks \<Rightarrow> string list" where
  "setup_lines K =
    [''Using user: '' @ pick_user K, ''Using company: '' @ py_str (pick_company K), ''[ok] DSC Settings configured'',
     ''[ok] DSC Profile: '' @ PROFILE_NAME, ''[ok] DSC Signature Template: '' @ TEMPLATE_NAME,
     ''[ok] DSC Rule: '' @ RULE_NAME]"

definition run_setup :: "env \<Rightarrow> picks \<Rightarrow> string list act" where
  "run_setup E K =
    (let user = pick_user K; company = pick_company K in
     seq setup_settings
     (seq (setup_profile user company)
     (seq (setup_template E K)
     (seq (setup_rule K company)
     (seq commit
     (ret (setup_lines K)))))))"

definition teardown_one ::
  "string \<Rightarrow> (db \<Rightarrow> 'r table) \<Rightarrow> (('r table \<Rightarrow> 'r table) \<Rightarrow> db \<Rightarrow> db) \<Rightarrow> string \<Rightarrow> string act" where
  "teardown_one dt T U n =
    bind (db_gets (\<lambda>d. row (T d) n)) (\<lambda>found.
    if found \<noteq> None then seq (db_modify (U (drop_row n))) (ret (''[deleted] '' @ dt @ '': '' @ n))
    else ret (''[skip] '' @ dt @ '': '' @ n @ '' not found''))"

definition teardown :: "string list act" where
  "teardown =
    bind (teardown_one ''DSC Rule'' t_rules (\<lambda>u d. d\<lparr>t_rules := u (t_rules d)\<rparr>) RULE_NAME) (\<lambda>a.
    bind (teardown_one ''DSC Signature Template'' t_templates (\<lambda>u d. d\<lparr>t_templates := u (t_templates d)\<rparr>) TEMPLATE_NAME) (\<lambda>b.
    bind (teardown_one ''DSC Profile'' t_profiles (\<lambda>u d. d\<lparr>t_profiles := u (t_profiles d)\<rparr>) PROFILE_NAME) (\<lambda>c.
    seq commit (ret [a, b, c]))))"

section \<open>Running the setup again\<close>

text \<open>Writing a row that may or may not be there.\<close>

definition put_row :: "string \<Rightarrow> 'r \<Rightarrow> 'r table \<Rightarrow> 'r table" where
  "put_row n r t = (if row t n = None then add_row n r t else update_row n (\<lambda>_. r) t)"

lemma row_put_row [simp]: "row (put_row n r t) m = (if m = n then Some r else row t m)"
  by (auto simp: put_row_def split: option.splits)

lemma update_row_same: "row t n = Some r \<Longrightarrow> update_row n (\<lambda>_. r) t = t"
  unfolding row_def update_row_def by (induction t) (auto split: if_splits)

lemma put_row_same: "row t n = Some r \<Longrightarrow> put_row n r t = t"
  by (simp add: put_row_def update_row_same)

lemma setup_profile_run:
  "setup_profile user company w = (Inr (), w\<lparr>w_db := (w_db w)\<lparr>t_profiles := put_row PROFILE_NAME
     (profile_values user company (case row (t_profiles (w_db w)) PROFILE_NAME of
        None \<Rightarrow> blank_profile\<lparr>pf_profile_name := PROFILE_NAME\<rparr> | Some doc \<Rightarrow> doc)) (t_profiles (w_db w))\<rparr>\<rparr>)"
  by (cases "row (t_profiles (w_db w)) PROFILE_NAME")
    (simp_all add: setup_profile_def save_profile_def insert_profile_def validate_unique_users_def
      profile_values_def prim_runs put_row_def db_modify_def blank_profile_def)

lemma setup_rule_run:
  assumes "pk_print_format K ''Sales Invoice'' = Some pf" and "pf \<noteq> []"
  shows "setup_rule K company w = (Inr (), w\<lparr>w_db := (w_db w)\<lparr>t_rules := put_row RULE_NAME
     (rule_values pf company (case row (t_rules (w_db w)) RULE_NAME of None \<Rightarrow> blank_rule | Some doc \<Rightarrow> doc))
     (t_rules (w_db w))\<rparr>\<rparr>)"
  using assms by (cases "row (t_rules (w_db w)) RULE_NAME")
    (simp_all add: setup_rule_def pick_print_format_def prim_runs put_row_def db_modify_def)

text \<open>The setup would version the template: a request refers to it and it is not as the script
  wants it.\<close>

definition template_conflict :: "string \<Rightarrow> world \<Rightarrow> bool" where
  "template_conflict pf w \<longleftrightarrow> used w TEMPLATE_NAME \<and> (\<exists>previous. row (t_templates (w_db w)) TEMPLATE_NAME = Some previous
    \<and> versioned_fields_changed (template_values pf previous) previous)"

definition kept_template :: "string \<Rightarrow> signature_template table \<Rightarrow> signature_template" where
  "kept_template pf t = template_values pf (case row t TEMPLATE_NAME of
     None \<Rightarrow> default_template\<lparr>st_template_name := TEMPLATE_NAME\<rparr> | Some doc \<Rightarrow> doc)"

lemma setup_template_run:
  assumes "pk_print_format K ''Sales Invoice'' = Some pf" and "pf \<noteq> []"
    and "scan_sound E" and "unique_names (t_requests (w_db w))" and "\<not> template_conflict pf w"
  shows "setup_template E K w = (Inr (), w\<lparr>w_db := (w_db w)\<lparr>t_templates :=
    put_row TEMPLATE_NAME (kept_template pf (t_templates (w_db w))) (t_templates (w_db w))\<rparr>\<rparr>)"
proof (cases "row (t_templates (w_db w)) TEMPLATE_NAME")
  case None
  then show ?thesis using assms(1,2)
    by (simp add: setup_template_def pick_print_format_def prim_runs put_row_def insert_template_def
        template_values_def kept_template_def)
next
  case (Some previous)
  have "has_signing_history E TEMPLATE_NAME w = (Inr (used w TEMPLATE_NAME), w)" by (rule has_history_run [OF assms(3,4)])
  with Some assms(1,2,5) show ?thesis
    by (auto simp: setup_template_def pick_print_format_def prim_runs put_row_def save_template_def
        template_before_save_def db_modify_def template_conflict_def kept_template_def)
qed

text \<open>What a run writes when the template need not be versioned.\<close>

definition setup_db :: "picks \<Rightarrow> string \<Rightarrow> db \<Rightarrow> db" where
  "setup_db K pf d = d
    \<lparr>t_settings := settings_values (t_settings d),
     t_profiles := put_row PROFILE_NAME (profile_values (pick_user K) (pick_company K)
        (case row (t_profiles d) PROFILE_NAME of
           None \<Rightarrow> blank_profile\<lparr>pf_profile_name := PROFILE_NAME\<rparr> | Some doc \<Rightarrow> doc)) (t_profiles d),
     t_templates := put_row TEMPLATE_NAME (kept_template pf (t_templates d)) (t_templates d),
     t_rules := put_row RULE_NAME (rule_values pf (pick_company K)
        (case row (t_rules d) RULE_NAME of None \<Rightarrow> blank_rule | Some doc \<Rightarrow> doc)) (t_rules d)\<rparr>"

lemma values_again [simp]:
  "settings_values (settings_values c) = settings_values c"
  "profile_values u co (profile_values u co p) = profile_values u co p"
  "template_values pf (template_values pf t) = template_values pf t"
  "rule_values pf co (rule_values pf co r) = rule_values pf co r"
  by (simp_all add: settings_values_def profile_values_def template_values_def rule_values_def)

lemma setup_db_again: "setup_db K pf (setup_db K pf d) = setup_db K pf d"
  by (simp add: setup_db_def kept_template_def put_row_same)

lemma conflict_only [simp]:
  "template_conflict pf (w\<lparr>w_db := (w_db w)\<lparr>t_settings := c\<rparr>\<rparr>) = template_conflict pf w"
  "template_conflict pf (w\<lparr>w_db := (w_db w)\<lparr>t_profiles := p\<rparr>\<rparr>) = template_conflict pf w"
  "template_conflict pf (w\<lparr>w_db := d\<lparr>t_settings := c\<rparr>\<rparr>) = template_conflict pf (w\<lparr>w_db := d\<rparr>)"
  "template_conflict pf (w\<lparr>w_db := d\<lparr>t_profiles := p\<rparr>\<rparr>) = template_conflict pf (w\<lparr>w_db := d\<rparr>)"
  by (simp_all add: template_conflict_def used_def)

lemma run_setup_run:
  assumes "pk_print_format K ''Sales Invoice'' = Some pf" and "pf \<noteq> []"
    and "scan_sound E" and "unique_names (t_requests (w_db w))" and "\<not> template_conflict pf w"
  shows "run_setup E K w = (Inr (setup_lines K),
    w\<lparr>w_db := setup_db K pf (w_db w), w_saved := setup_db K pf (w_db w)\<rparr>)"
proof -
  let ?d1 = "(w_db w)\<lparr>t_settings := settings_values (t_settings (w_db w))\<rparr>"
  let ?d2 = "?d1\<lparr>t_profiles := t_profiles (setup_db K pf (w_db w))\<rparr>"
  let ?d3 = "?d2\<lparr>t_templates := t_templates (setup_db K pf (w_db w))\<rparr>"
  have 1: "setup_settings w = (Inr (), w\<lparr>w_db := ?d1\<rparr>)"
    by (simp add: setup_settings_def prim_runs)
  have 2: "setup_profile (pick_user K) (pick_company K) (w\<lparr>w_db := ?d1\<rparr>) = (Inr (), w\<lparr>w_db := ?d2\<rparr>)"
    by (simp add: setup_profile_run setup_db_def)
  have 3: "setup_template E K (w\<lparr>w_db := ?d2\<rparr>) = (Inr (), w\<lparr>w_db := ?d3\<rparr>)"
    using setup_template_run [OF assms(1-3), of "w\<lparr>w_db := ?d2\<rparr>"] assms(4,5) by (simp add: setup_db_def)
  have 4: "setup_rule K (pick_company K) (w\<lparr>w_db := ?d3\<rparr>) = (Inr (), w\<lparr>w_db := setup_db K pf (w_db w)\<rparr>)"
    using setup_rule_run [OF assms(1,2), of "pick_company K" "w\<lparr>w_db := ?d3\<rparr>"] by (simp add: setup_db_def)
  show ?thesis
    unfolding run_setup_def Let_def by (simp add: 1 2 3 4 commit_def)
qed

lemma template_values_fixed:
  "versioned_values (template_values pf t) = versioned_values (template_values pf t')"
  "st_fields (template_values pf t) = st_fields (template_values pf t')"
  by (simp_all add: versioned_values_def template_values_def)

text \<open>A run that has to version the template leaves it as it was, inactive, and takes the name of
  the next version, so that the following run finds the same conflict and the name taken.\<close>

definition demo_previous :: "string \<Rightarrow> world \<Rightarrow> signature_template \<Rightarrow> bool" where
  "demo_previous pf w previous \<longleftrightarrow> row (t_templates (w_db w)) TEMPLATE_NAME = Some previous
    \<and> versioned_fields_changed (template_values pf previous) previous
    \<and> st_template_name previous = TEMPLATE_NAME \<and> st_version previous = 1"

lemma demo_version_name:
  "st_template_name t = TEMPLATE_NAME \<Longrightarrow> st_version t = 1 \<Longrightarrow> version_name t = TEMPLATE_NAME @ '' v2''"
  by (simp add: version_name_def next_version_def) code_simp

lemma setup_template_conflict:
  assumes "pk_print_format K ''Sales Invoice'' = Some pf" and "pf \<noteq> []"
    and "scan_sound E" and "unique_names (t_requests (w_db w))" and "used w TEMPLATE_NAME"
    and "demo_previous pf w previous" and "setup_template E K w = (res, w')"
  shows "if row (t_templates (w_db w)) (TEMPLATE_NAME @ '' v2'') = None
    then res = Inr () \<and> requests w' = requests w \<and> (\<exists>previous'. demo_previous pf w' previous')
      \<and> row (t_templates (w_db w')) (TEMPLATE_NAME @ '' v2'') \<noteq> None
    else res = Inl (DuplicateEntryError ''DSC Signature Template'' (TEMPLATE_NAME @ '' v2''))"
proof -
  let ?t = "template_values pf previous"
  have previous: "row (t_templates (w_db w)) TEMPLATE_NAME = Some previous"
    "versioned_fields_changed ?t previous" "version_name previous = TEMPLATE_NAME @ '' v2''"
    "st_template_name previous = TEMPLATE_NAME"
    using assms(6) by (simp_all add: demo_previous_def demo_version_name)
  then have save: "save_template E TEMPLATE_NAME ?t w = (res, w')"
    using assms(1,2,7) by (simp add: setup_template_def pick_print_format_def prim_runs)
  note cases = save_template_run [OF assms(3,4) previous(1) save] previous(2,3) assms(5)
  have "requests w' = requests w" by (rule keeps_same_runD [OF save_template_requests save])
  moreover have "demo_previous pf w' ((copy_versioned previous ?t)\<lparr>st_is_active := False\<rparr>)"
    if "row (t_templates (w_db w')) TEMPLATE_NAME = Some ((copy_versioned previous ?t)\<lparr>st_is_active := False\<rparr>)"
    using that previous(2,4) template_values_fixed [of pf "(copy_versioned previous ?t)\<lparr>st_is_active := False\<rparr>" previous]
    by (simp add: demo_previous_def versioned_fields_changed_def)
      (simp add: copy_versioned_def template_values_def)
  ultimately show ?thesis
    using cases previous(1) by (auto split: if_splits)
qed

lemma setup_again_same:
  assumes "pk_print_format K ''Sales Invoice'' = Some pf" and "pf \<noteq> []"
    and "scan_sound E" and "unique_names (t_requests (w_db w))" and "\<not> template_conflict pf w"
    and "run_setup E K w = (res, w')"
  shows "res = Inr (setup_lines K)" and "run_setup E K w' = (Inr (setup_lines K), w')"
    and "w_db w' = setup_db K pf (w_db w)"
proof -
  have w': "w' = w\<lparr>w_db := setup_db K pf (w_db w), w_saved := setup_db K pf (w_db w)\<rparr>"
    and "res = Inr (setup_lines K)"
    using run_setup_run [OF assms(1-5)] assms(6) by simp_all
  then show "res = Inr (setup_lines K)" "w_db w' = setup_db K pf (w_db w)" by simp_all
  have "\<not> template_conflict pf w'"
    by (simp add: template_conflict_def w' setup_db_def kept_template_def versioned_fields_changed_def)
  from run_setup_run [OF assms(1-3) _ this] assms(4) w' show "run_setup E K w' = (Inr (setup_lines K), w')"
    by (simp add: setup_db_again, simp add: setup_db_def)
qed

definition before_template :: "picks \<Rightarrow> world \<Rightarrow> world" where
  "before_template K w = snd (setup_profile (pick_user K) (pick_company K) (snd (setup_settings w)))"

lemma before_template_run:
  "run_setup E K w = seq (setup_template E K) (seq (setup_rule K (pick_company K))
     (seq commit (ret (setup_lines K)))) (before_template K w)"
  "requests (before_template K w) = requests w"
  "t_templates (w_db (before_template K w)) = t_templates (w_db w)"
  by (simp_all add: before_template_def run_setup_def Let_def setup_settings_def setup_profile_run
      prim_runs requests_def run_seq)

lemma before_template_conflict:
  "used (before_template K w) n = used w n" "demo_previous pf (before_template K w) t = demo_previous pf w t"
  using before_template_run(2) [of K w]
  by (simp_all add: used_def demo_previous_def before_template_run(3) requests_def)

lemma run_setup_steps:
  assumes "run_setup E K w = (Inr out, w1)"
  obtains pf w3 where "pk_print_format K ''Sales Invoice'' = Some pf" "pf \<noteq> []"
    "setup_template E K (before_template K w) = (Inr (), w3)"
    "requests w1 = requests w3" "t_templates (w_db w1) = t_templates (w_db w3)"
proof -
  from assms obtain w3 where w3: "setup_template E K (before_template K w) = (Inr (), w3)"
    and rest: "seq (setup_rule K (pick_company K)) (seq commit (ret (setup_lines K))) w3 = (Inr out, w1)"
    unfolding before_template_run(1) by (auto elim: seq_okE)
  obtain pf where pf: "pk_print_format K ''Sales Invoice'' = Some pf" "pf \<noteq> []"
    using w3 by (cases "truthy (pk_print_format K ''Sales Invoice'')")
      (auto simp: setup_template_def pick_print_format_def prim_runs elim!: truthyE)
  have "requests w1 = requests w3" "t_templates (w_db w1) = t_templates (w_db w3)"
    using rest by (auto simp: setup_rule_run [OF pf] commit_def requests_def)
  with that pf w3 show thesis by blast
qed

lemma setup_refused:
  assumes "pk_print_format K ''Sales Invoice'' = Some pf" and "pf \<noteq> []" and "scan_sound E"
    and "unique_names (t_requests (w_db w))" and "used w TEMPLATE_NAME" and "demo_previous pf w previous"
    and "row (t_templates (w_db w)) (TEMPLATE_NAME @ '' v2'') \<noteq> None"
  shows "fst (run_setup E K w) = Inl (DuplicateEntryError ''DSC Signature Template'' (TEMPLATE_NAME @ '' v2''))"
proof -
  obtain res w4 where w4: "setup_template E K (before_template K w) = (res, w4)" by fastforce
  have "unique_names (t_requests (w_db (before_template K w)))"
    using assms(4) before_template_run(2) [of K w] by (simp add: requests_def)
  from setup_template_conflict [OF assms(1-3) this _ _ w4, of previous] assms(5-7)
  have "res = Inl (DuplicateEntryError ''DSC Signature Template'' (TEMPLATE_NAME @ '' v2''))"
    by (simp add: before_template_conflict before_template_run(3))
  with w4 show ?thesis by (simp add: before_template_run(1))
qed

text \<open>Running the setup again changes nothing, the registered certificate of the profile
  included, unless a request refers to the demonstration template and the template is not as the
  script writes it: then the run versions the template, and the next run is refused because the
  name of the next version is taken.\<close>

theorem setup_again:
  assumes "scan_sound E" and "unique_names (t_requests (w_db w))" and "run_setup E K w = (Inr out, w1)"
  shows "let pf = or_str (pk_print_format K ''Sales Invoice'') '''' in
    (\<not> template_conflict pf w \<longrightarrow> run_setup E K w1 = (Inr out, w1)
      \<and> (\<forall>p. row (t_profiles (w_db w)) PROFILE_NAME = Some p \<longrightarrow>
          (\<exists>p1. row (t_profiles (w_db w1)) PROFILE_NAME = Some p1
            \<and> pf_certificate_fingerprint p1 = pf_certificate_fingerprint p)))
  \<and> (\<forall>previous. used w TEMPLATE_NAME \<and> demo_previous pf w previous \<longrightarrow>
      fst (run_setup E K w1) = Inl (DuplicateEntryError ''DSC Signature Template'' (TEMPLATE_NAME @ '' v2'')))"
proof -
  obtain pf w3 where pf: "pk_print_format K ''Sales Invoice'' = Some pf" "pf \<noteq> []"
    and t: "setup_template E K (before_template K w) = (Inr (), w3)"
    "requests w1 = requests w3" "t_templates (w_db w1) = t_templates (w_db w3)"
    by (rule run_setup_steps [OF assms(3)])
  have same: "run_setup E K w1 = (Inr out, w1) \<and> w_db w1 = setup_db K pf (w_db w)" if "\<not> template_conflict pf w"
    using setup_again_same [OF pf assms(1,2) that assms(3)] by simp
  have dup: "fst (run_setup E K w1) = Inl (DuplicateEntryError ''DSC Signature Template'' (TEMPLATE_NAME @ '' v2''))"
    if c: "used w TEMPLATE_NAME" "demo_previous pf w previous" for previous
  proof -
    have "unique_names (t_requests (w_db (before_template K w)))"
      using assms(2) before_template_run(2) [of K w] by (simp add: requests_def)
    from setup_template_conflict [OF pf assms(1) this _ _ t(1), of previous] c obtain previous' where
      w3: "requests w3 = requests w" "demo_previous pf w3 previous'"
        "row (t_templates (w_db w3)) (TEMPLATE_NAME @ '' v2'') \<noteq> None"
      by (auto simp: before_template_conflict before_template_run(2) split: if_splits)
    have "unique_names (t_requests (w_db w1))" "used w1 TEMPLATE_NAME"
      using assms(2) c(1) w3(1) t(2) by (simp_all add: used_def requests_def)
    moreover have "demo_previous pf w1 previous'" using w3(2) t(3) by (simp add: demo_previous_def)
    ultimately show ?thesis using setup_refused [OF pf assms(1)] w3(3) t(3) by simp
  qed
  from same dup pf show ?thesis
    by (auto simp: setup_db_def profile_values_def)
qed

section \<open>What the rule does, and the removal\<close>

lemma setup_rule_row:
  assumes "run_setup E K w = (Inr out, w1)"
  obtains pf doc0 where "row (t_rules (w_db w1)) RULE_NAME = Some (rule_values pf (pick_company K) doc0)"
proof -
  obtain pf w3 where pf: "pk_print_format K ''Sales Invoice'' = Some pf" "pf \<noteq> []"
    and t: "setup_template E K (before_template K w) = (Inr (), w3)"
    by (rule run_setup_steps [OF assms(1)])
  with assms show thesis
    by (intro that) (auto simp: before_template_run(1) setup_rule_run commit_def)
qed

text \<open>The rule that a run leaves applies to a submitted invoice of the company whose total is
  greater than 50000, and not to one of exactly 50000, although \<open>run\<close> prints that it does.\<close>

theorem setup_threshold:
  assumes "run_setup E K w = (Inr out, w1)"
    and "q_flt Q (field (do_fields doc) ''grand_total'') = Some (Fin amount)"
    and "q_flt Q (FStr ''50000'') = Some (Fin 50000)"
    and "\<not> truthy (pick_company K) \<or> field (do_fields doc) ''company'' = FStr (or_str (pick_company K) [])"
  shows "\<exists>r. row (t_rules (w_db w1)) RULE_NAME = Some r \<and> ru_is_enabled r \<and> ru_profile r = PROFILE_NAME
    \<and> (rule_applies Q doc ''on_submit'' r \<longleftrightarrow> 50000 < amount)"
proof -
  obtain pf doc0 where "row (t_rules (w_db w1)) RULE_NAME = Some (rule_values pf (pick_company K) doc0)"
    by (rule setup_rule_row [OF assms(1)])
  moreover have "rule_applies Q doc ''on_submit'' (rule_values pf (pick_company K) doc0) \<longleftrightarrow> 50000 < amount"
    using assms(2-4) by (auto simp: rule_applies_def rule_values_def evaluate_conditions_def check_condition_def
        coerce_and_compare_def)
  ultimately show ?thesis by (auto simp: rule_values_def)
qed

lemma teardown_removes:
  "\<exists>out w'. teardown w = (Inr out, w') \<and> w_saved w' = w_db w'
    \<and> t_rules (w_db w') = drop_row RULE_NAME (t_rules (w_db w))
    \<and> t_templates (w_db w') = drop_row TEMPLATE_NAME (t_templates (w_db w))
    \<and> t_profiles (w_db w') = drop_row PROFILE_NAME (t_profiles (w_db w))
    \<and> t_settings (w_db w') = t_settings (w_db w) \<and> requests w' = requests w"
proof -
  have absent: "drop_row n t = t" if "row t n = None" for n and t :: "'r table"
    using that unfolding row_def drop_row_def by (induction t) (auto split: if_splits)
  show ?thesis
    by (simp add: teardown_def teardown_one_def run_bind run_seq db_gets_def db_modify_def commit_def
        requests_def absent)
qed

end
