(* ===== verification/Witnesses_Reports.thy ===== *)
theory Witnesses_Reports
  imports Demo Reports Setup
begin

text \<open>
  Witnesses for the reports and the demonstration setup.
\<close>

definition no_filters :: report_filters where
  "no_filters = \<lparr>rf_from_date = None, rf_to_date = None, rf_profile = None, rf_source_doctype = None\<rparr>"

text \<open>Three requests signed within 1, 2 and 2 seconds.\<close>

definition demo_timed :: world where
  "demo_timed = demo_world\<lparr>w_db := demo_db\<lparr>t_requests :=
     map (\<lambda>(n, d). (n, (demo_request n Signed)\<lparr>sr_sign_duration_seconds := Some d, sr_signed_on := Some 0\<rparr>))
       [(''A'', 1), (''B'', 2), (''C'', 2)]\<rparr>\<rparr>"

lemma volume_report_counts_witness:
  "\<exists>rows. execute_volume demo_env (\<lambda>s. s) (\<lambda>s. s) (\<lambda>d. ''day'') no_filters demo_world
     = (Inr (volume_columns (\<lambda>s. s), rows, volume_chart (\<lambda>d. ''day'') rows), demo_world)
   \<and> sum_list (map vr_total rows) = 4"
proof -
  have "length (filter (volume_where (\<lambda>s. s) no_filters) (all_requests demo_world)) = 4" by code_simp
  with volume_report_counts [OF demo_ok(1,2), of "\<lambda>s. s" "\<lambda>s. s" "\<lambda>d. ''day''" no_filters] show ?thesis
    by (metis (no_types, lifting))
qed

lemma sign_time_report_bounds_witness:
  "\<exists>rows a. execute_sign_time demo_env (\<lambda>s. s) (\<lambda>s. s) no_filters demo_timed = (Inr (sign_time_columns (\<lambda>s. s), rows), demo_timed)
   \<and> a \<in> set rows \<and> 10000 * ar_min_seconds a \<le> ar_avg_seconds a \<and> ar_avg_seconds a \<le> 10000 * ar_max_seconds a"
proof -
  have names: "unique_names (t_requests (w_db demo_timed))" by (simp add: demo_timed_def unique_names_def)
  let ?r = "(demo_request ''A'' Signed)\<lparr>sr_sign_duration_seconds := Some 1, sr_signed_on := Some 0\<rparr>"
  have r: "?r \<in> set (all_requests demo_timed)" by (simp add: demo_timed_def all_requests_def)
  have s: "sign_time_where (\<lambda>s. s) no_filters ?r"
    by (simp add: sign_time_where_def no_filters_def in_period_def chosen_def)
  obtain rows where rows: "execute_sign_time demo_env (\<lambda>s. s) (\<lambda>s. s) no_filters demo_timed
      = (Inr (sign_time_columns (\<lambda>s. s), rows), demo_timed)"
    "\<exists>a \<in> set rows. timed_in (\<lambda>s. s) no_filters a ?r"
    "\<forall>a \<in> set rows. 10000 * ar_min_seconds a \<le> ar_avg_seconds a \<and> ar_avg_seconds a \<le> 10000 * ar_max_seconds a"
    using sign_time_report_bounds [OF demo_ok(1) names, of "\<lambda>s. s" "\<lambda>s. s" no_filters] r s
    unfolding Let_def by blast
  then show ?thesis by blast
qed

lemma sign_time_rows_demo: "map ar_avg_seconds (sign_time_rows (\<lambda>s. s) (all_requests demo_timed)) = [16667]"
  by code_simp

definition demo_picks :: picks where
  "demo_picks = \<lparr>pk_user = Some ''u'', pk_company = None, pk_print_format = (\<lambda>dt. Some ''Standard'')\<rparr>"

lemma setup_again_witness:
  "\<exists>w1. run_setup demo_env demo_picks demo_world = (Inr (setup_lines demo_picks), w1)
    \<and> run_setup demo_env demo_picks w1 = (Inr (setup_lines demo_picks), w1)"
proof -
  have conflict: "\<not> template_conflict ''Standard'' demo_world"
    by (simp add: template_conflict_def demo_world_def demo_db_def row_def)
  obtain w1 where run: "run_setup demo_env demo_picks demo_world = (Inr (setup_lines demo_picks), w1)"
    using run_setup_run [of demo_picks "''Standard''" demo_env demo_world] demo_ok(1,2) conflict
    by (simp add: demo_picks_def)
  from setup_again [OF demo_ok(1,2) run] conflict run show ?thesis
    by (auto simp: Let_def demo_picks_def)
qed

end
