(* ===== verification/Progress.thy ===== *)
theory Progress
  imports Handshake
begin

text \<open>
  Total correctness of the handshake: when \<open>initiate\<close> and \<open>finalize\<close> return, and not only what
  holds if they do. \<open>returns m w Q\<close> says that running \<open>m\<close> from \<open>w\<close> returns, with a result and
  a state that satisfy \<open>Q\<close>; its rules follow the structure of the actions.
\<close>

section \<open>Running to a result\<close>

definition returns :: "('w, 'e, 'a) action \<Rightarrow> 'w \<Rightarrow> ('a \<Rightarrow> 'w \<Rightarrow> bool) \<Rightarrow> bool" where
  "returns m w Q \<longleftrightarrow> (\<exists>x w'. m w = (Inr x, w') \<and> Q x w')"

lemma returnsE:
  assumes "returns m w Q"
  obtains x w' where "m w = (Inr x, w')" "Q x w'"
  using assms unfolding returns_def by blast

lemma returns_run: "m w = (Inr x, w') \<Longrightarrow> Q x w' \<Longrightarrow> returns m w Q"
  unfolding returns_def by blast

lemma returns_from: "m w = (Inr x, w') \<Longrightarrow> returns (f x) w' Q \<Longrightarrow> returns (bind m f) w Q"
  by (simp add: returns_def)

lemma returns_ret: "Q x w \<Longrightarrow> returns (ret x) w Q"
  by (simp add: returns_def)

lemma returns_lift: "r = Inr x \<Longrightarrow> Q x w \<Longrightarrow> returns (lift r) w Q"
  by (simp add: returns_def)

lemma returns_bind_lift: "r = Inr x \<Longrightarrow> returns (f x) w Q \<Longrightarrow> returns (bind (lift r) f) w Q"
  by (simp add: returns_def)

lemma returns_gets: "Q (f (w_db w)) w \<Longrightarrow> returns (db_gets f) w Q"
  by (simp add: returns_def db_gets_run)

lemma returns_bind: "returns m w (\<lambda>x w1. returns (f x) w1 Q) \<Longrightarrow> returns (bind m f) w Q"
  unfolding returns_def by (metis bind_run(1))

lemma returns_seq: "returns m w (\<lambda>_ w1. returns k w1 Q) \<Longrightarrow> returns (seq m k) w Q"
  unfolding seq_def by (rule returns_bind)

lemma returns_skip:
  "\<not> c \<Longrightarrow> returns k w Q \<Longrightarrow> returns (seq (cond c m) k) w Q"
  "\<not> c \<Longrightarrow> returns k w Q \<Longrightarrow> returns (seq (throw_if c e) k) w Q"
  by (simp_all add: returns_def run_cond)

lemma returns_prod: "(\<And>a b. returns (f a b) w Q) \<Longrightarrow> returns (case p of (a, b) \<Rightarrow> f a b) w Q"
  by (cases p) simp

lemma returns_catch: "returns m w Q \<Longrightarrow> returns (catch m h) w Q"
  unfolding returns_def by (metis catch_run(1))

text \<open>A step that cannot raise is known by what it keeps.\<close>

lemma returns_total: "total m \<Longrightarrow> keeps R m \<Longrightarrow> (\<And>x w'. R w w' \<Longrightarrow> Q x w') \<Longrightarrow> returns m w Q"
  unfolding returns_def by (metis total_runE keeps_runD)

lemma returns_any:
  "total m \<Longrightarrow> (\<And>x w1. returns (f x) w1 Q) \<Longrightarrow> returns (bind m f) w Q"
  "total u \<Longrightarrow> (\<And>w1. returns k w1 Q) \<Longrightarrow> returns (seq u k) w Q"
  "total m \<Longrightarrow> returns m w (\<lambda>_ _. True)"
  unfolding returns_def by (metis bind_run(1) seq_run(1) total_runE)+

lemma returns_weaken: "returns m w Q \<Longrightarrow> (\<And>x w'. Q x w' \<Longrightarrow> Q' x w') \<Longrightarrow> returns m w Q'"
  unfolding returns_def by blast

section \<open>What the steps of a signature need\<close>

text \<open>The documents a signature reads: its request and the profile of that request.\<close>

definition backed :: "string \<Rightarrow> world \<Rightarrow> bool" where
  "backed n w \<longleftrightarrow> (\<exists>req pf. row (requests w) n = Some req \<and> row (t_profiles (w_db w)) (sr_profile req) = Some pf)"

definition keeps_backed :: "string \<Rightarrow> world \<Rightarrow> world \<Rightarrow> bool" where
  "keeps_backed n w w' \<longleftrightarrow> (backed n w \<longrightarrow> backed n w')"

interpretation backing: run_relation "keeps_backed n" for n
  by unfold_locales (auto simp: keeps_backed_def)

lemma backed_same: "requests w' = requests w \<Longrightarrow> t_profiles (w_db w') = t_profiles (w_db w) \<Longrightarrow> backed n w' = backed n w"
  by (simp add: backed_def)

named_theorems keeps_backed "steps that keep a request and its profile"

declare backing.keeps_intros [keeps_backed]

lemma keeps_backed_same:
  "keeps (same requests) m \<Longrightarrow> keeps (same (\<lambda>w. t_profiles (w_db w))) m \<Longrightarrow> keeps (keeps_backed n) m"
  unfolding keeps_def keeps_backed_def same_def by (metis backed_same)

lemma keeps_backed_db: "keeps (same both_dbs) m \<Longrightarrow> keeps (keeps_backed n) m"
  using keeps_backed_same [OF keeps_db_requests keeps_db_now [where f = t_profiles]] .

text \<open>Going on after a step that keeps the documents a signature needs.\<close>

lemma backed_then:
  assumes "backed n w" "keeps (keeps_backed n) m"
  shows "total m \<Longrightarrow> (\<And>x w1. backed n w1 \<Longrightarrow> returns (f x) w1 Q) \<Longrightarrow> returns (bind m f) w Q"
  by (rule returns_bind, rule returns_total, assumption, rule assms(2)) (simp add: keeps_backed_def assms(1))

lemma backed_then_seq:
  assumes "backed n w" "keeps (keeps_backed n) m"
  shows "total m \<Longrightarrow> (\<And>w1. backed n w1 \<Longrightarrow> returns k w1 Q) \<Longrightarrow> returns (seq m k) w Q"
  unfolding seq_def by (rule backed_then [OF assms])

lemma keeps_backed_set_request:
  assumes "\<And>r. sr_profile (f r) = sr_profile r"
  shows "keeps (keeps_backed n) (set_request E m f)"
  by (rule keepsI) (auto simp: keeps_backed_def backed_def set_request_run requests_def assms)

lemma keeps_backed_steps [keeps_backed]:
  "keeps (keeps_backed n) (audit E m ty ds)" "keeps (keeps_backed n) (set_docsign dn f)"
  "keeps (keeps_backed n) (save_signed_pdf E P sd)"
proof -
  have "keeps (same (\<lambda>w. t_profiles (w_db w))) (audit E m ty ds)" by (intro keeps_now) simp_all
  then show "keeps (keeps_backed n) (audit E m ty ds)" by (rule keeps_backed_same [OF keeps_audit(3)])
  have "keeps (same (\<lambda>w. t_profiles (w_db w))) (set_docsign dn f)" by (intro keeps_now) simp_all
  moreover have "keeps (same requests) (set_docsign dn f)" by (intro keeps_requests)
  ultimately show "keeps (keeps_backed n) (set_docsign dn f)" by (intro keeps_backed_same)
  have "keeps (same (\<lambda>w. t_profiles (w_db w))) (save_signed_pdf E P sd)" by (intro keeps_now_signed_pdf) simp_all
  then show "keeps (keeps_backed n) (save_signed_pdf E P sd)" by (rule keeps_backed_same [OF keeps_requests_signed_pdf])
qed

section \<open>\<open>finalize\<close> returns\<close>

text \<open>The certificates of a chain the browser sent, when each of its items is one.\<close>

fun certs_of :: "pdf_env \<Rightarrow> json list \<Rightarrow> certificate list option" where
  "certs_of P [] = Some []"
| "certs_of P (JStr s # cs) =
    (case b64decode s of
       None \<Rightarrow> None
     | Some der \<Rightarrow> (case p_load_cert P der of Inl e \<Rightarrow> None | Inr cert \<Rightarrow> map_option (Cons cert) (certs_of P cs)))"
| "certs_of P (c # cs) = None"

lemma load_chain_run: "certs_of P items = Some certs \<Longrightarrow> load_chain P items w = (Inr certs, w)"
  by (induction P items arbitrary: certs rule: certs_of.induct)
    (auto simp: decode_def split: option.splits sum.splits)

text \<open>The data can be embedded: the browser's signature and chain can be read, the session holds
  what \<open>initiate\<close> stored, and pyHanko fills the reserved region and finds a signature in the result.\<close>

definition embeddable :: "pdf_env \<Rightarrow> session \<Rightarrow> string \<Rightarrow> json \<Rightarrow> bool" where
  "embeddable P ss signature_bytes_b64 chain \<longleftrightarrow>
    (\<exists>sigb der cert items certs attrs pdf out found sigs. b64decode signature_bytes_b64 = Some sigb
      \<and> b64decode (ss_cert_der_b64 ss) = Some der \<and> p_load_cert P der = Inr cert
      \<and> chain_items chain = Inr items \<and> certs_of P items = Some certs
      \<and> b64decode (ss_signed_attrs_b64 ss) = Some attrs \<and> b64decode (ss_prepared_pdf_b64 ss) = Some pdf
      \<and> p_fill_with_cms P pdf (ss_reserved_region_start ss) (ss_reserved_region_end ss)
          (p_cms_der P \<lparr>ci_signer_cert = cert, ci_chain = certs, ci_signed_attrs = attrs, ci_signature = sigb\<rparr>)
        = Inr out
      \<and> p_embedded_signatures P out = Inr (found # sigs))"

lemma load_session_pop_run:
  "live_session E w sid = Some ss \<Longrightarrow> load_session E sid True w = (Inr (Some ss),
     w\<lparr>w_tick := Suc (w_tick w), w_cache := AList.delete (session_key sid) (w_cache w)\<rparr>)"
  by (auto simp: load_session_def cache_get_def now_datetime_def live_session_def cond_def cache_delete_def
      run_bind run_seq split: option.splits cached.splits if_splits)

lemma finalize_pdf_returns:
  assumes "live_session E w sid = Some ss" and "embeddable P ss sig chain"
  shows "returns (finalize_signed_pdf E P sid sig chain) w (\<lambda>sd w'. both_dbs w' = both_dbs w
    \<and> (\<exists>found sigs. p_embedded_signatures P (sd_signed_pdf_bytes sd) = Inr (found # sigs)))"
proof -
  obtain sigb der cert items certs attrs pdf out found sigs where e:
    "b64decode sig = Some sigb" "b64decode (ss_cert_der_b64 ss) = Some der" "p_load_cert P der = Inr cert"
    "chain_items chain = Inr items" "certs_of P items = Some certs"
    "b64decode (ss_signed_attrs_b64 ss) = Some attrs" "b64decode (ss_prepared_pdf_b64 ss) = Some pdf"
    "p_fill_with_cms P pdf (ss_reserved_region_start ss) (ss_reserved_region_end ss)
        (p_cms_der P \<lparr>ci_signer_cert = cert, ci_chain = certs, ci_signed_attrs = attrs, ci_signature = sigb\<rparr>)
      = Inr out" and found: "p_embedded_signatures P out = Inr (found # sigs)"
    using assms(2) unfolding embeddable_def by blast
  have d: "decode x w1 = (Inr y, w1)" if "b64decode x = Some y" for x y and w1 :: world
    using that by (simp add: decode_def)
  show ?thesis
    unfolding finalize_signed_pdf_def Let_def
    by (rule returns_from, rule load_session_pop_run [OF assms(1)])
      (simp add: returns_def d [OF e(1)] d [OF e(2)] d [OF e(6)] d [OF e(7)] e(3,4,8) load_chain_run [OF e(5)]
        db_gets_run found both_dbs_def)
qed

lemma total_verify: "total (verify_signed_pdf E P pdf)"
proof -
  have "total (load_trust_store E P)" unfolding load_trust_store_def by (intro total_intros)
  then show ?thesis
    unfolding verify_signed_pdf_def
    by (auto intro!: total_intros split: sum.split list.split)
qed

lemma verify_finds:
  assumes "verify_signed_pdf E P pdf w = (Inr v, w')" and "p_embedded_signatures P pdf = Inr (found # sigs)"
  shows "\<not> no_signatures v"
  using assms by (auto simp: verify_signed_pdf_def Let_def no_signatures_def elim!: bind_okE)

lemma save_returns:
  assumes "fresh_names E"
  shows "total (save_signed_pdf E P sd)"
proof (rule totalI)
  fix w
  show "\<exists>x w'. save_signed_pdf E P sd w = (Inr x, w')"
    by (simp add: save_signed_pdf_def new_name_run db_gets_run run_bind run_seq run_cond Let_def
        insert_row_ok row_new [OF assms] set_file_def db_modify_def split: prod.split)
qed

lemma timeline_returns: "backed n w \<Longrightarrow> returns (add_timeline_entry E dt dn n) w (\<lambda>_ _. True)"
  unfolding backed_def add_timeline_entry_def Let_def
  by (auto simp: returns_def get_doc_run requests_def db_modify_def)

lemma record_signature_returns:
  assumes "fresh_names E" and "backed n w"
  shows "returns (record_signature E n t0 sig ocsp sd fn fd) w (\<lambda>_ _. True)"
proof -
  let ?mail = "catch (send_signed_notification E (sd_doctype sd) (sd_docname sd) n)
           (\<lambda>_. log_error ''DSC: signed notification email failed'')"
  have last: "returns (seq ?mail commit) w (\<lambda>_ _. True)" for w
    by (rule returns_total [where R = "\<lambda>_ _. True"]) (auto intro!: total_intros simp: keeps_def)
  show ?thesis
    unfolding record_signature_def Let_def using assms(2)
    by (intro backed_then backed_then_seq keeps_backed keeps_backed_db [OF keeps_db_prims(1)] keeps_backed_set_request
        total_audit [OF assms(1)] total_intros returns_seq returns_weaken [OF timeline_returns] last)
      simp_all
qed

lemma complete_signing_returns:
  assumes "fresh_names E" and "live_session E w sid = Some ss" and "embeddable P ss sig chain" and "backed n w"
  shows "returns (complete_signing E P n sid sig chain ocsp t0) w (\<lambda>_ _. True)"
proof -
  obtain sd w1 found sigs where a: "finalize_signed_pdf E P sid sig chain w = (Inr sd, w1)" and
    w1: "both_dbs w1 = both_dbs w" and found: "p_embedded_signatures P (sd_signed_pdf_bytes sd) = Inr (found # sigs)"
    using finalize_pdf_returns [OF assms(2,3)] by (auto elim: returnsE)
  obtain v w2 where b: "verify_signed_pdf E P (sd_signed_pdf_bytes sd) w1 = (Inr v, w2)"
    using total_runE [OF total_verify] .
  have v: "\<not> (\<not> vf_is_valid v \<and> no_signatures v)" using verify_finds [OF b found] by simp
  have w2: "backed n w2"
    using keeps_same_runD [OF keeps_db_embed(6) b] w1 assms(4) by (simp add: both_dbs_def backed_def requests_def)
  have hooks: "returns (seq (run_dev_hooks E h kw) (ret x)) w (\<lambda>_ _. True)" for h kw w and x :: finalized
    by (rule returns_total [where R = "\<lambda>_ _. True"])
      (auto intro!: total_intros simp: run_dev_hooks_def keeps_def)
  show ?thesis
    unfolding complete_signing_def
  proof (rule returns_from, rule a, rule returns_from, rule b)
    show "returns
     (seq (audit E n ''PDF Verified''
          [(''is_valid'', JBool (vf_is_valid v)),
           (''signature_count'', case signature_count v of None \<Rightarrow> JNull | Some k \<Rightarrow> JInt (int k))])
    (seq (cond (\<not> vf_is_valid v \<and> no_signatures v) (reject_pdf E n v))
    (bind (save_signed_pdf E P sd) (\<lambda>(file_name, fd).
     seq (record_signature E n t0 sig ocsp sd file_name fd)
     (seq (run_dev_hooks E ''dsc_after_sign''
            [(''signing_request'', n), (''doctype'', sd_doctype sd), (''docname'', sd_docname sd),
             (''file_url'', fl_file_url fd)])
     (ret \<lparr>fi_file_url = fl_file_url fd, fi_file_name = fl_file_name fd, fi_signing_request = n,
           fi_verification = v\<rparr>)))))) w2 (\<lambda>_ _. True)"
      using w2
      by (intro backed_then backed_then_seq keeps_backed total_audit [OF assms(1)] save_returns [OF assms(1)]
          returns_skip [OF v] returns_prod returns_seq returns_weaken [OF record_signature_returns [OF assms(1)]] hooks)
  qed
qed

text \<open>\<open>finalize\<close> returns whenever the session is live and stays so for the four readings of the clock
  until the engine takes it, its request and the request's profile exist, the certificate that is
  presented is readable and not another than the profile's, and the data can be embedded. Mails,
  hooks and the trust store cannot make it fail.\<close>

theorem finalize_returns:
  assumes "fresh_names E" and "live_session E w sid = Some ss"
    and "live_session E (w\<lparr>w_tick := w_tick w + 4\<rparr>) sid = Some ss"
    and "row (t_requests (w_db w)) (ss_signing_request_name ss) = Some req"
    and "row (t_profiles (w_db w)) (sr_profile req) = Some pf"
    and "b64decode (or_str c '''') = Some der"
    and "\<not> fingerprint_mismatch (expected_fingerprint (w_db w) req) (presented_fingerprint E der)"
    and "embeddable P ss sig (parse_chain P chain)"
  shows "\<exists>r w'. finalize E P sid sig c chain ocsp w = (Inr r, w')"
proof -
  let ?n = "ss_signing_request_name ss"
  obtain t0 w1 where w1: "w_cache w1 = w_cache w" "requests w1 = requests w"
      "t_profiles (w_db w1) = t_profiles (w_db w)" "w_tick w1 = w_tick w + 4" and
    f: "finalize E P sid sig c chain ocsp w =
      catch (complete_signing E P ?n sid sig (parse_chain P chain) ocsp t0) (handle_failure E ?n req) w1"
    by (rule finalize_prefix [OF assms(1,2,4,6), of P sig chain ocsp]) (auto simp: Let_def assms(7))
  have "live_session E w1 sid = live_session E (w\<lparr>w_tick := w_tick w + 4\<rparr>) sid"
    unfolding live_session_def w1 by (simp split: option.split cached.split)
  moreover have "backed ?n w1" using assms(4,5) w1 by (simp add: backed_def requests_def)
  ultimately have "returns (complete_signing E P ?n sid sig (parse_chain P chain) ocsp t0) w1 (\<lambda>_ _. True)"
    using assms(3) by (intro complete_signing_returns [OF assms(1) _ assms(8)]) simp_all
  then show ?thesis unfolding f by (auto elim: returnsE)
qed

section \<open>\<open>initiate\<close> returns\<close>

text \<open>The PDF can be prepared: pyHanko accepts it with the signer's certificate, wherever the box is.\<close>

definition preparable :: "pdf_env \<Rightarrow> certificate \<Rightarrow> string \<Rightarrow> bool" where
  "preparable P cert pdf \<longleftrightarrow>
    (\<forall>q. dq_pdf_bytes q = pdf \<and> dq_signer_cert q = cert \<longrightarrow> (\<exists>r. p_digest_doc_for_signing P q = Inr r))"

lemma prepare_returns:
  assumes "p_load_cert P der = Inr cert" and "preparable P cert b"
    and "case pdf of Some b' \<Rightarrow> b' = b
      | None \<Rightarrow> \<exists>h. p_get_print P (w_db w) dt dn pfm = Inr h \<and> p_get_pdf P h = Inr b"
  shows "returns (prepare_pdf_for_signing E P dt dn pfm tmpl pf name der loc pdf placement) w (\<lambda>_ _. True)"
proof -
  have source: "(case pdf of None \<Rightarrow> generate_pdf_from_print_format P dt dn pfm | Some b \<Rightarrow> ret b) w = (Inr b, w)"
    using assms(3) by (auto simp: generate_pdf_from_print_format_def db_gets_run run_bind split: option.splits)
  have "total (locate_signature_anchor layout)" for layout
    unfolding locate_signature_anchor_def by (auto intro!: total_intros split: prod.split)
  then have "total (signature_box P tmpl b placement)"
    unfolding signature_box_def by (intro total_intros)
  then obtain pb w1 where box: "signature_box P tmpl b placement w = (Inr pb, w1)" by (rule total_runE)
  have store: "total (store_session E sid ss)" for sid ss
    unfolding store_session_def cache_set_def by (intro total_intros total_prims_site)
  show ?thesis
    unfolding prepare_pdf_for_signing_def Let_def
  proof (rule returns_from, rule source, rule returns_from, rule box,
      intro returns_prod returns_bind_lift [OF assms(1)] returns_any(1) [OF total_prims_site(3)]
        returns_any(1) [OF total_prims_site(4)], goal_cases)
    case (1 page_number box cfg w2 session_id w3)
    obtain r where r: "p_digest_doc_for_signing P
           \<lparr>dq_pdf_bytes = b, dq_field_name = ''DSC_Signature_'' @ name, dq_on_page = page_number, dq_box = box,
            dq_md_algorithm = or_str (se_default_hash_algorithm cfg) ''sha256'',
            dq_location = or_str (or_opt loc (se_default_location cfg)) '''',
            dq_reason = or_str (se_default_reason cfg) ''Approved'',
            dq_signer_name = or_str (or_opt (pf_certificate_common_name pf) (pf_label pf)) (pf_profile_name pf),
            dq_signer_cert = cert, dq_bytes_reserved = 32768\<rparr> = Inr r"
      using assms(2) unfolding preparable_def by fastforce
    show ?case
      by (rule returns_bind_lift, rule r, intro returns_any total_intros store)
  qed
qed

text \<open>The position, when there is one, consists of numbers.\<close>

definition position_readable :: "env \<Rightarrow> string option \<Rightarrow> string option \<Rightarrow> string option \<Rightarrow> bool" where
  "position_readable E lat lng accuracy \<longleftrightarrow> lat \<noteq> None \<and> lng \<noteq> None \<longrightarrow>
    (\<forall>s. s \<in> set_option lat \<union> set_option lng \<union> set_option accuracy \<longrightarrow> e_float E s \<noteq> None)"

lemma position_runs:
  assumes "position_readable E lat lng acc"
  shows "\<exists>upd. location_update E lat lng acc geo w = (Inr upd, w)"
    and "lat \<noteq> None \<Longrightarrow> lng \<noteq> None \<Longrightarrow> lat \<noteq> Some '''' \<Longrightarrow> lng \<noteq> Some '''' \<Longrightarrow>
      \<exists>ds. \<forall>g w. signer_location_details E lat lng acc g w = (Inr (ds g), w)"
  using assms
  by (auto simp: position_readable_def location_update_def signer_location_details_def py_float_def
      py_float_opt_def or_str_def split: option.splits)

lemma hand_over_returns:
  assumes "fresh_names E" and "b64decode (or_str c '''') = Some der"
    and "truthy (pf_certificate_fingerprint pf) \<longrightarrow> pf_certificate_fingerprint pf = Some (e_sha256 E der)"
    and "p_load_cert P der = Inr cert" and "preparable P cert b"
    and "case up of Some u \<Rightarrow> fst u = b
      | None \<Rightarrow> \<exists>h. p_get_print P (w_db w) dt dn pfm = Inr h \<and> p_get_pdf P h = Inr b"
    and "geo \<noteq> None \<Longrightarrow> \<exists>ds. \<forall>g w. signer_location_details E lat lng acc g w = (Inr (ds g), w)"
  shows "returns (hand_over E P dt dn n pn pf cfg tmpl lat lng acc c geo pfm up) w (\<lambda>_ _. True)"
proof -
  obtain w1 where hooks: "run_dev_hooks E ''dsc_before_sign''
      [(''signing_request'', n), (''doctype'', dt), (''docname'', dn), (''profile'', pn)] w = (Inr (), w1)"
    using total_runE [of "run_dev_hooks E ''dsc_before_sign''
      [(''signing_request'', n), (''doctype'', dt), (''docname'', dn), (''profile'', pn)]" w]
    by (auto simp: run_dev_hooks_def intro!: total_intros)
  have w1: "w_db w1 = w_db w" using keeps_same_runD [OF keeps_db_initiate(1) hooks] by (simp add: both_dbs_def)
  have der: "decode (or_str c '''') w1 = (Inr der, w1)" using assms(2) by (simp add: decode_def)
  have located: "returns (case geo of None \<Rightarrow> ret () | Some g \<Rightarrow>
      bind (signer_location_details E lat lng acc g) (audit E n ''Signer Location Captured'')) u (\<lambda>_ _. True)" for u
  proof (cases geo)
    case (Some g)
    then obtain ds where "signer_location_details E lat lng acc g u = (Inr (ds g), u)" using assms(7) by blast
    with Some show ?thesis
      by (simp, intro returns_from [where m = "signer_location_details E lat lng acc g"] returns_any total_audit [OF assms(1)])
  qed (simp add: returns_ret)
  show ?thesis
    unfolding hand_over_def
  proof (rule returns_seq, rule returns_run, rule hooks, rule returns_from, rule der,
      rule returns_skip, use assms(3) in blast, rule returns_bind, rule returns_weaken, rule prepare_returns [OF assms(4,5)])
    show "case map_option fst up of Some b' \<Rightarrow> b' = b
      | None \<Rightarrow> \<exists>h. p_get_print P (w_db w1) dt dn pfm = Inr h \<and> p_get_pdf P h = Inr b"
      using assms(6) by (cases up) (simp_all add: w1)
  qed (intro returns_any(2) [OF total_prims_site(9)] returns_any(2) [OF total_audit [OF assms(1)]]
      returns_any(3) total_respond returns_seq returns_weaken [OF located])
qed

text \<open>What \<open>initiate\<close> needs of an uploaded document: a stored PDF that can be prepared, and a box.\<close>

definition upload_usable :: "pdf_env \<Rightarrow> db \<Rightarrow> certificate \<Rightarrow> string \<Rightarrow> bool" where
  "upload_usable P d cert docname \<longleftrightarrow>
    (\<exists>ds b. row (t_docsigns d) docname = Some ds \<and> truthy (ds_uploaded_pdf ds)
      \<and> ds_sig_width ds \<noteq> 0 \<and> ds_sig_height ds \<noteq> 0
      \<and> (\<exists>n f. row (t_files d) n = Some f \<and> fl_file_url f = or_str (ds_uploaded_pdf ds) '''')
      \<and> (\<forall>n f. row (t_files d) n = Some f \<and> fl_file_url f = or_str (ds_uploaded_pdf ds) '''' \<longrightarrow>
           content_bytes (fl_content f) = Inr b)
      \<and> take 4 b = ''%PDF'' \<and> preparable P cert b)"

lemma upload_runs:
  assumes "scan_sound E" and "unique_names (t_files (w_db w))" and "upload_usable P (w_db w) cert dn"
  obtains u w1 where "load_upload E ''DSC Document Sign'' dn w = (Inr (Some u), w1)" "preparable P cert (fst u)"
proof -
  obtain ds b n f where ds: "row (t_docsigns (w_db w)) dn = Some ds" "truthy (ds_uploaded_pdf ds)"
      "ds_sig_width ds \<noteq> 0" "ds_sig_height ds \<noteq> 0" and
    f: "row (t_files (w_db w)) n = Some f" "fl_file_url f = or_str (ds_uploaded_pdf ds) ''''" and
    all: "\<And>n f. row (t_files (w_db w)) n = Some f \<Longrightarrow> fl_file_url f = or_str (ds_uploaded_pdf ds) '''' \<Longrightarrow>
           content_bytes (fl_content f) = Inr b" and
    b: "take 4 b = ''%PDF''" "preparable P cert b"
    using assms(3) unfolding upload_usable_def by blast
  obtain m g where g: "find_doc E ''File'' t_files (\<lambda>f. fl_file_url f = or_str (ds_uploaded_pdf ds) '''') w = (Inr (Some m), w)"
    "row (t_files (w_db w)) m = Some g" "fl_file_url g = or_str (ds_uploaded_pdf ds) ''''"
    by (rule find_doc_exists [where T = t_files and P = "\<lambda>f. fl_file_url f = or_str (ds_uploaded_pdf ds) ''''",
          OF assms(1,2) f])
  have "read_uploaded_pdf E (ds_uploaded_pdf ds) w = (Inr b, w)"
    using ds(2) g(1,2) all [OF g(2,3)] b(1)
    by (auto simp: read_uploaded_pdf_def get_file_by_url_def run_bind run_seq get_doc_run)
  with ds(1,3,4) b(2) that show thesis
    by (simp add: load_upload_def get_doc_run run_bind run_seq set_docsign_def db_modify_def)
qed

text \<open>Another document is printed with the default format of its type, whatever its requests are.\<close>

definition document_usable :: "pdf_env \<Rightarrow> db \<Rightarrow> certificate \<Rightarrow> string \<Rightarrow> string \<Rightarrow> bool" where
  "document_usable P d cert doctype docname \<longleftrightarrow>
    (if doctype = ''DSC Document Sign'' then upload_usable P d cert docname
     else \<exists>b. preparable P cert b \<and> (\<forall>rs. \<exists>h. p_get_print P (d\<lparr>t_requests := rs\<rparr>) doctype docname
       (Some (or_str (p_default_print_format P doctype) ''Standard'')) = Inr h \<and> p_get_pdf P h = Inr b))"

lemma start_signing_returns:
  assumes "fresh_names E" and "scan_sound E" and "unique_names (t_files (w_db w))"
    and "b64decode (or_str c '''') = Some der" and "p_load_cert P der = Inr cert"
    and "truthy (pf_certificate_fingerprint pf) \<longrightarrow> pf_certificate_fingerprint pf = Some (e_sha256 E der)"
    and "document_usable P (w_db w) cert dt dn" and "position_readable E lat lng acc"
    and "geo \<noteq> None \<longrightarrow> lat \<noteq> None \<and> lng \<noteq> None" and "lat \<noteq> Some ''''" and "lng \<noteq> Some ''''"
  shows "returns (start_signing E P dt dn (pending_columns n req) pf cfg tmpl lat lng acc c geo) w (\<lambda>_ _. True)"
proof -
  have rule: "dget (pending_columns n req) ''rule'' = None" by (simp add: dget_def pending_columns_def)
  obtain up pfm b w1 where up: "load_upload E dt dn w = (Inr up, w1)"
    "choose_print_format P dt (pending_columns n req) (up \<noteq> None) w1 = (Inr pfm, w1)" "preparable P cert b"
    "case up of Some u \<Rightarrow> fst u = b
      | None \<Rightarrow> \<forall>rs. \<exists>h. p_get_print P ((w_db w1)\<lparr>t_requests := rs\<rparr>) dt dn pfm = Inr h \<and> p_get_pdf P h = Inr b"
  proof (cases "dt = ''DSC Document Sign''")
    case True
    with assms(7) have "upload_usable P (w_db w) cert dn" by (simp add: document_usable_def)
    from upload_runs [OF assms(2,3) this] obtain u w1 where
      "load_upload E ''DSC Document Sign'' dn w = (Inr (Some u), w1)" "preparable P cert (fst u)" .
    with True show ?thesis by (intro that [of "Some u" w1 None "fst u"]) (simp_all add: choose_print_format_def)
  next
    case False
    with assms(7) obtain b where "preparable P cert b" "\<forall>rs. \<exists>h. p_get_print P ((w_db w)\<lparr>t_requests := rs\<rparr>) dt dn
       (Some (or_str (p_default_print_format P dt) ''Standard'')) = Inr h \<and> p_get_pdf P h = Inr b"
      by (auto simp: document_usable_def)
    with False rule show ?thesis
      by (intro that [of None w "Some (or_str (p_default_print_format P dt) ''Standard'')" b])
        (simp_all add: load_upload_def choose_print_format_def run_bind)
  qed
  obtain upd where upd: "location_update E lat lng acc geo w1 = (Inr upd, w1)"
    using position_runs(1) [OF assms(8)] by blast
  have details: "\<exists>ds. \<forall>g w. signer_location_details E lat lng acc g w = (Inr (ds g), w)" if "geo \<noteq> None"
    using that assms(9) position_runs(2) [OF assms(8) _ _ assms(10,11)] by simp
  show ?thesis
    unfolding start_signing_def Let_def
  proof (rule returns_from, rule up(1), rule returns_from, rule up(2), rule returns_from, rule upd, 
      rule returns_seq, rule returns_run, rule set_request_run, rule hand_over_returns [OF assms(1,4,6,5) up(3) _ details])
    show "case up of Some u \<Rightarrow> fst u = b | None \<Rightarrow> \<exists>h. p_get_print P (w_db (w1\<lparr>w_tick := Suc (w_tick w1),
       w_db := (w_db w1)\<lparr>t_requests := update_row (or_str (dget (pending_columns n req) ''name'') '''')
          (\<lambda>r. (upd (r\<lparr>sr_status := In_Progress, sr_client_ip := e_request_ip E,
             sr_client_user_agent := e_user_agent E\<rparr>))\<lparr>sr_modified := e_clock E (w_tick w1)\<rparr>)
                 (t_requests (w_db w1))\<rparr>\<rparr>)) dt dn pfm = Inr h \<and> p_get_pdf P h = Inr b"
      using up(4) by (cases up) simp_all
  qed
qed

text \<open>The request can be signed now: its profile and its template exist and the user may sign.\<close>

definition signable ::
  "env \<Rightarrow> world \<Rightarrow> string option \<Rightarrow> string option \<Rightarrow> string option \<Rightarrow> signing_request \<Rightarrow> bool" where
  "signable E w cert_der_b64 lat lng req \<longleftrightarrow>
    (\<exists>pf. row (t_profiles (w_db w)) (sr_profile req) = Some pf
      \<and> may_sign E (w_db w) (e_clock E (w_tick w)) cert_der_b64 lat lng req pf)
    \<and> (truthy (sr_signature_template req) \<longrightarrow>
         row (t_templates (w_db w)) (or_str (sr_signature_template req) '''') \<noteq> None)"

lemma check_profile_runs:
  assumes "may_sign E d (e_clock E (w_tick w)) c lat lng req pf"
  obtains w1 where "check_profile E pf w = (Inr (), w1)"
proof -
  have "\<exists>w1. check_profile E pf w = (Inr (), w1)"
    using assms by (auto simp: may_sign_def check_profile_def Let_def run_bind run_seq now_datetime_run split: option.split)
  with that show thesis by blast
qed


end
