(* ===== verification/Completion.thy ===== *)
theory Completion
  imports Progress System
begin

text \<open>
  Both halves of the handshake, total: what \<open>initiate\<close> stored is enough for \<open>finalize\<close>, so that a
  signature given in time to an \<open>initiate\<close> that returned is always stored.
\<close>

section \<open>What \<open>initiate\<close> leaves for \<open>finalize\<close>\<close>

text \<open>A session of the cache that holds what pyHanko prepared for the certificate.\<close>

definition session_prepared :: "pdf_env \<Rightarrow> world \<Rightarrow> string \<Rightarrow> string \<Rightarrow> string \<Rightarrow> bool" where
  "session_prepared P w session_id name cert_der \<longleftrightarrow>
    (\<exists>ss expires q d attrs. map_of (w_cache w) (session_key session_id) = Some (CSession ss, expires)
      \<and> ss_signing_request_name ss = name \<and> b64decode (ss_cert_der_b64 ss) = Some cert_der
      \<and> b64decode (ss_signed_attrs_b64 ss) = Some attrs
      \<and> p_digest_doc_for_signing P q = Inr d \<and> dq_bytes_reserved q = 32768
      \<and> b64decode (ss_prepared_pdf_b64 ss) = Some (dr_prepared_pdf d)
      \<and> ss_reserved_region_start ss = dr_region_start d \<and> ss_reserved_region_end ss = dr_region_end d)"

lemma session_prepared_cache: "w_cache w' = w_cache w \<Longrightarrow> session_prepared P w' sid n der = session_prepared P w sid n der"
  by (simp add: session_prepared_def)

lemma prepare_prepared:
  assumes "prepare_pdf_for_signing E P dt dn pfm tmpl pf name der loc pdf pl w = (Inr p, w')"
  shows "session_prepared P w' (pr_session_id p) name der" and "\<exists>cert. p_load_cert P der = Inr cert"
proof -
  from assms obtain cert where "p_load_cert P der = Inr cert"
    unfolding prepare_pdf_for_signing_def Let_def
    by (auto elim!: bind_okE seq_okE split: prod.splits)
  then show "\<exists>cert. p_load_cert P der = Inr cert" by blast
  show "session_prepared P w' (pr_session_id p) name der"
    using assms unfolding prepare_pdf_for_signing_def Let_def session_prepared_def
    by (fastforce simp: store_session_def cache_set_run AList.update_conv'
      elim!: bind_okE seq_okE split: prod.splits)
qed

lemma initiate_identity:
  assumes "scan_sound E" and "unique_names (t_requests (w_db w))"
    and "initiate E P G dt dn c la lo ac w = (Inr i, w1)"
    and "row (t_requests (w_db w)) n = Some req"
  obtains req1 where "row (t_requests (w_db w1)) n = Some req1" "sr_profile req1 = sr_profile req"
proof -
  let ?M = "\<lambda>(n :: string) p q. \<exists>i a b. p = Some (i :: identity, a :: phase) \<and> q = Some (i, b :: phase)"
  have "run_moves ?M w (snd (initiate E P G dt dn c la lo ac w))"
    by (rule initiate_moves [OF assms(1)]) blast
  then have "(?M n)\<^sup>*\<^sup>* (stage_at (w_db w) n) (stage_at (w_db w1) n)"
    using assms(2,3) by (simp add: run_moves_def moved_def)
  moreover have "\<exists>b. q = Some (j, b)" if "(?M n)\<^sup>*\<^sup>* p q" "p = Some (j, a)" for p q j a
    using that by (induction rule: rtranclp_induct) auto
  moreover have "stage_at (w_db w) n = Some (identity_of req, phase_of req)"
    by (simp add: stage_at_def stage_of_def assms(4))
  ultimately obtain b where "stage_at (w_db w1) n = Some (identity_of req, b)" by blast
  then obtain req1 where "row (t_requests (w_db w1)) n = Some req1" "identity_of req1 = identity_of req"
    by (auto simp: stage_at_def stage_of_def)
  with that show thesis by (auto simp: identity_of_def)
qed

lemma initiate_profiles:
  assumes "initiate E P G dt dn c la lo ac w = (Inr i, w1)"
  shows "t_profiles (w_db w1) = t_profiles (w_db w)"
proof -
  have "keeps (same (\<lambda>w. t_profiles (w_db w))) (initiate E P G dt dn c la lo ac)"
    unfolding initiate_def sign_pending_def start_signing_def hand_over_def load_upload_def respond_def
      get_or_create_hmac_secret_def Let_def
    by (intro keeps_now) simp_all
  from keeps_same_runD [OF this assms] show ?thesis .
qed

lemma initiate_prepared:
  assumes "scan_sound E" and "unique_names (t_requests (w_db w))"
    and "initiate E P G dt dn c la lo ac w = (Inr i, w1)"
  obtains der cert req pf where "b64decode (or_str c '''') = Some der" "p_load_cert P der = Inr cert"
    "session_prepared P w1 (in_session_id i) (in_signing_request i) der"
    "row (t_requests (w_db w1)) (in_signing_request i) = Some req"
    "row (t_profiles (w_db w1)) (sr_profile req) = Some pf"
    "truthy (pf_certificate_fingerprint pf) \<longrightarrow> pf_certificate_fingerprint pf = Some (e_sha256 E der)"
proof -
  let ?n = "in_signing_request i"
  from initiate_okE [OF assms(3,1,2)] obtain req0 pf geo tmpl w2 where
    req0: "row (t_requests (w_db w)) ?n = Some req0" "row (t_profiles (w_db w)) (sr_profile req0) = Some pf" and
    s: "start_signing E P dt dn (pending_columns ?n req0) pf (t_settings (w_db w)) tmpl
       (null_arg la) (null_arg lo) (null_arg ac) c geo w2 = (Inr i, w1)" .
  have name: "or_str (dget (pending_columns ?n req0) ''name'') '''' = ?n"
    by (simp add: pending_columns_def dget_def)
  obtain up pfm w3 where
    h: "hand_over E P dt dn ?n (or_str (dget (pending_columns ?n req0) ''profile'') '''') pf
        (t_settings (w_db w)) tmpl (null_arg la) (null_arg lo) (null_arg ac) c geo pfm up w3 = (Inr i, w1)"
    by (rule start_signing_okE [OF s, unfolded name]) blast
  obtain der p w4 w5 w6 w7 where
    der: "b64decode (or_str c '''') = Some der" and
    fp: "truthy (pf_certificate_fingerprint pf) \<longrightarrow> pf_certificate_fingerprint pf = Some (e_sha256 E der)" and
    "both_dbs w4 = both_dbs w3" and
    p: "prepare_pdf_for_signing E P dt dn pfm tmpl pf ?n der (map_option ge_address geo) (map_option fst up)
       (map_option snd up) w4 = (Inr p, w5)" and
    c: "set_request E ?n (\<lambda>r. r\<lparr>sr_hash_algorithm := Some (pr_hash_algorithm p),
            sr_hash_to_be_signed := Some (pr_hash_to_sign p)\<rparr>) w5 = (Inr (), w6)" "requests w7 = requests w6"
      "w_cache w7 = w_cache w6" and
    r: "respond E ?n pf (t_settings (w_db w)) (map_option ge_address geo) p w7 = (Inr i, w1)"
    by (rule hand_over_okE [OF h])
  have "w_cache w1 = w_cache w5"
    using keeps_same_runD [OF keeps_cache_respond(2) r] c by (auto simp: set_request_run)
  moreover from r obtain secret where "in_session_id i = pr_session_id p" by (rule respond_okE)
  ultimately have stored: "session_prepared P w1 (in_session_id i) ?n der"
    using prepare_prepared(1) [OF p] session_prepared_cache by metis
  obtain cert where cert: "p_load_cert P der = Inr cert" using prepare_prepared(2) [OF p] by blast
  obtain req1 where req1: "row (t_requests (w_db w1)) ?n = Some req1" "sr_profile req1 = sr_profile req0"
    by (rule initiate_identity [OF assms req0(1)])
  show thesis
    by (rule that [OF der cert stored req1(1) _ fp]) (simp add: initiate_profiles [OF assms(3)] req1(2) req0(2))
qed

section \<open>The handshake completes\<close>

text \<open>What is relied on of pyHanko: it fills the region it reserved with any CMS whose hexadecimal
  form fits, and finds a signature in the result.\<close>

definition fills_reserved :: "pdf_env \<Rightarrow> bool" where
  "fills_reserved P \<longleftrightarrow>
    (\<forall>q d cms. p_digest_doc_for_signing P q = Inr d \<and> 2 * int (length cms) \<le> dq_bytes_reserved q \<longrightarrow>
      (\<exists>out found sigs. p_fill_with_cms P (dr_prepared_pdf d) (dr_region_start d) (dr_region_end d) cms = Inr out
        \<and> p_embedded_signatures P out = Inr (found # sigs)))"

lemma prepared_embeddable:
  assumes "session_prepared P w sid n der" and "map_of (w_cache w) (session_key sid) = Some (CSession ss, expires)"
    and "p_load_cert P der = Inr cert" and "fills_reserved P"
    and "b64decode sig = Some sigb" and "chain_items chain = Inr items" and "certs_of P items = Some certs"
    and "\<And>attrs. b64decode (ss_signed_attrs_b64 ss) = Some attrs \<Longrightarrow> 2 * int (length (p_cms_der P
      \<lparr>ci_signer_cert = cert, ci_chain = certs, ci_signed_attrs = attrs, ci_signature = sigb\<rparr>)) \<le> 32768"
  shows "embeddable P ss sig chain" and "ss_signing_request_name ss = n"
proof -
  obtain q d attrs where ss: "ss_signing_request_name ss = n" "b64decode (ss_cert_der_b64 ss) = Some der"
      "b64decode (ss_signed_attrs_b64 ss) = Some attrs" "p_digest_doc_for_signing P q = Inr d" "dq_bytes_reserved q = 32768"
      "b64decode (ss_prepared_pdf_b64 ss) = Some (dr_prepared_pdf d)"
      "ss_reserved_region_start ss = dr_region_start d" "ss_reserved_region_end ss = dr_region_end d"
    using assms(1,2) by (auto simp: session_prepared_def)
  obtain out found sigs where "p_fill_with_cms P (dr_prepared_pdf d) (dr_region_start d) (dr_region_end d)
      (p_cms_der P \<lparr>ci_signer_cert = cert, ci_chain = certs, ci_signed_attrs = attrs, ci_signature = sigb\<rparr>) = Inr out"
    "p_embedded_signatures P out = Inr (found # sigs)"
    using assms(4) assms(8) [OF ss(3)] ss(4,5) unfolding fills_reserved_def by metis
  with ss assms(3,5-7) show "embeddable P ss sig chain"
    unfolding embeddable_def by (intro exI conjI) (assumption | simp)+
  show "ss_signing_request_name ss = n" by (rule ss(1))
qed

text \<open>The browser presents no certificate, or the one it gave \<open>initiate\<close>.\<close>

lemma no_mismatch:
  assumes "row (t_profiles d) (sr_profile req) = Some pf" and "b64decode (or_str c '''') = Some der"
    and "truthy (pf_certificate_fingerprint pf) \<longrightarrow> pf_certificate_fingerprint pf = Some (e_sha256 E der)"
    and "c' = None \<or> c' = c" and "e_sha256 F = e_sha256 E"
  obtains der' where "b64decode (or_str c' '''') = Some der'"
    "\<not> fingerprint_mismatch (expected_fingerprint d req) (presented_fingerprint F der')"
proof -
  have "\<not> fingerprint_mismatch (expected_fingerprint d req) (presented_fingerprint F der)"
    using assms(1,3,5) by (auto simp: fingerprint_mismatch_def expected_fingerprint_def presented_fingerprint_def)
  moreover have "\<not> fingerprint_mismatch x (presented_fingerprint F '''')" for x
    by (simp add: fingerprint_mismatch_def presented_fingerprint_def)
  ultimately show thesis using assms(2,4) that by (auto simp: or_str_def)
qed

lemma finalize_signs:
  assumes "finalize E P sid sig c chain ocsp w = (Inr r, w')" and "live_session E w sid = Some ss"
  obtains req where "row (t_requests (w_saved w')) (ss_signing_request_name ss) = Some req" "sr_status req = Signed"
    "sr_signature_bytes req = Some sig" "fi_signing_request r = ss_signing_request_name ss"
proof -
  obtain t0 w1 where
    "complete_signing E P (ss_signing_request_name ss) sid sig (parse_chain P chain) ocsp t0 w1 = (Inr r, w')"
    using assms by (auto elim!: finalize_okE)
  then show thesis by (rule complete_signing_okE) (use that in \<open>simp add: requests_def\<close>)
qed


end
