(* ===== verification/Witnesses_Progress.thy ===== *)
theory Witnesses_Progress
  imports Witnesses Completion
begin


lemma demo_fills: "fills_reserved demo_pdf"
  by (simp add: fills_reserved_def demo_pdf_def)


end
