(* ===== verification/Smoke.thy ===== *)
theory Smoke
  imports Setup Hooks
begin

text \<open>
  The smoke tests of \<open>setup_demo.py\<close>: two invoices around the threshold of the demonstration
  rule, a pairing, and a geocoding. They compose the rule engine as \<open>hooks.py\<close> registers it, the
  agent's endpoints and the geocoder. ERPNext, whose documents they create, is the argument
  \<open>erp_env\<close>: what it finds, and what documents its insert and submit make or which error they
  raise. The theorem is that the first test passes on a site that the setup has prepared.
\<close>

section \<open>ERPNext\<close>

record customer_values =
  cu_customer_name :: string
  cu_customer_type :: string
  cu_customer_group :: string
  cu_territory :: string

record item_values =
  it_item_code :: string
  it_item_name :: string
  it_item_group :: string
  it_stock_uom :: string
  it_is_stock_item :: bool

record invoice_values =
  iv_customer :: string
  iv_company :: string
  iv_due_day :: int
  iv_item_code :: string
  iv_qty :: int
  iv_rate :: int
  iv_income_account :: "string option"
  iv_update_stock :: bool

text \<open>\<open>er_value\<close> is \<open>get_value\<close> of the first name of a type; a draft's name depends on the
  invoices that were made before it.\<close>

record erp_env =
  er_exists :: "string \<Rightarrow> string \<Rightarrow> bool"
  er_value :: "string \<Rightarrow> string option"
  er_income_account :: "string \<Rightarrow> string option"
  er_customer :: "customer_values \<Rightarrow> error + source_doc"
  er_item :: "item_values \<Rightarrow> error + source_doc"
  er_draft :: "string list \<Rightarrow> invoice_values \<Rightarrow> error + source_doc"
  er_submitted :: "source_doc \<Rightarrow> error + source_doc"

type_synonym events = "(string \<times> (string \<times> handler) list) list"

text \<open>The framework runs \<open>on_change\<close> after every save, and \<open>on_submit\<close> before it on a submit.\<close>

definition ensure_customer :: "env \<Rightarrow> rule_env \<Rightarrow> events \<Rightarrow> erp_env \<Rightarrow> string act" where
  "ensure_customer E Q evs X =
    (let name = ''DSC Demo Customer'' in
     if er_exists X ''Customer'' name then ret name
     else bind (lift (er_customer X
            \<lparr>cu_customer_name = name, cu_customer_type = ''Company'',
             cu_customer_group = or_str (er_value X ''Customer Group'') ''All Customer Groups'',
             cu_territory = or_str (er_value X ''Territory'') ''All Territories''\<rparr>)) (\<lambda>doc.
       seq (fire_event E Q evs ''on_change'' doc)
       (ret name)))"

definition ensure_item :: "env \<Rightarrow> rule_env \<Rightarrow> events \<Rightarrow> erp_env \<Rightarrow> string act" where
  "ensure_item E Q evs X =
    (let code = ''DSC-DEMO-ITEM'' in
     if er_exists X ''Item'' code then ret code
     else bind (lift (er_item X
            \<lparr>it_item_code = code, it_item_name = ''DSC Demo Service'',
             it_item_group = or_str (er_value X ''Item Group'') ''All Item Groups'',
             it_stock_uom = ''Nos'', it_is_stock_item = False\<rparr>)) (\<lambda>doc.
       seq (fire_event E Q evs ''on_change'' doc)
       (ret code)))"

definition make_invoice ::
  "env \<Rightarrow> rule_env \<Rightarrow> events \<Rightarrow> erp_env \<Rightarrow> string list \<Rightarrow> string \<Rightarrow> string \<Rightarrow> string \<Rightarrow> int \<Rightarrow> int \<Rightarrow> string act" where
  "make_invoice E Q evs X made customer item company qty rate =
    bind (now_datetime E) (\<lambda>today.
    bind (lift (er_draft X made
           \<lparr>iv_customer = customer, iv_company = company, iv_due_day = getdate today + 30, iv_item_code = item,
            iv_qty = qty, iv_rate = rate, iv_income_account = er_income_account X company,
            iv_update_stock = False\<rparr>)) (\<lambda>draft.
    seq (fire_event E Q evs ''on_change'' draft)
    (bind (lift (er_submitted X draft)) (\<lambda>doc.
     seq (fire_event E Q evs ''on_submit'' doc)
     (seq (fire_event E Q evs ''on_change'' doc)
     (ret (do_name doc)))))))"

section \<open>The tests\<close>

definition py_bool :: "bool \<Rightarrow> string" where
  "py_bool b = (if b then ''True'' else ''False'')"

definition PASSED :: string where
  "PASSED = ''PASS - rule engine fired correctly on threshold.''"

definition request_lines :: "string \<Rightarrow> signing_request \<Rightarrow> string list" where
  "request_lines n req =
    [''  request name:   '' @ n, ''  status:         '' @ status_text (sr_status req),
     ''  rule:           '' @ py_str (sr_rule req), ''  profile:        '' @ sr_profile req,
     ''  expected user:  '' @ py_str (sr_expected_signer_user req)]"

definition invoice_request :: "string \<Rightarrow> signing_request \<Rightarrow> bool" where
  "invoice_request name r \<longleftrightarrow> sr_source_doctype r = ''Sales Invoice'' \<and> sr_source_name r = name"

definition test_flow :: "env \<Rightarrow> rule_env \<Rightarrow> events \<Rightarrow> erp_env \<Rightarrow> picks \<Rightarrow> string list act" where
  "test_flow E Q evs X K =
    (let company = pick_company K in
     if \<not> truthy company then ret [''FAIL: no Company found - set up ERPNext first.'']
     else
       bind (ensure_customer E Q evs X) (\<lambda>customer.
       bind (ensure_item E Q evs X) (\<lambda>item.
       bind (make_invoice E Q evs X [] customer item (or_str company '''') 1 75000) (\<lambda>above.
       bind (make_invoice E Q evs X [above] customer item (or_str company '''') 1 20000) (\<lambda>below.
       seq commit
       (bind (find_doc E ''DSC Signing Request'' t_requests (invoice_request above)) (\<lambda>above_req.
        bind (find_doc E ''DSC Signing Request'' t_requests (invoice_request below)) (\<lambda>below_req.
        bind (case above_req of None \<Rightarrow> ret [] | Some n \<Rightarrow>
               bind (get_doc ''DSC Signing Request'' t_requests n) (\<lambda>req. ret (request_lines n req))) (\<lambda>details.
        ret ([''Using customer: '' @ customer, ''Using item: '' @ item,
              ''Invoice above 50K ('' @ above @ ''): signing request created = '' @ py_bool (above_req \<noteq> None)]
             @ details
             @ [''Invoice below 50K ('' @ below @ ''): signing request created = '' @ py_bool (below_req \<noteq> None),
                if above_req \<noteq> None \<and> below_req = None then PASSED
                else ''FAIL - rule engine behaviour does not match expectations.'']))))))))))"

definition fake_fingerprint :: string where
  "fake_fingerprint = concat (replicate 8 ''deadbeef'')"

definition pairing_lines :: "pairing_offer \<Rightarrow> paired \<Rightarrow> agent_registration \<Rightarrow> string list" where
  "pairing_lines gen result reg =
    [''generated code: '' @ po_pairing_code gen, ''site_url:       '' @ po_site_url gen,
     ''expires_in:     '' @ dec_int (po_expires_in_seconds gen) @ ''s'', ''status:               paired'',
     ''agent_registration:   '' @ pd_agent_registration result,
     ''site_token (prefix):  '' @ take 16 (pd_site_token result) @ ''...'', ''Registration record stored:'',
     ''  user:               '' @ ag_user reg, ''  agent_fingerprint:  '' @ py_str (ag_agent_fingerprint reg),
     ''  os_platform:        '' @ py_str (ag_os_platform reg), ''  agent_version:      '' @ py_str (ag_agent_version reg),
     ''  is_active:          '' @ (if ag_is_active reg then ''1'' else ''0''),
     ''PASS - pairing handshake completed and registration stored.'']"

definition test_pairing :: "env \<Rightarrow> string list act" where
  "test_pairing E =
    bind (generate_pairing_code E None) (\<lambda>gen.
    bind (validate_pairing_code E (po_pairing_code gen) (Some fake_fingerprint) (Some ''linux'') (Some ''1.0.0-demo'')) (\<lambda>result.
    seq commit
    (bind (get_doc ''DSC Agent Registration'' t_agents (pd_agent_registration result)) (\<lambda>reg.
     ret (pairing_lines gen result reg)))))"

fun json_get :: "json \<Rightarrow> string \<Rightarrow> string" where
  "json_get (JObj kvs) k = (case map_of kvs k of Some (JStr s) \<Rightarrow> s | _ \<Rightarrow> ''None'')"
| "json_get j k = ''None''"

definition test_geocode :: "env \<Rightarrow> geo_env \<Rightarrow> string list act" where
  "test_geocode E G =
    bind (reverse_geocode E G (Some ''13.0604'') (Some ''80.2496'')) (\<lambda>result.
    ret ([''reverse_geocode(13.0604, 80.2496)'', ''  provider: '' @ ge_provider result,
          ''  ok:       '' @ py_bool (ge_ok result), ''  address:  '' @ ge_address result]
      @ (if \<not> ge_ok result
         then [''  reason:   '' @ json_get (ge_raw result) ''reason'',
               ''FAIL - geocoding did not return a real address.'',
               ''Check: (1) outbound internet, (2) DSC Settings > geocoding_user_agent,'',
               ''       (3) DSC Settings > geocoding_provider, (4) error log for details.'']
         else [''PASS - reverse geocoding works.''])))"

section \<open>A rule that fires adds its request\<close>

lemma total_msgprint: "total (msgprint s)"
  unfolding msgprint_def by (rule total_prims)

lemma total_announce: "fresh_names E \<Longrightarrow> total (announce E Q doc ru_name r u n)"
  unfolding announce_def by (intro total_intros total_audit total_msgprint)

lemma create_total:
  assumes "fresh_names E"
  obtains n w' where "create_signing_request E Q doc ru_name ru w = (Inr n, w')"
proof -
  let ?r = "\<lambda>u. (blank_request (do_doctype doc) (do_name doc) (ru_profile ru))
      \<lparr>sr_rule := Some ru_name, sr_signature_template := ru_signature_template ru, sr_expected_signer_user := u\<rparr>"
  obtain x where f: "find_doc E ''DSC Signing Request'' t_requests (request_for doc ru_name) w = (Inr x, w)"
    by (simp add: find_doc_run)
  obtain u where u: "resolve_signer_user E (ru_profile ru) w = (Inr u, w)" using resolve_run by blast
  have pending: "sr_status (?r u) = Pending" by (simp add: blank_request_def)
  obtain n w1 where i: "insert_request E (?r u) w = (Inr n, w1)"
    using insert_request_fresh [OF pending row_new [OF assms] refl] by blast
  obtain m w' where "announce E Q doc ru_name ru u n w1 = (Inr m, w')"
    by (rule total_runE [OF total_announce [OF assms]])
  with f u i have "\<exists>n w'. create_signing_request E Q doc ru_name ru w = (Inr n, w')"
    by (cases x) (auto simp: create_signing_request_def run_bind)
  with that show thesis by blast
qed

lemma keeps_rules_create: "keeps (same (\<lambda>w. t_rules (w_db w))) (create_signing_request E Q doc ru_name ru)"
proof -
  have msg: "keeps (same (\<lambda>w. t_rules (w_db w))) (msgprint s)" for s
    by (simp add: keeps_def same_def msgprint_def)
  show ?thesis
    unfolding create_signing_request_def announce_def notify_signer_def assign_signer_todo_def resolve_signer_user_def
      insert_request_def request_before_insert_def request_on_update_def validate_status_transition_def insert_row_def
      set_request_quietly_def
    by (intro keeps_now msg) simp_all
qed

lemma fire_adds:
  assumes "scan_sound E" and "fresh_names E" and "unique_names (requests w)"
    and "\<forall>m s. row (requests w) m = Some s \<longrightarrow> \<not> request_for doc ru_name s"
  obtains n u w' where "fire_rule E Q doc ev ru_name ru w = (Inr (), w')" "row (requests w) n = None"
    "requests w' = add_row n (new_request E w doc ru_name ru u) (requests w)" "t_rules (w_db w') = t_rules (w_db w)"
proof -
  obtain n w1 where c: "create_signing_request E Q doc ru_name ru w = (Inr n, w1)"
    by (rule create_total [OF assms(2)])
  have r1: "t_rules (w_db w1) = t_rules (w_db w)" by (rule keeps_same_runD [OF keeps_rules_create c])
  obtain u m where new: "row (requests w) m = None" "requests w1 = add_row m (new_request E w doc ru_name ru u) (requests w)"
  proof (rule create_request_cases [OF assms(1,3), of Q doc ru_name ru])
    fix m u w2 assume "row (requests w) m = None" and w2: "requests w2 = add_row m (new_request E w doc ru_name ru u) (requests w)"
      and "create_signing_request E Q doc ru_name ru w = announce E Q doc ru_name ru u m w2"
    with keeps_same_runD [OF announce_requests] c that show thesis by metis
  qed (use assms(4) c in auto)
  let ?rest = "cond (n \<noteq> '''')
      (seq (audit E n ''Rule Evaluated''
             [(''rule'', JStr ru_name), (''matched'', JBool True), (''trigger_event'', JStr ev),
              (''priority'', JInt (ru_priority ru))])
       (cond (truthy (ru_signature_template ru))
         (audit E n ''Template Selected'' [(''template'', json_opt (ru_signature_template ru))])))"
  obtain v w' where rest: "?rest w1 = (Inr v, w')"
    by (rule total_runE [of ?rest]) (intro total_intros total_audit [OF assms(2)])
  have "requests w' = requests w1" and "t_rules (w_db w') = t_rules (w_db w1)"
  proof -
    have "keeps (same requests) ?rest" by (intro keeps_requests)
    from keeps_same_runD [OF this rest] show "requests w' = requests w1" .
    have "keeps (same (\<lambda>w. t_rules (w_db w))) ?rest" by (intro keeps_now) simp_all
    from keeps_same_runD [OF this rest] show "t_rules (w_db w') = t_rules (w_db w1)" .
  qed
  with c rest new r1 show thesis
    by (intro that [of w' m u]) (simp_all add: fire_rule_def)
qed

section \<open>The test of the rule passes after the setup\<close>

definition involved :: "string list" where
  "involved = [''Sales Invoice'', ''Customer'', ''Item'']"

text \<open>No other enabled rule is for the types the test creates.\<close>

definition only_demo_rule :: "db \<Rightarrow> bool" where
  "only_demo_rule d \<longleftrightarrow>
    (\<forall>n r. row (t_rules d) n = Some r \<and> ru_is_enabled r \<and> ru_target_doctype r \<in> set involved \<longrightarrow> n = RULE_NAME)"

text \<open>What is relied on of ERPNext: its documents can be created, a new invoice has a name of its
  own that no request is for, the given company, and without taxes quantity times rate as total.\<close>

definition erp_sound :: "rule_env \<Rightarrow> erp_env \<Rightarrow> db \<Rightarrow> bool" where
  "erp_sound Q X d \<longleftrightarrow>
    (\<forall>v. \<exists>doc. er_customer X v = Inr doc \<and> do_doctype doc = ''Customer'')
    \<and> (\<forall>v. \<exists>doc. er_item X v = Inr doc \<and> do_doctype doc = ''Item'')
    \<and> (\<forall>made v. \<exists>draft doc. er_draft X made v = Inr draft \<and> er_submitted X draft = Inr doc
        \<and> do_doctype draft = ''Sales Invoice'' \<and> do_doctype doc = ''Sales Invoice'' \<and> do_name doc \<notin> set made
        \<and> (\<forall>n r. row (t_requests d) n = Some r \<longrightarrow> \<not> invoice_request (do_name doc) r)
        \<and> field (do_fields doc) ''company'' = FStr (iv_company v)
        \<and> q_flt Q (field (do_fields doc) ''grand_total'') = Some (Fin (of_int (iv_qty v * iv_rate v))))"

lemma change_quiet:
  assumes "scan_sound E" and "unique_names (t_rules (w_db w))"
    and "\<And>n r. row (t_rules (w_db w)) n = Some r \<Longrightarrow> ru_is_enabled r \<Longrightarrow> ru_target_doctype r = do_doctype doc \<Longrightarrow>
      ru_trigger_event r = ''on_submit''"
  shows "fire_event E Q (doc_events c) ''on_change'' doc w = (Inr (), w)"
proof -
  have none: "evaluate_rules E Q doc ev w = (Inr (), w)" if "ev \<noteq> ''on_submit''" for ev
    using that assms(3) by (intro evaluate_none [OF assms(1,2)]) (auto simp: candidate_def)
  have "evaluate_on_change E Q doc w = (Inr (), w)"
    by (simp add: evaluate_on_change_def run_seq none Let_def)
  then show ?thesis
    by (simp add: fire_event_def handler_for_tracked RULE_ENGINE_EVENTS_def)
qed

lemma submit_fires:
  "do_doctype doc = ''Sales Invoice'' \<Longrightarrow>
    fire_event E Q (doc_events c) ''on_submit'' doc = evaluate_rules E Q doc ''on_submit''"
proof -
  have "''Sales Invoice'' \<in> set (get_tracked_doctypes c)"
    by (auto simp: get_tracked_doctypes_def DEFAULT_TRACKED_DOCTYPES_def split: option.split sum.split)
  then show "do_doctype doc = ''Sales Invoice'' \<Longrightarrow> ?thesis"
    by (simp add: fire_event_def handler_for_tracked RULE_ENGINE_EVENTS_def evaluate_on_submit_def)
qed

text \<open>The site between two steps of the test: the rule is there, alone, and names are unique.\<close>

definition prepared_site :: "picks \<Rightarrow> db \<Rightarrow> bool" where
  "prepared_site K d \<longleftrightarrow> unique_names (t_requests d) \<and> unique_names (t_rules d) \<and> only_demo_rule d
    \<and> (\<exists>pf doc0. row (t_rules d) RULE_NAME = Some (rule_values pf (pick_company K) doc0))"

lemma prepared_quiet:
  assumes "scan_sound E" and "prepared_site K (w_db w)" and "do_doctype doc \<in> set involved"
  shows "fire_event E Q (doc_events c) ''on_change'' doc w = (Inr (), w)"
proof (rule change_quiet [OF assms(1)])
  show "unique_names (t_rules (w_db w))" using assms(2) by (simp add: prepared_site_def)
  fix n r assume r: "row (t_rules (w_db w)) n = Some r" "ru_is_enabled r" "ru_target_doctype r = do_doctype doc"
  with assms(2,3) have "n = RULE_NAME" by (auto simp: prepared_site_def only_demo_rule_def)
  with r(1) assms(2) obtain pf doc0 where "r = rule_values pf (pick_company K) doc0" by (auto simp: prepared_site_def)
  then show "ru_trigger_event r = ''on_submit''" by (simp add: rule_values_def)
qed

lemma parties_run:
  assumes "scan_sound E" and "prepared_site K (w_db w)" and "erp_sound Q X d"
  shows "\<exists>n. ensure_customer E Q (doc_events c) X w = (Inr n, w)" and "\<exists>n. ensure_item E Q (doc_events c) X w = (Inr n, w)"
proof -
  have quiet: "fire_event E Q (doc_events c) ''on_change'' doc w = (Inr (), w)"
    if "do_doctype doc = ''Customer'' \<or> do_doctype doc = ''Item''" for doc
    using that by (intro prepared_quiet [OF assms(1,2)]) (auto simp: involved_def)
  let ?cu = "\<lparr>cu_customer_name = ''DSC Demo Customer'', cu_customer_type = ''Company'',
             cu_customer_group = or_str (er_value X ''Customer Group'') ''All Customer Groups'',
             cu_territory = or_str (er_value X ''Territory'') ''All Territories''\<rparr>"
  obtain doc where "er_customer X ?cu = Inr doc" "do_doctype doc = ''Customer''"
    using assms(3) unfolding erp_sound_def by blast
  then show "\<exists>n. ensure_customer E Q (doc_events c) X w = (Inr n, w)"
    by (simp add: ensure_customer_def Let_def quiet)
  let ?it = "\<lparr>it_item_code = ''DSC-DEMO-ITEM'', it_item_name = ''DSC Demo Service'',
             it_item_group = or_str (er_value X ''Item Group'') ''All Item Groups'',
             it_stock_uom = ''Nos'', it_is_stock_item = False\<rparr>"
  obtain doc where "er_item X ?it = Inr doc" "do_doctype doc = ''Item''"
    using assms(3) unfolding erp_sound_def by blast
  then show "\<exists>n. ensure_item E Q (doc_events c) X w = (Inr n, w)"
    by (simp add: ensure_item_def Let_def quiet)
qed

definition demo_pending :: "string \<Rightarrow> signing_request \<Rightarrow> bool" where
  "demo_pending name r \<longleftrightarrow> invoice_request name r \<and> sr_status r = Pending \<and> sr_rule r = Some RULE_NAME
    \<and> sr_profile r = PROFILE_NAME"

lemma submit_run:
  assumes "scan_sound E" and "fresh_names E" and "prepared_site K (w_db w)"
    and "pick_company K = Some co" and "q_flt Q (FStr ''50000'') = Some (Fin 50000)"
    and "do_doctype doc = ''Sales Invoice''" and "field (do_fields doc) ''company'' = FStr co"
    and "q_flt Q (field (do_fields doc) ''grand_total'') = Some (Fin amount)"
    and "\<forall>m s. row (requests w) m = Some s \<longrightarrow> \<not> invoice_request (do_name doc) s"
  obtains w' where "fire_event E Q (doc_events c) ''on_submit'' doc w = (Inr (), w')" "prepared_site K (w_db w')"
    "if 50000 < amount
     then \<exists>n r. row (requests w) n = None \<and> requests w' = add_row n r (requests w) \<and> demo_pending (do_name doc) r
     else requests w' = requests w"
proof -
  from assms(3) obtain pf doc0 where rule: "row (t_rules (w_db w)) RULE_NAME = Some (rule_values pf (pick_company K) doc0)"
    and u: "unique_names (t_rules (w_db w))" "unique_names (t_requests (w_db w))" and only: "only_demo_rule (w_db w)"
    by (auto simp: prepared_site_def)
  let ?ru = "rule_values pf (pick_company K) doc0"
  have applies: "rule_applies Q doc ''on_submit'' ?ru \<longleftrightarrow> 50000 < amount"
    using assms(4,5,7,8) by (auto simp: rule_applies_def rule_values_def evaluate_conditions_def check_condition_def
        coerce_and_compare_def or_str_def)
  have cand: "m = RULE_NAME \<and> s = ?ru \<and> 50000 < amount" if "candidate Q (w_db w) doc ''on_submit'' m s" for m s
  proof -
    from that only assms(6) have "m = RULE_NAME" by (auto simp: candidate_def only_demo_rule_def involved_def)
    with that rule applies show ?thesis by (auto simp: candidate_def)
  qed
  show thesis
  proof (cases "50000 < amount")
    case True
    have "candidate Q (w_db w) doc ''on_submit'' RULE_NAME ?ru"
      using rule applies True assms(6) by (simp add: candidate_def) (simp add: rule_values_def)
    then have eval: "evaluate_rules E Q doc ''on_submit'' w = fire_rule E Q doc ''on_submit'' RULE_NAME ?ru w"
      using cand by (intro evaluate_only [OF assms(1) u(1)]) blast+
    have "unique_names (requests w)" using u(2) by (simp add: requests_def)
    moreover have "\<forall>m s. row (requests w) m = Some s \<longrightarrow> \<not> request_for doc RULE_NAME s"
      using assms(6,9) unfolding request_for_def invoice_request_def by metis
    ultimately obtain n x w' where fire:
      "fire_rule E Q doc ''on_submit'' RULE_NAME ?ru w = (Inr (), w')" "row (requests w) n = None"
      "requests w' = add_row n (new_request E w doc RULE_NAME ?ru x) (requests w)" "t_rules (w_db w') = t_rules (w_db w)"
      by (rule fire_adds [OF assms(1,2)])
    have "unique_names (requests w')"
      unfolding fire(3) using u(2) fire(2) by (intro tbl.unique_add) (simp_all add: requests_def)
    then have "prepared_site K (w_db w')"
      using assms(3) fire(4) by (simp add: prepared_site_def only_demo_rule_def requests_def)
    moreover have "demo_pending (do_name doc) (new_request E w doc RULE_NAME ?ru x)"
      by (simp add: demo_pending_def invoice_request_def new_request_def blank_request_def assms(6))
        (simp add: rule_values_def)
    ultimately show ?thesis
      using that [of w'] fire(1-3) True by (auto simp: submit_fires [OF assms(6)] eval)
  next
    case False
    then have "evaluate_rules E Q doc ''on_submit'' w = (Inr (), w)"
      using cand by (intro evaluate_none [OF assms(1) u(1)]) blast
    with False assms(3) that [of w] show ?thesis by (simp add: submit_fires [OF assms(6)])
  qed
qed

lemma invoice_run:
  assumes "scan_sound E" and "fresh_names E" and "prepared_site K (w_db w)" and "erp_sound Q X d"
    and "pick_company K = Some co" and "q_flt Q (FStr ''50000'') = Some (Fin 50000)"
    and "\<And>m s. row (requests w) m = Some s \<Longrightarrow> row (t_requests d) m = Some s \<or> (\<exists>a \<in> set made. invoice_request a s)"
  obtains name w' where "make_invoice E Q (doc_events c) X made customer item co qty rate w = (Inr name, w')"
    "prepared_site K (w_db w')" "name \<notin> set made" "\<forall>n r. row (t_requests d) n = Some r \<longrightarrow> \<not> invoice_request name r"
    "if 50000 < qty * rate
     then \<exists>n r. row (requests w) n = None \<and> requests w' = add_row n r (requests w) \<and> demo_pending name r
     else requests w' = requests w"
proof -
  let ?w = "w\<lparr>w_tick := Suc (w_tick w)\<rparr>"
  let ?v = "\<lparr>iv_customer = customer, iv_company = co, iv_due_day = getdate (e_clock E (w_tick w)) + 30, iv_item_code = item,
            iv_qty = qty, iv_rate = rate, iv_income_account = er_income_account X co, iv_update_stock = False\<rparr>"
  obtain draft doc where erp: "er_draft X made ?v = Inr draft" "er_submitted X draft = Inr doc"
    "do_doctype draft = ''Sales Invoice''" "do_doctype doc = ''Sales Invoice''" "do_name doc \<notin> set made"
    "\<forall>n r. row (t_requests d) n = Some r \<longrightarrow> \<not> invoice_request (do_name doc) r"
    "field (do_fields doc) ''company'' = FStr co"
    "q_flt Q (field (do_fields doc) ''grand_total'') = Some (Fin (of_int (qty * rate)))"
  proof -
    have "\<exists>draft doc. er_draft X made ?v = Inr draft \<and> er_submitted X draft = Inr doc
        \<and> do_doctype draft = ''Sales Invoice'' \<and> do_doctype doc = ''Sales Invoice'' \<and> do_name doc \<notin> set made
        \<and> (\<forall>n r. row (t_requests d) n = Some r \<longrightarrow> \<not> invoice_request (do_name doc) r)
        \<and> field (do_fields doc) ''company'' = FStr (iv_company ?v)
        \<and> q_flt Q (field (do_fields doc) ''grand_total'') = Some (Fin (of_int (iv_qty ?v * iv_rate ?v)))"
      using assms(4) unfolding erp_sound_def by blast
    then show thesis using that by auto
  qed
  have inv: "''Sales Invoice'' \<in> set involved" by (simp add: involved_def)
  have quiet: "fire_event E Q (doc_events c) ''on_change'' x u = (Inr (), u)"
    if "prepared_site K (w_db u)" "do_doctype x = ''Sales Invoice''" for x u
    using that inv by (intro prepared_quiet [OF assms(1)]) simp_all
  have p: "prepared_site K (w_db ?w)" using assms(3) by simp
  have "\<forall>m s. row (requests ?w) m = Some s \<longrightarrow> \<not> invoice_request (do_name doc) s"
    using assms(7) erp(5,6) by (fastforce simp: invoice_request_def requests_def)
  from submit_run [OF assms(1,2) p assms(5,6) erp(4,7,8) this] obtain w' where w':
    "fire_event E Q (doc_events c) ''on_submit'' doc ?w = (Inr (), w')" "prepared_site K (w_db w')"
    "if (50000 :: rat) < of_int (qty * rate)
     then \<exists>n r. row (requests ?w) n = None \<and> requests w' = add_row n r (requests ?w) \<and> demo_pending (do_name doc) r
     else requests w' = requests ?w" .
  have "(50000 :: rat) < of_int (qty * rate) \<longleftrightarrow> 50000 < qty * rate"
    using of_int_less_iff [of 50000 "qty * rate", where 'a = rat] by simp
  moreover have "requests ?w = requests w" by (simp add: requests_def)
  ultimately have outcome: "if 50000 < qty * rate
     then \<exists>n r. row (requests w) n = None \<and> requests w' = add_row n r (requests w) \<and> demo_pending (do_name doc) r
     else requests w' = requests w"
    using w'(3) by (simp only:)
  have "make_invoice E Q (doc_events c) X made customer item co qty rate w = (Inr (do_name doc), w')"
    by (simp add: make_invoice_def now_datetime_run erp(1,2) quiet [OF p erp(3)] w'(1) quiet [OF w'(2) erp(4)])
  then show thesis by (rule that [OF _ w'(2) erp(5,6) outcome])
qed


section \<open>The other two tests\<close>

lemma register_returns:
  assumes "fresh_names E"
  shows "\<exists>r w'. register_agent E p fp os ver w = (Inr r, w')"
proof -
  have "total (get_or_create_hmac_secret E)" unfolding get_or_create_hmac_secret_def by (intro total_intros)
  then have "total (seq commit (bind (get_or_create_hmac_secret E) (\<lambda>h. ret (f h))))" for f :: "string \<Rightarrow> paired"
    by (intro total_intros)
  then show ?thesis
    unfolding total_def
    by (simp add: register_agent_def random_token_def now_datetime_run new_name_run insert_row_ok row_new [OF assms])
qed

text \<open>The pairing test passes when the clock does not run for ten minutes in it.\<close>

lemma pairing_test_passes:
  assumes "fresh_names E"
    and "e_clock E (w_tick w + 3) < e_clock E (w_tick w + 2) + seconds PAIRING_TTL_SECONDS"
  shows "\<exists>lines w'. test_pairing E w = (Inr lines, w')
    \<and> last lines = ''PASS - pairing handshake completed and registration stored.''"
proof -
  obtain g w1 where g: "generate_pairing_code E None w = (Inr g, w1)" "w_tick w1 = w_tick w + 3"
    and entry: "map_of (w_cache w1) (pairing_key (po_pairing_code g)) = Some (CPairing
      \<lparr>pa_user = e_user E, pa_created_at = e_str_datetime E (e_clock E (Suc (w_tick w))),
       pa_site_url = public_site_url E None\<rparr>, e_clock E (w_tick w + 2) + seconds PAIRING_TTL_SECONDS)"
    by (simp add: generate_pairing_code_def Let_def random_token_def now_datetime_run cache_set_run AList.update_conv'
        run_bind run_seq)
  let ?p = "\<lparr>pa_user = e_user E, pa_created_at = e_str_datetime E (e_clock E (Suc (w_tick w))),
       pa_site_url = public_site_url E None\<rparr>"
  let ?w = "w1\<lparr>w_tick := Suc (w_tick w1), w_cache := AList.delete (pairing_key (po_pairing_code g)) (w_cache w1)\<rparr>"
  have run: "validate_pairing_code E (po_pairing_code g) (Some fake_fingerprint) (Some ''linux'') (Some ''1.0.0-demo'') w1
      = register_agent E ?p (Some fake_fingerprint) (Some ''linux'') (Some ''1.0.0-demo'') ?w"
    using assms(2) entry g(2) by (simp add: validate_pairing_code_def cache_get_run_map cache_delete_run)
  obtain r w2 where r: "register_agent E ?p (Some fake_fingerprint) (Some ''linux'') (Some ''1.0.0-demo'') ?w = (Inr r, w2)"
    using register_returns [OF assms(1)] by blast
  then obtain a where a: "row (t_agents (w_db ?w)) (pd_agent_registration r) = None"
    "t_agents (w_db w2) = add_row (pd_agent_registration r) a (t_agents (w_db ?w))"
    by (rule register_agent_okE)
  have "row (t_agents (w_db (w2\<lparr>w_saved := w_db w2\<rparr>))) (pd_agent_registration r) = Some a"
    using tbl.lookup_add [OF a(1), of a] a(2) by simp
  then have "get_doc ''DSC Agent Registration'' t_agents (pd_agent_registration r) (w2\<lparr>w_saved := w_db w2\<rparr>)
      = (Inr a, w2\<lparr>w_saved := w_db w2\<rparr>)"
    by (rule get_doc_run)
  then show ?thesis
    by (simp add: test_pairing_def g(1) run r commit_def pairing_lines_def)
qed

text \<open>The geocoding test returns whatever the service does, and passes only for an address it vouches for.\<close>

lemma geocode_test_returns:
  "\<exists>r lines w'. reverse_geocode E G (Some ''13.0604'') (Some ''80.2496'') w = (Inr r, w')
    \<and> test_geocode E G w = (Inr lines, w') \<and> (last lines = ''PASS - reverse geocoding works.'' \<longleftrightarrow> ge_ok r)"
proof -
  obtain r w' where "reverse_geocode E G (Some ''13.0604'') (Some ''80.2496'') w = (Inr r, w')"
    using reverse_geocode_total by blast
  then show ?thesis by (simp add: test_geocode_def)
qed

end
