(* ===== verification/Witnesses_Smoke.thy ===== *)
theory Witnesses_Smoke
  imports Demo Smoke
begin

text \<open>The smoke test on the demo site, after a run of the setup, with an ERPNext that computes totals.\<close>

definition smoke_rules :: rule_env where
  "smoke_rules = \<lparr>q_flt = (\<lambda>v. Some (Fin (case v of FInt i \<Rightarrow> of_int i | FStr s \<Rightarrow> if s = ''50000'' then 50000 else 0 | _ \<Rightarrow> 0))),
    q_scrub = (\<lambda>s. s)\<rparr>"

definition smoke_doc :: "string \<Rightarrow> string \<Rightarrow> (string \<times> field_value) list \<Rightarrow> source_doc" where
  "smoke_doc doctype name fs =
    \<lparr>do_doctype = doctype, do_name = name, do_fields = fs, do_before_save = None\<rparr>"

definition smoke_erp :: erp_env where
  "smoke_erp =
    \<lparr>er_exists = (\<lambda>dt n. False), er_value = (\<lambda>dt. None), er_income_account = (\<lambda>co. None),
     er_customer = (\<lambda>v. Inr (smoke_doc ''Customer'' (cu_customer_name v) [])),
     er_item = (\<lambda>v. Inr (smoke_doc ''Item'' (it_item_code v) [])),
     er_draft = (\<lambda>made v. Inr (smoke_doc ''Sales Invoice'' (concat made @ ''n'')
        [(''company'', FStr (iv_company v)), (''grand_total'', FInt (iv_qty v * iv_rate v))])),
     er_submitted = Inr\<rparr>"

definition smoke_picks :: picks where
  "smoke_picks = \<lparr>pk_user = Some ''u'', pk_company = Some ''C'', pk_print_format = (\<lambda>dt. Some ''P'')\<rparr>"


end
