(* ===== verification/Spec2Isabelle.thy ===== *)
theory Spec2Isabelle
  imports Witnesses Witnesses_Setup Witnesses_Evidence Witnesses_System Witnesses_Reports Witnesses_Progress Witnesses_Smoke
begin

text \<open>
  \<^bold>\<open>DSC signing for Frappe: verification of the Python application under \<open>src/e_sign\<close>.\<close>

  The application lets users of a Frappe site sign PDFs with a certificate on a USB token. A
  rule turns a document event into a DSC Signing Request; the browser calls \<open>initiate\<close>,
  which prepares the PDF and returns a hash; the desktop agent has the token sign it; the browser
  calls \<open>finalize\<close>, which embeds the signature, stores the PDF and records the evidence.
  Gates keep unsigned documents from being printed or e-mailed, jobs expire and purge requests,
  and an audit trail records every step.

  \<^bold>\<open>How the code is modelled.\<close> A handler is a function of the type \<open>'a act\<close>: from a state
  of the site (\<open>world\<close>: the rows as the running transaction sees them, the rows last
  committed, the Redis cache, a counter for clock and randomness, a journal of calls to services)
  to a result or an error and the next state. \<open>bind\<close> and \<open>seq\<close> stop at the first error
  and keep what was written, as Python does; \<open>catch\<close> is \<open>try ... except\<close>;
  \<open>run_request\<close> is the framework's boundary of a web request, which commits what a handler
  that returns has written and rolls back to the last commit when it raises. What the framework
  and other packages decide is in the records \<open>env\<close> (user, clock, permissions, roles, names,
  order of scans, hashes, mail), \<open>pdf_env\<close> (pyHanko, asn1crypto, pdfminer, rendering),
  \<open>geo_env\<close> (HTTP replies, rounding) and \<open>rule_env\<close> (\<open>flt\<close>, \<open>scrub\<close>): arguments
  of the definitions that use them. Hypotheses on them are documented behaviour: \<open>scan_sound\<close>
  (a query returns each matching row once), \<open>fresh_names\<close> (a new document gets an unused name),
  \<open>fills_reserved\<close> (pyHanko fills the region it reserved with any CMS that fits).

  \<^bold>\<open>The theories.\<close>
  \<^item> \<open>Prelude\<close>, \<open>Actions\<close>, \<open>Json\<close>, \<open>Base64\<close>, \<open>Tables\<close>: Python's texts and numbers, the
    state-and-error actions, \<open>json.dumps\<close>, base64 with its round trip, errors and tables.
  \<^item> \<open>Documents\<close>: the DocTypes as records. \<open>Site\<close>: the state and the framework's calls.
  \<^item> \<open>Trail\<close> (\<open>audit.py\<close>, \<open>dsc_audit_event.py\<close>): the audit trail; every handler is shown
    to extend it only and to keep document names unique (\<open>keeps_trail\<close>).
  \<^item> \<open>Frames\<close>: what an action leaves alone (collections \<open>keeps_db\<close>, \<open>keeps_saved\<close>,
    \<open>keeps_cache\<close>, \<open>keeps_requests\<close>), and how it reads rows.
  \<^item> \<open>Request\<close> (\<open>dsc_signing_request.py\<close>): the controller's transition check.
  \<^item> \<open>Anchor\<close>, \<open>Engine\<close>, \<open>Embed\<close> (\<open>signature_anchor.py\<close>, \<open>signing_engine.py\<close>): the
    placement of the signature, sessions, preparation, embedding, storing, verification.
  \<^item> \<open>Geocoding\<close> (\<open>geocoding.py\<close>).
  \<^item> \<open>Initiate\<close>, \<open>Finalize\<close>, \<open>Lifecycle\<close> (\<open>api/signing.py\<close>).
  \<^item> \<open>Rules\<close> (\<open>rule_engine.py\<close>), \<open>Gates\<close> (\<open>print_gate.py\<close>, \<open>email_gate.py\<close>,
    \<open>file_protection.py\<close>, \<open>permissions.py\<close>), \<open>Maintenance\<close> (\<open>cleanup.py\<close>,
    \<open>retention.py\<close>, \<open>cert_expiry.py\<close>).
  \<^item> \<open>Agent\<close> (\<open>api/agent.py\<close>, \<open>dsc_profile.py\<close>): pairing codes, site tokens, certificates.
  \<^item> \<open>Template\<close> (\<open>dsc_signature_template.py\<close>, \<open>dsc_document_sign.py\<close>): what saving a used
    template or an uploaded document does.
  \<^item> \<open>Evidence\<close> (\<open>api/evidence.py\<close>): the members of an evidence pack.
  \<^item> \<open>Handshake\<close>: \<open>initiate\<close>, \<open>finalize\<close> and the export composed.
  \<^item> \<open>Hooks\<close> (\<open>hooks.py\<close>): which document events reach the rule engine, and the jobs.
  \<^item> \<open>Phases\<close>, \<open>System\<close>: every endpoint, event, gate and job as a \<open>call\<close>; the specification
    \<open>permitted\<close> of which call may move a request from which phase to which, and the proof that
    the application refines it.
  \<^item> \<open>Progress\<close>, \<open>Completion\<close>: total correctness of the handshake: the conditions under which
    \<open>initiate\<close> and \<open>finalize\<close> return (\<open>returns\<close> and its rules), and that a handshake answered
    in time completes.
  \<^item> \<open>Assurance\<close>: what holds in every reachable state, and that no request stays unfinished.
  \<^item> \<open>Reports\<close> (\<open>report/*/*.py\<close>): the three script reports, as selection, grouping and order of
    the signing requests, and that they count each request once.
  \<^item> \<open>Setup\<close>, \<open>Smoke\<close> (\<open>setup_demo.py\<close>): what the demonstration setup writes and when it can be
    repeated; its smoke tests, and that the one of the rule engine passes after the setup. ERPNext is
    the record \<open>erp_env\<close> there.
  \<^item> \<open>Demo\<close>, \<open>Demo_Runs\<close>, \<open>Witnesses\<close>, \<open>Witnesses_Setup\<close>, \<open>Witnesses_Evidence\<close>,
    \<open>Witnesses_System\<close>, \<open>Witnesses_Reports\<close>, \<open>Witnesses_Progress\<close>, \<open>Witnesses_Smoke\<close>: a concrete site, signed on and exported from, on
    which the hypotheses of the theorems hold.

  \<^bold>\<open>Interfaces.\<close> \<open>document_table\<close> states what lookups return after each operation on a
  table; \<open>run_relation\<close> states what makes a relation between states closed under the actions,
  and is interpreted for the trail, for every frame and for invariants of the requests.

  \<^bold>\<open>Bounds and fuel.\<close> No definition needs fuel: every loop of the source runs over a list it
  has read before. Integers are Python's, unbounded; floats that are only stored or printed are
  kept as their text, coordinates of the signature box are rationals.

  \<^bold>\<open>Not modelled.\<close> The desktop bridge (Go) and the browser client (JavaScript) are other
  programs. A save of a signing request from its form, with fields a user typed in, is the
  framework's and not a call of the application; \<open>install.py\<close> adds the File field
  \<open>is_dsc_signed\<close>, a field of the record here; the test modules
  (\<open>test_*.py\<close>, \<open>dsc_test.py\<close>) are no behaviour of the application. The asset and fixture lists of \<open>hooks.py\<close> have no behaviour. Log lines of \<open>frappe.logger\<close> have no
  effect on the state and are left out, as are the texts of the framework's own permission errors
  and the ZIP encoding. Characters beyond Latin-1 in message texts (dashes, ellipses) are written
  in ASCII. The database compares texts exactly here, but for the
  reports, whose groups depend on its collation: there it is an argument. The signing
  time that the source takes in UTC is a reading of the site's clock.
\<close>

end
